(* ===== verification/Prelude.thy ===== *)
theory Prelude
  imports Main "HOL-Library.Word"
begin

text \<open>
  Shared vocabulary of the development. Every operation of kube-vim that talks to Kubernetes
  is modelled as an action: a function from a cluster state to a result and the next cluster
  state. A Go function that returns \<open>(T, error)\<close> yields \<open>Ok\<close> or \<open>Err\<close>; a nil pointer
  dereference or an index out of range yields \<open>Panic\<close>, which nothing in the program recovers
  from. The theory holds the combinators that sequence actions, a small total-correctness
  calculus for them (predicate \<open>meets\<close>, rules in the collection \<open>meets_rules\<close>), and the
  generic facts on lists and maps the components share.
\<close>

named_theorems meets_rules \<open>rules that decompose an action's specification\<close>
named_theorems preserves_intros \<open>rules that carry an invariant of the state through an action\<close>
named_theorems act_simps \<open>equations that run an action\<close>

subsection \<open>Results and actions\<close>

datatype ('e, 'a) result = Ok (the_ok: 'a) | Err (the_err: 'e) | Panic

type_synonym ('s, 'e, 'a) act = "'s \<Rightarrow> ('e, 'a) result \<times> 's"

definition ret :: "'a \<Rightarrow> ('s, 'e, 'a) act" where
  "ret x s = (Ok x, s)"

definition throw :: "'e \<Rightarrow> ('s, 'e, 'a) act" where
  "throw e s = (Err e, s)"

definition panic :: "('s, 'e, 'a) act" where
  "panic s = (Panic, s)"

text \<open>\<open>handle\<close> continues after a call in both of Go's branches (\<open>err == nil\<close>, \<open>err != nil\<close>);
  a panic unwinds. \<open>and_then\<close> is the common early return on error, \<open>ignore\<close> a call whose error
  the code drops.\<close>

definition handle ::
  "('s, 'e, 'a) act \<Rightarrow> ('a \<Rightarrow> ('s, 'f, 'b) act) \<Rightarrow> ('e \<Rightarrow> ('s, 'f, 'b) act) \<Rightarrow> ('s, 'f, 'b) act"
where
  "handle m f h s = (case m s of
      (Ok x, s') \<Rightarrow> f x s'
    | (Err e, s') \<Rightarrow> h e s'
    | (Panic, s') \<Rightarrow> (Panic, s'))"

definition and_then ::
  "('s, 'e, 'a) act \<Rightarrow> ('a \<Rightarrow> ('s, 'e, 'b) act) \<Rightarrow> ('s, 'e, 'b) act" where
  "and_then m f = handle m f throw"

definition ignore :: "('s, 'e, 'a) act \<Rightarrow> ('s, 'e, unit) act" where
  "ignore m = handle m (\<lambda>_. ret ()) (\<lambda>_. ret ())"

text \<open>A dereference of a pointer that may be nil.\<close>

definition deref :: "'a option \<Rightarrow> ('s, 'e, 'a) act" where
  "deref p = (case p of None \<Rightarrow> panic | Some x \<Rightarrow> ret x)"

text \<open>The loop \<open>for _, x := range xs { y, err := f(x); if err != nil { return err }; ... }\<close>.\<close>

fun for_each :: "('a \<Rightarrow> ('s, 'e, 'b) act) \<Rightarrow> 'a list \<Rightarrow> ('s, 'e, 'b list) act" where
  "for_each f [] = ret []"
| "for_each f (x # xs) = and_then (f x) (\<lambda>y. and_then (for_each f xs) (\<lambda>ys. ret (y # ys)))"

subsection \<open>Running actions\<close>

lemma run_ret [act_simps]: "ret x s = (Ok x, s)"
  by (simp add: ret_def)

lemma run_throw [act_simps]: "throw e s = (Err e, s)"
  by (simp add: throw_def)

lemma run_panic [act_simps]: "panic s = (Panic, s)"
  by (simp add: panic_def)

lemma run_deref [act_simps]: "deref None s = (Panic, s)" "deref (Some x) s = (Ok x, s)"
  by (simp_all add: deref_def act_simps)

lemma handle_cong [fundef_cong]:
  assumes "m s = m' s'" and "s = s'"
    and "\<And>x t. m' s' = (Ok x, t) \<Longrightarrow> f x t = f' x t"
    and "\<And>e t. m' s' = (Err e, t) \<Longrightarrow> h e t = h' e t"
  shows "handle m f h s = handle m' f' h' s'"
  using assms by (auto simp: handle_def split: prod.splits result.splits)

lemma and_then_ret [simp]: "and_then (ret x) f = f x"
  by (simp add: fun_eq_iff and_then_def handle_def ret_def)

lemma and_then_throw [simp]: "and_then (throw e) f = throw e"
  by (simp add: fun_eq_iff and_then_def handle_def throw_def)

lemma handle_ret [simp]: "handle (ret x) f h = f x"
  by (simp add: fun_eq_iff handle_def ret_def)

lemma handle_throw [simp]: "handle (throw e) f h = h e"
  by (simp add: fun_eq_iff handle_def throw_def)

lemma run_and_then:
  "and_then m f s = (case m s of (Ok x, s') \<Rightarrow> f x s' | (Err e, s') \<Rightarrow> (Err e, s')
     | (Panic, s') \<Rightarrow> (Panic, s'))"
  by (simp add: and_then_def handle_def throw_def split: prod.splits result.splits)

lemma and_then_Ok_iff:
  "and_then m f s = (Ok y, t) \<longleftrightarrow> (\<exists>x s'. m s = (Ok x, s') \<and> f x s' = (Ok y, t))"
  by (auto simp: run_and_then split: prod.splits result.splits)

lemma and_then_Err_iff:
  "and_then m f s = (Err e, t) \<longleftrightarrow>
     m s = (Err e, t) \<or> (\<exists>x s'. m s = (Ok x, s') \<and> f x s' = (Err e, t))"
  by (auto simp: run_and_then split: prod.splits result.splits)

lemma and_then_Panic_iff:
  "and_then m f s = (Panic, t) \<longleftrightarrow>
     m s = (Panic, t) \<or> (\<exists>x s'. m s = (Ok x, s') \<and> f x s' = (Panic, t))"
  by (auto simp: run_and_then split: prod.splits result.splits)

lemmas and_then_iffs = and_then_Ok_iff and_then_Err_iff and_then_Panic_iff

subsection \<open>A calculus for actions\<close>

text \<open>\<open>meets m s Q E\<close>: run from \<open>s\<close>, the action does not panic; a result satisfies \<open>Q\<close> and
  an error satisfies \<open>E\<close>, each together with the state it is returned in.\<close>

definition meets ::
  "('s, 'e, 'a) act \<Rightarrow> 's \<Rightarrow> ('a \<Rightarrow> 's \<Rightarrow> bool) \<Rightarrow> ('e \<Rightarrow> 's \<Rightarrow> bool) \<Rightarrow> bool" where
  "meets m s Q E \<longleftrightarrow> (case m s of
      (Ok x, t) \<Rightarrow> Q x t | (Err e, t) \<Rightarrow> E e t | (Panic, t) \<Rightarrow> False)"

lemma meets_ret [meets_rules]: "Q x s \<Longrightarrow> meets (ret x) s Q E"
  by (simp add: meets_def ret_def)

lemma meets_throw [meets_rules]: "E e s \<Longrightarrow> meets (throw e) s Q E"
  by (simp add: meets_def throw_def)

lemma meets_handle:
  assumes "meets m s (\<lambda>x t. meets (f x) t Q E) (\<lambda>e t. meets (h e) t Q E)"
  shows "meets (handle m f h) s Q E"
  using assms by (auto simp: meets_def handle_def split: prod.splits result.splits)

lemma meets_and_then:
  assumes "meets m s (\<lambda>x t. meets (f x) t Q E) E"
  shows "meets (and_then m f) s Q E"
  unfolding and_then_def
  by (rule meets_handle) (use assms in \<open>auto simp: meets_def throw_def split: prod.splits result.splits\<close>)

lemma meets_ignore:
  assumes "meets m s (\<lambda>_ t. Q () t) (\<lambda>_ t. Q () t)"
  shows "meets (ignore m) s Q E"
  unfolding ignore_def
  by (rule meets_handle) (use assms in \<open>auto simp: meets_def ret_def split: prod.splits result.splits\<close>)

lemma meets_if [meets_rules]:
  "(b \<Longrightarrow> meets m s Q E) \<Longrightarrow> (\<not> b \<Longrightarrow> meets n s Q E) \<Longrightarrow> meets (if b then m else n) s Q E"
  by simp

lemma meets_case_option [meets_rules]:
  "(p = None \<Longrightarrow> meets m s Q E) \<Longrightarrow> (\<And>x. p = Some x \<Longrightarrow> meets (f x) s Q E) \<Longrightarrow>
   meets (case p of None \<Rightarrow> m | Some x \<Rightarrow> f x) s Q E"
  by (cases p) auto

lemma meets_weaken:
  assumes "meets m s Q E"
    and "\<And>x t. Q x t \<Longrightarrow> Q' x t" and "\<And>e t. E e t \<Longrightarrow> E' e t"
  shows "meets m s Q' E'"
  using assms by (auto simp: meets_def split: prod.splits result.splits)

lemma meets_conj:
  assumes "meets m s Q E" and "meets m s Q' E'"
  shows "meets m s (\<lambda>x t. Q x t \<and> Q' x t) (\<lambda>e t. E e t \<and> E' e t)"
  using assms by (auto simp: meets_def split: prod.splits result.splits)

lemma meets_deref [meets_rules]: "p = Some x \<Longrightarrow> Q x s \<Longrightarrow> meets (deref p) s Q E"
  by (simp add: meets_def deref_def ret_def)

text \<open>Specifications read back as facts on a single run.\<close>

lemma meets_no_panic: "meets m s Q E \<Longrightarrow> fst (m s) \<noteq> Panic"
  by (auto simp: meets_def split: prod.splits result.splits)

lemma meets_Ok: "meets m s Q E \<Longrightarrow> m s = (Ok x, t) \<Longrightarrow> Q x t"
  by (auto simp: meets_def)

lemma meets_Err: "meets m s Q E \<Longrightarrow> m s = (Err e, t) \<Longrightarrow> E e t"
  by (auto simp: meets_def)

lemma meetsI:
  assumes "\<And>x t. m s = (Ok x, t) \<Longrightarrow> Q x t" and "\<And>e t. m s = (Err e, t) \<Longrightarrow> E e t"
    and "\<And>t. m s \<noteq> (Panic, t)"
  shows "meets m s Q E"
  using assms by (auto simp: meets_def split: prod.splits result.splits)

lemma meets_for_each_rel:
  assumes step: "\<And>x t. x \<in> set xs \<Longrightarrow> I t \<Longrightarrow> meets (f x) t (\<lambda>y u. R x y \<and> I u) E" and "I s"
  shows "meets (for_each f xs) s (\<lambda>ys t. list_all2 R xs ys \<and> I t) E"
  using assms
proof (induction xs arbitrary: s)
  case Nil
  then show ?case by (simp add: meets_def ret_def)
next
  case (Cons x xs)
  have tail: "meets (and_then (for_each f xs) (\<lambda>ys. ret (y # ys))) u (\<lambda>ys t. list_all2 R (x # xs) ys \<and> I t) E"
    if "R x y \<and> I u" for y u
    by (rule meets_and_then, rule meets_weaken [OF Cons.IH [of u]])
      (use Cons.prems(1) that in \<open>auto simp: meets_def ret_def\<close>)
  have "meets (f x) s (\<lambda>y u. R x y \<and> I u) E" using Cons.prems by simp
  then show ?case
    unfolding for_each.simps by (rule meets_and_then [OF meets_weaken]) (rule tail)
qed

lemma meets_for_each:
  assumes "\<And>x t. x \<in> set xs \<Longrightarrow> I t \<Longrightarrow> meets (f x) t (\<lambda>y u. P y \<and> I u) E" and "I s"
  shows "meets (for_each f xs) s (\<lambda>ys t. (\<forall>y\<in>set ys. P y) \<and> length ys = length xs \<and> I t) E"
  by (rule meets_weaken [OF meets_for_each_rel [where R = "\<lambda>_. P" and I = I]])
    (use assms in \<open>auto simp: list_all2_conv_all_nth in_set_conv_nth\<close>)

lemma for_each_Ok_length: "for_each f xs s = (Ok ys, t) \<Longrightarrow> length ys = length xs"
  by (induction xs arbitrary: s ys) (auto simp: act_simps and_then_Ok_iff)

subsection \<open>Invariants of the state\<close>

text \<open>\<open>preserves P m\<close>: whatever the action returns, \<open>P\<close> still holds of the state.\<close>

definition preserves :: "('s \<Rightarrow> bool) \<Rightarrow> ('s, 'e, 'a) act \<Rightarrow> bool" where
  "preserves P m \<longleftrightarrow> (\<forall>s. P s \<longrightarrow> P (snd (m s)))"

lemma preserves_simple [preserves_intros]:
  "preserves P (ret x)" "preserves P (throw e)" "preserves P panic" "preserves P (deref p)"
  by (auto simp: preserves_def act_simps deref_def split: option.splits)

lemma preserves_handle [preserves_intros]:
  "preserves P m \<Longrightarrow> (\<And>x. preserves P (f x)) \<Longrightarrow> (\<And>e. preserves P (h e)) \<Longrightarrow> preserves P (handle m f h)"
  unfolding preserves_def handle_def by (fastforce split: prod.splits result.splits)

lemma preserves_and_then [preserves_intros]:
  "preserves P m \<Longrightarrow> (\<And>x. preserves P (f x)) \<Longrightarrow> preserves P (and_then m f)"
  unfolding and_then_def by (intro preserves_intros)

lemma preserves_and_then_Ok:
  "preserves P m \<Longrightarrow> (\<And>x s t. m s = (Ok x, t) \<Longrightarrow> preserves P (f x)) \<Longrightarrow> preserves P (and_then m f)"
  unfolding preserves_def and_then_def handle_def by (fastforce simp: act_simps split: prod.splits result.splits)

lemma preserves_ignore [preserves_intros]: "preserves P m \<Longrightarrow> preserves P (ignore m)"
  unfolding ignore_def by (intro preserves_intros)

lemma preserves_if [preserves_intros]:
  "(b \<Longrightarrow> preserves P m) \<Longrightarrow> (\<not> b \<Longrightarrow> preserves P n) \<Longrightarrow> preserves P (if b then m else n)"
  by simp

lemma preserves_case_option [preserves_intros]:
  "preserves P m \<Longrightarrow> (\<And>x. preserves P (f x)) \<Longrightarrow> preserves P (case p of None \<Rightarrow> m | Some x \<Rightarrow> f x)"
  by (cases p) auto

lemma preserves_for_each [preserves_intros]: "(\<And>x. preserves P (f x)) \<Longrightarrow> preserves P (for_each f xs)"
  by (induction xs) (auto intro!: preserves_intros)

lemma preservesD: "preserves P m \<Longrightarrow> P s \<Longrightarrow> m s = (r, t) \<Longrightarrow> P t"
  by (auto simp: preserves_def)

lemma meets_preserves:
  assumes "meets m s Q E" and "preserves P m" and "P s"
  shows "meets m s (\<lambda>x t. Q x t \<and> P t) (\<lambda>e t. E e t \<and> P t)"
  using assms by (auto simp: meets_def dest: preservesD split: prod.splits result.splits)

subsection \<open>Lists and strings\<close>

lemma find_Some_append:
  "find P xs = Some x \<Longrightarrow> \<exists>us vs. xs = us @ x # vs \<and> P x \<and> (\<forall>u\<in>set us. \<not> P u)"
proof (induction xs)
  case (Cons y ys)
  show ?case
  proof (cases "P y")
    case True
    with Cons.prems have "y # ys = [] @ x # ys \<and> P x" by simp
    then show ?thesis by force
  next
    case False
    with Cons obtain us vs where "ys = us @ x # vs \<and> P x \<and> (\<forall>u\<in>set us. \<not> P u)" by auto
    with False have "y # ys = (y # us) @ x # vs \<and> P x \<and> (\<forall>u\<in>set (y # us). \<not> P u)" by simp
    then show ?thesis by blast
  qed
qed simp

lemma find_SomeD: "find P xs = Some x \<Longrightarrow> x \<in> set xs \<and> P x"
  by (induction xs) (auto split: if_splits)

lemma find_unique:
  "x \<in> set xs \<Longrightarrow> P x \<Longrightarrow> (\<And>y. y \<in> set xs \<Longrightarrow> P y \<Longrightarrow> y = x) \<Longrightarrow> find P xs = Some x"
  by (metis find_None_iff find_SomeD option.exhaust)

text \<open>The index a loop builds with \<open>idx[f(x)] = x\<close>: with distinct keys a lookup is membership.\<close>

lemma foldl_index_iff:
  assumes "\<And>x y. x \<in> set xs \<Longrightarrow> y \<in> set xs \<Longrightarrow> f x = f y \<Longrightarrow> x = y"
  shows "foldl (\<lambda>idx x. idx(f x \<mapsto> x)) Map.empty xs k = Some x \<longleftrightarrow> x \<in> set xs \<and> f x = k"
  using assms
proof (induction xs rule: rev_induct)
  case (snoc y ys)
  define F where "F = foldl (\<lambda>idx x. idx(f x \<mapsto> x)) Map.empty ys"
  have "F k = Some x \<longleftrightarrow> x \<in> set ys \<and> f x = k"
    unfolding F_def by (rule snoc.IH, rule snoc.prems) simp_all
  then have "(F(f y \<mapsto> y)) k = Some x \<longleftrightarrow> x \<in> set (ys @ [y]) \<and> f x = k"
    using snoc.prems [of x y] by auto
  moreover have "foldl (\<lambda>idx x. idx(f x \<mapsto> x)) Map.empty (ys @ [y]) = F(f y \<mapsto> y)" by (simp add: F_def)
  ultimately show ?case by (simp only:)
qed simp

text \<open>\<open>strings.Contains(s, c)\<close>, \<open>strings.HasPrefix\<close>, \<open>strings.TrimPrefix\<close>.\<close>

fun has_prefix :: "string \<Rightarrow> string \<Rightarrow> bool" where
  "has_prefix s [] = True"
| "has_prefix [] (p # ps) = False"
| "has_prefix (c # cs) (p # ps) = (c = p \<and> has_prefix cs ps)"

definition trim_prefix :: "string \<Rightarrow> string \<Rightarrow> string" where
  "trim_prefix s p = (if has_prefix s p then drop (length p) s else s)"

lemma has_prefix_append [simp]: "has_prefix (p @ s) p"
  by (induction p) auto

lemma has_prefix_iff: "has_prefix s p \<longleftrightarrow> (\<exists>t. s = p @ t)"
  by (induction s p rule: has_prefix.induct) auto

lemma trim_prefix_append [simp]: "trim_prefix (p @ s) p = s"
  by (simp add: trim_prefix_def)

text \<open>\<open>strconv.Itoa\<close> and \<open>%d\<close> on a non-negative number.\<close>

definition digit_char :: "nat \<Rightarrow> char" where
  "digit_char d = char_of (48 + d)"

fun show_nat :: "nat \<Rightarrow> string" where
  "show_nat n = (if n < 10 then [digit_char n] else show_nat (n div 10) @ [digit_char (n mod 10)])"

declare show_nat.simps [simp del]

definition is_digit :: "char \<Rightarrow> bool" where
  "is_digit c \<longleftrightarrow> 48 \<le> (of_char c :: nat) \<and> (of_char c :: nat) \<le> 57"

lemma of_char_digit [simp]: "d < 10 \<Longrightarrow> (of_char (digit_char d) :: nat) = 48 + d"
  by (simp add: digit_char_def)

lemma is_digit_char [simp]: "d < 10 \<Longrightarrow> is_digit (digit_char d)"
  by (simp add: is_digit_def)

lemma show_nat_digits: "c \<in> set (show_nat n) \<Longrightarrow> is_digit c"
  by (induction n arbitrary: c rule: show_nat.induct) (subst (asm) (2) show_nat.simps, auto split: if_splits)

lemma show_nat_nonempty [simp]: "show_nat n \<noteq> []"
  by (subst show_nat.simps) simp

lemma digit_chars [simp]:
  "digit_char 0 = CHR ''0''" "digit_char 1 = CHR ''1''" "digit_char (Suc 0) = CHR ''1''"
  "digit_char 2 = CHR ''2''" "digit_char 3 = CHR ''3''" "digit_char 4 = CHR ''4''"
  "digit_char 5 = CHR ''5''" "digit_char 6 = CHR ''6''" "digit_char 7 = CHR ''7''"
  "digit_char 8 = CHR ''8''" "digit_char 9 = CHR ''9''"
  by (simp_all add: digit_char_def char_of_def bit_0)

end
