(* ===== verification/Errors.thy ===== *)
theory Errors
  imports Prelude
begin

text \<open>
  The error values of kube-vim (\<open>internal/errors\<close>, \<open>image/errors.go\<close>,
  \<open>compute/kubevirt/errors.go\<close>), Go's error chains (\<open>errors.As\<close>, \<open>errors.Is\<close>, \<open>%w\<close>), the
  registered error converters and \<open>ToGRPCError\<close>. An error of the Kubernetes API is known by the
  reason of its status, an error of gRPC by its code. \<open>Wrap ctx e\<close> is
  \<open>fmt.Errorf("ctx ...: %w", e)\<close>: the text keeps the leading literal of the format and drops
  the interpolated values. The locale \<open>converter_registry\<close> states what \<open>ToGRPCError\<close> relies on
  in the converters it loops over; it is interpreted on the registered ones.
\<close>

subsection \<open>Error values\<close>

datatype api_reason =
    ReasonNotFound | ReasonAlreadyExists | ReasonConflict | ReasonInvalid | ReasonBadRequest
  | ReasonForbidden | ReasonUnauthorized | ReasonOther

datatype grpc_code =
    CodeInvalidArgument | CodeNotFound | CodeAlreadyExists | CodePermissionDenied
  | CodeUnauthenticated | CodeUnimplemented | CodeInternal

datatype error =
    ErrNotFound string string
  | ErrInvalidArgument string string
  | ErrAlreadyExists string string
  | ErrPermissionDenied string string
  | ErrK8sObjectNotInstantiated string string
  | ErrK8sObjectNotManagedByKubeNfv string string string
  | ErrNotImplemented
  | ErrUnsupported
  | ErrInternal
  | ErrIPAMConfigurationMissing
  | ErrDataVolumeAlreadyExists string
  | ErrDataVolumeNotFound string string
  | ErrApplyOption
  | K8sError api_reason string
  | GrpcStatus grpc_code string
  | Plain string
  | Wrap string error

text \<open>The unwrapping chain that \<open>errors.As\<close> and \<open>errors.Is\<close> walk, outermost error first.\<close>

fun chain :: "error \<Rightarrow> error list" where
  "chain (Wrap c e) = Wrap c e # chain e"
| "chain e = [e]"

fun root :: "error \<Rightarrow> error" where
  "root (Wrap c e) = root e"
| "root e = e"

definition errors_As :: "(error \<Rightarrow> bool) \<Rightarrow> error \<Rightarrow> bool" where
  "errors_As target err = (find target (chain err) \<noteq> None)"

definition errors_Is :: "error \<Rightarrow> error \<Rightarrow> bool" where
  "errors_Is err target = (find (\<lambda>e. e = target) (chain err) \<noteq> None)"

fun is_ErrNotFound :: "error \<Rightarrow> bool" where
  "is_ErrNotFound (ErrNotFound _ _) = True"
| "is_ErrNotFound _ = False"

fun is_ErrInvalidArgument :: "error \<Rightarrow> bool" where
  "is_ErrInvalidArgument (ErrInvalidArgument _ _) = True"
| "is_ErrInvalidArgument _ = False"

fun is_ErrAlreadyExists :: "error \<Rightarrow> bool" where
  "is_ErrAlreadyExists (ErrAlreadyExists _ _) = True"
| "is_ErrAlreadyExists _ = False"

fun is_ErrPermissionDenied :: "error \<Rightarrow> bool" where
  "is_ErrPermissionDenied (ErrPermissionDenied _ _) = True"
| "is_ErrPermissionDenied _ = False"

fun is_NotInstantiated :: "error \<Rightarrow> bool" where
  "is_NotInstantiated (ErrK8sObjectNotInstantiated _ _) = True"
| "is_NotInstantiated _ = False"

fun is_NotManaged :: "error \<Rightarrow> bool" where
  "is_NotManaged (ErrK8sObjectNotManagedByKubeNfv _ _ _) = True"
| "is_NotManaged _ = False"

fun is_DvAlreadyExists :: "error \<Rightarrow> bool" where
  "is_DvAlreadyExists (ErrDataVolumeAlreadyExists _) = True"
| "is_DvAlreadyExists _ = False"

fun is_DvNotFound :: "error \<Rightarrow> bool" where
  "is_DvNotFound (ErrDataVolumeNotFound _ _) = True"
| "is_DvNotFound _ = False"

fun is_GrpcStatus :: "error \<Rightarrow> bool" where
  "is_GrpcStatus (GrpcStatus _ _) = True"
| "is_GrpcStatus _ = False"

text \<open>\<open>k8s.io/apimachinery/pkg/api/errors\<close>: a predicate looks for the API status anywhere in the
  chain and tests its reason.\<close>

fun has_reason :: "api_reason \<Rightarrow> error \<Rightarrow> bool" where
  "has_reason r (K8sError r' _) = (r = r')"
| "has_reason r _ = False"

definition k8s_IsReason :: "api_reason \<Rightarrow> error \<Rightarrow> bool" where
  "k8s_IsReason r err = errors_As (has_reason r) err"

abbreviation k8s_IsNotFound :: "error \<Rightarrow> bool" where
  "k8s_IsNotFound \<equiv> k8s_IsReason ReasonNotFound"

abbreviation k8s_IsAlreadyExists :: "error \<Rightarrow> bool" where
  "k8s_IsAlreadyExists \<equiv> k8s_IsReason ReasonAlreadyExists"

subsection \<open>Error texts\<close>

definition quoted :: "string \<Rightarrow> string" where
  "quoted s = CHR 0x27 # s @ [CHR 0x27]"

definition notFound_Error :: "string \<Rightarrow> string \<Rightarrow> string" where
  "notFound_Error entity ident =
     (if ident \<noteq> '''' then entity @ '' '' @ quoted ident @ '' not found''
      else entity @ '' not found'')"

definition invalidArgument_Error :: "string \<Rightarrow> string \<Rightarrow> string" where
  "invalidArgument_Error field reason =
     (if reason \<noteq> '''' then ''invalid '' @ field @ '': '' @ reason else ''invalid '' @ field)"

definition alreadyExists_Error :: "string \<Rightarrow> string \<Rightarrow> string" where
  "alreadyExists_Error entity ident =
     (if ident \<noteq> '''' then entity @ '' '' @ quoted ident @ '' already exists''
      else entity @ '' already exists'')"

definition permissionDenied_Error :: "string \<Rightarrow> string \<Rightarrow> string" where
  "permissionDenied_Error res reason =
     (if reason \<noteq> '''' then ''access denied to '' @ res @ '': '' @ reason
      else ''access denied to '' @ res)"

definition notInstantiated_Error :: "string \<Rightarrow> string \<Rightarrow> string" where
  "notInstantiated_Error otype ident =
     (if ident = '''' then otype @ '' is not from Kubernetes (likely created manually)''
      else otype @ '' (id: '' @ ident @ '') is not from Kubernetes (likely created manually)'')"

definition notManaged_Error :: "string \<Rightarrow> string \<Rightarrow> string \<Rightarrow> string" where
  "notManaged_Error otype oname oid =
     otype @ '' '' @ quoted oname @ '' (uid: '' @ oid @ '') not managed by kube-nfv''"

definition dvAlreadyExists_Error :: "string \<Rightarrow> string" where
  "dvAlreadyExists_Error name =
     (if name \<noteq> '''' then ''Data Volume '' @ quoted name @ '' already exists''
      else ''Data Volume already exists'')"

definition dvNotFound_Error :: "string \<Rightarrow> string \<Rightarrow> string" where
  "dvNotFound_Error name uid =
     (if name \<noteq> '''' \<and> uid \<noteq> '''' then ''Data Volume '' @ quoted name @ '' (uid: '' @ uid @ '') not found''
      else if name \<noteq> '''' then ''Data Volume '' @ quoted name @ '' not found''
      else if uid \<noteq> '''' then ''Data Volume with uid '' @ quoted uid @ '' not found''
      else ''Data Volume not found'')"

fun error_text :: "error \<Rightarrow> string" where
  "error_text (ErrNotFound e i) = notFound_Error e i"
| "error_text (ErrInvalidArgument f r) = invalidArgument_Error f r"
| "error_text (ErrAlreadyExists e i) = alreadyExists_Error e i"
| "error_text (ErrPermissionDenied r w) = permissionDenied_Error r w"
| "error_text (ErrK8sObjectNotInstantiated t i) = notInstantiated_Error t i"
| "error_text (ErrK8sObjectNotManagedByKubeNfv t n i) = notManaged_Error t n i"
| "error_text ErrNotImplemented = ''not implemented''"
| "error_text ErrUnsupported = ''unsupported''"
| "error_text ErrInternal = ''internal''"
| "error_text ErrIPAMConfigurationMissing =
     ''IPAM configuration should have either subnetId or staticIp configured''"
| "error_text (ErrDataVolumeAlreadyExists n) = dvAlreadyExists_Error n"
| "error_text (ErrDataVolumeNotFound n u) = dvNotFound_Error n u"
| "error_text ErrApplyOption = ''apply option''"
| "error_text (K8sError _ m) = m"
| "error_text (GrpcStatus _ m) = m"
| "error_text (Plain m) = m"
| "error_text (Wrap c e) = c @ '': '' @ error_text e"

subsection \<open>Converters\<close>

text \<open>A converter answers \<open>None\<close> (Go's nil) for an error that is not its own.\<close>

type_synonym converter = "error \<Rightarrow> error option"

definition CommonErrorConverter :: converter where
  "CommonErrorConverter err =
     (if errors_As is_ErrNotFound err then Some (GrpcStatus CodeNotFound (error_text err))
      else if errors_As is_ErrInvalidArgument err then Some (GrpcStatus CodeInvalidArgument (error_text err))
      else if errors_As is_ErrAlreadyExists err then Some (GrpcStatus CodeAlreadyExists (error_text err))
      else if errors_As is_ErrPermissionDenied err then Some (GrpcStatus CodePermissionDenied (error_text err))
      else if errors_Is err ErrNotImplemented then Some (GrpcStatus CodeUnimplemented (error_text err))
      else if errors_Is err ErrUnsupported then Some (GrpcStatus CodeUnimplemented (error_text err))
      else if errors_Is err ErrInternal then Some (GrpcStatus CodeInternal (error_text err))
      else None)"

definition K8sErrorConverter :: converter where
  "K8sErrorConverter err =
     (if errors_As is_NotInstantiated err then Some (GrpcStatus CodeInvalidArgument (error_text err))
      else if errors_As is_NotManaged err then Some (GrpcStatus CodePermissionDenied (error_text err))
      else if k8s_IsReason ReasonNotFound err then Some (GrpcStatus CodeNotFound (error_text err))
      else if k8s_IsReason ReasonAlreadyExists err then Some (GrpcStatus CodeAlreadyExists (error_text err))
      else if k8s_IsReason ReasonInvalid err \<or> k8s_IsReason ReasonBadRequest err
        then Some (GrpcStatus CodeInvalidArgument (error_text err))
      else if k8s_IsReason ReasonForbidden err then Some (GrpcStatus CodePermissionDenied (error_text err))
      else if k8s_IsReason ReasonUnauthorized err then Some (GrpcStatus CodeUnauthenticated (error_text err))
      else None)"

definition ImageErrorConverter :: converter where
  "ImageErrorConverter err =
     (if errors_As is_DvAlreadyExists err then Some (GrpcStatus CodeAlreadyExists (error_text err))
      else if errors_As is_DvNotFound err then Some (GrpcStatus CodeNotFound (error_text err))
      else if errors_Is err ErrApplyOption then Some (GrpcStatus CodeInvalidArgument (error_text err))
      else None)"

definition ComputeErrorConverter :: converter where
  "ComputeErrorConverter err =
     (if errors_Is err ErrIPAMConfigurationMissing
      then Some (GrpcStatus CodeInvalidArgument (error_text err)) else None)"

text \<open>\<open>RegisterErrorConverter\<close> appends to the package's slice; the packages' \<open>init\<close> functions run
  in import order.\<close>

definition RegisterErrorConverter :: "converter \<Rightarrow> converter list \<Rightarrow> converter list" where
  "RegisterErrorConverter c cs = cs @ [c]"

definition registered_converters :: "converter list" where
  "registered_converters =
     RegisterErrorConverter ComputeErrorConverter
      (RegisterErrorConverter ImageErrorConverter
        (RegisterErrorConverter K8sErrorConverter
          (RegisterErrorConverter CommonErrorConverter [])))"

fun first_conversion :: "converter list \<Rightarrow> error \<Rightarrow> error option" where
  "first_conversion [] err = None"
| "first_conversion (c # cs) err =
     (case c err of Some grpcErr \<Rightarrow> Some grpcErr | None \<Rightarrow> first_conversion cs err)"

definition ToGRPCError :: "converter list \<Rightarrow> error option \<Rightarrow> error option" where
  "ToGRPCError cs perr = (case perr of
      None \<Rightarrow> None
    | Some err \<Rightarrow>
        if errors_As is_GrpcStatus err then Some err
        else (case first_conversion cs err of
            Some grpcErr \<Rightarrow> Some grpcErr
          | None \<Rightarrow> Some (GrpcStatus CodeInternal (error_text err))))"

text \<open>The code a client of the gRPC API sees for an error value.\<close>

fun status_code :: "error \<Rightarrow> grpc_code option" where
  "status_code (GrpcStatus c _) = Some c"
| "status_code (Wrap _ e) = status_code e"
| "status_code _ = None"

text \<open>The reference table: the code as a function of the innermost error alone.\<close>

fun code_table :: "error \<Rightarrow> grpc_code" where
  "code_table (ErrNotFound _ _) = CodeNotFound"
| "code_table (ErrInvalidArgument _ _) = CodeInvalidArgument"
| "code_table (ErrAlreadyExists _ _) = CodeAlreadyExists"
| "code_table (ErrPermissionDenied _ _) = CodePermissionDenied"
| "code_table (ErrK8sObjectNotInstantiated _ _) = CodeInvalidArgument"
| "code_table (ErrK8sObjectNotManagedByKubeNfv _ _ _) = CodePermissionDenied"
| "code_table ErrNotImplemented = CodeUnimplemented"
| "code_table ErrUnsupported = CodeUnimplemented"
| "code_table ErrInternal = CodeInternal"
| "code_table ErrIPAMConfigurationMissing = CodeInvalidArgument"
| "code_table (ErrDataVolumeAlreadyExists _) = CodeAlreadyExists"
| "code_table (ErrDataVolumeNotFound _ _) = CodeNotFound"
| "code_table ErrApplyOption = CodeInvalidArgument"
| "code_table (K8sError r _) = (case r of
      ReasonNotFound \<Rightarrow> CodeNotFound
    | ReasonAlreadyExists \<Rightarrow> CodeAlreadyExists
    | ReasonInvalid \<Rightarrow> CodeInvalidArgument
    | ReasonBadRequest \<Rightarrow> CodeInvalidArgument
    | ReasonForbidden \<Rightarrow> CodePermissionDenied
    | ReasonUnauthorized \<Rightarrow> CodeUnauthenticated
    | ReasonConflict \<Rightarrow> CodeInternal
    | ReasonOther \<Rightarrow> CodeInternal)"
| "code_table (GrpcStatus c _) = c"
| "code_table (Plain _) = CodeInternal"
| "code_table (Wrap _ e) = code_table e"

text \<open>\<open>wrap\<close> annotates the error of a call with its context; \<open>sum_act\<close> lifts a pure Go function.\<close>

definition wrap :: "string \<Rightarrow> ('s, error, 'a) act \<Rightarrow> ('s, error, 'a) act" where
  "wrap ctx m = handle m ret (\<lambda>e. throw (Wrap ctx e))"

definition sum_act :: "error + 'a \<Rightarrow> ('s, error, 'a) act" where
  "sum_act r = (case r of Inl e \<Rightarrow> throw e | Inr x \<Rightarrow> ret x)"

subsection \<open>Chains\<close>

lemma root_not_Wrap: "root e \<noteq> Wrap c e'"
  by (induction e) auto

lemma root_root [simp]: "root (root e) = root e"
  by (induction e) auto

text \<open>A predicate that rejects every wrapper is decided by the innermost error.\<close>

lemma errors_As_root:
  assumes "\<And>c e. \<not> P (Wrap c e)"
  shows "errors_As P err = P (root err)"
  using assms by (induction err) (auto simp: errors_As_def)

lemma errors_Is_root:
  assumes "\<And>c e. target \<noteq> Wrap c e"
  shows "errors_Is err target = (root err = target)"
  using assms by (induction err) (auto simp: errors_Is_def)

lemma errors_As_leaf [simp]:
  "errors_As is_ErrNotFound err = is_ErrNotFound (root err)"
  "errors_As is_ErrInvalidArgument err = is_ErrInvalidArgument (root err)"
  "errors_As is_ErrAlreadyExists err = is_ErrAlreadyExists (root err)"
  "errors_As is_ErrPermissionDenied err = is_ErrPermissionDenied (root err)"
  "errors_As is_NotInstantiated err = is_NotInstantiated (root err)"
  "errors_As is_NotManaged err = is_NotManaged (root err)"
  "errors_As is_DvAlreadyExists err = is_DvAlreadyExists (root err)"
  "errors_As is_DvNotFound err = is_DvNotFound (root err)"
  "errors_As is_GrpcStatus err = is_GrpcStatus (root err)"
  "errors_As (has_reason r) err = has_reason r (root err)"
  by (rule errors_As_root, simp)+

lemma k8s_IsReason_root [simp]: "k8s_IsReason r err = has_reason r (root err)"
  by (simp add: k8s_IsReason_def)

lemma errors_Is_leaf [simp]:
  "errors_Is err ErrNotImplemented = (root err = ErrNotImplemented)"
  "errors_Is err ErrUnsupported = (root err = ErrUnsupported)"
  "errors_Is err ErrInternal = (root err = ErrInternal)"
  "errors_Is err ErrApplyOption = (root err = ErrApplyOption)"
  "errors_Is err ErrIPAMConfigurationMissing = (root err = ErrIPAMConfigurationMissing)"
  by (rule errors_Is_root, simp)+

lemma status_code_root: "status_code err = status_code (root err)"
  by (induction err) auto

lemma code_table_root: "code_table err = code_table (root err)"
  by (induction err) auto

subsection \<open>The registry's contract\<close>

text \<open>What \<open>ToGRPCError\<close> needs of the converters: each answers with a status; the code
  agrees with the table \<open>tab\<close>; an error no converter claims has the code Internal in it.\<close>

locale converter_registry =
  fixes cs :: "converter list"
    and tab :: "error \<Rightarrow> grpc_code"
  assumes sound: "c \<in> set cs \<Longrightarrow> c err = Some e' \<Longrightarrow> \<exists>m. e' = GrpcStatus (tab err) m"
    and complete: "(\<And>c. c \<in> set cs \<Longrightarrow> c err = None) \<Longrightarrow> \<not> is_GrpcStatus (root err) \<Longrightarrow>
      tab err = CodeInternal"
    and status_kept: "is_GrpcStatus (root err) \<Longrightarrow> status_code err = Some (tab err)"
begin

lemma first_conversion_tab:
  "first_conversion ds err = Some e' \<Longrightarrow> set ds \<subseteq> set cs \<Longrightarrow> status_code e' = Some (tab err)"
  by (induction ds) (auto split: option.splits dest: sound)

lemma first_conversion_None: "first_conversion ds err = None \<Longrightarrow> c \<in> set ds \<Longrightarrow> c err = None"
  by (induction ds) (auto split: option.splits)

text \<open>Any list with the same converters gives the code of the table: neither the order of
  registration nor a double registration matters.\<close>

lemma ToGRPCError_tab:
  assumes "set ds = set cs"
  obtains e' where "ToGRPCError ds (Some err) = Some e'" and "status_code e' = Some (tab err)"
proof (cases "is_GrpcStatus (root err)")
  case True
  then show ?thesis using that status_kept by (simp add: ToGRPCError_def)
next
  case False
  show ?thesis
  proof (cases "first_conversion ds err")
    case None
    then have "tab err = CodeInternal"
      using complete [of err] first_conversion_None assms False by blast
    then show ?thesis using that None False by (simp add: ToGRPCError_def)
  next
    case (Some e')
    then show ?thesis
      using that first_conversion_tab assms False by (simp add: ToGRPCError_def)
  qed
qed

end

lemma common_sound: "CommonErrorConverter err = Some e' \<Longrightarrow> \<exists>m. e' = GrpcStatus (code_table err) m"
  by (subst code_table_root, cases "root err") (auto simp: CommonErrorConverter_def split: if_splits)

lemma k8s_sound: "K8sErrorConverter err = Some e' \<Longrightarrow> \<exists>m. e' = GrpcStatus (code_table err) m"
  by (subst code_table_root, cases "root err")
    (auto simp: K8sErrorConverter_def split: if_splits api_reason.splits)

lemma image_sound: "ImageErrorConverter err = Some e' \<Longrightarrow> \<exists>m. e' = GrpcStatus (code_table err) m"
  by (subst code_table_root, cases "root err") (auto simp: ImageErrorConverter_def split: if_splits)

lemma compute_sound: "ComputeErrorConverter err = Some e' \<Longrightarrow> \<exists>m. e' = GrpcStatus (code_table err) m"
  by (subst code_table_root, cases "root err") (auto simp: ComputeErrorConverter_def split: if_splits)

lemma set_registered:
  "set registered_converters =
     {CommonErrorConverter, K8sErrorConverter, ImageErrorConverter, ComputeErrorConverter}"
  by (auto simp: registered_converters_def RegisterErrorConverter_def)

lemma unclaimed_is_internal:
  assumes "CommonErrorConverter err = None" "K8sErrorConverter err = None"
    "ImageErrorConverter err = None" "ComputeErrorConverter err = None" "\<not> is_GrpcStatus (root err)"
  shows "code_table err = CodeInternal"
  using assms root_not_Wrap [of err]
  by (subst code_table_root, cases "root err")
    (auto simp: CommonErrorConverter_def K8sErrorConverter_def ImageErrorConverter_def
      ComputeErrorConverter_def split: if_splits api_reason.splits)

interpretation registered: converter_registry registered_converters code_table
proof
  fix c err e'
  assume "c \<in> set registered_converters" and "c err = Some e'"
  then show "\<exists>m. e' = GrpcStatus (code_table err) m"
    unfolding set_registered
    by (auto dest: common_sound k8s_sound image_sound compute_sound)
next
  fix err
  assume none: "\<And>c. c \<in> set registered_converters \<Longrightarrow> c err = None"
    and "\<not> is_GrpcStatus (root err)"
  then show "code_table err = CodeInternal"
    by (intro unclaimed_is_internal) (auto intro!: none simp: set_registered)
next
  fix err
  assume "is_GrpcStatus (root err)"
  then show "status_code err = Some (code_table err)"
    by (subst status_code_root, subst code_table_root, cases "root err") auto
qed

subsection \<open>Actions that wrap errors\<close>

lemma wrap_Ok_iff [simp]: "wrap c m s = (Ok x, t) \<longleftrightarrow> m s = (Ok x, t)"
  by (auto simp: wrap_def handle_def act_simps split: prod.splits result.splits)

lemma wrap_Err_iff: "wrap c m s = (Err e, t) \<longleftrightarrow> (\<exists>e'. m s = (Err e', t) \<and> e = Wrap c e')"
  by (auto simp: wrap_def handle_def act_simps split: prod.splits result.splits)

lemma wrap_Panic_iff [simp]: "wrap c m s = (Panic, t) \<longleftrightarrow> m s = (Panic, t)"
  by (auto simp: wrap_def handle_def act_simps split: prod.splits result.splits)

lemma wrap_ret [simp]: "wrap c (ret x) = ret x"
  by (simp add: wrap_def)

lemma wrap_throw [simp]: "wrap c (throw e) = throw (Wrap c e)"
  by (simp add: wrap_def)

lemma meets_wrap:
  assumes "meets m s Q (\<lambda>e. E (Wrap c e))"
  shows "meets (wrap c m) s Q E"
  unfolding wrap_def
  by (rule meets_handle) (use assms in \<open>auto simp: meets_def act_simps split: prod.splits result.splits\<close>)

lemma sum_act_simps [simp]: "sum_act (Inl e) = throw e" "sum_act (Inr x) = ret x"
  by (simp_all add: sum_act_def)

lemma meets_sum_act:
  assumes "\<And>x. r = Inr x \<Longrightarrow> Q x s" and "\<And>e. r = Inl e \<Longrightarrow> E e s"
  shows "meets (sum_act r) s Q E"
  using assms by (cases r) (auto intro: meets_rules)

lemma preserves_wrap [preserves_intros]: "preserves P m \<Longrightarrow> preserves P (wrap c m)"
  unfolding wrap_def by (intro preserves_intros)

lemma preserves_sum_act [preserves_intros]: "preserves P (sum_act r)"
  by (cases r) (auto intro: preserves_intros)

subsection \<open>Properties\<close>

text \<open>C3. For every error a handler returns, however deeply wrapped and whatever the order in
  which the packages' \<open>init\<close> functions registered the four converters, \<open>ToGRPCError\<close> produces a
  gRPC status whose code is the entry of the reference table for the innermost error: the loop
  over the converters refines the table.\<close>

theorem ToGRPCError_refines_table:
  assumes "set cs = set registered_converters"
  shows "\<exists>e'. ToGRPCError cs (Some err) = Some e' \<and> status_code e' = Some (code_table (root err))"
  using registered.ToGRPCError_tab [OF assms, of err] code_table_root by metis

text \<open>Witness: the converters registered in the reverse order.\<close>

theorem ToGRPCError_refines_table_witness:
  "set [ComputeErrorConverter, ImageErrorConverter, K8sErrorConverter, CommonErrorConverter]
     = set registered_converters \<and>
   (\<exists>e'. ToGRPCError [ComputeErrorConverter, ImageErrorConverter, K8sErrorConverter, CommonErrorConverter]
       (Some (Wrap ''get vpc'' (K8sError ReasonNotFound ''gone''))) = Some e' \<and>
     status_code e' = Some CodeNotFound)"
proof -
  have s: "set [ComputeErrorConverter, ImageErrorConverter, K8sErrorConverter, CommonErrorConverter]
     = set registered_converters"
    by (auto simp: set_registered)
  show ?thesis
    using s ToGRPCError_refines_table [OF s, of "Wrap ''get vpc'' (K8sError ReasonNotFound ''gone'')"]
    by simp
qed

end
