(* ===== verification/K8s_Objects.thy ===== *)
theory K8s_Objects
  imports Errors
begin

text \<open>
  The Kubernetes objects kube-vim reads and writes, with the fields its code touches: kube-ovn
  Vpc, Vlan and Subnet, multus NetworkAttachmentDefinition, KubeVirt VirtualMachine and
  VirtualMachineInstance, instancetype and preference, CDI VolumeImportSource and DataVolume,
  Secret, Pod and StorageClass; the metadata predicates and conversions of
  \<open>internal/misc/k8s.go\<close>; and the label keys of \<open>internal/config/default.go\<close>,
  \<open>network/manager.go\<close>, \<open>flavour/manager.go\<close>, \<open>image/manager.go\<close> and
  \<open>compute/kubevirt/manager.go\<close>. A pointer is an \<open>option\<close>, a Go map a partial function (a nil
  map reads as the empty one), a time a number with 0 the zero time. A Quantity is known by its
  amount and its format.
\<close>

type_synonym labels = "string \<rightharpoonup> string"

record quantity =
  q_amount :: int
  q_format :: string

record obj_meta =
  m_name :: string
  m_namespace :: string
  m_uid :: string
  m_resourceVersion :: string
  m_creationTimestamp :: int
  m_labels :: labels
  m_annotations :: labels
  m_managedFields :: "int option list"

definition empty_meta :: obj_meta where
  "empty_meta = \<lparr>m_name = '''', m_namespace = '''', m_uid = '''', m_resourceVersion = '''',
     m_creationTimestamp = 0, m_labels = Map.empty, m_annotations = Map.empty, m_managedFields = []\<rparr>"

subsection \<open>kube-ovn and multus\<close>

record vpc =
  vpc_meta :: obj_meta
  vpc_status_subnets :: "string list"

record vlan =
  vlan_meta :: obj_meta
  vlan_id :: int
  vlan_provider :: string
  vlan_status_subnets :: "string list"

record subnet =
  sub_meta :: obj_meta
  sub_protocol :: string
  sub_enableDHCP :: bool
  sub_cidrBlock :: string
  sub_default :: bool
  sub_gatewayType :: string
  sub_natOutgoing :: bool
  sub_gateway :: string
  sub_vpc :: string
  sub_vlan :: string
  sub_provider :: string
  sub_excludeIps :: "string list"

record nad =
  nad_meta :: obj_meta
  nad_config :: string

subsection \<open>KubeVirt\<close>

record multus_network =
  mn_networkName :: string
  mn_default :: bool

record kv_network =
  kn_name :: string
  kn_pod :: bool
  kn_multus :: "multus_network option"

record kv_interface =
  if_name :: string
  if_macAddress :: string
  if_bridge :: bool
  if_masquerade :: bool
  if_sriov :: bool

datatype volume_source =
    VolDataVolume string
  | VolCloudInitConfigDrive string
  | VolCloudInitNoCloud string

record kv_volume =
  vol_name :: string
  vol_source :: volume_source

record kv_disk =
  disk_name :: string
  disk_bus :: string

record toleration =
  tol_key :: string
  tol_operator :: string
  tol_value :: string
  tol_effect :: string
  tol_seconds :: "int option"

record vmi_spec =
  spec_disks :: "kv_disk list"
  spec_interfaces :: "kv_interface list"
  spec_secureBoot :: "bool option"
  spec_networks :: "kv_network list"
  spec_volumes :: "kv_volume list"
  spec_nodeSelector :: labels
  spec_tolerations :: "toleration list"

record vmi_template =
  tmpl_labels :: labels
  tmpl_annotations :: labels
  tmpl_spec :: vmi_spec

record dv_template =
  dvt_name :: string
  dvt_labels :: labels
  dvt_pvc_namespace :: string
  dvt_pvc_name :: string
  dvt_storage :: quantity
  dvt_accessModes :: "string list"

record kind_matcher =
  km_kind :: string
  km_name :: string

record vm =
  vm_meta :: obj_meta
  vm_dataVolumeTemplates :: "dv_template list"
  vm_instancetype :: "kind_matcher option"
  vm_preference :: "kind_matcher option"
  vm_runStrategy :: "string option"
  vm_template :: "vmi_template option"
  vm_status_created :: bool
  vm_status_ready :: bool
  vm_status_printableStatus :: string
  vm_status_runStrategy :: string

record iface_status =
  is_name :: string
  is_ips :: "string list"
  is_mac :: string

record vmi =
  vmi_meta :: obj_meta
  vmi_spec :: vmi_spec
  vmi_status_phase :: string
  vmi_status_reason :: string
  vmi_status_nodeName :: string
  vmi_status_conditions :: "string list"
  vmi_status_interfaces :: "iface_status list"

record inst_type =
  it_meta :: obj_meta
  it_cpuGuest :: "32 word"
  it_memoryGuest :: quantity

record inst_pref =
  pf_meta :: obj_meta

subsection \<open>CDI, core and storage\<close>

record http_source =
  hs_url :: string
  hs_certConfigMap :: string
  hs_secretRef :: string
  hs_extraHeaders :: "string list"

record import_source =
  src_http :: "http_source option"

record vis =
  vis_meta :: obj_meta
  vis_source :: "import_source option"

record dv_storage =
  ds_size :: quantity
  ds_accessModes :: "string list"
  ds_storageClassName :: "string option"
  ds_dataSourceRef :: "kind_matcher option"

record dv =
  dv_meta :: obj_meta
  dv_source :: "import_source option"
  dv_contentType :: string
  dv_storage :: "dv_storage option"
  dv_status_phase :: string
  dv_status_conditions :: "(string \<times> string) list"

record secret =
  sec_meta :: obj_meta
  sec_data :: labels

record pod =
  pod_meta :: obj_meta
  pod_nodeName :: string

record storage_class =
  stc_meta :: obj_meta
  stc_volumeBindingMode :: "string option"

subsection \<open>Objects of any kind\<close>

datatype kind =
    KVpc | KVlan | KSubnet | KNad | KVm | KVmi | KInstanceType | KPreference | KVis | KDv
  | KSecret | KPod | KStorageClass

datatype k8s_object =
    OVpc vpc | OVlan vlan | OSubnet subnet | ONad nad | OVm vm | OVmi vmi
  | OInstanceType inst_type | OPreference inst_pref | OVis vis | ODv dv
  | OSecret secret | OPod pod | OStorageClass storage_class

fun obj_kind :: "k8s_object \<Rightarrow> kind" where
  "obj_kind (OVpc _) = KVpc"
| "obj_kind (OVlan _) = KVlan"
| "obj_kind (OSubnet _) = KSubnet"
| "obj_kind (ONad _) = KNad"
| "obj_kind (OVm _) = KVm"
| "obj_kind (OVmi _) = KVmi"
| "obj_kind (OInstanceType _) = KInstanceType"
| "obj_kind (OPreference _) = KPreference"
| "obj_kind (OVis _) = KVis"
| "obj_kind (ODv _) = KDv"
| "obj_kind (OSecret _) = KSecret"
| "obj_kind (OPod _) = KPod"
| "obj_kind (OStorageClass _) = KStorageClass"

fun obj_meta_of :: "k8s_object \<Rightarrow> obj_meta" where
  "obj_meta_of (OVpc x) = vpc_meta x"
| "obj_meta_of (OVlan x) = vlan_meta x"
| "obj_meta_of (OSubnet x) = sub_meta x"
| "obj_meta_of (ONad x) = nad_meta x"
| "obj_meta_of (OVm x) = vm_meta x"
| "obj_meta_of (OVmi x) = vmi_meta x"
| "obj_meta_of (OInstanceType x) = it_meta x"
| "obj_meta_of (OPreference x) = pf_meta x"
| "obj_meta_of (OVis x) = vis_meta x"
| "obj_meta_of (ODv x) = dv_meta x"
| "obj_meta_of (OSecret x) = sec_meta x"
| "obj_meta_of (OPod x) = pod_meta x"
| "obj_meta_of (OStorageClass x) = stc_meta x"

fun set_meta :: "obj_meta \<Rightarrow> k8s_object \<Rightarrow> k8s_object" where
  "set_meta m (OVpc x) = OVpc (x\<lparr>vpc_meta := m\<rparr>)"
| "set_meta m (OVlan x) = OVlan (x\<lparr>vlan_meta := m\<rparr>)"
| "set_meta m (OSubnet x) = OSubnet (x\<lparr>sub_meta := m\<rparr>)"
| "set_meta m (ONad x) = ONad (x\<lparr>nad_meta := m\<rparr>)"
| "set_meta m (OVm x) = OVm (x\<lparr>vm_meta := m\<rparr>)"
| "set_meta m (OVmi x) = OVmi (x\<lparr>vmi_meta := m\<rparr>)"
| "set_meta m (OInstanceType x) = OInstanceType (x\<lparr>it_meta := m\<rparr>)"
| "set_meta m (OPreference x) = OPreference (x\<lparr>pf_meta := m\<rparr>)"
| "set_meta m (OVis x) = OVis (x\<lparr>vis_meta := m\<rparr>)"
| "set_meta m (ODv x) = ODv (x\<lparr>dv_meta := m\<rparr>)"
| "set_meta m (OSecret x) = OSecret (x\<lparr>sec_meta := m\<rparr>)"
| "set_meta m (OPod x) = OPod (x\<lparr>pod_meta := m\<rparr>)"
| "set_meta m (OStorageClass x) = OStorageClass (x\<lparr>stc_meta := m\<rparr>)"

text \<open>One entry per typed object: its kind, its injection into the union and the partial inverse
  (what decoding into the typed struct does).\<close>

record 'o kind_info =
  ki_kind :: kind
  ki_obj :: "'o \<Rightarrow> k8s_object"
  ki_decode :: "k8s_object \<Rightarrow> 'o option"

definition vpc_k :: "vpc kind_info" where
  "vpc_k = \<lparr>ki_kind = KVpc, ki_obj = OVpc,
     ki_decode = (\<lambda>ob. case ob of OVpc x \<Rightarrow> Some x | _ \<Rightarrow> None)\<rparr>"

definition vlan_k :: "vlan kind_info" where
  "vlan_k = \<lparr>ki_kind = KVlan, ki_obj = OVlan,
     ki_decode = (\<lambda>ob. case ob of OVlan x \<Rightarrow> Some x | _ \<Rightarrow> None)\<rparr>"

definition subnet_k :: "subnet kind_info" where
  "subnet_k = \<lparr>ki_kind = KSubnet, ki_obj = OSubnet,
     ki_decode = (\<lambda>ob. case ob of OSubnet x \<Rightarrow> Some x | _ \<Rightarrow> None)\<rparr>"

definition nad_k :: "nad kind_info" where
  "nad_k = \<lparr>ki_kind = KNad, ki_obj = ONad,
     ki_decode = (\<lambda>ob. case ob of ONad x \<Rightarrow> Some x | _ \<Rightarrow> None)\<rparr>"

definition vm_k :: "vm kind_info" where
  "vm_k = \<lparr>ki_kind = KVm, ki_obj = OVm,
     ki_decode = (\<lambda>ob. case ob of OVm x \<Rightarrow> Some x | _ \<Rightarrow> None)\<rparr>"

definition vmi_k :: "vmi kind_info" where
  "vmi_k = \<lparr>ki_kind = KVmi, ki_obj = OVmi,
     ki_decode = (\<lambda>ob. case ob of OVmi x \<Rightarrow> Some x | _ \<Rightarrow> None)\<rparr>"

definition inst_type_k :: "inst_type kind_info" where
  "inst_type_k = \<lparr>ki_kind = KInstanceType, ki_obj = OInstanceType,
     ki_decode = (\<lambda>ob. case ob of OInstanceType x \<Rightarrow> Some x | _ \<Rightarrow> None)\<rparr>"

definition inst_pref_k :: "inst_pref kind_info" where
  "inst_pref_k = \<lparr>ki_kind = KPreference, ki_obj = OPreference,
     ki_decode = (\<lambda>ob. case ob of OPreference x \<Rightarrow> Some x | _ \<Rightarrow> None)\<rparr>"

definition vis_k :: "vis kind_info" where
  "vis_k = \<lparr>ki_kind = KVis, ki_obj = OVis,
     ki_decode = (\<lambda>ob. case ob of OVis x \<Rightarrow> Some x | _ \<Rightarrow> None)\<rparr>"

definition dv_k :: "dv kind_info" where
  "dv_k = \<lparr>ki_kind = KDv, ki_obj = ODv,
     ki_decode = (\<lambda>ob. case ob of ODv x \<Rightarrow> Some x | _ \<Rightarrow> None)\<rparr>"

definition secret_k :: "secret kind_info" where
  "secret_k = \<lparr>ki_kind = KSecret, ki_obj = OSecret,
     ki_decode = (\<lambda>ob. case ob of OSecret x \<Rightarrow> Some x | _ \<Rightarrow> None)\<rparr>"

definition pod_k :: "pod kind_info" where
  "pod_k = \<lparr>ki_kind = KPod, ki_obj = OPod,
     ki_decode = (\<lambda>ob. case ob of OPod x \<Rightarrow> Some x | _ \<Rightarrow> None)\<rparr>"

definition storage_class_k :: "storage_class kind_info" where
  "storage_class_k = \<lparr>ki_kind = KStorageClass, ki_obj = OStorageClass,
     ki_decode = (\<lambda>ob. case ob of OStorageClass x \<Rightarrow> Some x | _ \<Rightarrow> None)\<rparr>"

lemmas kind_info_defs = vpc_k_def vlan_k_def subnet_k_def nad_k_def vm_k_def vmi_k_def
  inst_type_k_def inst_pref_k_def vis_k_def dv_k_def secret_k_def pod_k_def storage_class_k_def

lemma kind_sels [simp]:
  "ki_kind vpc_k = KVpc" "ki_obj vpc_k = OVpc"
  "ki_kind vlan_k = KVlan" "ki_obj vlan_k = OVlan"
  "ki_kind subnet_k = KSubnet" "ki_obj subnet_k = OSubnet"
  "ki_kind nad_k = KNad" "ki_obj nad_k = ONad"
  "ki_kind vm_k = KVm" "ki_obj vm_k = OVm"
  "ki_kind vmi_k = KVmi" "ki_obj vmi_k = OVmi"
  "ki_kind inst_type_k = KInstanceType" "ki_obj inst_type_k = OInstanceType"
  "ki_kind inst_pref_k = KPreference" "ki_obj inst_pref_k = OPreference"
  "ki_kind vis_k = KVis" "ki_obj vis_k = OVis"
  "ki_kind dv_k = KDv" "ki_obj dv_k = ODv"
  "ki_kind secret_k = KSecret" "ki_obj secret_k = OSecret"
  "ki_kind pod_k = KPod" "ki_obj pod_k = OPod"
  "ki_kind storage_class_k = KStorageClass" "ki_obj storage_class_k = OStorageClass"
  by (simp_all add: kind_info_defs)

subsection \<open>Label keys\<close>

definition K8sManagedByLabel :: string where "K8sManagedByLabel = ''app.kubernetes.io/managed-by''"
definition KubeNfvName :: string where "KubeNfvName = ''kube-nfv''"
definition KubeNfvDefaultNamespace :: string where "KubeNfvDefaultNamespace = ''kube-nfv''"

definition K8sNetworkNameLabel :: string where
  "K8sNetworkNameLabel = ''network.kubevim.kubenfv.io/network-name''"
definition K8sNetworkIdLabel :: string where
  "K8sNetworkIdLabel = ''network.kubevim.kubenfv.io/network-id''"
definition K8sNetworkTypeLabel :: string where
  "K8sNetworkTypeLabel = ''network.kubevim.kubenfv.io/netowrk-type''"
definition K8sNetworkNetAttachNameLabel :: string where
  "K8sNetworkNetAttachNameLabel = ''network.kubevim.kubenfv.io/network-netattach-name''"
definition K8sSubnetNameLabel :: string where
  "K8sSubnetNameLabel = ''network.kubevim.kubenfv.io/subnet-name''"
definition K8sSubnetNetAttachNameLabel :: string where
  "K8sSubnetNetAttachNameLabel = ''network.kubevim.kubenfv.io/subnet-netattach-name''"

definition K8sFlavourIdLabel :: string where "K8sFlavourIdLabel = ''flavour.kubevim.kubenfv.io/id''"
definition K8sFlavourSourceLabel :: string where
  "K8sFlavourSourceLabel = ''flavour.kubevim.kubenfv.io/source''"
definition K8sVolumesAnnotation :: string where
  "K8sVolumesAnnotation = ''flavour.kubevim.kubenfv.io/volumes''"
definition K8sFlavourAttNameAnnotation :: string where
  "K8sFlavourAttNameAnnotation = ''flavour.kubevim.kubenfv.io/attached-name''"
definition K8sImageIdLabel :: string where "K8sImageIdLabel = ''image.kubevim.kubenfv.io/id''"

lemmas network_label_defs = K8sManagedByLabel_def K8sNetworkNameLabel_def K8sNetworkIdLabel_def
  K8sNetworkTypeLabel_def K8sNetworkNetAttachNameLabel_def K8sSubnetNameLabel_def
  K8sSubnetNetAttachNameLabel_def

lemmas flavour_label_defs = K8sManagedByLabel_def K8sFlavourIdLabel_def K8sFlavourSourceLabel_def
  K8sVolumesAnnotation_def K8sFlavourAttNameAnnotation_def K8sImageIdLabel_def

subsection \<open>Metadata: \<open>internal/misc/k8s.go\<close>\<close>

text \<open>Go ranges over a map in an unspecified order: \<open>required\<close> is the map as the list of its
  entries in the order the loop meets them.\<close>

fun merge_required :: "(string \<times> string) list \<Rightarrow> bool \<times> labels \<Rightarrow> bool \<times> labels" where
  "merge_required [] (changed, merged) = (changed, merged)"
| "merge_required ((k, v) # required) (changed, merged) =
     (case merged k of
        None \<Rightarrow> merge_required required (True, merged(k \<mapsto> v))
      | Some existing \<Rightarrow>
          if existing \<noteq> v then merge_required required (True, merged(k \<mapsto> v))
          else merge_required required (changed, merged))"

definition MergeLabels :: "labels \<Rightarrow> (string \<times> string) list \<Rightarrow> bool \<times> labels" where
  "MergeLabels current required = merge_required required (False, current)"

definition UIDToIdentifier :: "string \<Rightarrow> string option" where
  "UIDToIdentifier uid = Some uid"

definition IsObjectInstantiated :: "obj_meta \<Rightarrow> bool" where
  "IsObjectInstantiated m \<longleftrightarrow>
     m_resourceVersion m \<noteq> '''' \<and> m_uid m \<noteq> '''' \<and> m_creationTimestamp m \<noteq> 0"

definition IsObjectManagedByKubeNfv :: "obj_meta \<Rightarrow> bool" where
  "IsObjectManagedByKubeNfv m = (case m_labels m K8sManagedByLabel of
      Some managedBy \<Rightarrow> managedBy = KubeNfvName
    | None \<Rightarrow> False)"

record config_toleration =
  ct_effect :: "string option"
  ct_key :: "string option"
  ct_operator :: "string option"
  ct_seconds :: "int option"
  ct_value :: "string option"

definition str_or_empty :: "string option \<Rightarrow> string" where
  "str_or_empty p = (case p of None \<Rightarrow> '''' | Some s \<Rightarrow> s)"

definition ToK8sTolerations :: "config_toleration list \<Rightarrow> toleration list" where
  "ToK8sTolerations ts = map (\<lambda>t.
     \<lparr>tol_key = str_or_empty (ct_key t), tol_operator = str_or_empty (ct_operator t),
      tol_value = str_or_empty (ct_value t), tol_effect = str_or_empty (ct_effect t),
      tol_seconds = ct_seconds t\<rparr>) ts"

fun last_update :: "int option list \<Rightarrow> int option \<Rightarrow> int option" where
  "last_update [] latest = latest"
| "last_update (None # fs) latest = last_update fs latest"
| "last_update (Some t # fs) latest =
     (case latest of
        None \<Rightarrow> last_update fs (Some t)
      | Some l \<Rightarrow> if l < t then last_update fs (Some t) else last_update fs latest)"

definition GetLastUpdateTime :: "obj_meta \<Rightarrow> int option" where
  "GetLastUpdateTime m = last_update (m_managedFields m) None"

definition ConvertToProtoTimestamp :: "int \<Rightarrow> int option" where
  "ConvertToProtoTimestamp t = (if t = 0 then None else Some t)"

subsection \<open>Label selectors\<close>

definition matches :: "(string \<times> string) list \<Rightarrow> obj_meta \<Rightarrow> bool" where
  "matches sel m = list_all (\<lambda>(k, v). m_labels m k = Some v) sel"

definition managed_selector :: "(string \<times> string) list" where
  "managed_selector = [(K8sManagedByLabel, KubeNfvName)]"

subsection \<open>Lemmas\<close>

lemma obj_kind_set_meta [simp]: "obj_kind (set_meta m ob) = obj_kind ob"
  by (cases ob) simp_all

lemma obj_meta_of_set_meta [simp]: "obj_meta_of (set_meta m ob) = m"
  by (cases ob) simp_all

lemma set_meta_obj_meta_of [simp]: "set_meta (obj_meta_of ob) ob = ob"
  by (cases ob) simp_all

lemma matches_managed [simp]: "matches managed_selector m = IsObjectManagedByKubeNfv m"
  by (auto simp: matches_def managed_selector_def IsObjectManagedByKubeNfv_def split: option.splits)

lemma network_labels_distinct:
  "distinct [K8sManagedByLabel, K8sNetworkNameLabel, K8sNetworkIdLabel, K8sNetworkTypeLabel,
     K8sNetworkNetAttachNameLabel, K8sSubnetNameLabel, K8sSubnetNetAttachNameLabel]"
  by (simp add: network_label_defs)

lemma flavour_labels_distinct:
  "distinct [K8sManagedByLabel, K8sFlavourIdLabel, K8sFlavourSourceLabel, K8sVolumesAnnotation,
     K8sFlavourAttNameAnnotation, K8sImageIdLabel]"
  by (simp add: flavour_label_defs)

lemma network_label_neqs [simp]:
  "K8sManagedByLabel \<noteq> K8sNetworkNameLabel" "K8sNetworkNameLabel \<noteq> K8sManagedByLabel"
  "K8sManagedByLabel \<noteq> K8sNetworkIdLabel" "K8sNetworkIdLabel \<noteq> K8sManagedByLabel"
  "K8sManagedByLabel \<noteq> K8sNetworkTypeLabel" "K8sNetworkTypeLabel \<noteq> K8sManagedByLabel"
  "K8sManagedByLabel \<noteq> K8sSubnetNameLabel" "K8sSubnetNameLabel \<noteq> K8sManagedByLabel"
  "K8sManagedByLabel \<noteq> K8sSubnetNetAttachNameLabel" "K8sSubnetNetAttachNameLabel \<noteq> K8sManagedByLabel"
  "K8sNetworkNameLabel \<noteq> K8sNetworkIdLabel" "K8sNetworkIdLabel \<noteq> K8sNetworkNameLabel"
  "K8sNetworkNameLabel \<noteq> K8sNetworkTypeLabel" "K8sNetworkTypeLabel \<noteq> K8sNetworkNameLabel"
  "K8sNetworkNameLabel \<noteq> K8sSubnetNameLabel" "K8sSubnetNameLabel \<noteq> K8sNetworkNameLabel"
  "K8sNetworkNameLabel \<noteq> K8sSubnetNetAttachNameLabel" "K8sSubnetNetAttachNameLabel \<noteq> K8sNetworkNameLabel"
  "K8sNetworkIdLabel \<noteq> K8sNetworkTypeLabel" "K8sNetworkTypeLabel \<noteq> K8sNetworkIdLabel"
  "K8sNetworkIdLabel \<noteq> K8sSubnetNameLabel" "K8sSubnetNameLabel \<noteq> K8sNetworkIdLabel"
  "K8sNetworkIdLabel \<noteq> K8sSubnetNetAttachNameLabel" "K8sSubnetNetAttachNameLabel \<noteq> K8sNetworkIdLabel"
  "K8sNetworkTypeLabel \<noteq> K8sSubnetNameLabel" "K8sSubnetNameLabel \<noteq> K8sNetworkTypeLabel"
  "K8sNetworkTypeLabel \<noteq> K8sSubnetNetAttachNameLabel" "K8sSubnetNetAttachNameLabel \<noteq> K8sNetworkTypeLabel"
  "K8sSubnetNameLabel \<noteq> K8sSubnetNetAttachNameLabel" "K8sSubnetNetAttachNameLabel \<noteq> K8sSubnetNameLabel"
  using network_labels_distinct by auto

lemma flavour_label_neqs [simp]:
  "K8sManagedByLabel \<noteq> K8sFlavourIdLabel" "K8sFlavourIdLabel \<noteq> K8sManagedByLabel"
  "K8sManagedByLabel \<noteq> K8sImageIdLabel" "K8sImageIdLabel \<noteq> K8sManagedByLabel"
  "K8sFlavourIdLabel \<noteq> K8sImageIdLabel" "K8sImageIdLabel \<noteq> K8sFlavourIdLabel"
  "K8sVolumesAnnotation \<noteq> K8sFlavourAttNameAnnotation" "K8sFlavourAttNameAnnotation \<noteq> K8sVolumesAnnotation"
  "K8sFlavourSourceLabel \<noteq> K8sFlavourAttNameAnnotation" "K8sFlavourAttNameAnnotation \<noteq> K8sFlavourSourceLabel"
  using flavour_labels_distinct by auto

lemma merge_required_eq:
  "distinct (map fst required) \<Longrightarrow>
   merge_required required (changed, merged) =
     (changed \<or> \<not> map_of required \<subseteq>\<^sub>m merged, merged ++ map_of required)"
proof (induction required arbitrary: changed merged)
  case Nil
  then show ?case by simp
next
  case (Cons p required)
  obtain k v where p: "p = (k, v)" by force
  have fresh: "map_of required k = None"
    using Cons.prems p by (simp add: map_of_eq_None_iff)
  have dist: "distinct (map fst required)" using Cons.prems by simp
  show ?case
  proof (cases "merged k = Some v")
    case True
    have step: "merge_required ((k, v) # required) (changed, merged) =
        merge_required required (changed, merged)"
      using True by simp
    have sum: "merged ++ map_of ((k, v) # required) = merged ++ map_of required"
      using True fresh by (auto simp: fun_eq_iff map_add_def split: option.splits)
    have le: "map_of ((k, v) # required) \<subseteq>\<^sub>m merged \<longleftrightarrow> map_of required \<subseteq>\<^sub>m merged"
      unfolding map_le_def dom_def using True fresh
      by (simp add: Ball_def) (metis option.distinct(1))
    show ?thesis by (simp only: p step sum le Cons.IH [OF dist])
  next
    case False
    have step: "merge_required ((k, v) # required) (changed, merged) =
        merge_required required (True, merged(k \<mapsto> v))"
      using False by (simp split: option.splits)
    have sum: "merged(k \<mapsto> v) ++ map_of required = merged ++ map_of ((k, v) # required)"
      using fresh by (auto simp: fun_eq_iff map_add_def split: option.splits)
    have notle: "\<not> map_of ((k, v) # required) \<subseteq>\<^sub>m merged"
      using False by (auto simp: map_le_def dom_def)
    show ?thesis by (simp only: p step sum notle Cons.IH [OF dist] simp_thms)
  qed
qed

lemma last_update_None:
  "last_update fs latest = None \<longleftrightarrow> latest = None \<and> set fs \<subseteq> {None}"
  by (induction fs latest rule: last_update.induct) (auto split: option.splits)

lemma last_update_ge:
  "last_update fs latest = Some u \<Longrightarrow>
   (\<forall>t. Some t \<in> set fs \<longrightarrow> t \<le> u) \<and> (\<forall>l. latest = Some l \<longrightarrow> l \<le> u)
   \<and> (Some u \<in> set fs \<or> latest = Some u)"
  by (induction fs latest rule: last_update.induct) (force split: option.splits if_splits)+

subsection \<open>Properties\<close>

text \<open>\<open>MergeLabels\<close> does not depend on the order in which Go ranges over the required map:
  for every enumeration of its entries the merged map is the current map overridden by the
  required one, and the change flag is raised exactly when some required entry is missing or
  different. The current map is not lost: a key outside the required set keeps its value.\<close>

theorem MergeLabels_correct:
  assumes "distinct (map fst required)"
  shows "MergeLabels current required =
    (\<not> map_of required \<subseteq>\<^sub>m current, current ++ map_of required)"
  using assms by (simp add: MergeLabels_def merge_required_eq)

theorem MergeLabels_correct_witness:
  "distinct (map fst [(''a'', ''1''), (''b'', ''2'')]) \<and>
   MergeLabels [''a'' \<mapsto> ''0'', ''c'' \<mapsto> ''3''] [(''a'', ''1''), (''b'', ''2'')] =
     (\<not> map_of [(''a'', ''1''), (''b'', ''2'')] \<subseteq>\<^sub>m [''a'' \<mapsto> ''0'', ''c'' \<mapsto> ''3''],
      [''a'' \<mapsto> ''0'', ''c'' \<mapsto> ''3''] ++ map_of [(''a'', ''1''), (''b'', ''2'')])"
  using MergeLabels_correct [of "[(''a'', ''1''), (''b'', ''2'')]" "[''a'' \<mapsto> ''0'', ''c'' \<mapsto> ''3'']"]
  by simp

text \<open>Label reconciliation is idempotent: merging the same required labels into the merged
  map reports no change and returns it unchanged, so a second startup writes nothing.\<close>

theorem MergeLabels_idempotent:
  assumes "distinct (map fst required)"
  shows "MergeLabels (snd (MergeLabels current required)) required =
    (False, snd (MergeLabels current required))"
proof -
  have "map_of required \<subseteq>\<^sub>m current ++ map_of required"
    by (auto simp: map_le_def map_add_dom_app_simps)
  moreover have "(current ++ map_of required) ++ map_of required = current ++ map_of required"
    by (metis map_add_assoc map_add_subsumed2 map_le_refl)
  ultimately show ?thesis
    using assms by (simp add: MergeLabels_def merge_required_eq)
qed

theorem MergeLabels_idempotent_witness:
  "distinct (map fst [(''a'', ''1'')]) \<and>
   MergeLabels (snd (MergeLabels [''b'' \<mapsto> ''2''] [(''a'', ''1'')])) [(''a'', ''1'')] =
     (False, snd (MergeLabels [''b'' \<mapsto> ''2''] [(''a'', ''1'')]))"
  using MergeLabels_idempotent [of "[(''a'', ''1'')]" "[''b'' \<mapsto> ''2'']"] by simp

end
