(* ===== verification/K8s_Client.thy ===== *)
theory K8s_Client
  imports K8s_Objects
begin

text \<open>
  The Kubernetes client (\<open>sigs.k8s.io/controller-runtime/pkg/client\<close>) that the managers are
  constructed with. It is not part of the program, so it is a parameter: a record of operations
  over an unspecified cluster state, each free to fail and to change the state, so that other
  actors, a lagging cache and a failing API server are all instances. The locale \<open>api_server\<close>
  names the documented behaviour of an API server that serves one caller without faults:
  optimistic create, get after create, list by label, delete, stamping of the metadata. An
  in-memory server, the counterpart of the fake client of \<open>internal/k8s/k8stest\<close>, interprets it.
\<close>

subsection \<open>The client\<close>

datatype api_error = ApiStatus api_reason string | ApiFailure string

fun api_to_error :: "api_error \<Rightarrow> error" where
  "api_to_error (ApiStatus r m) = K8sError r m"
| "api_to_error (ApiFailure m) = Plain m"

type_synonym selector = "(string \<times> string) list"
type_synonym okey = "kind \<times> string \<times> string"

record 's client =
  c_Get :: "kind \<Rightarrow> string \<Rightarrow> string \<Rightarrow> 's \<Rightarrow> (api_error + k8s_object) \<times> 's"
  c_List :: "kind \<Rightarrow> string option \<Rightarrow> selector \<Rightarrow> 's \<Rightarrow> (api_error + k8s_object list) \<times> 's"
  c_Create :: "k8s_object \<Rightarrow> 's \<Rightarrow> (api_error + k8s_object) \<times> 's"
  c_Update :: "k8s_object \<Rightarrow> 's \<Rightarrow> (api_error + k8s_object) \<times> 's"
  c_Patch :: "k8s_object \<Rightarrow> k8s_object \<Rightarrow> 's \<Rightarrow> (api_error + k8s_object) \<times> 's"
  c_Delete :: "kind \<Rightarrow> string \<Rightarrow> string \<Rightarrow> 's \<Rightarrow> (api_error + unit) \<times> 's"
  c_DeleteAllOf :: "kind \<Rightarrow> string option \<Rightarrow> selector \<Rightarrow> 's \<Rightarrow> (api_error + unit) \<times> 's"

definition call :: "('s \<Rightarrow> (api_error + 'a) \<times> 's) \<Rightarrow> ('s, error, 'a) act" where
  "call f s = (case f s of
      (Inr x, s') \<Rightarrow> (Ok x, s')
    | (Inl e, s') \<Rightarrow> (Err (api_to_error e), s'))"

text \<open>The calls on a typed object: the response is decoded into the struct passed by pointer.\<close>

definition decode :: "'o kind_info \<Rightarrow> k8s_object \<Rightarrow> ('s, error, 'o) act" where
  "decode K ob = (case ki_decode K ob of Some x \<Rightarrow> ret x | None \<Rightarrow> throw (Plain ''decode object''))"

definition k8s_get :: "'s client \<Rightarrow> 'o kind_info \<Rightarrow> string \<Rightarrow> string \<Rightarrow> ('s, error, 'o) act" where
  "k8s_get cl K ns n = and_then (call (c_Get cl (ki_kind K) ns n)) (decode K)"

definition k8s_list ::
  "'s client \<Rightarrow> 'o kind_info \<Rightarrow> string option \<Rightarrow> selector \<Rightarrow> ('s, error, 'o list) act" where
  "k8s_list cl K ns sel = and_then (call (c_List cl (ki_kind K) ns sel)) (for_each (decode K))"

definition k8s_create :: "'s client \<Rightarrow> 'o kind_info \<Rightarrow> 'o \<Rightarrow> ('s, error, 'o) act" where
  "k8s_create cl K x = and_then (call (c_Create cl (ki_obj K x))) (decode K)"

definition k8s_update :: "'s client \<Rightarrow> 'o kind_info \<Rightarrow> 'o \<Rightarrow> ('s, error, 'o) act" where
  "k8s_update cl K x = and_then (call (c_Update cl (ki_obj K x))) (decode K)"

definition k8s_patch :: "'s client \<Rightarrow> 'o kind_info \<Rightarrow> 'o \<Rightarrow> 'o \<Rightarrow> ('s, error, 'o) act" where
  "k8s_patch cl K base x = and_then (call (c_Patch cl (ki_obj K base) (ki_obj K x))) (decode K)"

definition k8s_delete :: "'s client \<Rightarrow> 'o kind_info \<Rightarrow> string \<Rightarrow> string \<Rightarrow> ('s, error, unit) act" where
  "k8s_delete cl K ns n = call (c_Delete cl (ki_kind K) ns n)"

definition k8s_delete_all ::
  "'s client \<Rightarrow> 'o kind_info \<Rightarrow> string option \<Rightarrow> selector \<Rightarrow> ('s, error, unit) act" where
  "k8s_delete_all cl K ns sel = call (c_DeleteAllOf cl (ki_kind K) ns sel)"

subsection \<open>Facts that hold for every client\<close>

lemma preserves_call:
  assumes "\<And>s r t. P s \<Longrightarrow> f s = (r, t) \<Longrightarrow> P t"
  shows "preserves P (call f)"
  using assms by (auto simp: preserves_def call_def split: prod.splits sum.splits)

lemma preserves_decode [preserves_intros]: "preserves P (decode K ob)"
  by (auto simp: decode_def intro: preserves_intros split: option.splits)

definition api_leaf :: "error \<Rightarrow> bool" where
  "api_leaf e \<longleftrightarrow> (\<exists>r m. e = K8sError r m) \<or> (\<exists>m. e = Plain m)"

lemma api_leaf_root [simp]: "api_leaf e \<Longrightarrow> root e = e"
  by (auto simp: api_leaf_def)

lemma api_leaf_not_ErrNotFound [simp]: "api_leaf e \<Longrightarrow> \<not> is_ErrNotFound e"
  by (auto simp: api_leaf_def)

lemma meets_call_any:
  assumes "\<And>x t. Q x t" and "\<And>e t. api_leaf e \<Longrightarrow> E e t"
  shows "meets (call f) s Q E"
proof -
  have leaf: "api_leaf (api_to_error e)" for e by (cases e) (auto simp: api_leaf_def)
  show ?thesis
    using assms leaf by (auto simp: meets_def call_def split: prod.splits sum.splits)
qed

lemma meets_decode_any:
  assumes "\<And>x t. Q x t" and "\<And>e t. api_leaf e \<Longrightarrow> E e t"
  shows "meets (decode K ob) s Q E"
  using assms by (auto simp: meets_def decode_def act_simps api_leaf_def split: option.splits)

lemma meets_typed_any:
  assumes "\<And>x t. Q x t" and "\<And>e t. api_leaf e \<Longrightarrow> E e t"
  shows "meets (k8s_get cl K ns n) s Q E" "meets (k8s_create cl K x) s Q E"
    "meets (k8s_update cl K x) s Q E" "meets (k8s_patch cl K base x) s Q E"
  unfolding k8s_get_def k8s_create_def k8s_update_def k8s_patch_def
  using assms by (auto intro!: meets_and_then meets_call_any meets_decode_any)

lemma meets_delete_any:
  assumes "\<And>x t. Q x t" and "\<And>e t. api_leaf e \<Longrightarrow> E e t"
  shows "meets (k8s_delete cl K ns n) s Q E" "meets (k8s_delete_all cl K nso sel) s Q E"
  unfolding k8s_delete_def k8s_delete_all_def using assms by (auto intro!: meets_call_any)

lemma meets_list_any:
  fixes cl :: "'s client" and s :: 's
  assumes "\<And>x t. Q x t" and "\<And>e t. api_leaf e \<Longrightarrow> E e t"
  shows "meets (k8s_list cl K nso sel) s Q E"
  unfolding k8s_list_def
proof (intro meets_and_then meets_call_any)
  fix obs and t :: 's
  have "meets (for_each (decode K) obs) t
      (\<lambda>ys u. (\<forall>y\<in>set ys. True) \<and> length ys = length obs \<and> True) (\<lambda>e _. api_leaf e)"
    by (rule meets_for_each) (auto intro: meets_decode_any)
  then show "meets (for_each (decode K) obs) t Q E"
    by (rule meets_weaken) (auto intro: assms)
qed (rule assms(2))

lemmas meets_any = meets_typed_any meets_delete_any meets_list_any

subsection \<open>Kinds\<close>

definition obj_key :: "k8s_object \<Rightarrow> okey" where
  "obj_key ob = (obj_kind ob, m_namespace (obj_meta_of ob), m_name (obj_meta_of ob))"

definition wf_kind :: "'o kind_info \<Rightarrow> bool" where
  "wf_kind K \<longleftrightarrow> (\<forall>x. obj_kind (ki_obj K x) = ki_kind K)
     \<and> (\<forall>ob. obj_kind ob = ki_kind K \<longrightarrow> (\<exists>x. ob = ki_obj K x))
     \<and> (\<forall>x. ki_decode K (ki_obj K x) = Some x)"

lemma wf_kinds [simp]:
  "wf_kind vpc_k" "wf_kind vlan_k" "wf_kind subnet_k" "wf_kind nad_k" "wf_kind vm_k"
  "wf_kind vmi_k" "wf_kind inst_type_k" "wf_kind inst_pref_k" "wf_kind vis_k" "wf_kind dv_k"
  "wf_kind secret_k" "wf_kind pod_k" "wf_kind storage_class_k"
  by (simp_all add: wf_kind_def kind_info_defs, (rule allI, rename_tac ob, case_tac ob; simp)+)

lemma decode_obj [simp]: "wf_kind K \<Longrightarrow> decode K (ki_obj K x) = ret x"
  by (simp add: decode_def wf_kind_def)

lemma decode_objs [simp]: "wf_kind K \<Longrightarrow> for_each (decode K) (map (ki_obj K) xs) = ret xs"
  by (induction xs) simp_all

subsection \<open>A server without faults\<close>

text \<open>What a server adds to an object on creation, and on a patch.\<close>

definition created :: "k8s_object \<Rightarrow> k8s_object \<Rightarrow> bool" where
  "created ob ob' \<longleftrightarrow> (\<exists>u v t f. u \<noteq> '''' \<and> v \<noteq> '''' \<and> t \<noteq> 0 \<and>
     ob' = set_meta ((obj_meta_of ob)\<lparr>m_uid := u, m_resourceVersion := v,
       m_creationTimestamp := t, m_managedFields := f\<rparr>) ob)"

definition patched :: "k8s_object \<Rightarrow> k8s_object \<Rightarrow> bool" where
  "patched ob ob' \<longleftrightarrow> (\<exists>v f. v \<noteq> '''' \<and>
     ob' = set_meta ((obj_meta_of ob)\<lparr>m_resourceVersion := v, m_managedFields := f\<rparr>) ob)"

text \<open>An update without a resource version replaces the object and keeps its identity.\<close>

definition updated :: "k8s_object \<Rightarrow> k8s_object \<Rightarrow> k8s_object \<Rightarrow> bool" where
  "updated old ob ob' \<longleftrightarrow> (\<exists>v f. v \<noteq> [] \<and>
     ob' = set_meta ((obj_meta_of ob)\<lparr>m_uid := m_uid (obj_meta_of old), m_resourceVersion := v,
       m_creationTimestamp := m_creationTimestamp (obj_meta_of old), m_managedFields := f\<rparr>) ob)"

definition same_identity :: "k8s_object \<Rightarrow> k8s_object \<Rightarrow> bool" where
  "same_identity ob ob' \<longleftrightarrow> obj_key ob = obj_key ob'
     \<and> m_uid (obj_meta_of ob) = m_uid (obj_meta_of ob')
     \<and> m_creationTimestamp (obj_meta_of ob) = m_creationTimestamp (obj_meta_of ob')"

lemma created_kind:
  "created (ki_obj K x) ob' \<or> patched (ki_obj K x) ob' \<Longrightarrow> wf_kind K \<Longrightarrow> \<exists>y. ob' = ki_obj K y"
  by (auto simp: created_def patched_def wf_kind_def)

locale api_server =
  fixes cl :: "'s client"
    and view :: "'s \<Rightarrow> okey \<Rightarrow> k8s_object option"
    and inv :: "'s \<Rightarrow> bool"
  assumes view_key: "inv s \<Longrightarrow> view s key = Some ob \<Longrightarrow> obj_key ob = key"
    and view_instantiated: "inv s \<Longrightarrow> view s key = Some ob \<Longrightarrow> IsObjectInstantiated (obj_meta_of ob)"
    and uid_unique: "inv s \<Longrightarrow> view s key = Some ob \<Longrightarrow> view s key' = Some ob' \<Longrightarrow>
      m_uid (obj_meta_of ob) = m_uid (obj_meta_of ob') \<Longrightarrow> key = key'"
    and get_law: "inv s \<Longrightarrow> c_Get cl k ns n s = (r, s') \<Longrightarrow> inv s' \<and> view s' = view s \<and>
      (case view s (k, ns, n) of
         Some ob \<Rightarrow> r = Inr ob
       | None \<Rightarrow> (\<exists>m. r = Inl (ApiStatus ReasonNotFound m)))"
    and list_law: "inv s \<Longrightarrow> c_List cl k nso sel s = (rs, s') \<Longrightarrow> inv s' \<and> view s' = view s \<and>
      (\<exists>obs. rs = Inr obs \<and> distinct obs \<and>
        set obs = {ob. \<exists>ns n. view s (k, ns, n) = Some ob \<and> (nso = None \<or> nso = Some ns)
          \<and> matches sel (obj_meta_of ob)})"
    and create_law: "inv s \<Longrightarrow> c_Create cl ob s = (r, s') \<Longrightarrow> inv s' \<and>
      (if view s (obj_key ob) = None
       then \<exists>ob'. r = Inr ob' \<and> created ob ob' \<and> view s' = (view s)(obj_key ob \<mapsto> ob')
       else (\<exists>m. r = Inl (ApiStatus ReasonAlreadyExists m)) \<and> view s' = view s)"
    and patch_law: "inv s \<Longrightarrow> view s (obj_key base) = Some base \<Longrightarrow> same_identity base ob \<Longrightarrow>
      c_Patch cl base ob s = (r, s') \<Longrightarrow> inv s' \<and>
      (\<exists>ob'. r = Inr ob' \<and> patched ob ob' \<and> view s' = (view s)(obj_key ob \<mapsto> ob'))"
    and update_law: "inv s \<Longrightarrow> m_resourceVersion (obj_meta_of ob) = [] \<Longrightarrow> c_Update cl ob s = (r, s') \<Longrightarrow> inv s' \<and>
      (case view s (obj_key ob) of
         None \<Rightarrow> (\<exists>m. r = Inl (ApiStatus ReasonNotFound m)) \<and> view s' = view s
       | Some old \<Rightarrow> (\<exists>ob'. r = Inr ob' \<and> updated old ob ob' \<and> view s' = (view s)(obj_key ob \<mapsto> ob')))"
    and delete_law: "inv s \<Longrightarrow> c_Delete cl k ns n s = (ru, s') \<Longrightarrow> inv s' \<and>
      (if view s (k, ns, n) = None
       then (\<exists>m. ru = Inl (ApiStatus ReasonNotFound m)) \<and> view s' = view s
       else ru = Inr () \<and> view s' = (view s)((k, ns, n) := None))"
    and delete_all_law: "inv s \<Longrightarrow> c_DeleteAllOf cl k nso sel s = (ru, s') \<Longrightarrow> inv s' \<and> ru = Inr () \<and>
      (\<forall>key. view s' key = (case view s key of
         Some ob \<Rightarrow> if fst key = k \<and> (nso = None \<or> nso = Some (fst (snd key)))
             \<and> matches sel (obj_meta_of ob) then None else Some ob
       | None \<Rightarrow> None))"
begin

lemma view_kind:
  assumes "inv s" and "view s (ki_kind K, ns, n) = Some ob" and "wf_kind K"
  obtains x where "ob = ki_obj K x"
  using view_key [OF assms(1,2)] assms(3) that by (auto simp: obj_key_def wf_kind_def)

lemma meets_get:
  assumes s: "inv s" and K: "wf_kind K"
    and ok: "\<And>x t. inv t \<Longrightarrow> view t = view s \<Longrightarrow> view s (ki_kind K, ns, n) = Some (ki_obj K x) \<Longrightarrow> Q x t"
    and nf: "\<And>m t. inv t \<Longrightarrow> view t = view s \<Longrightarrow> view s (ki_kind K, ns, n) = None \<Longrightarrow>
      E (K8sError ReasonNotFound m) t"
  shows "meets (k8s_get cl K ns n) s Q E"
proof -
  obtain r t where run: "c_Get cl (ki_kind K) ns n s = (r, t)" by force
  note law = get_law [OF s run]
  show ?thesis
  proof (cases "view s (ki_kind K, ns, n)")
    case None
    then show ?thesis
      using law run nf by (auto simp: meets_def k8s_get_def run_and_then call_def)
  next
    case (Some ob)
    then obtain x where "ob = ki_obj K x" using view_kind [OF s _ K] by blast
    then show ?thesis
      using law run ok [of t x] Some K
      by (auto simp: meets_def k8s_get_def run_and_then call_def act_simps)
  qed
qed

lemma meets_list:
  assumes s: "inv s" and K: "wf_kind K"
    and ok: "\<And>xs t. inv t \<Longrightarrow> view t = view s \<Longrightarrow> distinct xs \<Longrightarrow>
      (\<And>x. x \<in> set xs \<longleftrightarrow> (\<exists>ns n. view s (ki_kind K, ns, n) = Some (ki_obj K x) \<and>
        (nso = None \<or> nso = Some ns) \<and> matches sel (obj_meta_of (ki_obj K x)))) \<Longrightarrow> Q xs t"
  shows "meets (k8s_list cl K nso sel) s Q E"
proof -
  obtain r t where run: "c_List cl (ki_kind K) nso sel s = (r, t)" by force
  from list_law [OF s run] obtain obs where r: "r = Inr obs" and dist: "distinct obs"
    and obs: "set obs = {ob. \<exists>ns n. view s (ki_kind K, ns, n) = Some ob \<and>
        (nso = None \<or> nso = Some ns) \<and> matches sel (obj_meta_of ob)}"
    and t: "inv t" "view t = view s" by auto
  have inj: "ki_obj K x = ki_obj K y \<Longrightarrow> x = y" for x y
    using K by (metis option.inject wf_kind_def)
  have "\<forall>ob\<in>set obs. \<exists>x. ob = ki_obj K x"
    using obs view_kind [OF s _ K] by (auto; metis)
  then obtain xs where xs: "obs = map (ki_obj K) xs"
    by (metis ex_map_conv)
  have "distinct xs" using dist xs by (simp add: distinct_map)
  moreover have "x \<in> set xs \<longleftrightarrow> ki_obj K x \<in> set obs" for x
    using xs inj by (auto simp: image_iff)
  ultimately have "Q xs t" using ok [of t xs] t obs by simp
  then show ?thesis
    using run r xs K by (auto simp: meets_def k8s_list_def run_and_then call_def act_simps)
qed

lemma meets_create:
  assumes s: "inv s" and K: "wf_kind K"
    and ok: "\<And>y t. inv t \<Longrightarrow> view s (obj_key (ki_obj K x)) = None \<Longrightarrow>
      created (ki_obj K x) (ki_obj K y) \<Longrightarrow>
      view t = (view s)(obj_key (ki_obj K x) \<mapsto> ki_obj K y) \<Longrightarrow> Q y t"
    and ex: "\<And>m t ob. inv t \<Longrightarrow> view t = view s \<Longrightarrow> view s (obj_key (ki_obj K x)) = Some ob \<Longrightarrow>
      E (K8sError ReasonAlreadyExists m) t"
  shows "meets (k8s_create cl K x) s Q E"
proof -
  obtain r t where run: "c_Create cl (ki_obj K x) s = (r, t)" by force
  note law = create_law [OF s run]
  show ?thesis
  proof (cases "view s (obj_key (ki_obj K x))")
    case None
    with law obtain ob' where ob': "r = Inr ob'" "created (ki_obj K x) ob'" "inv t"
      "view t = (view s)(obj_key (ki_obj K x) \<mapsto> ob')" by auto
    then obtain y where "ob' = ki_obj K y" using created_kind [OF _ K] by metis
    then show ?thesis
      using ob' run ok [of t y] None K
      by (auto simp: meets_def k8s_create_def run_and_then call_def act_simps)
  next
    case (Some ob)
    then show ?thesis
      using law run ex by (auto simp: meets_def k8s_create_def run_and_then call_def)
  qed
qed

lemma meets_patch:
  assumes s: "inv s" and K: "wf_kind K" and base: "view s (obj_key (ki_obj K b)) = Some (ki_obj K b)"
    and same: "same_identity (ki_obj K b) (ki_obj K x)"
    and ok: "\<And>y t. inv t \<Longrightarrow> patched (ki_obj K x) (ki_obj K y) \<Longrightarrow>
      view t = (view s)(obj_key (ki_obj K x) \<mapsto> ki_obj K y) \<Longrightarrow> Q y t"
  shows "meets (k8s_patch cl K b x) s Q E"
proof -
  obtain r t where run: "c_Patch cl (ki_obj K b) (ki_obj K x) s = (r, t)" by force
  from patch_law [OF s base same run] obtain ob' where ob': "r = Inr ob'" "patched (ki_obj K x) ob'"
    "inv t" "view t = (view s)(obj_key (ki_obj K x) \<mapsto> ob')" by auto
  then obtain y where "ob' = ki_obj K y" using created_kind [OF _ K] by metis
  then show ?thesis
    using ob' run ok [of t y] K
    by (auto simp: meets_def k8s_patch_def run_and_then call_def act_simps)
qed

lemma updated_kind: "updated old (ki_obj K x) ob' \<Longrightarrow> wf_kind K \<Longrightarrow> \<exists>y. ob' = ki_obj K y"
  by (auto simp: updated_def wf_kind_def)

lemma meets_update:
  assumes s: "inv s" and K: "wf_kind K" and rv: "m_resourceVersion (obj_meta_of (ki_obj K x)) = []"
    and ok: "\<And>old y t. inv t \<Longrightarrow> view s (obj_key (ki_obj K x)) = Some old \<Longrightarrow> updated old (ki_obj K x) (ki_obj K y) \<Longrightarrow>
      view t = (view s)(obj_key (ki_obj K x) \<mapsto> ki_obj K y) \<Longrightarrow> Q y t"
    and nf: "\<And>m t. inv t \<Longrightarrow> view t = view s \<Longrightarrow> view s (obj_key (ki_obj K x)) = None \<Longrightarrow>
      E (K8sError ReasonNotFound m) t"
  shows "meets (k8s_update cl K x) s Q E"
proof -
  obtain r t where run: "c_Update cl (ki_obj K x) s = (r, t)" by force
  note law = update_law [OF s rv run]
  show ?thesis
  proof (cases "view s (obj_key (ki_obj K x))")
    case None
    then show ?thesis using law run nf by (auto simp: meets_def k8s_update_def run_and_then call_def)
  next
    case (Some old)
    with law obtain ob' where ob': "r = Inr ob'" "updated old (ki_obj K x) ob'" "inv t"
      "view t = (view s)(obj_key (ki_obj K x) \<mapsto> ob')" by auto
    then obtain y where "ob' = ki_obj K y" using updated_kind [OF _ K] by metis
    then show ?thesis
      using ob' run ok [of t old y] Some K by (auto simp: meets_def k8s_update_def run_and_then call_def act_simps)
  qed
qed

lemma meets_delete:
  assumes s: "inv s"
    and ok: "\<And>t ob. inv t \<Longrightarrow> view s (ki_kind K, ns, n) = Some ob \<Longrightarrow>
      view t = (view s)((ki_kind K, ns, n) := None) \<Longrightarrow> Q () t"
    and nf: "\<And>m t. inv t \<Longrightarrow> view t = view s \<Longrightarrow> view s (ki_kind K, ns, n) = None \<Longrightarrow>
      E (K8sError ReasonNotFound m) t"
  shows "meets (k8s_delete cl K ns n) s Q E"
proof -
  obtain r t where run: "c_Delete cl (ki_kind K) ns n s = (r, t)" by force
  show ?thesis
    using delete_law [OF s run] run ok nf
    by (cases "view s (ki_kind K, ns, n)") (auto simp: meets_def k8s_delete_def call_def)
qed

text \<open>The lookup of an object by its uid in a list: a stored object in the scope of the list is the one
  that is found.\<close>

lemma meets_list_find:
  assumes s: "inv s" and K: "wf_kind K" and v: "view s (ki_kind K, ns, n) = Some (ki_obj K x)"
    and scope: "nso = None \<or> nso = Some ns" and sel: "matches sel (obj_meta_of (ki_obj K x))"
    and P: "\<And>y. P y \<longleftrightarrow> m_uid (obj_meta_of (ki_obj K y)) = m_uid (obj_meta_of (ki_obj K x))"
    and ok: "\<And>xs t. inv t \<Longrightarrow> view t = view s \<Longrightarrow> find P xs = Some x \<Longrightarrow> Q xs t"
  shows "meets (k8s_list cl K nso sel) s Q E"
proof (rule meets_list [OF s K])
  fix xs t
  assume t: "inv t" "view t = view s"
    and xs: "\<And>x. x \<in> set xs \<longleftrightarrow> (\<exists>ns n. view s (ki_kind K, ns, n) = Some (ki_obj K x) \<and>
        (nso = None \<or> nso = Some ns) \<and> matches sel (obj_meta_of (ki_obj K x)))"
  have "x \<in> set xs" using xs v scope sel by blast
  moreover have "y = x" if y: "y \<in> set xs" and same: "P y" for y
  proof -
    obtain ns' n' where "view s (ki_kind K, ns', n') = Some (ki_obj K y)" using y xs [of y] by auto
    moreover from this have "(ki_kind K, ns', n') = (ki_kind K, ns, n)"
      using uid_unique [OF s _ v] same P [of y] by blast
    ultimately have "ki_obj K y = ki_obj K x" using v by simp
    then show ?thesis using K by (metis option.inject wf_kind_def)
  qed
  ultimately have "find P xs = Some x" by (intro find_unique) (simp_all add: P)
  then show "Q xs t" by (rule ok [OF t])
qed

text \<open>The reads of a run that went on.\<close>

lemma list_Ok:
  assumes "inv s" and "wf_kind K" and "k8s_list cl K nso sel s = (Ok xs, t)"
  shows "inv t" "view t = view s" "distinct xs"
    "x \<in> set xs \<longleftrightarrow> (\<exists>ns n. view s (ki_kind K, ns, n) = Some (ki_obj K x) \<and>
        (nso = None \<or> nso = Some ns) \<and> matches sel (obj_meta_of (ki_obj K x)))"
proof -
  have "inv t \<and> view t = view s \<and> distinct xs \<and> (\<forall>x. x \<in> set xs \<longleftrightarrow> (\<exists>ns n. view s (ki_kind K, ns, n) = Some (ki_obj K x) \<and>
        (nso = None \<or> nso = Some ns) \<and> matches sel (obj_meta_of (ki_obj K x))))"
    by (rule meets_Ok [OF meets_list [OF assms(1,2), where E = "\<lambda>_ _. True"] assms(3)]) blast
  then show "inv t" "view t = view s" "distinct xs" "x \<in> set xs \<longleftrightarrow> (\<exists>ns n. view s (ki_kind K, ns, n) = Some (ki_obj K x) \<and>
        (nso = None \<or> nso = Some ns) \<and> matches sel (obj_meta_of (ki_obj K x)))" by blast+
qed

lemma get_Ok:
  assumes "inv s" and "wf_kind K" and "k8s_get cl K ns n s = (Ok x, t)"
  shows "inv t" "view t = view s" "view s (ki_kind K, ns, n) = Some (ki_obj K x)"
proof -
  have "inv t \<and> view t = view s \<and> view s (ki_kind K, ns, n) = Some (ki_obj K x)"
    by (rule meets_Ok [OF meets_get [OF assms(1,2), where E = "\<lambda>_ _. True"] assms(3)]) auto
  then show "inv t" "view t = view s" "view s (ki_kind K, ns, n) = Some (ki_obj K x)" by blast+
qed

text \<open>Reads leave every property of the stored objects alone.\<close>

lemma preserves_reads [preserves_intros]:
  "preserves (\<lambda>t. inv t \<and> P (view t)) (k8s_get cl K ns n)"
  "preserves (\<lambda>t. inv t \<and> P (view t)) (k8s_list cl K nso sel)"
  unfolding k8s_get_def k8s_list_def
  by (intro preserves_intros preserves_call; use get_law list_law in \<open>metis\<close>)+

lemma preserves_delete:
  assumes "\<And>V. P V \<Longrightarrow> P (V((ki_kind K, ns, n) := None))"
  shows "preserves (\<lambda>t. inv t \<and> P (view t)) (k8s_delete cl K ns n)"
  unfolding k8s_delete_def by (intro preserves_call) (metis assms delete_law)

lemma preserves_create:
  assumes "\<And>V ob. P V \<Longrightarrow> P (V(obj_key (ki_obj K x) \<mapsto> ob))"
  shows "preserves (\<lambda>t. inv t \<and> P (view t)) (k8s_create cl K x)"
  unfolding k8s_create_def
  by (intro preserves_and_then preserves_decode preserves_call) (use create_law assms in \<open>metis\<close>)

lemma preserves_update:
  assumes "\<And>V ob. P V \<Longrightarrow> P (V(obj_key (ki_obj K x) \<mapsto> ob))" and rv: "m_resourceVersion (obj_meta_of (ki_obj K x)) = []"
  shows "preserves (\<lambda>t. inv t \<and> P (view t)) (k8s_update cl K x)"
  unfolding k8s_update_def
proof (intro preserves_and_then preserves_decode preserves_call)
  fix s r t assume "inv s \<and> P (view s)" "c_Update cl (ki_obj K x) s = (r, t)"
  then show "inv t \<and> P (view t)"
    using update_law [OF _ rv, of s r t] assms(1) by (cases "view s (obj_key (ki_obj K x))") auto
qed

lemma meets_delete_all:
  assumes s: "inv s"
    and ok: "\<And>t. inv t \<Longrightarrow> (\<And>key. view t key = (case view s key of
         Some ob \<Rightarrow> if fst key = ki_kind K \<and> (nso = None \<or> nso = Some (fst (snd key)))
             \<and> matches sel (obj_meta_of ob) then None else Some ob
       | None \<Rightarrow> None)) \<Longrightarrow> Q () t"
  shows "meets (k8s_delete_all cl K nso sel) s Q E"
proof -
  obtain r t where run: "c_DeleteAllOf cl (ki_kind K) nso sel s = (r, t)" by force
  show ?thesis
    using delete_all_law [OF s run] run ok [of t]
    by (auto simp: meets_def k8s_delete_all_def call_def)
qed

end

subsection \<open>An in-memory server\<close>

record mem =
  mem_objs :: "k8s_object list"
  mem_next :: nat

definition mem_view :: "mem \<Rightarrow> okey \<Rightarrow> k8s_object option" where
  "mem_view s k = find (\<lambda>ob. obj_key ob = k) (mem_objs s)"

abbreviation uid_of :: "k8s_object \<Rightarrow> string" where
  "uid_of ob \<equiv> m_uid (obj_meta_of ob)"

definition mem_inv :: "mem \<Rightarrow> bool" where
  "mem_inv s \<longleftrightarrow> distinct (map obj_key (mem_objs s)) \<and> distinct (map uid_of (mem_objs s)) \<and>
     list_all (\<lambda>ob. length (uid_of ob) \<le> mem_next s \<and> IsObjectInstantiated (obj_meta_of ob)) (mem_objs s)"

definition mem_get :: "kind \<Rightarrow> string \<Rightarrow> string \<Rightarrow> mem \<Rightarrow> (api_error + k8s_object) \<times> mem" where
  "mem_get k ns n s = (case mem_view s (k, ns, n) of
      Some ob \<Rightarrow> (Inr ob, s)
    | None \<Rightarrow> (Inl (ApiStatus ReasonNotFound ''not found''), s))"

definition in_scope :: "kind \<Rightarrow> string option \<Rightarrow> selector \<Rightarrow> k8s_object \<Rightarrow> bool" where
  "in_scope k nso sel ob \<longleftrightarrow> obj_kind ob = k
     \<and> (case nso of None \<Rightarrow> True | Some ns \<Rightarrow> m_namespace (obj_meta_of ob) = ns)
     \<and> matches sel (obj_meta_of ob)"

definition mem_list ::
  "kind \<Rightarrow> string option \<Rightarrow> selector \<Rightarrow> mem \<Rightarrow> (api_error + k8s_object list) \<times> mem" where
  "mem_list k nso sel s = (Inr (filter (in_scope k nso sel) (mem_objs s)), s)"

definition stamp :: "nat \<Rightarrow> k8s_object \<Rightarrow> k8s_object" where
  "stamp n ob = set_meta ((obj_meta_of ob)\<lparr>m_uid := replicate (Suc n) CHR ''u'',
     m_resourceVersion := ''1'', m_creationTimestamp := 1, m_managedFields := []\<rparr>) ob"

definition mem_create :: "k8s_object \<Rightarrow> mem \<Rightarrow> (api_error + k8s_object) \<times> mem" where
  "mem_create ob s = (case mem_view s (obj_key ob) of
      Some _ \<Rightarrow> (Inl (ApiStatus ReasonAlreadyExists ''already exists''), s)
    | None \<Rightarrow> (Inr (stamp (mem_next s) ob),
        s\<lparr>mem_objs := mem_objs s @ [stamp (mem_next s) ob], mem_next := Suc (mem_next s)\<rparr>))"

definition restamp :: "k8s_object \<Rightarrow> k8s_object \<Rightarrow> k8s_object" where
  "restamp old ob = set_meta ((obj_meta_of ob)\<lparr>m_uid := uid_of old,
     m_creationTimestamp := m_creationTimestamp (obj_meta_of old),
     m_resourceVersion := CHR ''1'' # m_resourceVersion (obj_meta_of old)\<rparr>) ob"

definition mem_update :: "k8s_object \<Rightarrow> mem \<Rightarrow> (api_error + k8s_object) \<times> mem" where
  "mem_update ob s = (case mem_view s (obj_key ob) of
      None \<Rightarrow> (Inl (ApiStatus ReasonNotFound ''not found''), s)
    | Some old \<Rightarrow> (Inr (restamp old ob),
        s\<lparr>mem_objs := map (\<lambda>x. if obj_key x = obj_key ob then restamp old ob else x) (mem_objs s)\<rparr>))"

definition mem_delete :: "kind \<Rightarrow> string \<Rightarrow> string \<Rightarrow> mem \<Rightarrow> (api_error + unit) \<times> mem" where
  "mem_delete k ns n s = (case mem_view s (k, ns, n) of
      None \<Rightarrow> (Inl (ApiStatus ReasonNotFound ''not found''), s)
    | Some _ \<Rightarrow> (Inr (), s\<lparr>mem_objs := filter (\<lambda>ob. obj_key ob \<noteq> (k, ns, n)) (mem_objs s)\<rparr>))"

definition mem_delete_all ::
  "kind \<Rightarrow> string option \<Rightarrow> selector \<Rightarrow> mem \<Rightarrow> (api_error + unit) \<times> mem" where
  "mem_delete_all k nso sel s =
     (Inr (), s\<lparr>mem_objs := filter (\<lambda>ob. \<not> in_scope k nso sel ob) (mem_objs s)\<rparr>)"

definition mem_client :: "mem client" where
  "mem_client = \<lparr>c_Get = mem_get, c_List = mem_list, c_Create = mem_create, c_Update = mem_update,
     c_Patch = (\<lambda>base. mem_update), c_Delete = mem_delete, c_DeleteAllOf = mem_delete_all\<rparr>"

definition mem_empty :: mem where
  "mem_empty = \<lparr>mem_objs = [], mem_next = 0\<rparr>"

lemma mem_inv_empty [simp]: "mem_inv mem_empty"
  by (simp add: mem_inv_def mem_empty_def)

lemma obj_key_set_meta:
  "obj_key (set_meta m ob) = (obj_kind ob, m_namespace m, m_name m)"
  by (simp add: obj_key_def)

lemma find_key_Some_iff:
  assumes "distinct (map f xs)"
  shows "find (\<lambda>x. f x = k) xs = Some x \<longleftrightarrow> x \<in> set xs \<and> f x = k"
  using assms by (induction xs) (auto simp: rev_image_eqI split: if_splits)

lemma mem_view_Some_iff:
  assumes "mem_inv s"
  shows "mem_view s k = Some ob \<longleftrightarrow> ob \<in> set (mem_objs s) \<and> obj_key ob = k"
  using assms by (simp add: mem_view_def mem_inv_def find_key_Some_iff)

lemma mem_view_key: "mem_view s k = Some ob \<Longrightarrow> obj_key ob = k"
  by (auto simp: mem_view_def dest: find_SomeD)

lemma mem_view_None_iff: "mem_view s k = None \<longleftrightarrow> (\<forall>ob\<in>set (mem_objs s). obj_key ob \<noteq> k)"
  by (auto simp: mem_view_def find_None_iff)

lemma mem_inv_subset:
  assumes "mem_inv s" shows "mem_inv (s\<lparr>mem_objs := filter P (mem_objs s)\<rparr>)"
  using assms by (auto simp: mem_inv_def distinct_map_filter list_all_iff)

lemma view_eqI: "(\<And>k ob. f k = Some ob \<longleftrightarrow> g k = Some ob) \<Longrightarrow> f = g"
  by (rule ext) (metis option.exhaust)

lemma stamp_facts [simp]:
  "obj_key (stamp n ob) = obj_key ob" "uid_of (stamp n ob) = replicate (Suc n) CHR ''u''"
  "IsObjectInstantiated (obj_meta_of (stamp n ob))" "created ob (stamp n ob)"
proof -
  show "obj_key (stamp n ob) = obj_key ob" "uid_of (stamp n ob) = replicate (Suc n) CHR ''u''"
    "IsObjectInstantiated (obj_meta_of (stamp n ob))"
    by (simp_all add: stamp_def obj_key_def IsObjectInstantiated_def)
  have "replicate (Suc n) CHR ''u'' \<noteq> ''''" "''1'' \<noteq> ''''" "(1::int) \<noteq> 0" by simp_all
  then show "created ob (stamp n ob)" unfolding created_def stamp_def by blast
qed

lemma restamp_facts [simp]:
  "obj_key (restamp old ob) = obj_key ob" "uid_of (restamp old ob) = uid_of old"
  "IsObjectInstantiated (obj_meta_of old) \<Longrightarrow> IsObjectInstantiated (obj_meta_of (restamp old ob))"
  by (simp_all add: restamp_def obj_key_def IsObjectInstantiated_def)

lemma restamp_patched: "same_identity old ob \<Longrightarrow> patched ob (restamp old ob)"
proof -
  assume same: "same_identity old ob"
  have "restamp old ob = set_meta ((obj_meta_of ob)\<lparr>
      m_resourceVersion := CHR ''1'' # m_resourceVersion (obj_meta_of old),
      m_managedFields := m_managedFields (obj_meta_of ob)\<rparr>) ob"
    using same by (simp add: restamp_def same_identity_def)
  then show ?thesis unfolding patched_def by blast
qed

lemma restamp_updated: "updated old ob (restamp old ob)"
proof -
  have "restamp old ob = set_meta ((obj_meta_of ob)\<lparr>m_uid := uid_of old,
      m_resourceVersion := CHR ''1'' # m_resourceVersion (obj_meta_of old),
      m_creationTimestamp := m_creationTimestamp (obj_meta_of old), m_managedFields := m_managedFields (obj_meta_of ob)\<rparr>) ob"
    by (cases "obj_meta_of ob") (simp add: restamp_def)
  then show ?thesis unfolding updated_def by blast
qed

lemma mem_create_inv:
  assumes "mem_inv s" and "mem_view s (obj_key ob) = None"
  shows "mem_inv (snd (mem_create ob s))"
    and "mem_view (snd (mem_create ob s)) = (mem_view s)(obj_key ob \<mapsto> stamp (mem_next s) ob)"
proof -
  let ?n = "stamp (mem_next s) ob" and ?t = "snd (mem_create ob s)"
  have objs: "mem_objs ?t = mem_objs s @ [?n]" "mem_next ?t = Suc (mem_next s)"
    using assms(2) by (simp_all add: mem_create_def)
  have fresh: "obj_key ob \<notin> obj_key ` set (mem_objs s)"
    using assms(2) by (auto simp: mem_view_None_iff)
  have "uid_of ?n \<notin> uid_of ` set (mem_objs s)"
  proof
    assume "uid_of ?n \<in> uid_of ` set (mem_objs s)"
    then obtain o' where "o' \<in> set (mem_objs s)" "uid_of o' = uid_of ?n" by (metis imageE)
    moreover have "length (uid_of ?n) = Suc (mem_next s)" by (simp add: stamp_facts(2))
    ultimately have "length (uid_of o') = Suc (mem_next s)" "length (uid_of o') \<le> mem_next s"
      using assms(1) by (auto simp: mem_inv_def list_all_iff)
    then show False by simp
  qed
  then show inv: "mem_inv ?t"
    using assms(1) fresh objs
    by (auto simp: mem_inv_def list_all_iff stamp_facts simp del: replicate_Suc)
  show "mem_view ?t = (mem_view s)(obj_key ob \<mapsto> ?n)"
    using objs fresh mem_view_Some_iff [OF inv] mem_view_Some_iff [OF assms(1)]
    by (intro view_eqI) (auto simp: stamp_facts rev_image_eqI)
qed

lemma mem_update_inv:
  assumes s: "mem_inv s" and old: "mem_view s (obj_key ob) = Some old"
  shows "mem_inv (snd (mem_update ob s))"
    and "mem_view (snd (mem_update ob s)) = (mem_view s)(obj_key ob \<mapsto> restamp old ob)"
proof -
  let ?f = "\<lambda>x. if obj_key x = obj_key ob then restamp old ob else x" and ?t = "snd (mem_update ob s)"
  have objs: "mem_objs ?t = map ?f (mem_objs s)" "mem_next ?t = mem_next s"
    using old by (simp_all add: mem_update_def)
  have mem: "old \<in> set (mem_objs s)" "obj_key old = obj_key ob"
    using old mem_view_Some_iff [OF s] by auto
  have eq_old: "x = old" if "x \<in> set (mem_objs s)" "obj_key x = obj_key ob" for x
    using that mem s by (auto simp: mem_inv_def distinct_map inj_on_def)
  have keys: "map obj_key (mem_objs ?t) = map obj_key (mem_objs s)"
    "map uid_of (mem_objs ?t) = map uid_of (mem_objs s)"
    using objs eq_old by (auto simp: restamp_facts)
  have "list_all (\<lambda>x. length (uid_of x) \<le> mem_next s \<and> IsObjectInstantiated (obj_meta_of x)) (mem_objs ?t)"
    using s objs mem(1) by (auto simp: mem_inv_def list_all_iff restamp_facts)
  then show inv: "mem_inv ?t"
    using s keys objs(2) by (simp add: mem_inv_def)
  show "mem_view ?t = (mem_view s)(obj_key ob \<mapsto> restamp old ob)"
    using objs mem mem_view_Some_iff [OF inv] mem_view_Some_iff [OF s]
    by (intro view_eqI) (auto simp: restamp_facts)
qed

lemma mem_filter_view:
  assumes "mem_inv s"
  shows "mem_view (s\<lparr>mem_objs := filter P (mem_objs s)\<rparr>) k =
    (case mem_view s k of Some ob \<Rightarrow> if P ob then Some ob else None | None \<Rightarrow> None)"
proof (cases "mem_view s k")
  case None
  then have "mem_view (s\<lparr>mem_objs := filter P (mem_objs s)\<rparr>) k = None"
    by (auto simp: mem_view_None_iff)
  with None show ?thesis by simp
next
  case (Some ob)
  let ?t = "s\<lparr>mem_objs := filter P (mem_objs s)\<rparr>"
  have uniq: "x = ob" if "x \<in> set (mem_objs s)" "obj_key x = k" for x
    using that Some mem_view_Some_iff [OF assms, of k] by (metis option.inject)
  show ?thesis
  proof (cases "P ob")
    case True
    then have "mem_view ?t k = Some ob"
      using Some mem_view_Some_iff [OF assms, of k] mem_view_Some_iff [OF mem_inv_subset [OF assms], of P k]
      by simp
    then show ?thesis using Some True by simp
  next
    case False
    then have "mem_view ?t k = None" using uniq by (auto simp: mem_view_None_iff)
    then show ?thesis using Some False by simp
  qed
qed

interpretation mem: api_server mem_client mem_view mem_inv
proof
  fix s k ob assume "mem_inv s" and "mem_view s k = Some ob"
  then have "ob \<in> set (mem_objs s)" "obj_key ob = k" by (simp_all add: mem_view_Some_iff)
  with \<open>mem_inv s\<close> show "obj_key ob = k" "IsObjectInstantiated (obj_meta_of ob)"
    by (simp_all add: mem_inv_def list_all_iff)
next
  fix s k k' ob ob'
  assume "mem_inv s" "mem_view s k = Some ob" "mem_view s k' = Some ob'" "uid_of ob = uid_of ob'"
  then show "k = k'"
    by (auto simp: mem_view_Some_iff mem_inv_def distinct_map inj_on_def)
next
  fix s k ns n r s'
  assume "mem_inv s" "c_Get mem_client k ns n s = (r, s')"
  then show "mem_inv s' \<and> mem_view s' = mem_view s \<and> (case mem_view s (k, ns, n) of
      Some ob \<Rightarrow> r = Inr ob | None \<Rightarrow> (\<exists>m. r = Inl (ApiStatus ReasonNotFound m)))"
    by (auto simp: mem_client_def mem_get_def split: option.splits)
next
  fix s k nso sel r s'
  assume s: "mem_inv s" and run: "c_List mem_client k nso sel s = (r, s')"
  have "distinct (filter (in_scope k nso sel) (mem_objs s))"
    using s by (auto simp: mem_inv_def distinct_map)
  moreover have "set (filter (in_scope k nso sel) (mem_objs s)) =
      {ob. \<exists>ns n. mem_view s (k, ns, n) = Some ob \<and> (nso = None \<or> nso = Some ns)
        \<and> matches sel (obj_meta_of ob)}"
    using mem_view_Some_iff [OF s]
    by (cases nso) (auto simp: in_scope_def obj_key_def)
  ultimately show "mem_inv s' \<and> mem_view s' = mem_view s \<and> (\<exists>obs. r = Inr obs \<and> distinct obs \<and>
      set obs = {ob. \<exists>ns n. mem_view s (k, ns, n) = Some ob \<and> (nso = None \<or> nso = Some ns)
        \<and> matches sel (obj_meta_of ob)})"
    using s run by (auto simp: mem_client_def mem_list_def)
next
  fix s ob r s'
  assume s: "mem_inv s" and run: "c_Create mem_client ob s = (r, s')"
  then have r: "r = fst (mem_create ob s)" "s' = snd (mem_create ob s)"
    by (simp_all add: mem_client_def)
  show "mem_inv s' \<and> (if mem_view s (obj_key ob) = None
      then \<exists>ob'. r = Inr ob' \<and> created ob ob' \<and> mem_view s' = (mem_view s)(obj_key ob \<mapsto> ob')
      else (\<exists>m. r = Inl (ApiStatus ReasonAlreadyExists m)) \<and> mem_view s' = mem_view s)"
  proof (cases "mem_view s (obj_key ob)")
    case None
    moreover have "r = Inr (stamp (mem_next s) ob)" using None r by (simp add: mem_create_def)
    ultimately show ?thesis
      using mem_create_inv [OF s None] r(2) stamp_facts(4) [of ob "mem_next s"] by auto
  next
    case (Some o')
    then show ?thesis using s r by (simp add: mem_create_def)
  qed
next
  fix s base ob r s'
  assume s: "mem_inv s" and base: "mem_view s (obj_key base) = Some base"
    and same: "same_identity base ob" and run: "c_Patch mem_client base ob s = (r, s')"
  have key: "mem_view s (obj_key ob) = Some base" using base same by (simp add: same_identity_def)
  have "r = Inr (restamp base ob)" "s' = snd (mem_update ob s)"
    using run key by (simp_all add: mem_client_def mem_update_def)
  then show "mem_inv s' \<and> (\<exists>ob'. r = Inr ob' \<and> patched ob ob' \<and>
      mem_view s' = (mem_view s)(obj_key ob \<mapsto> ob'))"
    using mem_update_inv [OF s key] restamp_patched [OF same] by auto
next
  fix s ob r s'
  assume s: "mem_inv s" and run: "c_Update mem_client ob s = (r, s')"
  show "mem_inv s' \<and> (case mem_view s (obj_key ob) of
      None \<Rightarrow> (\<exists>m. r = Inl (ApiStatus ReasonNotFound m)) \<and> mem_view s' = mem_view s
    | Some old \<Rightarrow> (\<exists>ob'. r = Inr ob' \<and> updated old ob ob' \<and> mem_view s' = (mem_view s)(obj_key ob \<mapsto> ob')))"
  proof (cases "mem_view s (obj_key ob)")
    case None
    then show ?thesis using s run by (auto simp: mem_client_def mem_update_def)
  next
    case (Some old)
    then have "r = Inr (restamp old ob)" "s' = snd (mem_update ob s)"
      using run by (simp_all add: mem_client_def mem_update_def)
    then show ?thesis using mem_update_inv [OF s Some] restamp_updated Some by auto
  qed
next
  fix s k ns n r s'
  assume s: "mem_inv s" and run: "c_Delete mem_client k ns n s = (r, s')"
  show "mem_inv s' \<and> (if mem_view s (k, ns, n) = None
      then (\<exists>m. r = Inl (ApiStatus ReasonNotFound m)) \<and> mem_view s' = mem_view s
      else r = Inr () \<and> mem_view s' = (mem_view s)((k, ns, n) := None))"
  proof (cases "mem_view s (k, ns, n)")
    case None
    then show ?thesis using s run by (auto simp: mem_client_def mem_delete_def)
  next
    case (Some ob)
    let ?P = "\<lambda>ob. obj_key ob \<noteq> (k, ns, n)"
    have eqs: "r = Inr ()" "s' = s\<lparr>mem_objs := filter ?P (mem_objs s)\<rparr>"
      using Some run by (auto simp: mem_client_def mem_delete_def)
    have "mem_view s' = (mem_view s)((k, ns, n) := None)"
    proof (rule ext)
      fix key
      show "mem_view s' key = ((mem_view s)((k, ns, n) := None)) key"
        unfolding eqs(2) mem_filter_view [OF s] using mem_view_key [of s key]
        by (cases "mem_view s key") auto
    qed
    then show ?thesis using Some eqs mem_inv_subset [OF s] by simp
  qed
next
  fix s k nso sel r s'
  assume s: "mem_inv s" and run: "c_DeleteAllOf mem_client k nso sel s = (r, s')"
  then have eqs: "r = Inr ()" "s' = s\<lparr>mem_objs := filter (\<lambda>ob. \<not> in_scope k nso sel ob) (mem_objs s)\<rparr>"
    by (auto simp: mem_client_def mem_delete_all_def)
  have "mem_view s' key = (case mem_view s key of
      Some ob \<Rightarrow> if fst key = k \<and> (nso = None \<or> nso = Some (fst (snd key)))
        \<and> matches sel (obj_meta_of ob) then None else Some ob
    | None \<Rightarrow> None)" for key
    unfolding eqs(2) mem_filter_view [OF s] using mem_view_key [of s key]
    by (cases "mem_view s key"; cases nso) (auto simp: in_scope_def obj_key_def)
  then show "mem_inv s' \<and> r = Inr () \<and> (\<forall>key. mem_view s' key = (case mem_view s key of
      Some ob \<Rightarrow> if fst key = k \<and> (nso = None \<or> nso = Some (fst (snd key)))
        \<and> matches sel (obj_meta_of ob) then None else Some ob
    | None \<Rightarrow> None))"
    using eqs s by (simp add: mem_inv_subset)
qed

end
