(* ===== verification/Cidr.thy ===== *)
theory Cidr
  imports Errors
begin

unbundle bit_operations_syntax

text \<open>
  \<open>IpBelongsToCidr\<close> of \<open>internal/kubevim/network/utils.go\<close>, together with the part of Go's \<open>net\<close>
  package it runs on: \<open>ParseIP\<close> and \<open>ParseCIDR\<close> over \<open>netip.ParseAddr\<close> (dotted quads, IPv6 groups
  with one ellipsis, embedded IPv4, zones), \<open>CIDRMask\<close>, \<open>IP.Mask\<close>, \<open>IP.To4\<close> and
  \<open>IPNet.Contains\<close>, all on the byte slices Go uses. The lemmas reduce masking to comparing
  prefixes of the addresses as numbers, and show that the printed forms parse back.
\<close>

type_synonym byte = "8 word"

subsection \<open>\<open>netip.ParseAddr\<close>\<close>

datatype ip_addr = Addr4 "byte list" | Addr6 "byte list" string

definition digit_val :: "char \<Rightarrow> nat option" where
  "digit_val c = (let n = of_char c :: nat in if 48 \<le> n \<and> n \<le> 57 then Some (n - 48) else None)"

definition hex_val :: "char \<Rightarrow> nat option" where
  "hex_val c = (let n = of_char c :: nat in
     if 48 \<le> n \<and> n \<le> 57 then Some (n - 48)
     else if 97 \<le> n \<and> n \<le> 102 then Some (n - 97 + 10)
     else if 65 \<le> n \<and> n \<le> 70 then Some (n - 65 + 10)
     else None)"

text \<open>The loop of \<open>parseIPv4Fields\<close>: \<open>prev\<close> is the preceding character, \<open>val\<close> and \<open>digLen\<close> the
  octet read so far, \<open>fields\<close> the octets stored.\<close>

fun ipv4_fields :: "char option \<Rightarrow> nat \<Rightarrow> nat \<Rightarrow> byte list \<Rightarrow> string \<Rightarrow> byte list option" where
  "ipv4_fields prev val digLen fields [] =
     (if length fields < 3 then None else Some (fields @ [of_nat val]))"
| "ipv4_fields prev val digLen fields (c # cs) = (case digit_val c of
      Some d \<Rightarrow>
        if digLen = 1 \<and> val = 0 then None
        else if val * 10 + d > 255 then None
        else ipv4_fields (Some c) (val * 10 + d) (digLen + 1) fields cs
    | None \<Rightarrow>
        if c = CHR ''.'' then
          if prev = None \<or> cs = [] \<or> prev = Some (CHR ''.'') then None
          else if length fields = 3 then None
          else ipv4_fields (Some c) 0 0 (fields @ [of_nat val]) cs
        else None)"

definition parseIPv4Fields :: "string \<Rightarrow> byte list option" where
  "parseIPv4Fields s = ipv4_fields None 0 0 [] s"

fun hex_group :: "nat \<Rightarrow> nat \<Rightarrow> string \<Rightarrow> (nat \<times> nat \<times> string) option" where
  "hex_group off acc [] = Some (off, acc, [])"
| "hex_group off acc (c # cs) = (case hex_val c of
      None \<Rightarrow> Some (off, acc, c # cs)
    | Some d \<Rightarrow>
        if off > 3 then None
        else if acc * 16 + d > 65535 then None
        else hex_group (off + 1) (acc * 16 + d) cs)"

lemma hex_group_rest:
  "hex_group off acc s = Some (off', acc', rest) \<Longrightarrow> off \<le> off' \<and> length s = (off' - off) + length rest"
  by (induction off acc s rule: hex_group.induct) (auto split: option.splits if_splits)

text \<open>The loop of \<open>parseIPv6\<close>: \<open>ip\<close> holds the bytes stored so far (the index \<open>i\<close> is its length).\<close>

function ipv6_loop :: "nat option \<Rightarrow> byte list \<Rightarrow> string \<Rightarrow> (nat option \<times> byte list \<times> string) option" where
  "ipv6_loop ellipsis ip s =
     (if length ip \<ge> 16 then Some (ellipsis, ip, s)
      else (case hex_group 0 0 s of
          None \<Rightarrow> None
        | Some (off, acc, rest) \<Rightarrow>
            if off = 0 then None
            else if rest \<noteq> [] \<and> hd rest = CHR ''.'' then
              if ellipsis = None \<and> length ip \<noteq> 12 then None
              else if length ip + 4 > 16 then None
              else (case parseIPv4Fields s of
                  None \<Rightarrow> None
                | Some q \<Rightarrow> Some (ellipsis, ip @ q, []))
            else (let ip' = ip @ [of_nat (acc div 256), of_nat acc] in
              case rest of
                [] \<Rightarrow> Some (ellipsis, ip', [])
              | c # cs \<Rightarrow>
                  if c \<noteq> CHR '':'' then None
                  else if cs = [] then None
                  else if hd cs = CHR '':'' then
                    if ellipsis \<noteq> None then None
                    else if tl cs = [] then Some (Some (length ip'), ip', [])
                    else ipv6_loop (Some (length ip')) ip' (tl cs)
                  else ipv6_loop ellipsis ip' cs)))"
  by pat_completeness auto
termination
  by (relation "measure (\<lambda>(_, _, s). length s)") (auto dest!: hex_group_rest)

definition ipv6_finish :: "nat option \<times> byte list \<times> string \<Rightarrow> byte list option" where
  "ipv6_finish r = (case r of (ellipsis, ip, s) \<Rightarrow>
     if s \<noteq> [] then None
     else if length ip < 16 then
       (case ellipsis of
          None \<Rightarrow> None
        | Some e \<Rightarrow> Some (take e ip @ replicate (16 - length ip) 0 @ drop e ip))
     else if ellipsis \<noteq> None then None
     else Some ip)"

definition split_zone :: "string \<Rightarrow> string \<times> string option" where
  "split_zone s = (let addr = takeWhile (\<lambda>c. c \<noteq> CHR ''%'') s in
     (addr, if CHR ''%'' \<in> set s then Some (drop (Suc (length addr)) s) else None))"

definition parseIPv6 :: "string \<Rightarrow> ip_addr option" where
  "parseIPv6 inp = (case split_zone inp of (s, zone) \<Rightarrow>
     if zone = Some '''' then None
     else (let z = (case zone of None \<Rightarrow> '''' | Some z \<Rightarrow> z) in
       if has_prefix s ''::'' then
         if drop 2 s = [] then Some (Addr6 (replicate 16 0) z)
         else (case ipv6_loop (Some 0) [] (drop 2 s) of
             None \<Rightarrow> None
           | Some r \<Rightarrow> map_option (\<lambda>ip. Addr6 ip z) (ipv6_finish r))
       else (case ipv6_loop None [] s of
             None \<Rightarrow> None
           | Some r \<Rightarrow> map_option (\<lambda>ip. Addr6 ip z) (ipv6_finish r))))"

definition ParseAddr :: "string \<Rightarrow> ip_addr option" where
  "ParseAddr s = (case find (\<lambda>c. c = CHR ''.'' \<or> c = CHR '':'' \<or> c = CHR ''%'') s of
      None \<Rightarrow> None
    | Some c \<Rightarrow>
        if c = CHR ''.'' then map_option Addr4 (parseIPv4Fields s)
        else if c = CHR '':'' then parseIPv6 s
        else None)"

subsection \<open>Package \<open>net\<close>\<close>

definition v4InV6Prefix :: "byte list" where
  "v4InV6Prefix = replicate 10 0 @ [255, 255]"

fun As16 :: "ip_addr \<Rightarrow> byte list" where
  "As16 (Addr4 bs) = v4InV6Prefix @ bs"
| "As16 (Addr6 bs _) = bs"

fun Zone :: "ip_addr \<Rightarrow> string" where
  "Zone (Addr4 _) = ''''"
| "Zone (Addr6 _ z) = z"

fun BitLen :: "ip_addr \<Rightarrow> nat" where
  "BitLen (Addr4 _) = 32"
| "BitLen (Addr6 _ _) = 128"

definition ParseIP :: "string \<Rightarrow> byte list option" where
  "ParseIP s = (case ParseAddr s of
      None \<Rightarrow> None
    | Some a \<Rightarrow> if Zone a \<noteq> '''' then None else Some (As16 a))"

text \<open>\<open>dtoi\<close> stops at the first non-digit and fails on an empty run or at \<open>big\<close>.\<close>

fun dtoi_run :: "nat \<Rightarrow> string \<Rightarrow> (nat \<times> string) option" where
  "dtoi_run n [] = Some (n, [])"
| "dtoi_run n (c # cs) = (case digit_val c of
      None \<Rightarrow> Some (n, c # cs)
    | Some d \<Rightarrow> if n * 10 + d \<ge> 0xFFFFFF then None else dtoi_run (n * 10 + d) cs)"

definition dtoi_all :: "string \<Rightarrow> nat option" where
  "dtoi_all s = (if s = [] then None else (case dtoi_run 0 s of
      Some (n, []) \<Rightarrow> Some n
    | _ \<Rightarrow> None))"

fun CIDRMask :: "nat \<Rightarrow> nat \<Rightarrow> byte list" where
  "CIDRMask n 0 = []"
| "CIDRMask n (Suc l) = (if n \<ge> 8 then 255 # CIDRMask (n - 8) l
     else NOT (drop_bit n 255) # CIDRMask 0 l)"

definition To4 :: "byte list \<Rightarrow> byte list option" where
  "To4 ip = (if length ip = 4 then Some ip
     else if length ip = 16 \<and> take 12 ip = v4InV6Prefix then Some (drop 12 ip)
     else None)"

definition and_bytes :: "byte list \<Rightarrow> byte list \<Rightarrow> byte list" where
  "and_bytes xs ys = map2 (AND) xs ys"

definition ip_Mask :: "byte list \<Rightarrow> byte list \<Rightarrow> byte list option" where
  "ip_Mask ip msk =
     (let m = (if length msk = 16 \<and> length ip = 4 \<and> take 12 msk = replicate 12 255
                  then drop 12 msk else msk);
          ip = (if length m = 4 \<and> length ip = 16 \<and> take 12 ip = v4InV6Prefix
                then drop 12 ip else ip)
      in if length ip \<noteq> length m then None else Some (and_bytes ip m))"

record ip_net =
  net_IP :: "byte list"
  net_Mask :: "byte list"

definition Cut :: "char \<Rightarrow> string \<Rightarrow> (string \<times> string) option" where
  "Cut c s = (if c \<in> set s
     then Some (takeWhile (\<lambda>x. x \<noteq> c) s, tl (dropWhile (\<lambda>x. x \<noteq> c) s)) else None)"

definition nil_bytes :: "byte list option \<Rightarrow> byte list" where
  "nil_bytes p = (case p of None \<Rightarrow> [] | Some bs \<Rightarrow> bs)"

definition ParseCIDR :: "string \<Rightarrow> error + ip_net" where
  "ParseCIDR s = (let fail = Inl (Plain (''invalid CIDR address: '' @ s)) in
     case Cut (CHR ''/'') s of
       None \<Rightarrow> fail
     | Some (addr, msk) \<Rightarrow> (case ParseAddr addr of
           None \<Rightarrow> fail
         | Some ipAddr \<Rightarrow>
             if Zone ipAddr \<noteq> '''' then fail
             else (case dtoi_all msk of
                 None \<Rightarrow> fail
               | Some n \<Rightarrow>
                   if n > BitLen ipAddr then fail
                   else (let m = CIDRMask n (BitLen ipAddr div 8) in
                     Inr \<lparr>net_IP = nil_bytes (ip_Mask (As16 ipAddr) m), net_Mask = m\<rparr>))))"

definition networkNumberAndMask :: "ip_net \<Rightarrow> (byte list \<times> byte list) option" where
  "networkNumberAndMask n = (case To4 (net_IP n) of
      Some ip \<Rightarrow>
        if length (net_Mask n) = 4 then Some (ip, net_Mask n)
        else if length (net_Mask n) = 16 then Some (ip, drop 12 (net_Mask n))
        else None
    | None \<Rightarrow>
        if length (net_IP n) \<noteq> 16 then None
        else if length (net_Mask n) = 16 then Some (net_IP n, net_Mask n)
        else None)"

definition Contains :: "ip_net \<Rightarrow> byte list \<Rightarrow> bool" where
  "Contains n ip = (let
       (nn, m) = (case networkNumberAndMask n of None \<Rightarrow> ([], []) | Some p \<Rightarrow> p);
       ip = (case To4 ip of Some x \<Rightarrow> x | None \<Rightarrow> ip)
     in if length ip \<noteq> length nn then False else and_bytes nn m = and_bytes ip m)"

subsection \<open>\<open>network/utils.go\<close>\<close>

text \<open>The messages \<open>IPAddress\<close> and \<open>IPSubnetCIDR\<close> hold one string each; \<open>None\<close> is the nil pointer.\<close>

definition IpBelongsToCidr :: "string option \<Rightarrow> string option \<Rightarrow> bool" where
  "IpBelongsToCidr ip cidr = (case ip of
      None \<Rightarrow> False
    | Some ip \<Rightarrow> (case cidr of
        None \<Rightarrow> False
      | Some cidr \<Rightarrow> (case ParseIP ip of
          None \<Rightarrow> False
        | Some parsedIP \<Rightarrow> (case ParseCIDR cidr of
            Inl err \<Rightarrow> False
          | Inr ipNet \<Rightarrow> Contains ipNet parsedIP))))"


subsection \<open>Masks and prefixes\<close>

text \<open>An address as the number its bytes spell, most significant byte first.\<close>

fun bytes_num :: "byte list \<Rightarrow> nat" where
  "bytes_num [] = 0"
| "bytes_num (b # bs) = unat b * 256 ^ length bs + bytes_num bs"

lemma bytes_num_less: "bytes_num bs < 256 ^ length bs"
proof (induction bs)
  case (Cons b bs)
  have "unat b < 2 ^ LENGTH(8)" by (rule unsigned_less)
  then have "unat b \<le> 255" by simp
  then have "unat b * 256 ^ length bs + bytes_num bs < 255 * 256 ^ length bs + 256 ^ length bs"
    using Cons by (meson add_le_less_mono mult_le_mono1)
  then show ?case by simp
qed simp

lemma not_mask_iff:
  fixes x y :: "'a::len word"
  shows "x AND NOT (mask k) = y AND NOT (mask k) \<longleftrightarrow> unat x div 2 ^ k = unat y div 2 ^ k"
proof -
  have "x AND NOT (mask k) = y AND NOT (mask k) \<longleftrightarrow> drop_bit k x = drop_bit k y"
  proof
    assume eq: "x AND NOT (mask k) = y AND NOT (mask k)"
    show "drop_bit k x = drop_bit k y"
    proof (rule bit_word_eqI)
      fix i assume "i < LENGTH('a)"
      have "bit (x AND NOT (mask k)) (k + i) = bit (y AND NOT (mask k)) (k + i)" using eq by simp
      then show "bit (drop_bit k x) i = bit (drop_bit k y) i"
        using bit_imp_le_length [of x "k + i"] bit_imp_le_length [of y "k + i"]
        by (auto simp: bit_simps)
    qed
  next
    assume eq: "drop_bit k x = drop_bit k y"
    show "x AND NOT (mask k) = y AND NOT (mask k)"
    proof (rule bit_word_eqI)
      fix i assume "i < LENGTH('a)"
      have "bit (drop_bit k x) (i - k) = bit (drop_bit k y) (i - k)" using eq by simp
      then show "bit (x AND NOT (mask k)) i = bit (y AND NOT (mask k)) i"
        by (cases "i < k") (simp_all add: bit_simps)
    qed
  qed
  also have "\<dots> \<longleftrightarrow> unat (drop_bit k x) = unat (drop_bit k y)"
    by (simp add: word_unat_eq_iff)
  also have "\<dots> \<longleftrightarrow> drop_bit k (unat x) = drop_bit k (unat y)"
    by (simp only: unat_drop_bit_eq)
  finally show ?thesis by (simp add: drop_bit_eq_div)
qed

lemma mask_byte:
  fixes x y :: byte
  assumes "n < 8"
  shows "x AND NOT (drop_bit n 255) = y AND NOT (drop_bit n 255) \<longleftrightarrow>
    unat x div 2 ^ (8 - n) = unat y div 2 ^ (8 - n)"
proof -
  have "(255 :: byte) = mask 8" by (simp add: mask_eq_exp_minus_1)
  then have "drop_bit n (255::byte) = mask (8 - n)"
    using assms by (auto simp: bit_eq_iff bit_simps)
  then show ?thesis by (simp add: not_mask_iff)
qed

lemma pow256: "(256::nat) ^ l = 2 ^ (8 * l)"
  by (simp add: power_mult)

lemma byte_ff: "(255 :: byte) = - 1"
proof -
  have "(255 :: byte) = mask 8" by (simp add: mask_eq_exp_minus_1)
  then show ?thesis by (auto simp: bit_eq_iff bit_simps)
qed

lemma bytes_num_div_low:
  assumes "n < 8"
  shows "bytes_num (b # bs) div 2 ^ (8 * length (b # bs) - n) = unat b div 2 ^ (8 - n)"
proof -
  have e: "(2::nat) ^ (8 * length (b # bs) - n) = 256 ^ length bs * 2 ^ (8 - n)"
  proof -
    have "8 * length (b # bs) - n = 8 * length bs + (8 - n)" using assms by simp
    then show ?thesis by (simp add: power_add power_mult)
  qed
  have "bytes_num (b # bs) div 256 ^ length bs = unat b"
    using bytes_num_less [of bs] by simp
  then show ?thesis by (simp only: e div_mult2_eq)
qed

lemma bytes_num_div_high:
  assumes "8 \<le> n" "n \<le> 8 * length (b # bs)"
  shows "bytes_num (b # bs) div 2 ^ (8 * length (b # bs) - n) =
    unat b * 2 ^ (n - 8) + bytes_num bs div 2 ^ (8 * length bs - (n - 8))"
    and "bytes_num bs div 2 ^ (8 * length bs - (n - 8)) < 2 ^ (n - 8)"
proof -
  let ?k = "8 * length bs - (n - 8)"
  have k: "8 * length (b # bs) - n = ?k" using assms by simp
  have "8 * length bs = ?k + (n - 8)" using assms by simp
  then have e: "(256::nat) ^ length bs = 2 ^ ?k * 2 ^ (n - 8)"
    by (metis pow256 power_add)
  show "bytes_num (b # bs) div 2 ^ (8 * length (b # bs) - n) =
      unat b * 2 ^ (n - 8) + bytes_num bs div 2 ^ ?k"
  proof -
    have "bytes_num (b # bs) = bytes_num bs + unat b * 2 ^ (n - 8) * 2 ^ ?k" by (simp add: e)
    then show ?thesis unfolding k by (simp only: div_mult_self1 power_not_zero) simp
  qed
  show "bytes_num bs div 2 ^ ?k < 2 ^ (n - 8)"
    using bytes_num_less [of bs] unfolding e by (simp add: less_mult_imp_div_less mult.commute)
qed

lemma and_CIDRMask_0: "length xs = l \<Longrightarrow> and_bytes xs (CIDRMask 0 l) = replicate l 0"
proof (induction l arbitrary: xs)
  case (Suc l)
  then obtain x zs where "xs = x # zs" "length zs = l" by (cases xs) auto
  moreover have "NOT (255::byte) = 0" unfolding byte_ff by simp
  ultimately show ?case using Suc.IH [of zs] by (simp add: and_bytes_def byte_ff)
qed (simp add: and_bytes_def)

lemma and_CIDRMask_iff:
  "length xs = l \<Longrightarrow> length ys = l \<Longrightarrow> n \<le> 8 * l \<Longrightarrow>
   and_bytes xs (CIDRMask n l) = and_bytes ys (CIDRMask n l) \<longleftrightarrow>
   bytes_num xs div 2 ^ (8 * l - n) = bytes_num ys div 2 ^ (8 * l - n)"
proof (induction l arbitrary: xs ys n)
  case 0
  then show ?case by (simp add: and_bytes_def)
next
  case (Suc l)
  obtain x xs' y ys' where xs: "xs = x # xs'" "length xs' = l" and ys: "ys = y # ys'" "length ys' = l"
    using Suc.prems by (metis length_Suc_conv)
  show ?case
  proof (cases "n < 8")
    case True
    have "and_bytes xs (CIDRMask n (Suc l)) = and_bytes ys (CIDRMask n (Suc l)) \<longleftrightarrow>
        x AND NOT (drop_bit n 255) = y AND NOT (drop_bit n 255)"
      using True and_CIDRMask_0 [OF xs(2)] and_CIDRMask_0 [OF ys(2)] xs ys by (simp add: and_bytes_def)
    also have "\<dots> \<longleftrightarrow> unat x div 2 ^ (8 - n) = unat y div 2 ^ (8 - n)" by (rule mask_byte [OF True])
    finally show ?thesis
      using bytes_num_div_low [OF True, of x xs'] bytes_num_div_low [OF True, of y ys'] xs ys by simp
  next
    case False
    let ?k = "8 * l - (n - 8)" and ?m = "2 ^ (n - 8) :: nat"
    have ff: "x AND 255 = x" "y AND 255 = y"
      unfolding byte_ff by simp_all
    have "and_bytes xs (CIDRMask n (Suc l)) = and_bytes ys (CIDRMask n (Suc l)) \<longleftrightarrow>
        x = y \<and> bytes_num xs' div 2 ^ ?k = bytes_num ys' div 2 ^ ?k"
      using False Suc.IH [OF xs(2) ys(2), of "n - 8"] Suc.prems(3) ff xs ys by (simp add: and_bytes_def)
    also have "\<dots> \<longleftrightarrow> unat x * ?m + bytes_num xs' div 2 ^ ?k = unat y * ?m + bytes_num ys' div 2 ^ ?k"
    proof
      assume eq: "unat x * ?m + bytes_num xs' div 2 ^ ?k = unat y * ?m + bytes_num ys' div 2 ^ ?k"
      have lt: "bytes_num xs' div 2 ^ ?k < ?m" "bytes_num ys' div 2 ^ ?k < ?m"
        using bytes_num_div_high(2) [of n x xs'] bytes_num_div_high(2) [of n y ys'] False Suc.prems(3) xs ys
        by simp_all
      have "(unat x * ?m + bytes_num xs' div 2 ^ ?k) div ?m = unat x"
        "(unat y * ?m + bytes_num ys' div 2 ^ ?k) div ?m = unat y" using lt by simp_all
      with eq have "unat x = unat y" by metis
      with eq show "x = y \<and> bytes_num xs' div 2 ^ ?k = bytes_num ys' div 2 ^ ?k"
        by (simp add: word_unat_eq_iff)
    qed auto
    finally show ?thesis
      using bytes_num_div_high(1) [of n x xs'] bytes_num_div_high(1) [of n y ys'] False Suc.prems(3) xs ys
      by simp
  qed
qed

subsection \<open>Printed addresses\<close>

definition show_ipv4 :: "byte \<times> byte \<times> byte \<times> byte \<Rightarrow> string" where
  "show_ipv4 q = (case q of (a, b, c, d) \<Rightarrow>
     show_nat (unat a) @ ''.'' @ show_nat (unat b) @ ''.'' @ show_nat (unat c) @ ''.'' @ show_nat (unat d))"

definition ipv4_num :: "byte \<times> byte \<times> byte \<times> byte \<Rightarrow> nat" where
  "ipv4_num q = (case q of (a, b, c, d) \<Rightarrow> bytes_num [a, b, c, d])"

lemma digit_val_digit [simp]: "d < 10 \<Longrightarrow> digit_val (digit_char d) = Some d"
  by (simp add: digit_val_def)

lemma not_digit [simp]: "\<not> is_digit CHR ''.''" "\<not> is_digit CHR ''/''" "\<not> is_digit CHR '':''" "\<not> is_digit CHR ''%''"
  by (simp_all add: is_digit_def)

lemma dot_val [simp]: "digit_val CHR ''.'' = None"
  by (simp add: digit_val_def)

lemma dtoi_run_show: "n < 0xFFFFFF \<Longrightarrow> dtoi_run 0 (show_nat n @ rest) = dtoi_run n rest"
proof (induction n arbitrary: rest rule: show_nat.induct)
  case (1 n)
  show ?case
  proof (cases "n < 10")
    case True
    then show ?thesis using 1 by (subst show_nat.simps) simp
  next
    case False
    then have "dtoi_run 0 (show_nat (n div 10) @ (digit_char (n mod 10) # rest)) =
        dtoi_run (n div 10) (digit_char (n mod 10) # rest)"
      using 1 by simp
    also have "\<dots> = dtoi_run n rest" using 1(2) by simp
    finally show ?thesis using False by (subst show_nat.simps) simp
  qed
qed

lemma dtoi_all_show: "n < 0xFFFFFF \<Longrightarrow> dtoi_all (show_nat n) = Some n"
  using dtoi_run_show [of n "[]"] by (simp add: dtoi_all_def)

lemma show_nat_octet:
  assumes "n < 256"
  obtains "n < 10" "show_nat n = [digit_char n]"
  | "10 \<le> n" "n < 100" "show_nat n = [digit_char (n div 10), digit_char (n mod 10)]"
  | "100 \<le> n" "show_nat n = [digit_char (n div 100), digit_char (n div 10 mod 10), digit_char (n mod 10)]"
proof -
  have two: "show_nat m = [digit_char (m div 10), digit_char (m mod 10)]" if "10 \<le> m" "m < 100" for m
    using that by (subst show_nat.simps, subst show_nat.simps) simp
  have "show_nat n = [digit_char (n div 100), digit_char (n div 10 mod 10), digit_char (n mod 10)]" if "100 \<le> n"
    using that assms two [of "n div 10"] by (subst show_nat.simps) (simp add: div_mult2_eq [symmetric])
  moreover have "show_nat n = [digit_char n]" if "n < 10" using that by (subst show_nat.simps) simp
  ultimately show thesis using that two [of n] by (cases "n < 10"; cases "n < 100") auto
qed

lemma ipv4_fields_octet:
  assumes "n < 256"
  shows "\<exists>l. is_digit l \<and> (\<exists>k. ipv4_fields prev 0 0 fs (show_nat n @ rest) = ipv4_fields (Some l) n k fs rest)"
  using assms
proof (cases rule: show_nat_octet)
  case 1
  then show ?thesis by (intro exI [of _ "digit_char n"]) (auto intro!: exI)
next
  case 2
  have "n div 10 < 10" "n div 10 \<noteq> 0" "n div 10 * 10 + n mod 10 = n" using 2 by auto
  then show ?thesis using 2 assms by (intro exI [of _ "digit_char (n mod 10)"]) (auto intro!: exI)
next
  case 3
  have "n div 100 < 10" "n div 100 \<noteq> 0" "n div 10 mod 10 < 10" using 3 assms by auto
  moreover have "n div 100 * 10 + n div 10 mod 10 = n div 10"
    using div_mult_mod_eq [of "n div 10" 10] by (simp add: div_mult2_eq [symmetric])
  moreover have "n div 10 * 10 + n mod 10 = n" "n div 10 \<le> 255" using assms by auto
  ultimately show ?thesis
    using 3 assms by (intro exI [of _ "digit_char (n mod 10)"]) (auto intro!: exI)
qed

lemma unat_byte_less [simp]: "unat (b :: byte) < 256"
  using unsigned_less [of b, where ?'a = nat] by simp

lemma ipv4_fields_octet_dot:
  assumes "length fs < 3" "rest \<noteq> []"
  shows "ipv4_fields prev 0 0 fs (show_nat (unat b) @ CHR ''.'' # rest) =
    ipv4_fields (Some (CHR ''.'')) 0 0 (fs @ [b]) rest"
proof -
  obtain l k where "is_digit l" and "ipv4_fields prev 0 0 fs (show_nat (unat b) @ CHR ''.'' # rest) =
      ipv4_fields (Some l) (unat b) k fs (CHR ''.'' # rest)"
    using ipv4_fields_octet [of "unat b"] by (metis unat_byte_less)
  moreover from \<open>is_digit l\<close> have "l \<noteq> CHR ''.''" by auto
  ultimately show ?thesis using assms by simp
qed

lemma ipv4_fields_last:
  assumes "length fs = 3"
  shows "ipv4_fields prev 0 0 fs (show_nat (unat b)) = Some (fs @ [b])"
proof -
  obtain l k where "ipv4_fields prev 0 0 fs (show_nat (unat b) @ []) = ipv4_fields (Some l) (unat b) k fs []"
    using ipv4_fields_octet [of "unat b"] by (metis unat_byte_less)
  then show ?thesis using assms by simp
qed

lemma parseIPv4_show: "parseIPv4Fields (show_ipv4 (a, b, c, d)) = Some [a, b, c, d]"
  by (simp add: parseIPv4Fields_def show_ipv4_def ipv4_fields_octet_dot ipv4_fields_last)

lemma find_skip: "(\<And>x. x \<in> set xs \<Longrightarrow> \<not> P x) \<Longrightarrow> find P (xs @ ys) = find P ys"
  by (induction xs) auto

lemma ParseAddr_show: "ParseAddr (show_ipv4 (a, b, c, d)) = Some (Addr4 [a, b, c, d])"
proof -
  have "find (\<lambda>c. c = CHR ''.'' \<or> c = CHR '':'' \<or> c = CHR ''%'') (show_ipv4 (a, b, c, d)) = Some CHR ''.''"
    unfolding show_ipv4_def prod.case by (subst find_skip) (auto dest: show_nat_digits)
  then show ?thesis by (simp add: ParseAddr_def parseIPv4_show)
qed

lemma show_ipv4_no_slash: "CHR ''/'' \<notin> set (show_ipv4 q)"
  by (cases q) (auto simp: show_ipv4_def dest: show_nat_digits)

lemma Cut_append: "c \<notin> set s \<Longrightarrow> Cut c (s @ c # t) = Some (s, t)"
  by (induction s) (auto simp: Cut_def)

lemma length_CIDRMask [simp]: "length (CIDRMask n l) = l"
  by (induction n l rule: CIDRMask.induct) auto

lemma and_bytes_idem [simp]: "length m = length xs \<Longrightarrow> and_bytes (and_bytes xs m) m = and_bytes xs m"
  unfolding and_bytes_def by (induction xs m rule: list_induct2') auto

lemma length_and_bytes [simp]: "length (and_bytes xs ys) = min (length xs) (length ys)"
  by (simp add: and_bytes_def)

lemma To4_As16 [simp]: "length bs = 4 \<Longrightarrow> To4 (As16 (Addr4 bs)) = Some bs" "length bs = 4 \<Longrightarrow> To4 bs = Some bs"
  by (simp_all add: To4_def v4InV6Prefix_def)

lemma ParseCIDR_ipv4:
  assumes "n \<le> 32"
  shows "ParseCIDR (show_ipv4 (a, b, c, d) @ CHR ''/'' # show_nat n) =
    Inr \<lparr>net_IP = and_bytes [a, b, c, d] (CIDRMask n 4), net_Mask = CIDRMask n 4\<rparr>"
proof -
  have "ip_Mask (As16 (Addr4 [a, b, c, d])) (CIDRMask n 4) = Some (and_bytes [a, b, c, d] (CIDRMask n 4))"
    by (simp add: ip_Mask_def v4InV6Prefix_def Let_def)
  then show ?thesis
    using assms by (simp add: ParseCIDR_def Cut_append show_ipv4_no_slash ParseAddr_show dtoi_all_show nil_bytes_def Let_def)
qed

lemma Contains_v4:
  assumes "length nn = 4" "length m = 4" "length ip = 4"
  shows "Contains \<lparr>net_IP = nn, net_Mask = m\<rparr> (As16 (Addr4 ip)) \<longleftrightarrow> and_bytes nn m = and_bytes ip m"
  using assms To4_As16 [of nn] To4_As16 [of ip]
  by (simp add: Contains_def networkNumberAndMask_def del: As16.simps)

subsection \<open>Properties\<close>

lemma IpBelongsToCidr_v4:
  assumes "n \<le> 32"
  shows "IpBelongsToCidr (Some (show_ipv4 ip)) (Some (show_ipv4 net @ CHR ''/'' # show_nat n)) \<longleftrightarrow>
    ipv4_num ip div 2 ^ (32 - n) = ipv4_num net div 2 ^ (32 - n)"
proof -
  obtain a b c d where ip: "ip = (a, b, c, d)" by (metis prod.exhaust)
  obtain a' b' c' d' where net: "net = (a', b', c', d')" by (metis prod.exhaust)
  have "ParseIP (show_ipv4 ip) = Some (As16 (Addr4 [a, b, c, d]))"
    by (simp add: ip ParseIP_def ParseAddr_show)
  then have "IpBelongsToCidr (Some (show_ipv4 ip)) (Some (show_ipv4 net @ CHR ''/'' # show_nat n)) \<longleftrightarrow>
      and_bytes [a', b', c', d'] (CIDRMask n 4) = and_bytes [a, b, c, d] (CIDRMask n 4)"
    by (simp add: IpBelongsToCidr_def net ParseCIDR_ipv4 [OF assms] Contains_v4 del: As16.simps)
  also have "\<dots> \<longleftrightarrow> ipv4_num ip div 2 ^ (32 - n) = ipv4_num net div 2 ^ (32 - n)"
    using and_CIDRMask_iff [of "[a', b', c', d']" 4 "[a, b, c, d]" n] assms
    by (auto simp: ip net ipv4_num_def)
  finally show ?thesis .
qed

text \<open>C4. For every dotted-quad address and every CIDR written as a dotted quad and a prefix length
  of at most 32, \<open>IpBelongsToCidr\<close>, which parses both strings and compares masked byte slices,
  holds exactly when the two addresses, as 32-bit numbers, agree on their leading prefix bits. The
  host part of the CIDR's address is irrelevant.\<close>

theorem IpBelongsToCidr_prefix:
  assumes "n \<le> 32"
  shows "IpBelongsToCidr (Some (show_ipv4 ip)) (Some (show_ipv4 net @ CHR ''/'' # show_nat n)) \<longleftrightarrow>
    ipv4_num ip div 2 ^ (32 - n) = ipv4_num net div 2 ^ (32 - n)"
  by (rule IpBelongsToCidr_v4 [OF assms])

theorem IpBelongsToCidr_prefix_witness:
  "(24::nat) \<le> 32 \<and>
   IpBelongsToCidr (Some (show_ipv4 (10, 0, 7, 9))) (Some (show_ipv4 (10, 0, 7, 1) @ CHR ''/'' # show_nat 24))"
  using IpBelongsToCidr_prefix [of 24 "(10, 0, 7, 9)" "(10, 0, 7, 1)"]
  by (simp add: ipv4_num_def)

end
