(* ===== verification/Network.thy ===== *)
theory Network
  imports K8s_Client Cidr
begin

text \<open>
  The network interface of kube-vim (\<open>internal/kubevim/network/manager.go\<close>): the messages of the
  NFV API the network code exchanges, the functional options of \<open>GetNetwork\<close> and \<open>GetSubnet\<close>, the
  interface \<open>Manager\<close> as a record of operations, and its contract as the locale
  \<open>network_backend\<close>: what a manager's clients (the composite manager, the IPAM resolver, the
  compute manager) rely on in the values it returns. An identifier, an IP address or a CIDR message
  holds a single string; \<open>None\<close> is the nil pointer.
\<close>

subsection \<open>Messages\<close>

datatype network_type = NET_OVERLAY | NET_UNDERLAY | NET_SRIOV | NET_OTHER string

fun network_type_String :: "network_type \<Rightarrow> string" where
  "network_type_String NET_OVERLAY = ''NETWORK_TYPE_OVERLAY''"
| "network_type_String NET_UNDERLAY = ''NETWORK_TYPE_UNDERLAY''"
| "network_type_String NET_SRIOV = ''NETWORK_TYPE_SRIOV''"
| "network_type_String (NET_OTHER s) = s"

datatype ip_version = IPV4 | IPV6 | IP_OTHER int

datatype operational_state = ENABLED | DISABLED

record network_subnet_data =
  sd_networkId :: "string option"
  sd_ipVersion :: "ip_version option"
  sd_isDhcpEnabled :: "bool option"
  sd_cidr :: "string option"
  sd_gatewayIp :: "string option"

record virtual_network_data =
  nd_networkType :: "network_type option"
  nd_providerNetwork :: "string option"
  nd_segmentationId :: "64 word option"
  nd_layer3Attributes :: "network_subnet_data option list"

record virtual_network =
  vn_resourceId :: "string option"
  vn_resourceName :: "string option"
  vn_subnetId :: "string option list"
  vn_bandwidth :: int
  vn_networkType :: network_type
  vn_isShared :: bool
  vn_providerNetwork :: "string option"
  vn_segmentationId :: "64 word option"
  vn_operationalState :: operational_state
  vn_metadata :: "labels option"

record network_subnet =
  ns_resourceId :: "string option"
  ns_networkId :: "string option"
  ns_ipVersion :: ip_version
  ns_gatewayIp :: "string option"
  ns_cidr :: "string option"
  ns_isDhcpEnabled :: bool
  ns_metadata :: "labels option"

text \<open>The generated getter: the zero value of the enum stands for an absent type. The code compares
  the result with the underlay and the SR-IOV type only.\<close>

definition GetNetworkType :: "virtual_network_data \<Rightarrow> network_type" where
  "GetNetworkType d = (case nd_networkType d of None \<Rightarrow> NET_OVERLAY | Some t \<Rightarrow> t)"

text \<open>\<open>Metadata.Fields[key]\<close>: a read of a missing key yields the empty string.\<close>

definition map_get :: "labels \<Rightarrow> string \<Rightarrow> string" where
  "map_get m k = (case m k of None \<Rightarrow> '''' | Some v \<Rightarrow> v)"

record mgmt_config =
  mc_enabled :: "bool option"
  mc_name :: "string option"
  mc_cidr :: "string option"
  mc_gateway :: "string option"
  mc_excludeIps :: "string list option"
  mc_nadName :: "string option"
  mc_nadNamespace :: "string option"

subsection \<open>Options\<close>

definition NetworkTypeStrToNfvType :: "(string \<rightharpoonup> network_type) \<Rightarrow> string \<Rightarrow> error + network_type" where
  "NetworkTypeStrToNfvType networkTypeValue str = (case networkTypeValue str of
      None \<Rightarrow> Inl (Plain ''invalid networkType'')
    | Some typeVal \<Rightarrow> Inr typeVal)"

record getNetworkOpts =
  gno_Name :: string
  gno_Uid :: "string option"

type_synonym get_network_opt = "getNetworkOpts \<Rightarrow> getNetworkOpts"

definition GetNetworkByName :: "string \<Rightarrow> get_network_opt" where
  "GetNetworkByName name = (\<lambda>gno. gno\<lparr>gno_Name := name\<rparr>)"

definition GetNetworkByUid :: "string option \<Rightarrow> get_network_opt" where
  "GetNetworkByUid uid = (\<lambda>gno. gno\<lparr>gno_Uid := uid\<rparr>)"

definition ApplyGetNetworkOpts :: "get_network_opt list \<Rightarrow> getNetworkOpts" where
  "ApplyGetNetworkOpts opts = foldl (\<lambda>res opt. opt res) \<lparr>gno_Name = '''', gno_Uid = None\<rparr> opts"

record getSubnetOpts =
  gso_Name :: string
  gso_Uid :: "string option"
  gso_NetAttachName :: string
  gso_NetId :: "string option"
  gso_IPAddress :: "string option"

type_synonym get_subnet_opt = "getSubnetOpts \<Rightarrow> getSubnetOpts"

definition GetSubnetByName :: "string \<Rightarrow> get_subnet_opt" where
  "GetSubnetByName name = (\<lambda>gso. gso\<lparr>gso_Name := name\<rparr>)"

definition GetSubnetByUid :: "string option \<Rightarrow> get_subnet_opt" where
  "GetSubnetByUid uid = (\<lambda>gso. gso\<lparr>gso_Uid := uid\<rparr>)"

definition GetSubnetByNetAttachName :: "string \<Rightarrow> get_subnet_opt" where
  "GetSubnetByNetAttachName netAttachName = (\<lambda>gso. gso\<lparr>gso_NetAttachName := netAttachName\<rparr>)"

definition GetSubnetByNetworkIP :: "string option \<Rightarrow> string option \<Rightarrow> get_subnet_opt" where
  "GetSubnetByNetworkIP netId ip = (\<lambda>gso. gso\<lparr>gso_NetId := netId, gso_IPAddress := ip\<rparr>)"

definition ApplyGetSubnetOpts :: "get_subnet_opt list \<Rightarrow> getSubnetOpts" where
  "ApplyGetSubnetOpts opts = foldl (\<lambda>res opt. opt res)
     \<lparr>gso_Name = '''', gso_Uid = None, gso_NetAttachName = '''', gso_NetId = None, gso_IPAddress = None\<rparr> opts"

lemmas network_opt_defs = GetNetworkByName_def GetNetworkByUid_def ApplyGetNetworkOpts_def
lemmas subnet_opt_defs = GetSubnetByName_def GetSubnetByUid_def GetSubnetByNetAttachName_def
  GetSubnetByNetworkIP_def ApplyGetSubnetOpts_def

text \<open>An optional identifier that carries a value: \<open>id != nil && id.Value != ""\<close>.\<close>

definition has_value :: "string option \<Rightarrow> bool" where
  "has_value p \<longleftrightarrow> (case p of None \<Rightarrow> False | Some v \<Rightarrow> v \<noteq> '''')"

lemma has_value_iff: "has_value p \<longleftrightarrow> (\<exists>v. p = Some v \<and> v \<noteq> '''')"
  by (cases p) (auto simp: has_value_def)

subsection \<open>The interface\<close>

record 's network_manager =
  nm_CreateNetwork :: "string \<Rightarrow> virtual_network_data option \<Rightarrow> ('s, error, virtual_network) act"
  nm_GetNetwork :: "get_network_opt list \<Rightarrow> ('s, error, virtual_network) act"
  nm_ListNetworks :: "('s, error, virtual_network list) act"
  nm_DeleteNetwork :: "get_network_opt list \<Rightarrow> ('s, error, unit) act"
  nm_CreateSubnet :: "string \<Rightarrow> network_subnet_data option \<Rightarrow> ('s, error, network_subnet) act"
  nm_GetSubnet :: "get_subnet_opt list \<Rightarrow> ('s, error, network_subnet) act"
  nm_ListSubnets :: "('s, error, network_subnet list) act"
  nm_DeleteSubnet :: "get_subnet_opt list \<Rightarrow> ('s, error, unit) act"
  nm_EnsureManagementNetwork :: "mgmt_config option \<Rightarrow> ('s, error, unit) act"

text \<open>What a returned network and a returned subnet have filled in.\<close>

definition complete_network :: "virtual_network \<Rightarrow> bool" where
  "complete_network n \<longleftrightarrow> vn_resourceId n \<noteq> None \<and> vn_resourceName n \<noteq> None
     \<and> vn_networkType n \<in> {NET_OVERLAY, NET_UNDERLAY, NET_SRIOV}
     \<and> (\<forall>p \<in> set (vn_subnetId n). p \<noteq> None)
     \<and> (vn_networkType n = NET_SRIOV \<longrightarrow>
          vn_metadata n = Some [K8sNetworkNetAttachNameLabel \<mapsto> the (vn_resourceName n)])"

definition complete_subnet :: "network_subnet \<Rightarrow> bool" where
  "complete_subnet n \<longleftrightarrow> ns_resourceId n \<noteq> None \<and> ns_metadata n \<noteq> None \<and> ns_cidr n \<noteq> None
     \<and> ns_gatewayIp n \<noteq> None"

text \<open>The contract: lookups return complete values and do not panic, whatever the cluster does.\<close>

locale network_backend =
  fixes nm :: "'s network_manager"
  assumes get_network: "meets (nm_GetNetwork nm nopts) s (\<lambda>n _. complete_network n) (\<lambda>_ _. True)"
    and get_subnet_ok: "nm_GetSubnet nm sopts s = (Ok sub, t) \<Longrightarrow> complete_subnet sub"
    and get_subnet_by_uid: "nm_GetSubnet nm [GetSubnetByUid uid] s \<noteq> (Panic, t)"
    and get_subnet_by_name: "nm_GetSubnet nm [GetSubnetByName name] s \<noteq> (Panic, t)"
begin

lemma meets_get_subnet_by_uid:
  assumes "\<And>sub t. complete_subnet sub \<Longrightarrow> Q sub t" and "\<And>e t. E e t"
  shows "meets (nm_GetSubnet nm [GetSubnetByUid uid]) s Q E"
  using assms by (intro meetsI) (auto dest: get_subnet_ok simp: get_subnet_by_uid)

lemma meets_get_network:
  assumes "\<And>n t. complete_network n \<Longrightarrow> Q n t" and "\<And>e t. E e t"
  shows "meets (nm_GetNetwork nm nopts) s Q E"
  by (rule meets_weaken [OF get_network]) (auto intro: assms)

end

end
