(* ===== verification/Kubeovn_Utils.thy ===== *)
theory Kubeovn_Utils
  imports Network
begin

text \<open>
  The conversions between the messages of the NFV API and the kube-ovn objects
  (\<open>internal/kubevim/network/kubeovn/utils.go\<close>), and the names the manager derives. A pointer
  argument that the code tests for nil is an \<open>option\<close>; the \<open>Kind\<close> of an object decoded into a typed
  struct is empty. \<open>int(*SegmentationId)\<close> and \<open>uint64(vlan.Spec.ID)\<close> are the 64-bit
  reinterpretations.
\<close>

definition managed_labels :: labels where
  "managed_labels = [K8sManagedByLabel \<mapsto> KubeNfvName]"

definition named_meta :: "string \<Rightarrow> string \<Rightarrow> labels \<Rightarrow> obj_meta" where
  "named_meta ns name ls = empty_meta\<lparr>m_name := name, m_namespace := ns, m_labels := ls\<rparr>"

definition kubeovnVpcFromNfvNetworkData :: "string \<Rightarrow> virtual_network_data option \<Rightarrow> error + vpc" where
  "kubeovnVpcFromNfvNetworkData name nfvNet =
     (if name = '''' then Inl (ErrInvalidArgument ''name'' ''cannot be empty'')
      else if nfvNet = None then Inl (ErrInvalidArgument ''network data'' ''cannot be nil'')
      else Inr \<lparr>vpc_meta = named_meta '''' name managed_labels, vpc_status_subnets = []\<rparr>)"

definition kubeovnVpcToNfvNetwork :: "vpc option \<Rightarrow> string option list \<Rightarrow> error + virtual_network" where
  "kubeovnVpcToNfvNetwork vpc subnetIds = (case vpc of
      None \<Rightarrow> Inl (ErrInvalidArgument ''vpc'' ''cannot be nil'')
    | Some vpc \<Rightarrow> (let uid = m_uid (vpc_meta vpc); name = m_name (vpc_meta vpc) in
        if uid = '''' then Inl (ErrInvalidArgument ''vpc UID'' ''cannot be empty'')
        else if name = '''' then Inl (ErrInvalidArgument ''vpc name'' ''cannot be empty'')
        else if \<not> IsObjectInstantiated (vpc_meta vpc) then Inl (ErrK8sObjectNotInstantiated '''' name)
        else if \<not> IsObjectManagedByKubeNfv (vpc_meta vpc)
          then Inl (ErrK8sObjectNotManagedByKubeNfv '''' name uid)
        else Inr \<lparr>vn_resourceId = UIDToIdentifier uid, vn_resourceName = Some name,
          vn_subnetId = subnetIds, vn_bandwidth = 0, vn_networkType = NET_OVERLAY,
          vn_isShared = False, vn_providerNetwork = None, vn_segmentationId = None,
          vn_operationalState = ENABLED, vn_metadata = None\<rparr>))"

definition kubeovnVlanToNfvNetwork :: "vlan option \<Rightarrow> string option list \<Rightarrow> error + virtual_network" where
  "kubeovnVlanToNfvNetwork vlan subnetIds = (case vlan of
      None \<Rightarrow> Inl (ErrInvalidArgument ''vlan'' ''cannot be nil'')
    | Some vlan \<Rightarrow> (let uid = m_uid (vlan_meta vlan); name = m_name (vlan_meta vlan) in
        if uid = '''' then Inl (ErrInvalidArgument ''vlan UID'' ''cannot be empty'')
        else if name = '''' then Inl (ErrInvalidArgument ''vlan name'' ''cannot be empty'')
        else if \<not> IsObjectInstantiated (vlan_meta vlan) then Inl (ErrK8sObjectNotInstantiated '''' name)
        else if \<not> IsObjectManagedByKubeNfv (vlan_meta vlan)
          then Inl (ErrK8sObjectNotManagedByKubeNfv '''' name uid)
        else (let segmentationId = word_of_int (vlan_id vlan) :: 64 word in
          Inr \<lparr>vn_resourceId = UIDToIdentifier uid, vn_resourceName = Some name,
            vn_subnetId = subnetIds, vn_bandwidth = 0, vn_networkType = NET_UNDERLAY,
            vn_isShared = False, vn_providerNetwork = Some (vlan_provider vlan),
            vn_segmentationId = Some segmentationId,
            vn_operationalState = ENABLED, vn_metadata = None\<rparr>)))"

definition kubeovnVlanFromNfvNetworkData :: "string \<Rightarrow> virtual_network_data option \<Rightarrow> error + vlan" where
  "kubeovnVlanFromNfvNetworkData name nfvNet =
     (if name = '''' then Inl (ErrInvalidArgument ''name'' ''cannot be empty'')
      else (case nfvNet of
          None \<Rightarrow> Inl (ErrInvalidArgument ''network data'' ''cannot be nil'')
        | Some d \<Rightarrow>
            if GetNetworkType d \<noteq> NET_UNDERLAY
              then Inl (Wrap ''vlan construction for network type'' ErrUnsupported)
            else (case nd_providerNetwork d of
                None \<Rightarrow> Inl (ErrInvalidArgument ''providerNetwork'' ''cannot be empty for underlay networks'')
              | Some provider \<Rightarrow>
                  if provider = ''''
                    then Inl (ErrInvalidArgument ''providerNetwork'' ''cannot be empty for underlay networks'')
                  else (let vlanId = (case nd_segmentationId d of None \<Rightarrow> 0 | Some sid \<Rightarrow> sint sid) in
                    Inr \<lparr>vlan_meta = named_meta '''' name managed_labels, vlan_id = vlanId,
                      vlan_provider = provider, vlan_status_subnets = []\<rparr>))))"

definition kubeovnIpVersionFromNfv :: "ip_version option \<Rightarrow> error + string" where
  "kubeovnIpVersionFromNfv ipVersion = (case ipVersion of
      None \<Rightarrow> Inl (ErrInvalidArgument ''ip version'' ''not specified'')
    | Some IPV4 \<Rightarrow> Inr ''IPv4''
    | Some IPV6 \<Rightarrow> Inr ''IPv6''
    | Some (IP_OTHER _) \<Rightarrow> Inl (Wrap ''unsupported ip version'' ErrUnsupported))"

definition nfvIpversionFromKubeovn :: "string \<Rightarrow> error + ip_version" where
  "nfvIpversionFromKubeovn ipVersion =
     (if ipVersion = '''' then Inl (ErrInvalidArgument ''ip version'' ''not specified'')
      else if ipVersion = ''IPv4'' then Inr IPV4
      else if ipVersion = ''IPv6'' then Inr IPV6
      else Inl (Wrap ''unsupported ip version'' ErrUnsupported))"

definition kubeovnSubnetFromNfvSubnetData :: "string \<Rightarrow> network_subnet_data option \<Rightarrow> error + subnet" where
  "kubeovnSubnetFromNfvSubnetData name nfvSubnet =
     (if name = '''' then Inl (ErrInvalidArgument ''name'' ''cannot be empty'')
      else (case nfvSubnet of
          None \<Rightarrow> Inl (ErrInvalidArgument ''subnet data'' ''cannot be nil'')
        | Some d \<Rightarrow> (case kubeovnIpVersionFromNfv (sd_ipVersion d) of
            Inl err \<Rightarrow> Inl (Wrap ''convert nfv IPVersion'' err)
          | Inr ipProto \<Rightarrow>
              (let enableDhcp = (sd_isDhcpEnabled d = None \<or> sd_isDhcpEnabled d = Some True) in
               case sd_cidr d of
                 None \<Rightarrow> Inl (ErrInvalidArgument ''cidr'' ''must be specified for NetworkSubnetData'')
               | Some cidr \<Rightarrow> (case ParseCIDR cidr of
                   Inl err \<Rightarrow> Inl (Wrap ''parse cidr'' err)
                 | Inr _ \<Rightarrow>
                     (let sub = \<lparr>sub_meta = named_meta '''' name
                           (managed_labels(K8sSubnetNameLabel \<mapsto> name)),
                         sub_protocol = ipProto, sub_enableDHCP = enableDhcp, sub_cidrBlock = cidr,
                         sub_default = False, sub_gatewayType = ''distributed'', sub_natOutgoing = True,
                         sub_gateway = '''', sub_vpc = '''', sub_vlan = '''', sub_provider = '''',
                         sub_excludeIps = []\<rparr>
                      in case sd_gatewayIp d of
                           None \<Rightarrow> Inr sub
                         | Some gw \<Rightarrow>
                             if ParseIP gw = None
                               then Inl (ErrInvalidArgument ''gateway ip'' (''invalid format: '' @ gw))
                             else Inr (sub\<lparr>sub_gateway := gw\<rparr>)))))))"

definition nfvNetworkSubnetFromKubeovnSubnet :: "subnet option \<Rightarrow> error + network_subnet" where
  "nfvNetworkSubnetFromKubeovnSubnet kubeovnSub = (case kubeovnSub of
      None \<Rightarrow> Inl (ErrInvalidArgument ''subnet'' ''cannot be nil'')
    | Some sub \<Rightarrow> (let m = sub_meta sub in
        if \<not> IsObjectInstantiated m then Inl (ErrK8sObjectNotInstantiated '''' (m_name m))
        else if \<not> IsObjectManagedByKubeNfv m
          then Inl (ErrK8sObjectNotManagedByKubeNfv '''' (m_name m) (m_uid m))
        else (let optNetworkId = (case m_labels m K8sNetworkIdLabel of
                  None \<Rightarrow> None
                | Some networkId \<Rightarrow> if networkId \<noteq> '''' then Some networkId else None)
          in case nfvIpversionFromKubeovn (sub_protocol sub) of
               Inl err \<Rightarrow> Inl (Wrap ''convert ip protocol from kubeovn resource spec'' err)
             | Inr ipVersion \<Rightarrow>
                 Inr \<lparr>ns_resourceId = UIDToIdentifier (m_uid m), ns_networkId = optNetworkId,
                   ns_ipVersion = ipVersion, ns_gatewayIp = Some (sub_gateway sub),
                   ns_cidr = Some (sub_cidrBlock sub), ns_isDhcpEnabled = sub_enableDHCP sub,
                   ns_metadata = Some (m_labels m)\<rparr>)))"

definition formatSubnetName :: "string \<Rightarrow> string \<Rightarrow> string" where
  "formatSubnetName networkName subnetName = networkName @ ''-subnet-'' @ subnetName"

definition formatNetAttachName :: "string \<Rightarrow> string" where
  "formatNetAttachName subnetName = subnetName @ ''-netattach''"

definition formatNetAttachKubeOvnProvider :: "string \<Rightarrow> string \<Rightarrow> string" where
  "formatNetAttachKubeOvnProvider netAttachName namespace = netAttachName @ ''.'' @ namespace @ ''.ovn''"

definition newline :: string where "newline = [char_of (10::nat)]"

definition dquoted :: "string \<Rightarrow> string" where
  "dquoted s = CHR 0x22 # s @ [CHR 0x22]"

definition formatNetAttachConfig :: "string \<Rightarrow> string \<Rightarrow> string" where
  "formatNetAttachConfig netAttachName namespace =
     ''{'' @ newline
     @ dquoted ''cniVersion'' @ '': '' @ dquoted ''0.3.0'' @ '','' @ newline
     @ dquoted ''type'' @ '': '' @ dquoted ''kube-ovn'' @ '','' @ newline
     @ dquoted ''server_socket'' @ '': '' @ dquoted ''/run/openvswitch/kube-ovn-daemon.sock'' @ '','' @ newline
     @ dquoted ''provider'' @ '': '' @ dquoted (formatNetAttachKubeOvnProvider netAttachName namespace) @ newline
     @ ''}''"

subsection \<open>What the conversions produce\<close>

lemma vpcTo_Inr:
  assumes "kubeovnVpcToNfvNetwork (Some v) ids = Inr n"
  shows "vn_networkType n = NET_OVERLAY" "vn_resourceName n = Some (m_name (vpc_meta v))"
    "vn_resourceId n = Some (m_uid (vpc_meta v))" "vn_subnetId n = ids"
    "IsObjectManagedByKubeNfv (vpc_meta v)"
  using assms by (auto simp: kubeovnVpcToNfvNetwork_def Let_def UIDToIdentifier_def split: if_splits)

lemma vlanTo_Inr:
  assumes "kubeovnVlanToNfvNetwork (Some v) ids = Inr n"
  shows "vn_networkType n = NET_UNDERLAY" "vn_resourceName n = Some (m_name (vlan_meta v))"
    "vn_resourceId n = Some (m_uid (vlan_meta v))" "vn_subnetId n = ids"
    "IsObjectManagedByKubeNfv (vlan_meta v)"
  using assms by (auto simp: kubeovnVlanToNfvNetwork_def Let_def UIDToIdentifier_def split: if_splits)

lemma networkTo_complete:
  assumes "\<forall>p \<in> set ids. p \<noteq> None"
  shows "kubeovnVpcToNfvNetwork (Some v) ids = Inr n \<Longrightarrow> complete_network n"
    and "kubeovnVlanToNfvNetwork (Some vl) ids = Inr n \<Longrightarrow> complete_network n"
  using assms vpcTo_Inr [of v ids n] vlanTo_Inr [of vl ids n] by (auto simp: complete_network_def)

text \<open>An instantiated and managed object converts, so the only failures left are those of an
  unlabelled object or a foreign IP protocol.\<close>

lemma subnetTo_Inr_iff:
  "nfvNetworkSubnetFromKubeovnSubnet (Some sub) = Inr n \<longleftrightarrow>
     IsObjectInstantiated (sub_meta sub) \<and> IsObjectManagedByKubeNfv (sub_meta sub) \<and>
     sub_protocol sub \<in> {''IPv4'', ''IPv6''} \<and>
     n = \<lparr>ns_resourceId = Some (m_uid (sub_meta sub)),
       ns_networkId = (if has_value (m_labels (sub_meta sub) K8sNetworkIdLabel)
         then m_labels (sub_meta sub) K8sNetworkIdLabel else None),
       ns_ipVersion = (if sub_protocol sub = ''IPv4'' then IPV4 else IPV6),
       ns_gatewayIp = Some (sub_gateway sub), ns_cidr = Some (sub_cidrBlock sub),
       ns_isDhcpEnabled = sub_enableDHCP sub, ns_metadata = Some (m_labels (sub_meta sub))\<rparr>"
  by (auto simp: nfvNetworkSubnetFromKubeovnSubnet_def Let_def UIDToIdentifier_def
      nfvIpversionFromKubeovn_def has_value_def split: if_splits option.splits)

lemma subnetTo_complete:
  "nfvNetworkSubnetFromKubeovnSubnet (Some sub) = Inr n \<Longrightarrow> complete_subnet n"
  by (auto simp: subnetTo_Inr_iff complete_subnet_def)

lemma subnetTo_no_not_found:
  "nfvNetworkSubnetFromKubeovnSubnet p = Inl e \<Longrightarrow> \<not> is_ErrNotFound (root e) \<and> \<not> has_reason r (root e)"
  by (auto simp: nfvNetworkSubnetFromKubeovnSubnet_def nfvIpversionFromKubeovn_def Let_def
      split: option.splits if_splits)

lemma networkTo_no_not_found:
  "kubeovnVpcToNfvNetwork pv ids = Inl e \<Longrightarrow> \<not> is_ErrNotFound (root e) \<and> \<not> has_reason r (root e)"
  "kubeovnVlanToNfvNetwork pl ids = Inl e \<Longrightarrow> \<not> is_ErrNotFound (root e) \<and> \<not> has_reason r (root e)"
  by (auto simp: kubeovnVpcToNfvNetwork_def kubeovnVlanToNfvNetwork_def Let_def
      split: option.splits if_splits)

lemma ipVersion_roundtrip:
  "kubeovnIpVersionFromNfv (Some v) = Inr p \<Longrightarrow> nfvIpversionFromKubeovn p = Inr v"
  by (cases v) (auto simp: kubeovnIpVersionFromNfv_def nfvIpversionFromKubeovn_def)

lemma subnetFrom_Inr:
  assumes "kubeovnSubnetFromNfvSubnetData name (Some d) = Inr sub"
  shows "name \<noteq> ''''" "sub_meta sub = named_meta '''' name (managed_labels(K8sSubnetNameLabel \<mapsto> name))"
    "sub_protocol sub \<in> {''IPv4'', ''IPv6''}" "sd_cidr d = Some (sub_cidrBlock sub)"
    "sub_vpc sub = ''''" "sub_vlan sub = ''''"
    "\<exists>v. sd_ipVersion d = Some v \<and> kubeovnIpVersionFromNfv (Some v) = Inr (sub_protocol sub)"
    "sub_enableDHCP sub \<longleftrightarrow> sd_isDhcpEnabled d = None \<or> sd_isDhcpEnabled d = Some True"
    "sub_gateway sub = (case sd_gatewayIp d of None \<Rightarrow> '''' | Some g \<Rightarrow> g)"
    "\<exists>net. ParseCIDR (sub_cidrBlock sub) = Inr net"
  using assms
  by (auto simp: kubeovnSubnetFromNfvSubnetData_def Let_def kubeovnIpVersionFromNfv_def
      split: if_splits option.splits sum.splits ip_version.splits)

lemma formatNetAttachName_inj: "formatNetAttachName a = formatNetAttachName b \<longleftrightarrow> a = b"
  by (simp add: formatNetAttachName_def)

end
