(* ===== verification/Kubeovn.thy ===== *)
theory Kubeovn
  imports Kubeovn_Utils
begin

text \<open>
  The kube-ovn network manager (\<open>internal/kubevim/network/kubeovn/manager.go\<close>): overlay networks
  are Vpcs, underlay networks Vlans, a subnet is a kube-ovn Subnet together with a multus
  NetworkAttachmentDefinition. Every operation is an action over the client's state. \<open>isUUID\<close> stands
  for \<open>uuid.Parse\<close> of \<open>github.com/google/uuid\<close>. Reads go to the cached client, the reconciliation of
  the management network to the uncached reader; both are arbitrary clients. Log calls are omitted.
\<close>

record 's kubeovn =
  ko_client :: "'s client"
  ko_apiReader :: "'s client"
  ko_namespace :: "string option"

definition NewKubeovnNetworkManager ::
  "'s client \<Rightarrow> 's client \<Rightarrow> string option \<Rightarrow> error + 's kubeovn" where
  "NewKubeovnNetworkManager cl apiReader namespace =
     (if namespace = None then Inl (ErrInvalidArgument ''config k8s.Namespace'' (''can'' @ [CHR 0x27] @ ''t be nil''))
      else Inr \<lparr>ko_client = cl, ko_apiReader = apiReader, ko_namespace = namespace\<rparr>)"

subsection \<open>Subnets: reads\<close>

definition ListSubnets :: "'s kubeovn \<Rightarrow> ('s, error, network_subnet list) act" where
  "ListSubnets m =
     and_then (wrap ''list kubeovn subnets'' (k8s_list (ko_client m) subnet_k None managed_selector)) (\<lambda>items.
     for_each (\<lambda>subnetRef. wrap ''convert kubeovn subnet'' (sum_act (nfvNetworkSubnetFromKubeovnSubnet (Some subnetRef)))) items)"

text \<open>\<open>for _, sub := range subnets { if sub.NetworkId.Value == ... }\<close>: the network id of a subnet may
  be nil.\<close>

fun find_by_ip :: "string option \<Rightarrow> string option \<Rightarrow> network_subnet list \<Rightarrow> ('s, error, network_subnet) act" where
  "find_by_ip netId ip [] = throw (ErrNotFound ''subnet'' '''')"
| "find_by_ip netId ip (sub # subnets) =
     and_then (deref (ns_networkId sub)) (\<lambda>subNet.
     and_then (deref netId) (\<lambda>wanted.
       if subNet = wanted \<and> IpBelongsToCidr ip (ns_cidr sub) then ret sub
       else find_by_ip netId ip subnets))"

text \<open>The body of \<open>GetSubnet\<close>, with the recursive call as an argument; \<open>GetSubnet\<close> unrolls it once,
  which is all it can need: the call has only the name set.\<close>

definition GetSubnet_body ::
  "(get_subnet_opt list \<Rightarrow> ('s, error, network_subnet) act) \<Rightarrow> 's kubeovn \<Rightarrow> get_subnet_opt list \<Rightarrow>
     ('s, error, network_subnet) act" where
  "GetSubnet_body self m opts = (let cfg = ApplyGetSubnetOpts opts in
     if gso_Name cfg \<noteq> '''' then
       and_then (wrap ''get kubeovn subnet'' (k8s_get (ko_client m) subnet_k '''' (gso_Name cfg))) (\<lambda>subnet.
       wrap ''convert kubeovn subnet'' (sum_act (nfvNetworkSubnetFromKubeovnSubnet (Some subnet))))
     else if has_value (gso_Uid cfg) then
       and_then (wrap ''list kubeovn subnets'' (k8s_list (ko_client m) subnet_k None managed_selector)) (\<lambda>items.
       (case find (\<lambda>subnetRef. Some (m_uid (sub_meta subnetRef)) = gso_Uid cfg) items of
          Some subnetRef \<Rightarrow>
            wrap ''convert kubeovn subnet'' (sum_act (nfvNetworkSubnetFromKubeovnSubnet (Some subnetRef)))
        | None \<Rightarrow> throw (ErrNotFound ''kubeovn subnet'' (str_or_empty (gso_Uid cfg)))))
     else if gso_NetAttachName cfg \<noteq> '''' then
       and_then (deref (ko_namespace m)) (\<lambda>namespace.
       and_then (wrap ''get network attachment definition''
           (k8s_get (ko_client m) nad_k namespace (gso_NetAttachName cfg))) (\<lambda>netAttach.
         if \<not> IsObjectManagedByKubeNfv (nad_meta netAttach) then
           throw (ErrK8sObjectNotManagedByKubeNfv ''NetworkAttachmentDefinition'' (gso_NetAttachName cfg)
             (m_uid (nad_meta netAttach)))
         else (case m_labels (nad_meta netAttach) K8sSubnetNameLabel of
             None \<Rightarrow> throw (ErrInvalidArgument
               (''NetworkAttachmentDefinition '' @ quoted (gso_NetAttachName cfg))
               (''missing '' @ quoted K8sSubnetNameLabel @ '' label''))
           | Some subnetName \<Rightarrow> self [GetSubnetByName subnetName])))
     else if gso_IPAddress cfg \<noteq> None \<and> gso_NetId cfg \<noteq> None then
       and_then (wrap ''list subnets'' (ListSubnets m)) (find_by_ip (gso_NetId cfg) (gso_IPAddress cfg))
     else throw (ErrInvalidArgument ''subnet identifier''
       ''name, uid, net attach name or network and ip must be specified''))"

definition GetSubnet :: "'s kubeovn \<Rightarrow> get_subnet_opt list \<Rightarrow> ('s, error, network_subnet) act" where
  "GetSubnet m = GetSubnet_body (GetSubnet_body (\<lambda>_. panic) m) m"

subsection \<open>Networks: reads\<close>

definition subnet_ids :: "'s kubeovn \<Rightarrow> string \<Rightarrow> string list \<Rightarrow> ('s, error, string option list) act" where
  "subnet_ids m ctx names = for_each (\<lambda>subnetName.
     and_then (wrap ctx (GetSubnet m [GetSubnetByName subnetName])) (\<lambda>subnet. ret (ns_resourceId subnet))) names"

text \<open>\<open>getOverlayNetwork\<close> and \<open>getUnderlayNetwork\<close>: find the object, then resolve the subnets its status
  lists and convert.\<close>

definition find_vpc :: "'s kubeovn \<Rightarrow> getNetworkOpts \<Rightarrow> ('s, error, vpc) act" where
  "find_vpc m cfg =
     (if gno_Name cfg \<noteq> [] then
        wrap ''get kubeovn vpc'' (k8s_get (ko_client m) vpc_k [] (gno_Name cfg))
      else if has_value (gno_Uid cfg) then
        and_then (wrap ''list kubeovn vpcs'' (k8s_list (ko_client m) vpc_k None managed_selector)) (\<lambda>items.
        (case find (\<lambda>ref. Some (m_uid (vpc_meta ref)) = gno_Uid cfg) items of
           Some vpc \<Rightarrow> ret vpc
         | None \<Rightarrow> throw (ErrNotFound ''kubeovn vpc'' (str_or_empty (gno_Uid cfg)))))
      else throw (ErrInvalidArgument ''network identifier'' ''either name or uid must be specified''))"

definition vpc_network :: "'s kubeovn \<Rightarrow> vpc \<Rightarrow> ('s, error, virtual_network) act" where
  "vpc_network m vpc =
     and_then (subnet_ids m ''get subnet referenced by vpc'' (vpc_status_subnets vpc)) (\<lambda>subnetIds.
     wrap ''convert kubeovn vpc'' (sum_act (kubeovnVpcToNfvNetwork (Some vpc) subnetIds)))"

definition getOverlayNetwork :: "'s kubeovn \<Rightarrow> get_network_opt list \<Rightarrow> ('s, error, virtual_network) act" where
  "getOverlayNetwork m opts = and_then (find_vpc m (ApplyGetNetworkOpts opts)) (vpc_network m)"

definition find_vlan :: "'s kubeovn \<Rightarrow> getNetworkOpts \<Rightarrow> ('s, error, vlan) act" where
  "find_vlan m cfg =
     (if gno_Name cfg \<noteq> [] then
        wrap ''get kubeovn vlan'' (k8s_get (ko_client m) vlan_k [] (gno_Name cfg))
      else if has_value (gno_Uid cfg) then
        and_then (wrap ''list kubeovn vlans'' (k8s_list (ko_client m) vlan_k None managed_selector)) (\<lambda>items.
        (case find (\<lambda>ref. Some (m_uid (vlan_meta ref)) = gno_Uid cfg) items of
           Some vlan \<Rightarrow> ret vlan
         | None \<Rightarrow> throw (ErrNotFound ''kubeovn vlan'' (str_or_empty (gno_Uid cfg)))))
      else throw (ErrInvalidArgument ''network identifier'' ''either name or uid must be specified''))"

definition vlan_network :: "'s kubeovn \<Rightarrow> vlan \<Rightarrow> ('s, error, virtual_network) act" where
  "vlan_network m vlan =
     and_then (subnet_ids m ''get subnet referenced by vlan'' (vlan_status_subnets vlan)) (\<lambda>subnetIds.
     wrap ''convert kubeovn vlan'' (sum_act (kubeovnVlanToNfvNetwork (Some vlan) subnetIds)))"

definition getUnderlayNetwork :: "'s kubeovn \<Rightarrow> get_network_opt list \<Rightarrow> ('s, error, virtual_network) act" where
  "getUnderlayNetwork m opts = and_then (find_vlan m (ApplyGetNetworkOpts opts)) (vlan_network m)"

definition GetNetwork :: "'s kubeovn \<Rightarrow> get_network_opt list \<Rightarrow> ('s, error, virtual_network) act" where
  "GetNetwork m opts =
     handle (getOverlayNetwork m opts) ret (\<lambda>err.
       if \<not> k8s_IsNotFound err \<and> \<not> errors_As is_ErrNotFound err
       then throw (Wrap ''get overlay network'' err)
       else handle (getUnderlayNetwork m opts) ret (\<lambda>err.
         if \<not> k8s_IsNotFound err \<and> \<not> errors_As is_ErrNotFound err
         then throw (Wrap ''get underlay network'' err)
         else throw (ErrNotFound ''network'' '''')))"

definition index_subnets :: "subnet list \<Rightarrow> string \<rightharpoonup> string option" where
  "index_subnets items = foldl (\<lambda>idx sub.
     idx(m_name (sub_meta sub) \<mapsto> UIDToIdentifier (m_uid (sub_meta sub)))) Map.empty items"

fun resolveSubnetIds :: "(string \<rightharpoonup> string option) \<Rightarrow> string list \<Rightarrow> error + string option list" where
  "resolveSubnetIds idx [] = Inr []"
| "resolveSubnetIds idx (sn # names) = (case idx sn of
      None \<Rightarrow> Inl (ErrNotFound ''kubeovn subnet'' sn)
    | Some ident \<Rightarrow> map_sum id (\<lambda>ids. ident # ids) (resolveSubnetIds idx names))"

definition ListNetworks :: "'s kubeovn \<Rightarrow> ('s, error, virtual_network list) act" where
  "ListNetworks m =
     and_then (wrap ''list kubeovn vpcs'' (k8s_list (ko_client m) vpc_k None managed_selector)) (\<lambda>vpcs.
     and_then (wrap ''list kubeovn vlans'' (k8s_list (ko_client m) vlan_k None managed_selector)) (\<lambda>vlans.
     and_then (wrap ''list kubeovn subnets'' (k8s_list (ko_client m) subnet_k None managed_selector)) (\<lambda>subnets.
     and_then (for_each (\<lambda>vpc.
         and_then (wrap ''resolve subnets for vpc''
           (sum_act (resolveSubnetIds (index_subnets subnets) (vpc_status_subnets vpc)))) (\<lambda>ids.
         wrap ''convert kubeovn vpc'' (sum_act (kubeovnVpcToNfvNetwork (Some vpc) ids)))) vpcs) (\<lambda>overlay.
     and_then (for_each (\<lambda>vlan.
         and_then (wrap ''resolve subnets for vlan''
           (sum_act (resolveSubnetIds (index_subnets subnets) (vlan_status_subnets vlan)))) (\<lambda>ids.
         wrap ''convert kubeovn vlan'' (sum_act (kubeovnVlanToNfvNetwork (Some vlan) ids)))) vlans) (\<lambda>underlay.
     ret (overlay @ underlay))))))"

subsection \<open>Deletion\<close>

definition DeleteSubnet :: "'s kubeovn \<Rightarrow> get_subnet_opt list \<Rightarrow> ('s, error, unit) act" where
  "DeleteSubnet m opts =
     and_then (wrap ''get subnet'' (GetSubnet m opts)) (\<lambda>subnet.
     and_then (deref (ns_metadata subnet)) (\<lambda>fields.
     (let netAttachName = map_get fields K8sSubnetNetAttachNameLabel;
          subnetName = map_get fields K8sSubnetNameLabel in
      and_then
        (handle (k8s_delete (ko_client m) subnet_k '''' subnetName) ret (\<lambda>err.
           and_then (deref (ns_resourceId subnet)) (\<lambda>_. throw (Wrap ''delete kubeovn subnet'' err)))) (\<lambda>_.
      and_then (deref (ko_namespace m)) (\<lambda>namespace.
        handle (k8s_delete (ko_client m) nad_k namespace netAttachName) ret (\<lambda>err.
          and_then (deref (ns_resourceId subnet)) (\<lambda>_.
          throw (Wrap ''delete multus NetworkAttachmentDefinition'' err))))))))"

definition delete_found_network :: "'s kubeovn \<Rightarrow> virtual_network \<Rightarrow> ('s, error, unit) act" where
  "delete_found_network m net =
     and_then (for_each (\<lambda>subnetId.
         handle (DeleteSubnet m [GetSubnetByUid subnetId]) ret (\<lambda>err.
           and_then (deref subnetId) (\<lambda>_. throw (Wrap ''delete network subnet with id'' err)))) (vn_subnetId net)) (\<lambda>_.
       if vn_networkType net = NET_OVERLAY then
         and_then (deref (vn_resourceName net)) (\<lambda>name.
         handle (k8s_delete (ko_client m) vpc_k [] name) ret (\<lambda>err.
           and_then (deref (vn_resourceId net)) (\<lambda>_. throw (Wrap ''delete kubeovn vpc'' err))))
       else if vn_networkType net = NET_UNDERLAY then
         and_then (deref (vn_resourceName net)) (\<lambda>name.
         handle (k8s_delete (ko_client m) vlan_k [] name) ret (\<lambda>err.
           and_then (deref (vn_resourceId net)) (\<lambda>_. throw (Wrap ''delete kubeovn vlan'' err))))
       else throw (Wrap ''unsupported network type'' ErrUnsupported))"

definition DeleteNetwork :: "'s kubeovn \<Rightarrow> get_network_opt list \<Rightarrow> ('s, error, unit) act" where
  "DeleteNetwork m opts = and_then (wrap ''get network'' (GetNetwork m opts)) (delete_found_network m)"

subsection \<open>Creation\<close>

text \<open>The labels and the parent that \<open>CreateSubnet\<close> adds when the subnet belongs to a network.\<close>

definition attach_network :: "virtual_network \<Rightarrow> subnet \<Rightarrow> ('s, error, subnet) act" where
  "attach_network vnet subnet = (case vn_resourceName vnet of
      None \<Rightarrow> ret subnet
    | Some name \<Rightarrow>
        (let subnet = (if vn_networkType vnet = NET_OVERLAY then subnet\<lparr>sub_vpc := name\<rparr> else subnet);
             subnet = (if vn_networkType vnet = NET_UNDERLAY then subnet\<lparr>sub_vlan := name\<rparr> else subnet) in
         and_then (deref (vn_resourceId vnet)) (\<lambda>netId.
           ret (subnet\<lparr>sub_meta := (sub_meta subnet)\<lparr>m_labels := (m_labels (sub_meta subnet))(
             K8sNetworkNameLabel \<mapsto> name, K8sNetworkIdLabel \<mapsto> netId,
             K8sNetworkTypeLabel \<mapsto> network_type_String (vn_networkType vnet))\<rparr>\<rparr>))))"

definition subnet_nad :: "string \<Rightarrow> string \<Rightarrow> string \<Rightarrow> nad" where
  "subnet_nad namespace netAttachName subnetName =
     \<lparr>nad_meta = named_meta namespace netAttachName (managed_labels(K8sSubnetNameLabel \<mapsto> subnetName)),
      nad_config = formatNetAttachConfig netAttachName namespace\<rparr>"

definition with_netattach :: "subnet \<Rightarrow> string \<Rightarrow> subnet" where
  "with_netattach sub netAttachName = sub\<lparr>sub_provider := ''ovn'', sub_meta := (sub_meta sub)\<lparr>m_labels :=
     (m_labels (sub_meta sub))(K8sSubnetNetAttachNameLabel \<mapsto> netAttachName)\<rparr>\<rparr>"

text \<open>The stages of \<open>CreateSubnet\<close>: the lookup of the network the request names, then the creation of
  the two objects with the rollback of the first.\<close>

definition lookup_parent ::
  "(string \<Rightarrow> bool) \<Rightarrow> 's kubeovn \<Rightarrow> network_subnet_data \<Rightarrow> ('s, error, virtual_network option) act" where
  "lookup_parent isUUID m d = (case sd_networkId d of
      None \<Rightarrow> ret None
    | Some netId \<Rightarrow>
        if netId = [] then ret None
        else and_then (wrap ''get vpc by id'' (GetNetwork m
            [if isUUID netId then GetNetworkByUid (Some netId) else GetNetworkByName netId])) (\<lambda>vnet.
          ret (Some vnet)))"

definition create_subnet_objects :: "'s kubeovn \<Rightarrow> subnet \<Rightarrow> ('s, error, network_subnet) act" where
  "create_subnet_objects m subnet =
     (let netAttachName = formatNetAttachName (m_name (sub_meta subnet)) in
     and_then (deref (ko_namespace m)) (\<lambda>namespace.
     and_then (wrap ''create multus network-attachment-definition''
       (k8s_create (ko_client m) nad_k (subnet_nad namespace netAttachName (m_name (sub_meta subnet))))) (\<lambda>_.
     and_then (handle (k8s_create (ko_client m) subnet_k (with_netattach subnet netAttachName)) ret (\<lambda>err.
         and_then (ignore (k8s_delete (ko_client m) nad_k namespace netAttachName)) (\<lambda>_.
         throw (Wrap ''create kubeovn subnet'' err)))) (\<lambda>created.
     handle (sum_act (nfvNetworkSubnetFromKubeovnSubnet (Some created))) ret (\<lambda>err.
       and_then (ignore (DeleteSubnet m [GetSubnetByUid (UIDToIdentifier (m_uid (sub_meta created)))])) (\<lambda>_.
       throw (Wrap ''convert created kubeovn subnet to vivnfm.NetworkSubnet (subnet will be deleted)'' err)))))))"

definition CreateSubnet ::
  "(string \<Rightarrow> bool) \<Rightarrow> 's kubeovn \<Rightarrow> string \<Rightarrow> network_subnet_data option \<Rightarrow> ('s, error, network_subnet) act" where
  "CreateSubnet isUUID m name subnetData =
     and_then (deref subnetData) (\<lambda>d.
     and_then (lookup_parent isUUID m d) (\<lambda>vnet.
     and_then (wrap ''create kubeovn subnet from NetworkSubnetData''
       (sum_act (kubeovnSubnetFromNfvSubnetData name (Some d)))) (\<lambda>subnet.
     and_then (case vnet of None \<Rightarrow> ret subnet | Some vnet \<Rightarrow> attach_network vnet subnet)
       (create_subnet_objects m))))"

text \<open>The ids of the subnets created before a failure are returned next to the error and dropped by
  both callers, so the action's error alone is kept.\<close>

definition allocateL3Attributes ::
  "(string \<Rightarrow> bool) \<Rightarrow> 's kubeovn \<Rightarrow> string \<Rightarrow> network_subnet_data option list \<Rightarrow>
     ('s, error, string option list) act" where
  "allocateL3Attributes isUUID m networkName l3Attributes =
     for_each (\<lambda>(idx, l3attr).
       and_then (deref l3attr) (\<lambda>attr.
       (let attr = (if has_value (sd_networkId attr) then attr else attr\<lparr>sd_networkId := Some networkName\<rparr>) in
        and_then (wrap ''create subnet from l3 attribute''
          (CreateSubnet isUUID m (formatSubnetName networkName (show_nat idx)) (Some attr))) (\<lambda>subnet.
        ret (ns_resourceId subnet))))) (enumerate 0 l3Attributes)"

definition createOverlayNetwork ::
  "(string \<Rightarrow> bool) \<Rightarrow> 's kubeovn \<Rightarrow> string \<Rightarrow> virtual_network_data option \<Rightarrow> ('s, error, virtual_network) act" where
  "createOverlayNetwork isUUID m name networkData =
     and_then (wrap ''convert nfv VirtualNetworkData to kube-ovn Vpc''
       (sum_act (kubeovnVpcFromNfvNetworkData name networkData))) (\<lambda>vpc.
     and_then (wrap ''create kube-ovn Vpc k8s object'' (k8s_create (ko_client m) vpc_k vpc)) (\<lambda>vpc.
     and_then (deref networkData) (\<lambda>d.
     and_then
       (handle (allocateL3Attributes isUUID m (m_name (vpc_meta vpc)) (nd_layer3Attributes d)) ret (\<lambda>err.
          and_then (ignore (DeleteNetwork m [GetNetworkByName name])) (\<lambda>_.
          throw (Wrap ''create vpc l3 attributes (resources cleaned up)'' err)))) (\<lambda>subnetIds.
     wrap ''convert kubeovn vpc'' (sum_act (kubeovnVpcToNfvNetwork (Some vpc) subnetIds))))))"

definition createUnderlayNetwork ::
  "(string \<Rightarrow> bool) \<Rightarrow> 's kubeovn \<Rightarrow> string \<Rightarrow> virtual_network_data option \<Rightarrow> ('s, error, virtual_network) act" where
  "createUnderlayNetwork isUUID m name networkData =
     and_then (wrap ''convert VirtualNetworkData to kubeovn vlan''
       (sum_act (kubeovnVlanFromNfvNetworkData name networkData))) (\<lambda>vlan.
     and_then (wrap ''create kubeovn vlan'' (k8s_create (ko_client m) vlan_k vlan)) (\<lambda>vlan.
     and_then (deref networkData) (\<lambda>d.
     and_then
       (handle (allocateL3Attributes isUUID m (m_name (vlan_meta vlan)) (nd_layer3Attributes d)) ret (\<lambda>err.
          and_then (ignore (DeleteNetwork m [GetNetworkByName name])) (\<lambda>_.
          throw (Wrap ''create vlan l3 attributes (resources cleaned up)'' err)))) (\<lambda>subnetIds.
     wrap ''convert kubeovn vlan'' (sum_act (kubeovnVlanToNfvNetwork (Some vlan) subnetIds))))))"

definition CreateNetwork ::
  "(string \<Rightarrow> bool) \<Rightarrow> 's kubeovn \<Rightarrow> string \<Rightarrow> virtual_network_data option \<Rightarrow> ('s, error, virtual_network) act" where
  "CreateNetwork isUUID m name networkData =
     and_then (deref networkData) (\<lambda>d.
       if nd_networkType d = None \<or> nd_networkType d = Some NET_OVERLAY then
         wrap ''create overlay network'' (createOverlayNetwork isUUID m name networkData)
       else if nd_networkType d = Some NET_UNDERLAY then
         wrap ''create underlay network'' (createUnderlayNetwork isUUID m name networkData)
       else throw (Wrap ''unsupported network type'' ErrUnsupported))"

end
