(* ===== verification/Kubeovn_Mgmt.thy ===== *)
theory Kubeovn_Mgmt
  imports Kubeovn
begin

text \<open>
  The management network (\<open>internal/kubevim/network/kubeovn/mgmt.go\<close>): \<open>EnsureManagementNetwork\<close>
  and its three steps, which create a Vpc, a Subnet and a NetworkAttachmentDefinition or patch the
  labels of the existing ones. The Go maps of required labels are the lists of their entries; by
  \<open>MergeLabels_correct\<close> the order does not matter. On a server without faults the operation leaves
  every other object alone, changes nothing but labels of an existing object, and is idempotent.
\<close>

subsection \<open>Operations\<close>

definition mgmtVpcLabels :: "(string \<times> string) list" where
  "mgmtVpcLabels = [(K8sManagedByLabel, KubeNfvName)]"

definition mgmtSubnetLabels :: "string \<Rightarrow> string \<Rightarrow> string \<Rightarrow> string \<Rightarrow> (string \<times> string) list" where
  "mgmtSubnetLabels vpcName vpcUID subnetName nadName =
     [(K8sManagedByLabel, KubeNfvName), (K8sSubnetNameLabel, subnetName),
      (K8sSubnetNetAttachNameLabel, nadName), (K8sNetworkNameLabel, vpcName),
      (K8sNetworkTypeLabel, network_type_String NET_OVERLAY)]
     @ (if vpcUID \<noteq> '''' then [(K8sNetworkIdLabel, vpcUID)] else [])"

definition mgmtNetAttachLabels :: "string \<Rightarrow> (string \<times> string) list" where
  "mgmtNetAttachLabels subnetName = [(K8sManagedByLabel, KubeNfvName), (K8sSubnetNameLabel, subnetName)]"

text \<open>The branch all three steps share: merge the labels, patch only on a change.\<close>

definition patch_labels ::
  "'s client \<Rightarrow> 'o kind_info \<Rightarrow> ('o \<Rightarrow> labels) \<Rightarrow> (labels \<Rightarrow> 'o \<Rightarrow> 'o) \<Rightarrow> string \<Rightarrow>
     (string \<times> string) list \<Rightarrow> 'o \<Rightarrow> ('s, error, 'o) act" where
  "patch_labels cl K get_labels set_labels ctx required existing =
     (case MergeLabels (get_labels existing) required of (changed, merged) \<Rightarrow>
        if \<not> changed then ret existing
        else wrap ctx (k8s_patch cl K existing (set_labels merged existing)))"

definition set_vpc_labels :: "labels \<Rightarrow> vpc \<Rightarrow> vpc" where
  "set_vpc_labels ls v = v\<lparr>vpc_meta := (vpc_meta v)\<lparr>m_labels := ls\<rparr>\<rparr>"

definition set_subnet_labels :: "labels \<Rightarrow> subnet \<Rightarrow> subnet" where
  "set_subnet_labels ls v = v\<lparr>sub_meta := (sub_meta v)\<lparr>m_labels := ls\<rparr>\<rparr>"

definition set_nad_labels :: "labels \<Rightarrow> nad \<Rightarrow> nad" where
  "set_nad_labels ls v = v\<lparr>nad_meta := (nad_meta v)\<lparr>m_labels := ls\<rparr>\<rparr>"

definition ensureMgmtVpc :: "'s kubeovn \<Rightarrow> string \<Rightarrow> ('s, error, vpc) act" where
  "ensureMgmtVpc m vpcName =
     handle (k8s_get (ko_apiReader m) vpc_k '''' vpcName)
       (patch_labels (ko_client m) vpc_k (\<lambda>v. m_labels (vpc_meta v)) set_vpc_labels
          ''patch vpc labels'' mgmtVpcLabels)
       (\<lambda>err. if \<not> k8s_IsNotFound err then throw (Wrap ''get vpc'' err)
         else handle (k8s_create (ko_client m) vpc_k
             \<lparr>vpc_meta = named_meta '''' vpcName (map_of mgmtVpcLabels), vpc_status_subnets = []\<rparr>)
           ret
           (\<lambda>err. if k8s_IsAlreadyExists err
             then wrap ''re-read vpc after AlreadyExists'' (k8s_get (ko_apiReader m) vpc_k '''' vpcName)
             else throw (Wrap ''create vpc'' err)))"

definition mgmt_subnet :: "mgmt_config \<Rightarrow> string \<Rightarrow> string \<Rightarrow> string \<Rightarrow> (string \<times> string) list \<Rightarrow> subnet" where
  "mgmt_subnet cfg cidr vpcName subnetName required =
     (let sub = \<lparr>sub_meta = named_meta '''' subnetName (map_of required), sub_protocol = ''IPv4'',
            sub_enableDHCP = True, sub_cidrBlock = cidr, sub_default = False,
            sub_gatewayType = ''distributed'', sub_natOutgoing = True, sub_gateway = '''',
            sub_vpc = vpcName, sub_vlan = '''', sub_provider = ''ovn'', sub_excludeIps = []\<rparr>;
          sub = (if has_value (mc_gateway cfg) then sub\<lparr>sub_gateway := str_or_empty (mc_gateway cfg)\<rparr> else sub)
      in case mc_excludeIps cfg of
           None \<Rightarrow> sub
         | Some ips \<Rightarrow> if ips \<noteq> [] then sub\<lparr>sub_excludeIps := ips\<rparr> else sub)"

definition ensureMgmtSubnet ::
  "'s kubeovn \<Rightarrow> mgmt_config \<Rightarrow> string \<Rightarrow> string \<Rightarrow> string \<Rightarrow> string \<Rightarrow> ('s, error, unit) act" where
  "ensureMgmtSubnet m cfg vpcName vpcUID subnetName nadName =
     (let required = mgmtSubnetLabels vpcName vpcUID subnetName nadName in
     handle (k8s_get (ko_apiReader m) subnet_k '''' subnetName)
       (\<lambda>existing. and_then (patch_labels (ko_client m) subnet_k (\<lambda>v. m_labels (sub_meta v)) set_subnet_labels
          ''patch subnet labels'' required existing) (\<lambda>_. ret ()))
       (\<lambda>err. if \<not> k8s_IsNotFound err then throw (Wrap ''get subnet'' err)
         else and_then (deref (mc_cidr cfg)) (\<lambda>cidr.
           handle (k8s_create (ko_client m) subnet_k (mgmt_subnet cfg cidr vpcName subnetName required))
             (\<lambda>_. ret ())
             (\<lambda>err. if k8s_IsAlreadyExists err then ret () else throw (Wrap ''create subnet'' err)))))"

definition ensureMgmtNetAttach :: "'s kubeovn \<Rightarrow> string \<Rightarrow> string \<Rightarrow> string \<Rightarrow> ('s, error, unit) act" where
  "ensureMgmtNetAttach m subnetName nadName nadNamespace =
     (let required = mgmtNetAttachLabels subnetName in
     handle (k8s_get (ko_apiReader m) nad_k nadNamespace nadName)
       (\<lambda>existing. and_then (patch_labels (ko_client m) nad_k (\<lambda>v. m_labels (nad_meta v)) set_nad_labels
          ''patch network-attachment-definition labels'' required existing) (\<lambda>_. ret ()))
       (\<lambda>err. if \<not> k8s_IsNotFound err then throw (Wrap ''get network-attachment-definition'' err)
         else handle (k8s_create (ko_client m) nad_k
             \<lparr>nad_meta = named_meta nadNamespace nadName (map_of required),
              nad_config = formatNetAttachConfig nadName nadNamespace\<rparr>)
           (\<lambda>_. ret ())
           (\<lambda>err. if k8s_IsAlreadyExists err then ret ()
             else throw (Wrap ''create network-attachment-definition'' err))))"

definition EnsureManagementNetwork :: "'s kubeovn \<Rightarrow> mgmt_config option \<Rightarrow> ('s, error, unit) act" where
  "EnsureManagementNetwork m pcfg = (case pcfg of
      None \<Rightarrow> ret ()
    | Some cfg \<Rightarrow>
        if mc_enabled cfg \<noteq> Some True then ret ()
        else if \<not> has_value (mc_name cfg) then throw (Plain ''management network name is required'')
        else if \<not> has_value (mc_cidr cfg) then throw (Plain ''management network cidr is required'')
        else (case ParseCIDR (str_or_empty (mc_cidr cfg)) of
            Inl err \<Rightarrow> throw (Wrap ''parse management network cidr'' err)
          | Inr _ \<Rightarrow>
              if \<not> has_value (mc_nadName cfg)
                then throw (Plain ''management network netAttachDefName is required (Normalize should have set it)'')
              else if \<not> has_value (mc_nadNamespace cfg)
                then throw (Plain ''management network netAttachDefNamespace is required (Normalize should have set it)'')
              else
                (let vpcName = str_or_empty (mc_name cfg);
                     subnetName = formatSubnetName vpcName ''0'';
                     nadName = str_or_empty (mc_nadName cfg);
                     nadNamespace = str_or_empty (mc_nadNamespace cfg) in
                 and_then (wrap ''ensure management vpc'' (ensureMgmtVpc m vpcName)) (\<lambda>vpc.
                 and_then (wrap ''ensure management subnet''
                   (ensureMgmtSubnet m cfg vpcName (m_uid (vpc_meta vpc)) subnetName nadName)) (\<lambda>_.
                 wrap ''ensure management network-attachment-definition''
                   (ensureMgmtNetAttach m subnetName nadName nadNamespace))))))"

subsection \<open>Reconciled objects\<close>

text \<open>\<open>reconciled required before after\<close>: the labels are there; an object that existed differs in
  its labels and the server's bookkeeping only, and not at all when it had the labels.\<close>

definition reconciled :: "(string \<times> string) list \<Rightarrow> k8s_object option \<Rightarrow> k8s_object \<Rightarrow> bool" where
  "reconciled required before after \<longleftrightarrow> map_of required \<subseteq>\<^sub>m m_labels (obj_meta_of after) \<and>
     (case before of
        None \<Rightarrow> True
      | Some b \<Rightarrow> (\<exists>v f. after = set_meta ((obj_meta_of b)\<lparr>
            m_labels := m_labels (obj_meta_of b) ++ map_of required,
            m_resourceVersion := v, m_managedFields := f\<rparr>) b)
          \<and> (map_of required \<subseteq>\<^sub>m m_labels (obj_meta_of b) \<longrightarrow> after = b))"

definition labels_of :: "'o kind_info \<Rightarrow> ('o \<Rightarrow> labels) \<Rightarrow> (labels \<Rightarrow> 'o \<Rightarrow> 'o) \<Rightarrow> bool" where
  "labels_of K gl sl \<longleftrightarrow> (\<forall>x. gl x = m_labels (obj_meta_of (ki_obj K x))) \<and>
     (\<forall>ls x. ki_obj K (sl ls x) = set_meta ((obj_meta_of (ki_obj K x))\<lparr>m_labels := ls\<rparr>) (ki_obj K x))"

lemma labels_of_kinds [simp]:
  "labels_of vpc_k (\<lambda>v. m_labels (vpc_meta v)) set_vpc_labels"
  "labels_of subnet_k (\<lambda>v. m_labels (sub_meta v)) set_subnet_labels"
  "labels_of nad_k (\<lambda>v. m_labels (nad_meta v)) set_nad_labels"
  by (simp_all add: labels_of_def kind_info_defs set_vpc_labels_def set_subnet_labels_def set_nad_labels_def)

lemma mgmt_labels_distinct [simp]:
  "distinct (map fst mgmtVpcLabels)" "distinct (map fst (mgmtSubnetLabels a b c d))"
  "distinct (map fst (mgmtNetAttachLabels e))"
  using network_labels_distinct
  by (auto simp: mgmtVpcLabels_def mgmtSubnetLabels_def mgmtNetAttachLabels_def)

lemma map_add_absorb: "m' \<subseteq>\<^sub>m m \<Longrightarrow> m ++ m' = m"
  by (rule ext) (auto simp: map_le_def map_add_def dom_def split: option.splits)

lemma reconciled_same: "map_of required \<subseteq>\<^sub>m m_labels (obj_meta_of b) \<Longrightarrow> reconciled required (Some b) b"
proof -
  assume le: "map_of required \<subseteq>\<^sub>m m_labels (obj_meta_of b)"
  have "b = set_meta ((obj_meta_of b)\<lparr>m_labels := m_labels (obj_meta_of b) ++ map_of required,
      m_resourceVersion := m_resourceVersion (obj_meta_of b),
      m_managedFields := m_managedFields (obj_meta_of b)\<rparr>) b"
    using map_add_absorb [OF le] by simp
  with le show ?thesis unfolding reconciled_def option.case by blast
qed

lemma patched_reconciled:
  assumes "\<not> map_of required \<subseteq>\<^sub>m m_labels (obj_meta_of b)"
    and "patched (set_meta ((obj_meta_of b)\<lparr>m_labels := m_labels (obj_meta_of b) ++ map_of required\<rparr>) b) y"
  shows "reconciled required (Some b) y"
proof -
  from assms(2) obtain v f where y: "y = set_meta ((obj_meta_of b)\<lparr>
      m_labels := m_labels (obj_meta_of b) ++ map_of required, m_resourceVersion := v, m_managedFields := f\<rparr>) b"
    unfolding patched_def by (cases b) auto
  moreover have "map_of required \<subseteq>\<^sub>m m_labels (obj_meta_of b) ++ map_of required"
    by (auto simp: map_le_def map_add_dom_app_simps)
  ultimately show ?thesis using assms(1) unfolding reconciled_def option.case
    by (simp, blast)
qed

lemma created_reconciled:
  "created ob y \<Longrightarrow> m_labels (obj_meta_of ob) = map_of required \<Longrightarrow> reconciled required None y"
  by (auto simp: created_def reconciled_def)

text \<open>A configuration that \<open>config.Normalize\<close> completed, and the effect of a successful run on the
  stored objects.\<close>

definition mgmt_config_ok :: "mgmt_config \<Rightarrow> bool" where
  "mgmt_config_ok cfg \<longleftrightarrow> has_value (mc_name cfg) \<and> has_value (mc_cidr cfg) \<and>
     (\<exists>net. ParseCIDR (str_or_empty (mc_cidr cfg)) = Inr net) \<and>
     has_value (mc_nadName cfg) \<and> has_value (mc_nadNamespace cfg)"

definition mgmt_post :: "mgmt_config \<Rightarrow> (okey \<Rightarrow> k8s_object option) \<Rightarrow> (okey \<Rightarrow> k8s_object option) \<Rightarrow> bool" where
  "mgmt_post cfg V W \<longleftrightarrow> (let
       vpcName = str_or_empty (mc_name cfg); subnetName = formatSubnetName vpcName ''0'';
       nadName = str_or_empty (mc_nadName cfg); nadNs = str_or_empty (mc_nadNamespace cfg) in
     \<exists>v sub nad. W = V((KVpc, [], vpcName) \<mapsto> OVpc v, (KSubnet, [], subnetName) \<mapsto> OSubnet sub,
         (KNad, nadNs, nadName) \<mapsto> ONad nad)
       \<and> reconciled mgmtVpcLabels (V (KVpc, [], vpcName)) (OVpc v)
       \<and> reconciled (mgmtSubnetLabels vpcName (m_uid (vpc_meta v)) subnetName nadName)
           (V (KSubnet, [], subnetName)) (OSubnet sub)
       \<and> reconciled (mgmtNetAttachLabels subnetName) (V (KNad, nadNs, nadName)) (ONad nad))"

lemma reconciled_again:
  "reconciled required b x \<Longrightarrow> reconciled required (Some x) y \<Longrightarrow> y = x"
  by (auto simp: reconciled_def)

lemma mgmt_post_fixpoint:
  assumes "mgmt_post cfg V W" and "mgmt_post cfg W W'"
  shows "W' = W"
  using assms unfolding mgmt_post_def Let_def
  by (elim exE conjE) (simp add: fun_upd_idem_iff, metis k8s_object.inject(1,3,4) reconciled_again fun_upd_twist fun_upd_upd)

context api_server
begin

lemma patch_labels_reconciles:
  assumes s: "inv s" and K: "wf_kind K" and ls: "labels_of K gl sl" and req: "distinct (map fst required)"
    and x: "view s (obj_key (ki_obj K x)) = Some (ki_obj K x)"
    and Q: "\<And>y t. inv t \<Longrightarrow> view t = (view s)(obj_key (ki_obj K x) \<mapsto> ki_obj K y) \<Longrightarrow>
      reconciled required (Some (ki_obj K x)) (ki_obj K y) \<Longrightarrow> Q y t"
  shows "meets (patch_labels cl K gl sl ctx required x) s Q E"
proof -
  let ?b = "ki_obj K x" and ?m = "gl x ++ map_of required"
  have gl: "gl x = m_labels (obj_meta_of ?b)"
    and sl: "ki_obj K (sl ?m x) = set_meta ((obj_meta_of ?b)\<lparr>m_labels := ?m\<rparr>) ?b"
    using ls by (simp_all add: labels_of_def)
  have merge: "MergeLabels (gl x) required = (\<not> map_of required \<subseteq>\<^sub>m gl x, ?m)"
    using req by (simp add: MergeLabels_def merge_required_eq)
  show ?thesis
  proof (cases "map_of required \<subseteq>\<^sub>m gl x")
    case True
    have "(view s)(obj_key ?b \<mapsto> ?b) = view s" using x by (simp add: fun_upd_idem)
    then have "Q x s" using True s by (intro Q) (simp_all add: gl reconciled_same)
    then show ?thesis using True by (simp add: patch_labels_def merge meets_ret)
  next
    case False
    have key: "obj_key (ki_obj K (sl ?m x)) = obj_key ?b" by (simp add: sl obj_key_def)
    have same: "same_identity ?b (ki_obj K (sl ?m x))" using key by (simp add: same_identity_def sl)
    have "meets (k8s_patch cl K x (sl ?m x)) s Q (\<lambda>e. E (Wrap ctx e))"
    proof (rule meets_patch [OF s K x same])
      fix y t
      assume t: "inv t" and p: "patched (ki_obj K (sl ?m x)) (ki_obj K y)"
        and v: "view t = (view s)(obj_key (ki_obj K (sl ?m x)) \<mapsto> ki_obj K y)"
      have "reconciled required (Some ?b) (ki_obj K y)"
        using p False unfolding sl unfolding gl by (intro patched_reconciled)
      then show "Q y t" using t v unfolding key by (intro Q)
    qed
    then show ?thesis using False by (simp add: patch_labels_def merge meets_wrap)
  qed
qed

lemma create_reconciles:
  assumes s: "inv s" and K: "wf_kind K" and none: "view s (ki_kind K, ns, n) = None"
    and new: "obj_key (ki_obj K x) = (ki_kind K, ns, n)" "m_labels (obj_meta_of (ki_obj K x)) = map_of required"
    and f: "\<And>y t. inv t \<Longrightarrow> view t = (view s)((ki_kind K, ns, n) \<mapsto> ki_obj K y) \<Longrightarrow>
      reconciled required (view s (ki_kind K, ns, n)) (ki_obj K y) \<Longrightarrow> meets (f y) t Q E"
  shows "meets (handle (k8s_create cl K x) f h) s Q E"
proof (rule meets_handle, rule meets_create [OF s K])
  fix y t
  assume "inv t" "created (ki_obj K x) (ki_obj K y)" "view t = (view s)(obj_key (ki_obj K x) \<mapsto> ki_obj K y)"
  then show "meets (f y) t Q E" using f [of t y] new none by (simp add: created_reconciled)
qed (use none new in simp)

text \<open>The pattern of the three steps: read, then reconcile (\<open>g\<close>) or create (\<open>h\<close>).\<close>

lemma ensure_reconciles:
  assumes s: "inv s" and K: "wf_kind K"
    and g: "\<And>x t. inv t \<Longrightarrow> view t = view s \<Longrightarrow> obj_key (ki_obj K x) = (ki_kind K, ns, n) \<Longrightarrow>
      view t (obj_key (ki_obj K x)) = Some (ki_obj K x) \<Longrightarrow> meets (g x) t Q E"
    and h: "\<And>t e. inv t \<Longrightarrow> view t = view s \<Longrightarrow> k8s_IsNotFound e \<Longrightarrow> view t (ki_kind K, ns, n) = None \<Longrightarrow>
      meets (h e) t Q E"
  shows "meets (handle (k8s_get cl K ns n) g (\<lambda>e. if \<not> k8s_IsNotFound e then throw (Wrap c e) else h e)) s Q E"
proof (rule meets_handle, rule meets_get [OF s K])
  fix x t
  assume "inv t" "view t = view s" and x: "view s (ki_kind K, ns, n) = Some (ki_obj K x)"
  then show "meets (g x) t Q E" using view_key [OF s x] by (intro g) simp_all
qed (auto intro: h)

abbreviation (input) mgr :: "string option \<Rightarrow> 's kubeovn" where
  "mgr ns \<equiv> \<lparr>ko_client = cl, ko_apiReader = cl, ko_namespace = ns\<rparr>"

lemma ensureMgmtVpc_meets:
  assumes s: "inv s"
    and Q: "\<And>v t. inv t \<Longrightarrow> view t = (view s)((KVpc, [], vpcName) \<mapsto> OVpc v) \<Longrightarrow>
      reconciled mgmtVpcLabels (view s (KVpc, [], vpcName)) (OVpc v) \<Longrightarrow> Q v t"
  shows "meets (ensureMgmtVpc (mgr ns) vpcName) s Q E"
  unfolding ensureMgmtVpc_def kubeovn.simps
proof (rule ensure_reconciles [OF s])
  fix x t
  assume t: "inv t" "view t = view s" and x: "obj_key (ki_obj vpc_k x) = (ki_kind vpc_k, [], vpcName)"
    and v: "view t (obj_key (ki_obj vpc_k x)) = Some (ki_obj vpc_k x)"
  show "meets (patch_labels cl vpc_k (\<lambda>v. m_labels (vpc_meta v)) set_vpc_labels
      ''patch vpc labels'' mgmtVpcLabels x) t Q E"
    by (rule patch_labels_reconciles [OF t(1) _ _ _ v]) (use Q t x v in simp_all)
next
  fix t e
  assume t: "inv t" "view t = view s" and v: "view t (ki_kind vpc_k, [], vpcName) = None"
  show "meets (handle (k8s_create cl vpc_k
        \<lparr>vpc_meta = named_meta [] vpcName (map_of mgmtVpcLabels), vpc_status_subnets = []\<rparr>) ret
      (\<lambda>err. if k8s_IsAlreadyExists err
        then wrap ''re-read vpc after AlreadyExists'' (k8s_get cl vpc_k [] vpcName)
        else throw (Wrap ''create vpc'' err))) t Q E"
    by (rule create_reconciles [OF t(1) _ v])
      (use t in \<open>auto intro!: meets_ret Q simp: obj_key_def named_meta_def empty_meta_def\<close>)
qed simp

lemma ensureMgmtSubnet_meets:
  assumes s: "inv s" and cidr: "mc_cidr cfg = Some cidr"
    and Q: "\<And>v t. inv t \<Longrightarrow> view t = (view s)((KSubnet, [], subnetName) \<mapsto> OSubnet v) \<Longrightarrow>
      reconciled (mgmtSubnetLabels vpcName uid subnetName nadName) (view s (KSubnet, [], subnetName)) (OSubnet v) \<Longrightarrow>
      Q () t"
  shows "meets (ensureMgmtSubnet (mgr ns) cfg vpcName uid subnetName nadName) s Q E"
  unfolding ensureMgmtSubnet_def kubeovn.simps Let_def
proof (rule ensure_reconciles [OF s])
  let ?req = "mgmtSubnetLabels vpcName uid subnetName nadName"
  fix x t
  assume t: "inv t" "view t = view s" and x: "obj_key (ki_obj subnet_k x) = (ki_kind subnet_k, [], subnetName)"
    and v: "view t (obj_key (ki_obj subnet_k x)) = Some (ki_obj subnet_k x)"
  show "meets (and_then (patch_labels cl subnet_k (\<lambda>v. m_labels (sub_meta v)) set_subnet_labels
      ''patch subnet labels'' ?req x) (\<lambda>_. ret ())) t Q E"
    by (rule meets_and_then, rule patch_labels_reconciles [OF t(1) _ _ _ v]) (use t x v in \<open>auto intro!: meets_ret Q\<close>)
next
  let ?req = "mgmtSubnetLabels vpcName uid subnetName nadName"
  let ?new = "mgmt_subnet cfg cidr vpcName subnetName ?req"
  have new: "sub_meta ?new = named_meta [] subnetName (map_of ?req)"
    by (simp add: mgmt_subnet_def Let_def split: option.splits)
  fix t and e :: error
  assume t: "inv t" "view t = view s" and v: "view t (ki_kind subnet_k, [], subnetName) = None"
  show "meets (and_then (deref (mc_cidr cfg)) (\<lambda>cidr.
      handle (k8s_create cl subnet_k (mgmt_subnet cfg cidr vpcName subnetName ?req)) (\<lambda>_. ret ())
        (\<lambda>err. if k8s_IsAlreadyExists err then ret () else throw (Wrap ''create subnet'' err)))) t Q E"
    by (rule meets_and_then, rule meets_deref [OF cidr], rule create_reconciles [OF t(1) _ v])
      (use t new in \<open>auto intro!: meets_ret Q simp: obj_key_def named_meta_def empty_meta_def\<close>)
qed simp

lemma ensureMgmtNetAttach_meets:
  assumes s: "inv s"
    and Q: "\<And>v t. inv t \<Longrightarrow> view t = (view s)((KNad, nadNs, nadName) \<mapsto> ONad v) \<Longrightarrow>
      reconciled (mgmtNetAttachLabels subnetName) (view s (KNad, nadNs, nadName)) (ONad v) \<Longrightarrow> Q () t"
  shows "meets (ensureMgmtNetAttach (mgr ns) subnetName nadName nadNs) s Q E"
  unfolding ensureMgmtNetAttach_def kubeovn.simps Let_def
proof (rule ensure_reconciles [OF s])
  fix x t
  assume t: "inv t" "view t = view s" and x: "obj_key (ki_obj nad_k x) = (ki_kind nad_k, nadNs, nadName)"
    and v: "view t (obj_key (ki_obj nad_k x)) = Some (ki_obj nad_k x)"
  show "meets (and_then (patch_labels cl nad_k (\<lambda>v. m_labels (nad_meta v)) set_nad_labels
      ''patch network-attachment-definition labels'' (mgmtNetAttachLabels subnetName) x) (\<lambda>_. ret ())) t Q E"
    by (rule meets_and_then, rule patch_labels_reconciles [OF t(1) _ _ _ v]) (use t x v in \<open>auto intro!: meets_ret Q\<close>)
next
  fix t and e :: error
  assume t: "inv t" "view t = view s" and v: "view t (ki_kind nad_k, nadNs, nadName) = None"
  show "meets (handle (k8s_create cl nad_k
        \<lparr>nad_meta = named_meta nadNs nadName (map_of (mgmtNetAttachLabels subnetName)),
         nad_config = formatNetAttachConfig nadName nadNs\<rparr>) (\<lambda>_. ret ())
      (\<lambda>err. if k8s_IsAlreadyExists err then ret ()
        else throw (Wrap ''create network-attachment-definition'' err))) t Q E"
    by (rule create_reconciles [OF t(1) _ v])
      (use t in \<open>auto intro!: meets_ret Q simp: obj_key_def named_meta_def empty_meta_def\<close>)
qed simp

lemma EnsureManagementNetwork_meets:
  assumes s: "inv s" and on: "mc_enabled cfg = Some True" and wf: "mgmt_config_ok cfg"
  shows "meets (EnsureManagementNetwork (mgr ns) (Some cfg)) s
    (\<lambda>_ t. inv t \<and> mgmt_post cfg (view s) (view t)) (\<lambda>_ _. False)"
proof -
  let ?v = "str_or_empty (mc_name cfg)" and ?n = "str_or_empty (mc_nadName cfg)"
    and ?ns = "str_or_empty (mc_nadNamespace cfg)"
  let ?s = "formatSubnetName ?v ''0''"
  obtain c net where cidr: "mc_cidr cfg = Some c" "ParseCIDR c = Inr net"
    using wf by (auto simp: mgmt_config_ok_def has_value_iff str_or_empty_def)
  have unfold: "EnsureManagementNetwork (mgr ns) (Some cfg) =
      and_then (wrap ''ensure management vpc'' (ensureMgmtVpc (mgr ns) ?v)) (\<lambda>vpc.
      and_then (wrap ''ensure management subnet''
        (ensureMgmtSubnet (mgr ns) cfg ?v (m_uid (vpc_meta vpc)) ?s ?n)) (\<lambda>_.
      wrap ''ensure management network-attachment-definition'' (ensureMgmtNetAttach (mgr ns) ?s ?n ?ns)))"
    using on wf by (auto simp: EnsureManagementNetwork_def mgmt_config_ok_def Let_def split: sum.splits)
  show ?thesis
    unfolding unfold
  proof (intro meets_and_then meets_wrap ensureMgmtVpc_meets [OF s]
      ensureMgmtSubnet_meets [OF _ cidr(1)] ensureMgmtNetAttach_meets)
    fix v t sb u nd w
    assume "inv t" and t: "view t = (view s)((KVpc, [], ?v) \<mapsto> OVpc v)"
      "reconciled mgmtVpcLabels (view s (KVpc, [], ?v)) (OVpc v)"
      and "inv u" and u: "view u = (view t)((KSubnet, [], ?s) \<mapsto> OSubnet sb)"
      "reconciled (mgmtSubnetLabels ?v (m_uid (vpc_meta v)) ?s ?n) (view t (KSubnet, [], ?s)) (OSubnet sb)"
      and w: "inv w" "view w = (view u)((KNad, ?ns, ?n) \<mapsto> ONad nd)"
      "reconciled (mgmtNetAttachLabels ?s) (view u (KNad, ?ns, ?n)) (ONad nd)"
    then show "inv w \<and> mgmt_post cfg (view s) (view w)"
      unfolding mgmt_post_def Let_def by (intro conjI exI [of _ v] exI [of _ sb] exI [of _ nd]) simp_all
  qed
qed

lemma EnsureManagementNetwork_cases:
  assumes "EnsureManagementNetwork m pcfg s = (Ok (), t)"
  obtains "s = t" "\<And>u. EnsureManagementNetwork m pcfg u = (Ok (), u)"
  | cfg where "pcfg = Some cfg" "mc_enabled cfg = Some True" "mgmt_config_ok cfg"
proof (cases "\<exists>cfg. pcfg = Some cfg \<and> mc_enabled cfg = Some True")
  case False
  then have "EnsureManagementNetwork m pcfg = ret ()"
    by (auto simp: EnsureManagementNetwork_def split: option.splits)
  then show thesis using assms by (intro that(1)) (simp_all add: act_simps)
next
  case True
  then obtain cfg where cfg: "pcfg = Some cfg" "mc_enabled cfg = Some True" by blast
  have "mgmt_config_ok cfg"
    using assms cfg by (auto simp: EnsureManagementNetwork_def mgmt_config_ok_def act_simps
        split: if_splits sum.splits)
  then show thesis using cfg by (intro that(2))
qed

lemma EnsureManagementNetwork_Ok:
  assumes "inv s" and "EnsureManagementNetwork (mgr ns) (Some cfg) s = (Ok (), t)"
    and "mc_enabled cfg = Some True"
  shows "inv t" "mgmt_post cfg (view s) (view t)"
proof -
  have "mgmt_config_ok cfg" using EnsureManagementNetwork_cases [OF assms(2)] assms(3)
    using assms(2) by (auto simp: EnsureManagementNetwork_def mgmt_config_ok_def act_simps split: if_splits sum.splits)
  then show "inv t" "mgmt_post cfg (view s) (view t)"
    using meets_Ok [OF EnsureManagementNetwork_meets [OF assms(1,3)] assms(2)] by simp_all
qed

lemma EnsureManagementNetwork_again:
  assumes s: "inv s" and run: "EnsureManagementNetwork (mgr ns) pcfg s = (Ok (), t)"
  shows "\<exists>t'. EnsureManagementNetwork (mgr ns) pcfg t = (Ok (), t') \<and> inv t' \<and> view t' = view t"
proof (rule EnsureManagementNetwork_cases [OF run])
  assume "s = t" "\<And>u. EnsureManagementNetwork (mgr ns) pcfg u = (Ok (), u)"
  then show ?thesis using s by blast
next
  fix cfg
  assume cfg: "pcfg = Some cfg" "mc_enabled cfg = Some True" "mgmt_config_ok cfg"
  note first = EnsureManagementNetwork_Ok [OF s run [unfolded cfg(1)] cfg(2)]
  have "meets (EnsureManagementNetwork (mgr ns) (Some cfg)) t
      (\<lambda>_ t'. inv t' \<and> mgmt_post cfg (view t) (view t')) (\<lambda>_ _. False)"
    by (rule EnsureManagementNetwork_meets [OF first(1) cfg(2,3)])
  then obtain t' where t': "EnsureManagementNetwork (mgr ns) (Some cfg) t = (Ok (), t')" "inv t'"
    "mgmt_post cfg (view t) (view t')"
    by (auto simp: meets_def split: prod.splits result.splits)
  then show ?thesis using mgmt_post_fixpoint [OF first(2) t'(3)] cfg(1) by auto
qed

end

subsection \<open>Properties\<close>

text \<open>A concrete configuration and manager for the witnesses.\<close>

definition mgmt_example :: mgmt_config where
  "mgmt_example = \<lparr>mc_enabled = Some True, mc_name = Some ''mgmt'', mc_cidr = Some ''10.9.0.0/16'',
     mc_gateway = None, mc_excludeIps = None, mc_nadName = Some ''mgmt-nad'', mc_nadNamespace = Some ''kube-nfv''\<rparr>"

definition mem_kubeovn :: "mem kubeovn" where
  "mem_kubeovn = \<lparr>ko_client = mem_client, ko_apiReader = mem_client, ko_namespace = Some ''kube-nfv''\<rparr>"

lemma mgmt_example_ok: "mgmt_config_ok mgmt_example"
proof -
  have "''10.9.0.0/16'' = show_ipv4 (10, 9, 0, 0) @ CHR ''/'' # show_nat 16"
    by (simp add: show_ipv4_def show_nat.simps)
  then obtain net where "ParseCIDR ''10.9.0.0/16'' = Inr net"
    using ParseCIDR_ipv4 [of 16 10 9 0 0] by auto
  then show ?thesis by (auto simp: mgmt_config_ok_def mgmt_example_def has_value_def str_or_empty_def)
qed

lemma mgmt_example_run:
  obtains t where "EnsureManagementNetwork mem_kubeovn (Some mgmt_example) mem_empty = (Ok (), t)"
    and "mem_inv t" and "mgmt_post mgmt_example (mem_view mem_empty) (mem_view t)"
  using mem.EnsureManagementNetwork_meets [OF mem_inv_empty _ mgmt_example_ok, of "Some ''kube-nfv''"] that
  by (auto simp: mem_kubeovn_def mgmt_example_def meets_def split: prod.splits result.splits)

text \<open>C2. \<open>EnsureManagementNetwork\<close> is idempotent: on a server without faults, when a run succeeds, a
  second run from the state it leaves succeeds as well and changes no stored object. Calling it at
  every startup is safe.\<close>

theorem EnsureManagementNetwork_idempotent:
  assumes "api_server cl view I" and "I s"
    and "EnsureManagementNetwork \<lparr>ko_client = cl, ko_apiReader = cl, ko_namespace = ns\<rparr> cfg s = (Ok (), t)"
  shows "\<exists>t'. EnsureManagementNetwork \<lparr>ko_client = cl, ko_apiReader = cl, ko_namespace = ns\<rparr> cfg t = (Ok (), t')
    \<and> view t' = view t"
  using api_server.EnsureManagementNetwork_again [OF assms] by blast

theorem EnsureManagementNetwork_idempotent_witness:
  "\<exists>t t'. EnsureManagementNetwork mem_kubeovn (Some mgmt_example) mem_empty = (Ok (), t)
     \<and> EnsureManagementNetwork mem_kubeovn (Some mgmt_example) t = (Ok (), t') \<and> mem_view t' = mem_view t"
proof -
  obtain t where t: "EnsureManagementNetwork mem_kubeovn (Some mgmt_example) mem_empty = (Ok (), t)"
    using mgmt_example_run by blast
  show ?thesis
    using EnsureManagementNetwork_idempotent [OF mem.api_server_axioms mem_inv_empty t [unfolded mem_kubeovn_def]] t
    unfolding mem_kubeovn_def by blast
qed

text \<open>C8. \<open>EnsureManagementNetwork\<close> never touches the specification of an existing subnet (CIDR,
  gateway, addressing), nor any object other than its Vpc, Subnet and NetworkAttachmentDefinition:
  after a successful run with the network enabled, a subnet that existed differs in its labels and
  the server's bookkeeping only, its labels only grow by the required ones, and every other key
  holds what it held.\<close>

theorem EnsureManagementNetwork_keeps_spec:
  assumes "api_server cl view I" and "I s"
    and "EnsureManagementNetwork \<lparr>ko_client = cl, ko_apiReader = cl, ko_namespace = ns\<rparr> (Some cfg) s = (Ok (), t)"
    and "mc_enabled cfg = Some True"
  shows "\<exists>uid. let vpcName = str_or_empty (mc_name cfg); subnetName = formatSubnetName vpcName ''0'';
      nadName = str_or_empty (mc_nadName cfg); nadNs = str_or_empty (mc_nadNamespace cfg) in
    (\<forall>old. view s (KSubnet, [], subnetName) = Some (OSubnet old) \<longrightarrow>
      (\<exists>v f. view t (KSubnet, [], subnetName) = Some (OSubnet (old\<lparr>sub_meta := (sub_meta old)\<lparr>
        m_labels := m_labels (sub_meta old) ++ map_of (mgmtSubnetLabels vpcName uid subnetName nadName),
        m_resourceVersion := v, m_managedFields := f\<rparr>\<rparr>))))
    \<and> (\<forall>key. key \<notin> {(KVpc, [], vpcName), (KSubnet, [], subnetName), (KNad, nadNs, nadName)} \<longrightarrow>
        view t key = view s key)"
proof -
  have post: "mgmt_post cfg (view s) (view t)"
    using api_server.EnsureManagementNetwork_Ok [OF assms] by simp
  then show ?thesis
    unfolding mgmt_post_def Let_def
    by (elim exE conjE, rename_tac v sub nad, rule_tac x = "m_uid (vpc_meta v)" in exI)
      (auto simp: reconciled_def)
qed

theorem EnsureManagementNetwork_keeps_spec_witness:
  "\<exists>s t uid. EnsureManagementNetwork mem_kubeovn (Some mgmt_example) s = (Ok (), t) \<and>
     (\<exists>old. mem_view s (KSubnet, [], ''mgmt-subnet-0'') = Some (OSubnet old)) \<and>
     (let vpcName = str_or_empty (mc_name mgmt_example); subnetName = formatSubnetName vpcName ''0'';
      nadName = str_or_empty (mc_nadName mgmt_example); nadNs = str_or_empty (mc_nadNamespace mgmt_example) in
    (\<forall>old. mem_view s (KSubnet, [], subnetName) = Some (OSubnet old) \<longrightarrow>
      (\<exists>v f. mem_view t (KSubnet, [], subnetName) = Some (OSubnet (old\<lparr>sub_meta := (sub_meta old)\<lparr>
        m_labels := m_labels (sub_meta old) ++ map_of (mgmtSubnetLabels vpcName uid subnetName nadName),
        m_resourceVersion := v, m_managedFields := f\<rparr>\<rparr>))))
    \<and> (\<forall>key. key \<notin> {(KVpc, [], vpcName), (KSubnet, [], subnetName), (KNad, nadNs, nadName)} \<longrightarrow>
        mem_view t key = mem_view s key))"
proof -
  obtain s where s: "EnsureManagementNetwork mem_kubeovn (Some mgmt_example) mem_empty = (Ok (), s)" "mem_inv s"
    "mgmt_post mgmt_example (mem_view mem_empty) (mem_view s)"
    using mgmt_example_run by blast
  have sub: "\<exists>old. mem_view s (KSubnet, [], ''mgmt-subnet-0'') = Some (OSubnet old)"
    using s(3) by (auto simp: mgmt_post_def mgmt_example_def str_or_empty_def formatSubnetName_def Let_def)
  obtain t where t: "EnsureManagementNetwork mem_kubeovn (Some mgmt_example) s = (Ok (), t)"
    using mem.EnsureManagementNetwork_again [OF mem_inv_empty s(1) [unfolded mem_kubeovn_def]]
    unfolding mem_kubeovn_def by blast
  have on: "mc_enabled mgmt_example = Some True" by (simp add: mgmt_example_def)
  show ?thesis
    using EnsureManagementNetwork_keeps_spec
        [OF mem.api_server_axioms s(2) t [unfolded mem_kubeovn_def] on] t sub by blast
qed

end
