(* ===== verification/Kubeovn_Spec.thy ===== *)
theory Kubeovn_Spec
  imports Kubeovn_Mgmt
begin

text \<open>
  What the kube-ovn manager guarantees. For every client, faulty or not: lookups do not panic and
  return complete values (the interpretation \<open>kubeovn\<close> of \<open>network_backend\<close>), a failed lookup is
  classified as not found exactly when both kinds of network are absent. On a server without
  faults (\<open>api_server\<close>): \<open>CreateSubnet\<close> either creates the pair of objects or leaves the cluster as
  it was, what it created can be looked up and deleted again, and \<open>DeleteNetwork\<close> removes no
  network that kube-vim does not manage.
\<close>

lemmas meets_steps = meets_and_then meets_wrap meets_handle meets_ignore meets_if meets_case_option
  meets_ret meets_throw

subsection \<open>\<open>GetSubnet\<close> as the recursion it unrolls\<close>

lemma GetSubnet_body_by_name:
  "GetSubnet_body self m [GetSubnetByName n] = GetSubnet_body self' m [GetSubnetByName n]"
  by (simp add: GetSubnet_body_def subnet_opt_defs has_value_def Let_def)

lemma GetSubnet_body_cong:
  assumes "\<And>n. self [GetSubnetByName n] = self' [GetSubnetByName n]"
  shows "GetSubnet_body self m opts = GetSubnet_body self' m opts"
  unfolding GetSubnet_body_def Let_def assms by (rule refl)

lemma GetSubnet_rec: "GetSubnet m opts = GetSubnet_body (GetSubnet m) m opts"
  unfolding GetSubnet_def by (intro GetSubnet_body_cong GetSubnet_body_by_name)

lemma GetSubnet_by_name:
  "GetSubnet m [GetSubnetByName n] = (if n \<noteq> '''' then
       and_then (wrap ''get kubeovn subnet'' (k8s_get (ko_client m) subnet_k '''' n)) (\<lambda>subnet.
       wrap ''convert kubeovn subnet'' (sum_act (nfvNetworkSubnetFromKubeovnSubnet (Some subnet))))
     else throw (ErrInvalidArgument ''subnet identifier''
       ''name, uid, net attach name or network and ip must be specified''))"
  unfolding GetSubnet_def
  by (subst GetSubnet_body_def) (simp add: subnet_opt_defs has_value_def Let_def)

lemma GetSubnet_by_uid:
  "GetSubnet m [GetSubnetByUid p] = (if has_value p then
       and_then (wrap ''list kubeovn subnets'' (k8s_list (ko_client m) subnet_k None managed_selector)) (\<lambda>items.
       (case find (\<lambda>subnetRef. Some (m_uid (sub_meta subnetRef)) = p) items of
          Some subnetRef \<Rightarrow>
            wrap ''convert kubeovn subnet'' (sum_act (nfvNetworkSubnetFromKubeovnSubnet (Some subnetRef)))
        | None \<Rightarrow> throw (ErrNotFound ''kubeovn subnet'' (str_or_empty p))))
     else throw (ErrInvalidArgument ''subnet identifier''
       ''name, uid, net attach name or network and ip must be specified''))"
proof -
  have cfg: "ApplyGetSubnetOpts [GetSubnetByUid p] = \<lparr>gso_Name = [], gso_Uid = p, gso_NetAttachName = [],
      gso_NetId = None, gso_IPAddress = None\<rparr>" by (simp add: subnet_opt_defs)
  show ?thesis unfolding GetSubnet_def by (subst GetSubnet_body_def) (simp only: cfg Let_def getSubnetOpts.simps simp_thms if_True if_False)
qed

subsection \<open>Any client\<close>

lemma meets_subnetTo:
  assumes "\<And>n t. complete_subnet n \<Longrightarrow> Q n t"
    and "\<And>e t. \<not> is_ErrNotFound (root e) \<Longrightarrow> \<not> k8s_IsNotFound e \<Longrightarrow> E e t"
  shows "meets (sum_act (nfvNetworkSubnetFromKubeovnSubnet (Some sub))) s Q E"
proof (rule meets_sum_act)
  fix n assume "nfvNetworkSubnetFromKubeovnSubnet (Some sub) = Inr n"
  then show "Q n s" by (intro assms(1) subnetTo_complete)
next
  fix e assume "nfvNetworkSubnetFromKubeovnSubnet (Some sub) = Inl e"
  then show "E e s" using subnetTo_no_not_found by (intro assms(2)) auto
qed

lemma meets_GetSubnet_by_name:
  assumes "\<And>n t. complete_subnet n \<Longrightarrow> Q n t" and "\<And>e t. E e t"
  shows "meets (GetSubnet m [GetSubnetByName n]) s Q E"
  unfolding GetSubnet_by_name by (intro meets_steps meets_any meets_subnetTo assms)

lemma meets_GetSubnet_by_uid:
  assumes "\<And>n t. complete_subnet n \<Longrightarrow> Q n t" and "\<And>e t. E e t"
  shows "meets (GetSubnet m [GetSubnetByUid p]) s Q E"
  unfolding GetSubnet_by_uid by (intro meets_steps meets_any meets_subnetTo assms)

lemma ListSubnets_complete:
  "meets (ListSubnets m) s (\<lambda>ns _. \<forall>n\<in>set ns. complete_subnet n) (\<lambda>_ _. True)"
  unfolding ListSubnets_def
proof (intro meets_and_then meets_wrap meets_any)
  fix items t
  have "meets (for_each (\<lambda>subnetRef. wrap ''convert kubeovn subnet''
        (sum_act (nfvNetworkSubnetFromKubeovnSubnet (Some subnetRef)))) items) t
      (\<lambda>ns u. (\<forall>n\<in>set ns. complete_subnet n) \<and> length ns = length items \<and> True) (\<lambda>_ _. True)"
    by (rule meets_for_each) (auto intro!: meets_wrap meets_subnetTo)
  then show "meets (for_each (\<lambda>subnetRef. wrap ''convert kubeovn subnet''
        (sum_act (nfvNetworkSubnetFromKubeovnSubnet (Some subnetRef)))) items) t
      (\<lambda>ns _. \<forall>n\<in>set ns. complete_subnet n) (\<lambda>_ _. True)"
    by (rule meets_weaken) auto
qed simp

lemma find_by_ip_Ok: "find_by_ip netId ip subs s = (Ok sub, t) \<Longrightarrow> sub \<in> set subs \<and> s = t
    \<and> ns_networkId sub = netId \<and> IpBelongsToCidr ip (ns_cidr sub)"
  by (induction subs) (auto simp: act_simps and_then_Ok_iff deref_def split: if_splits option.splits)

lemma GetSubnet_complete: "GetSubnet m opts s = (Ok n, t) \<Longrightarrow> complete_subnet n"
proof (subst (asm) GetSubnet_rec)
  have name: "GetSubnet m [GetSubnetByName k] u = (Ok n, t) \<Longrightarrow> complete_subnet n" for k u
    by (rule meets_Ok [OF meets_GetSubnet_by_name [where Q = "\<lambda>n _. complete_subnet n" and E = "\<lambda>_ _. True"]])
      auto
  have conv: "sum_act (nfvNetworkSubnetFromKubeovnSubnet (Some sub)) u = (Ok n, t) \<Longrightarrow> complete_subnet n" for sub u
    by (cases "nfvNetworkSubnetFromKubeovnSubnet (Some sub)") (auto simp: act_simps dest: subnetTo_complete)
  have ip: "ListSubnets m u = (Ok subs, v) \<Longrightarrow> find_by_ip p q subs v = (Ok n, t) \<Longrightarrow> complete_subnet n"
    for u v p q subs
    using meets_Ok [OF ListSubnets_complete, of m u subs v] find_by_ip_Ok [of p q subs v n t] by simp
  assume "GetSubnet_body (GetSubnet m) m opts s = (Ok n, t)"
  then show "complete_subnet n"
    by (auto simp: GetSubnet_body_def Let_def and_then_Ok_iff act_simps
        split: if_splits option.splits intro: conv name ip)
qed

lemma subnet_ids_complete:
  assumes "\<And>ids t. (\<forall>p\<in>set ids. p \<noteq> None) \<Longrightarrow> Q ids t" and "\<And>e t. E e t"
  shows "meets (subnet_ids m ctx names) s Q E"
proof -
  have "meets (subnet_ids m ctx names) s
      (\<lambda>ids t. (\<forall>p\<in>set ids. p \<noteq> None) \<and> length ids = length names \<and> True) (\<lambda>_ _. True)"
    unfolding subnet_ids_def
    by (rule meets_for_each)
      (auto intro!: meets_and_then meets_wrap meets_GetSubnet_by_name meets_ret simp: complete_subnet_def)
  then show ?thesis by (rule meets_weaken) (auto intro: assms)
qed

lemma meets_networkTo:
  assumes "\<forall>p\<in>set ids. p \<noteq> None" and "\<And>n t. complete_network n \<Longrightarrow> Q n t" and "\<And>e t. E e t"
  shows "meets (sum_act (kubeovnVpcToNfvNetwork (Some v) ids)) s Q E"
    "meets (sum_act (kubeovnVlanToNfvNetwork (Some w) ids)) s Q E"
  using assms(2,3) networkTo_complete [OF assms(1)] by (auto intro!: meets_sum_act)

lemma meets_getNetwork:
  assumes "\<And>n t. complete_network n \<Longrightarrow> Q n t" and "\<And>e t. E e t"
  shows "meets (getOverlayNetwork m opts) s Q E" "meets (getUnderlayNetwork m opts) s Q E"
  unfolding getOverlayNetwork_def getUnderlayNetwork_def find_vpc_def find_vlan_def vpc_network_def vlan_network_def
  by (intro meets_steps meets_any subnet_ids_complete meets_networkTo assms; simp)+

text \<open>The classification of failed lookups: an error that carries a not-found condition of either
  kind is exactly the manager's own \<open>ErrNotFound\<close>, so that the composite manager, which only knows
  \<open>ErrNotFound\<close>, recognises it.\<close>

definition classified :: "error \<Rightarrow> bool" where
  "classified e \<longleftrightarrow> \<not> k8s_IsNotFound e \<and> (errors_As is_ErrNotFound e \<longrightarrow> e = ErrNotFound ''network'' '''')"

lemma GetNetwork_complete:
  "meets (GetNetwork m opts) s (\<lambda>n _. complete_network n) (\<lambda>e _. classified e)"
  unfolding GetNetwork_def
  by (intro meets_steps meets_getNetwork; simp add: classified_def)


subsection \<open>The contract\<close>

definition kubeovn_manager :: "(string \<Rightarrow> bool) \<Rightarrow> 's kubeovn \<Rightarrow> 's network_manager" where
  "kubeovn_manager isUUID m = \<lparr>nm_CreateNetwork = CreateNetwork isUUID m, nm_GetNetwork = GetNetwork m,
     nm_ListNetworks = ListNetworks m, nm_DeleteNetwork = DeleteNetwork m,
     nm_CreateSubnet = CreateSubnet isUUID m, nm_GetSubnet = GetSubnet m, nm_ListSubnets = ListSubnets m,
     nm_DeleteSubnet = DeleteSubnet m, nm_EnsureManagementNetwork = EnsureManagementNetwork m\<rparr>"

interpretation kubeovn: network_backend "kubeovn_manager isUUID m" for isUUID m
proof
  fix nopts s
  show "meets (nm_GetNetwork (kubeovn_manager isUUID m) nopts) s (\<lambda>n _. complete_network n) (\<lambda>_ _. True)"
    by (simp add: kubeovn_manager_def) (rule meets_weaken [OF GetNetwork_complete], auto)
next
  fix sopts s sub t
  assume "nm_GetSubnet (kubeovn_manager isUUID m) sopts s = (Ok sub, t)"
  then show "complete_subnet sub" by (simp add: kubeovn_manager_def) (rule GetSubnet_complete)
next
  fix uid s t
  have "meets (GetSubnet m [GetSubnetByUid uid]) s (\<lambda>_ _. True) (\<lambda>_ _. True)"
    by (rule meets_GetSubnet_by_uid) auto
  then show "nm_GetSubnet (kubeovn_manager isUUID m) [GetSubnetByUid uid] s \<noteq> (Panic, t)"
    by (auto simp: kubeovn_manager_def meets_def)
next
  fix name s t
  have "meets (GetSubnet m [GetSubnetByName name]) s (\<lambda>_ _. True) (\<lambda>_ _. True)"
    by (rule meets_GetSubnet_by_name) auto
  then show "nm_GetSubnet (kubeovn_manager isUUID m) [GetSubnetByName name] s \<noteq> (Panic, t)"
    by (auto simp: kubeovn_manager_def meets_def)
qed

subsection \<open>No operation panics on well-formed requests\<close>

lemma meets_GetNetwork:
  assumes "\<And>n t. complete_network n \<Longrightarrow> Q n t" and "\<And>e t. E e t"
  shows "meets (GetNetwork m opts) s Q E"
  by (rule meets_weaken [OF GetNetwork_complete]) (auto intro: assms)

lemma meets_for_each_total:
  assumes "\<And>x t. x \<in> set xs \<Longrightarrow> meets (f x) t (\<lambda>_ _. True) (\<lambda>_ _. True)"
    and "\<And>ys t. Q ys t" and "\<And>e t. E e t"
  shows "meets (for_each f xs) s Q E"
proof -
  have "meets (for_each f xs) s (\<lambda>ys t. (\<forall>y\<in>set ys. True) \<and> length ys = length xs \<and> True) (\<lambda>_ _. True)"
    by (rule meets_for_each) (auto intro: assms(1))
  then show ?thesis by (rule meets_weaken) (auto intro: assms(2,3))
qed

lemma meets_DeleteSubnet_by_uid:
  assumes "ko_namespace m \<noteq> None" and "\<And>x t. Q x t" and "\<And>e t. E e t"
  shows "meets (DeleteSubnet m [GetSubnetByUid p]) s Q E"
proof -
  obtain ns where ns: "ko_namespace m = Some ns" using assms(1) by blast
  show ?thesis
    unfolding DeleteSubnet_def Let_def ns
  proof (intro meets_and_then meets_wrap meets_GetSubnet_by_uid)
    fix n t assume n: "complete_subnet n"
    then obtain fs r where fs: "ns_metadata n = Some fs" "ns_resourceId n = Some r"
      by (auto simp: complete_subnet_def)
    show "meets (deref (ns_metadata n)) t (\<lambda>x t. meets (and_then
        (handle (k8s_delete (ko_client m) subnet_k [] (map_get x K8sSubnetNameLabel)) ret
          (\<lambda>err. and_then (deref (ns_resourceId n)) (\<lambda>_. throw (Wrap ''delete kubeovn subnet'' err))))
        (\<lambda>_. and_then (deref (Some ns)) (\<lambda>namespace.
          handle (k8s_delete (ko_client m) nad_k namespace (map_get x K8sSubnetNetAttachNameLabel)) ret
            (\<lambda>err. and_then (deref (ns_resourceId n)) (\<lambda>_.
              throw (Wrap ''delete multus NetworkAttachmentDefinition'' err)))))) t Q E) E"
      unfolding fs
      by (intro meets_deref [OF refl] meets_steps meets_any) (auto intro: assms)
  qed (rule assms(3))
qed

lemma meets_DeleteNetwork:
  assumes ns: "ko_namespace m \<noteq> None" and "\<And>x t. Q x t" and "\<And>e t. E e t"
  shows "meets (DeleteNetwork m opts) s Q E"
  unfolding DeleteNetwork_def
proof (intro meets_and_then meets_wrap meets_GetNetwork)
  fix n t assume n: "complete_network n"
  then obtain name r where nr: "vn_resourceName n = Some name" "vn_resourceId n = Some r"
    by (auto simp: complete_network_def)
  have sub: "meets (handle (DeleteSubnet m [GetSubnetByUid p]) ret (\<lambda>err. and_then (deref p)
      (\<lambda>_. throw (Wrap ''delete network subnet with id'' err)))) u (\<lambda>_ _. True) (\<lambda>_ _. True)"
    if p: "p \<in> set (vn_subnetId n)" for p u
  proof -
    obtain q where "p = Some q" using n p by (auto simp: complete_network_def)
    then show ?thesis by (auto intro!: meets_steps meets_deref meets_DeleteSubnet_by_uid ns)
  qed
  show "meets (delete_found_network m n) t Q E"
    unfolding delete_found_network_def nr
    by (intro meets_and_then meets_for_each_total sub meets_deref [OF refl] meets_steps meets_any assms)
      (auto intro: assms)
qed (rule assms(3))

lemma meets_attach_network:
  assumes "complete_network vnet" and "\<And>x t. Q x t"
  shows "meets (attach_network vnet subnet) s Q E"
  using assms
  by (auto simp: attach_network_def complete_network_def Let_def intro!: meets_and_then meets_deref meets_ret
      split: option.splits)

lemma meets_lookup_parent:
  assumes "\<And>x t. (\<And>n. x = Some n \<Longrightarrow> complete_network n) \<Longrightarrow> Q x t" and "\<And>e t. E e t"
  shows "meets (lookup_parent isUUID m d) s Q E"
  unfolding lookup_parent_def by (intro meets_steps meets_GetNetwork assms) auto

lemma meets_CreateSubnet:
  assumes ns: "ko_namespace m \<noteq> None" and "\<And>x t. complete_subnet x \<Longrightarrow> Q x t" and E: "\<And>e t. E e t"
  shows "meets (CreateSubnet isUUID m name (Some d)) s Q E"
proof -
  obtain n where n: "ko_namespace m = Some n" using ns by blast
  show ?thesis
    unfolding CreateSubnet_def create_subnet_objects_def Let_def n
    by (intro meets_deref [OF refl] meets_and_then meets_wrap meets_lookup_parent meets_sum_act
        meets_case_option meets_attach_network meets_any meets_handle meets_ignore meets_subnetTo
        meets_DeleteSubnet_by_uid ns meets_ret meets_throw assms) auto
qed

lemma meets_allocate:
  assumes ns: "ko_namespace m \<noteq> None" and l3: "\<forall>a\<in>set attrs. a \<noteq> None"
    and Q: "\<And>ids t. (\<forall>p\<in>set ids. p \<noteq> None) \<Longrightarrow> Q ids t" and E: "\<And>e t. E e t"
  shows "meets (allocateL3Attributes isUUID m name attrs) s Q E"
proof -
  have step: "meets (case ia of (idx, l3attr) \<Rightarrow> and_then (deref l3attr) (\<lambda>attr.
       (let attr = (if has_value (sd_networkId attr) then attr else attr\<lparr>sd_networkId := Some name\<rparr>) in
        and_then (wrap ''create subnet from l3 attribute''
          (CreateSubnet isUUID m (formatSubnetName name (show_nat idx)) (Some attr))) (\<lambda>subnet.
        ret (ns_resourceId subnet))))) t (\<lambda>p u. p \<noteq> None \<and> True) (\<lambda>_ _. True)"
    if "ia \<in> set (enumerate 0 attrs)" for ia t
  proof -
    have "snd ia \<in> set attrs" using that by (metis in_set_impl_in_set_zip2 enumerate_eq_zip prod.collapse set_zip_rightD)
    then obtain idx a where ia: "ia = (idx, Some a)" using l3 by (cases ia) auto
    show ?thesis unfolding ia prod.case Let_def
      by (intro meets_deref [OF refl] meets_and_then meets_wrap meets_CreateSubnet ns meets_ret)
        (auto simp: complete_subnet_def)
  qed
  have "meets (allocateL3Attributes isUUID m name attrs) s
      (\<lambda>ids t. (\<forall>p\<in>set ids. p \<noteq> None) \<and> length ids = length (enumerate 0 attrs) \<and> True) (\<lambda>_ _. True)"
    unfolding allocateL3Attributes_def by (rule meets_for_each [OF step TrueI])
  then show ?thesis by (rule meets_weaken) (auto intro: Q E)
qed

lemma meets_CreateNetwork:
  assumes ns: "ko_namespace m \<noteq> None" and l3: "\<forall>a\<in>set (nd_layer3Attributes d). a \<noteq> None"
    and Q: "\<And>n t. complete_network n \<Longrightarrow> Q n t" and E: "\<And>e t. E e t"
  shows "meets (CreateNetwork isUUID m name (Some d)) s Q E"
  unfolding CreateNetwork_def createOverlayNetwork_def createUnderlayNetwork_def
  by (intro meets_deref [OF refl] meets_and_then meets_if meets_wrap meets_networkTo meets_sum_act meets_any
      meets_handle meets_allocate [OF ns l3] meets_ret meets_throw meets_ignore meets_DeleteNetwork ns E Q)
    (auto intro: networkTo_complete)

lemma meets_ListNetworks: "meets (ListNetworks m) s (\<lambda>_ _. True) (\<lambda>_ _. True)"
  unfolding ListNetworks_def
  by (intro meets_and_then meets_wrap meets_any meets_for_each_total meets_sum_act meets_ret) auto

subsection \<open>On a server without faults\<close>

text \<open>The Subnet object \<open>CreateSubnet\<close> submits for a name and a request.\<close>

definition subnet_for :: "string \<Rightarrow> network_subnet_data \<Rightarrow> subnet \<Rightarrow> bool" where
  "subnet_for name d sub \<longleftrightarrow> m_name (sub_meta sub) = name \<and> m_namespace (sub_meta sub) = '''' \<and>
     IsObjectManagedByKubeNfv (sub_meta sub) \<and> m_labels (sub_meta sub) K8sSubnetNameLabel = Some name \<and>
     sub_protocol sub \<in> {''IPv4'', ''IPv6''} \<and>
     sd_ipVersion d = Some (if sub_protocol sub = ''IPv4'' then IPV4 else IPV6) \<and>
     sd_cidr d = Some (sub_cidrBlock sub) \<and>
     (sub_enableDHCP sub \<longleftrightarrow> sd_isDhcpEnabled d = None \<or> sd_isDhcpEnabled d = Some True) \<and>
     sub_gateway sub = (case sd_gatewayIp d of None \<Rightarrow> '''' | Some g \<Rightarrow> g)"

definition has_parent :: "virtual_network option \<Rightarrow> subnet \<Rightarrow> bool" where
  "has_parent p sub \<longleftrightarrow> (case p of
      None \<Rightarrow> m_labels (sub_meta sub) K8sNetworkIdLabel = None \<and> sub_vpc sub = '''' \<and> sub_vlan sub = ''''
    | Some n \<Rightarrow> m_labels (sub_meta sub) K8sNetworkIdLabel = vn_resourceId n
        \<and> m_labels (sub_meta sub) K8sNetworkNameLabel = vn_resourceName n
        \<and> (vn_networkType n = NET_OVERLAY \<longrightarrow> vn_resourceName n = Some (sub_vpc sub))
        \<and> (vn_networkType n = NET_UNDERLAY \<longrightarrow> vn_resourceName n = Some (sub_vlan sub)))"

lemma subnet_for_from_data:
  "kubeovnSubnetFromNfvSubnetData name (Some d) = Inr sub \<Longrightarrow> subnet_for name d sub \<and> has_parent None sub"
proof -
  assume "kubeovnSubnetFromNfvSubnetData name (Some d) = Inr sub"
  note f = subnetFrom_Inr [OF this]
  obtain v where "sd_ipVersion d = Some v" "kubeovnIpVersionFromNfv (Some v) = Inr (sub_protocol sub)"
    using f(7) by blast
  then have "sd_ipVersion d = Some (if sub_protocol sub = ''IPv4'' then IPV4 else IPV6)"
    by (cases v) (auto simp: kubeovnIpVersionFromNfv_def)
  then show ?thesis
    using f by (simp add: subnet_for_def has_parent_def named_meta_def empty_meta_def managed_labels_def
        IsObjectManagedByKubeNfv_def)
qed

lemma meets_attach_for:
  assumes "complete_network vnet" and "subnet_for name d sub"
    and "\<And>x. subnet_for name d x \<Longrightarrow> has_parent (Some vnet) x \<Longrightarrow> Q x s"
  shows "meets (attach_network vnet sub) s Q E"
proof -
  obtain nm i where "vn_resourceName vnet = Some nm" "vn_resourceId vnet = Some i"
    using assms(1) by (auto simp: complete_network_def)
  then show ?thesis
    using assms(2)
    by (auto simp: attach_network_def Let_def act_simps meets_def run_and_then subnet_for_def
        has_parent_def IsObjectManagedByKubeNfv_def intro!: assms(3))
qed

lemma created_subnet:
  assumes "created (OSubnet x) (OSubnet y)" and "subnet_for name d x"
  shows "subnet_for name d y" "IsObjectInstantiated (sub_meta y)" "m_labels (sub_meta y) = m_labels (sub_meta x)"
    "has_parent p x \<Longrightarrow> has_parent p y"
    "nfvNetworkSubnetFromKubeovnSubnet (Some y) = Inr \<lparr>ns_resourceId = Some (m_uid (sub_meta y)),
       ns_networkId = (if has_value (m_labels (sub_meta x) K8sNetworkIdLabel)
         then m_labels (sub_meta x) K8sNetworkIdLabel else None),
       ns_ipVersion = the (sd_ipVersion d), ns_gatewayIp = Some (sub_gateway x), ns_cidr = sd_cidr d,
       ns_isDhcpEnabled = (sd_isDhcpEnabled d = None \<or> sd_isDhcpEnabled d = Some True),
       ns_metadata = Some (m_labels (sub_meta x))\<rparr>"
proof -
  obtain u v t f where y: "y = x\<lparr>sub_meta := (sub_meta x)\<lparr>m_uid := u, m_resourceVersion := v,
      m_creationTimestamp := t, m_managedFields := f\<rparr>\<rparr>" "u \<noteq> ''''" "v \<noteq> ''''" "t \<noteq> 0"
    using assms(1) by (auto simp: created_def)
  show "subnet_for name d y" and inst: "IsObjectInstantiated (sub_meta y)"
    and "m_labels (sub_meta y) = m_labels (sub_meta x)" and "has_parent p x \<Longrightarrow> has_parent p y"
    using y assms(2) by (simp_all add: subnet_for_def IsObjectManagedByKubeNfv_def IsObjectInstantiated_def
        has_parent_def split: option.splits)
  show "nfvNetworkSubnetFromKubeovnSubnet (Some y) = Inr \<lparr>ns_resourceId = Some (m_uid (sub_meta y)),
       ns_networkId = (if has_value (m_labels (sub_meta x) K8sNetworkIdLabel)
         then m_labels (sub_meta x) K8sNetworkIdLabel else None),
       ns_ipVersion = the (sd_ipVersion d), ns_gatewayIp = Some (sub_gateway x), ns_cidr = sd_cidr d,
       ns_isDhcpEnabled = (sd_isDhcpEnabled d = None \<or> sd_isDhcpEnabled d = Some True),
       ns_metadata = Some (m_labels (sub_meta x))\<rparr>"
    unfolding subnetTo_Inr_iff using inst y(1) assms(2)
    by (auto simp: subnet_for_def IsObjectManagedByKubeNfv_def)
qed

text \<open>The effect of a successful \<open>CreateSubnet\<close> on the stored objects: two new ones that name each
  other.\<close>

definition subnet_created ::
  "(okey \<Rightarrow> k8s_object option) \<Rightarrow> (okey \<Rightarrow> k8s_object option) \<Rightarrow> string \<Rightarrow> string \<Rightarrow> network_subnet_data \<Rightarrow>
     network_subnet \<Rightarrow> bool" where
  "subnet_created V W ns name d n \<longleftrightarrow> (\<exists>sub nad.
     V (KNad, ns, formatNetAttachName name) = None \<and> V (KSubnet, '''', name) = None \<and>
     W = V((KNad, ns, formatNetAttachName name) \<mapsto> ONad nad, (KSubnet, '''', name) \<mapsto> OSubnet sub) \<and>
     subnet_for name d sub \<and> IsObjectInstantiated (sub_meta sub) \<and>
     m_labels (sub_meta sub) K8sSubnetNetAttachNameLabel = Some (formatNetAttachName name) \<and>
     IsObjectManagedByKubeNfv (nad_meta nad) \<and> m_labels (nad_meta nad) K8sSubnetNameLabel = Some name \<and>
     nad_config nad = formatNetAttachConfig (formatNetAttachName name) ns \<and>
     nfvNetworkSubnetFromKubeovnSubnet (Some sub) = Inr n)"

text \<open>The reasons for which \<open>CreateSubnet\<close> may fail on such a server.\<close>

definition name_taken :: "(okey \<Rightarrow> k8s_object option) \<Rightarrow> string \<Rightarrow> string \<Rightarrow> bool" where
  "name_taken V ns name \<longleftrightarrow>
     V (KNad, ns, formatNetAttachName name) \<noteq> None \<or> V (KSubnet, [], name) \<noteq> None"

definition subnet_refused :: "(okey \<Rightarrow> k8s_object option) \<Rightarrow> string \<Rightarrow> string \<Rightarrow> network_subnet_data \<Rightarrow> bool" where
  "subnet_refused V ns name d \<longleftrightarrow> name_taken V ns name \<or> sd_networkId d \<noteq> None \<or>
     (\<exists>e. kubeovnSubnetFromNfvSubnetData name (Some d) = Inl e)"

lemma subnet_refused_intros:
  "name_taken V ns name \<Longrightarrow> subnet_refused V ns name d"
  "sd_networkId d \<noteq> None \<Longrightarrow> subnet_refused V ns name d"
  "kubeovnSubnetFromNfvSubnetData name (Some d) = Inl e \<Longrightarrow> subnet_refused V ns name d"
  by (auto simp: subnet_refused_def)

lemma subnet_for_with_netattach [simp]:
  "subnet_for name d (with_netattach sub n) = subnet_for name d sub"
  by (simp add: subnet_for_def with_netattach_def IsObjectManagedByKubeNfv_def)

text \<open>Vpcs and Vlans are cluster-scoped; \<open>backed\<close>: a returned network stands for a stored managed
  object.\<close>

definition cluster_scoped :: "(okey \<Rightarrow> k8s_object option) \<Rightarrow> bool" where
  "cluster_scoped V \<longleftrightarrow> (\<forall>ns n. V (KVpc, ns, n) \<noteq> None \<longrightarrow> ns = '''') \<and> (\<forall>ns n. V (KVlan, ns, n) \<noteq> None \<longrightarrow> ns = '''')"

definition backed :: "(okey \<Rightarrow> k8s_object option) \<Rightarrow> virtual_network \<Rightarrow> bool" where
  "backed V n \<longleftrightarrow> (\<exists>name ob. vn_resourceName n = Some name \<and> IsObjectManagedByKubeNfv (obj_meta_of ob) \<and>
     (vn_networkType n = NET_OVERLAY \<and> V (KVpc, '''', name) = Some ob \<or>
      vn_networkType n = NET_UNDERLAY \<and> V (KVlan, '''', name) = Some ob))"

lemma backedI:
  "kubeovnVpcToNfvNetwork (Some v) ids = Inr n \<Longrightarrow> V (KVpc, [], m_name (vpc_meta v)) = Some (OVpc v) \<Longrightarrow> backed V n"
  "kubeovnVlanToNfvNetwork (Some w) ids = Inr n \<Longrightarrow> V (KVlan, [], m_name (vlan_meta w)) = Some (OVlan w) \<Longrightarrow> backed V n"
  using vpcTo_Inr [of v ids n] vlanTo_Inr [of w ids n] by (auto simp: backed_def)

text \<open>\<open>only_removed V W\<close>: going from \<open>V\<close> to \<open>W\<close> objects only disappeared, and no network that kube-vim
  does not manage did.\<close>

definition only_removed :: "(okey \<Rightarrow> k8s_object option) \<Rightarrow> (okey \<Rightarrow> k8s_object option) \<Rightarrow> bool" where
  "only_removed V W \<longleftrightarrow> W \<subseteq>\<^sub>m V \<and> (\<forall>k ns n ob. k \<in> {KVpc, KVlan} \<and> V (k, ns, n) = Some ob \<and>
     \<not> IsObjectManagedByKubeNfv (obj_meta_of ob) \<longrightarrow> W (k, ns, n) = Some ob)"

lemma map_le_remove: "W \<subseteq>\<^sub>m V \<Longrightarrow> W(k := None) \<subseteq>\<^sub>m V"
  by (auto simp: map_le_def dom_def)

lemma only_removed_other:
  "only_removed V W \<Longrightarrow> kd \<notin> {KVpc, KVlan} \<Longrightarrow> only_removed V (W((kd, ns, n) := None))"
  by (auto simp: only_removed_def map_le_remove)

lemma only_removed_managed:
  assumes "only_removed V W" and "\<And>ob. V (kd, ns, n) = Some ob \<Longrightarrow> IsObjectManagedByKubeNfv (obj_meta_of ob)"
  shows "only_removed V (W((kd, ns, n) := None))"
  using assms by (auto simp: only_removed_def map_le_remove)

context api_server
begin

lemma preserves_find_by_ip [preserves_intros]: "preserves P (find_by_ip netId ip subs)"
  by (induction subs) (auto intro!: preserves_intros)

lemma preserves_ListSubnets [preserves_intros]:
  assumes m: "ko_client m = cl"
  shows "preserves (\<lambda>t. inv t \<and> P (view t)) (ListSubnets m)"
  unfolding ListSubnets_def m by (intro preserves_intros)

lemma preserves_GetSubnet [preserves_intros]:
  assumes m: "ko_client m = cl"
  shows "preserves (\<lambda>t. inv t \<and> P (view t)) (GetSubnet m opts)"
  unfolding GetSubnet_def GetSubnet_body_def Let_def m by (intro preserves_intros m)

lemma preserves_GetNetwork [preserves_intros]:
  assumes m: "ko_client m = cl"
  shows "preserves (\<lambda>t. inv t \<and> P (view t)) (GetNetwork m opts)"
  unfolding GetNetwork_def getOverlayNetwork_def getUnderlayNetwork_def find_vpc_def find_vlan_def
    vpc_network_def vlan_network_def subnet_ids_def m
  by (intro preserves_intros m)

lemma lookup_parent_view:
  assumes "inv s" and "ko_client m = cl"
  shows "meets (lookup_parent isUUID m d) s
    (\<lambda>x t. (\<forall>n. x = Some n \<longrightarrow> complete_network n) \<and> inv t \<and> view t = view s)
    (\<lambda>_ t. sd_networkId d \<noteq> None \<and> inv t \<and> view t = view s)"
proof (rule meets_preserves)
  show "preserves (\<lambda>t. inv t \<and> view t = view s) (lookup_parent isUUID m d)"
    unfolding lookup_parent_def
    by (intro preserves_intros preserves_GetNetwork [where P = "\<lambda>v. v = view s"] assms(2))
  show "meets (lookup_parent isUUID m d) s (\<lambda>x _. \<forall>n. x = Some n \<longrightarrow> complete_network n) (\<lambda>_ _. sd_networkId d \<noteq> None)"
    by (cases "sd_networkId d") (auto simp: lookup_parent_def intro!: meets_ret meets_and_then meets_wrap meets_GetNetwork)
qed (use assms(1) in simp)

text \<open>The tail of \<open>CreateSubnet\<close>: the two creations and the rollback between them.\<close>

lemma create_pair:
  assumes s: "inv s" and sub: "subnet_for name d sub"
    and ok: "\<And>y nad t. inv t \<Longrightarrow> view s (KNad, ns, na) = None \<Longrightarrow> view s (KSubnet, [], name) = None \<Longrightarrow>
      view t = (view s)((KNad, ns, na) \<mapsto> ONad nad, (KSubnet, [], name) \<mapsto> OSubnet y) \<Longrightarrow>
      created (ONad (subnet_nad ns na name)) (ONad nad) \<Longrightarrow>
      created (OSubnet (with_netattach sub na)) (OSubnet y) \<Longrightarrow> meets (f y) t Q E"
    and err: "\<And>e t. inv t \<Longrightarrow> view t = view s \<Longrightarrow>
      view s (KNad, ns, na) \<noteq> None \<or> view s (KSubnet, [], name) \<noteq> None \<Longrightarrow> E e t"
  shows "meets (and_then (wrap c (k8s_create cl nad_k (subnet_nad ns na name))) (\<lambda>_.
      and_then (handle (k8s_create cl subnet_k (with_netattach sub na)) ret (\<lambda>err.
         and_then (ignore (k8s_delete cl nad_k ns na)) (\<lambda>_. throw (Wrap c' err)))) f)) s Q E"
proof -
  have key: "obj_key (ki_obj nad_k (subnet_nad ns na name)) = (KNad, ns, na)"
    by (simp add: obj_key_def subnet_nad_def named_meta_def empty_meta_def)
  have skey: "obj_key (ki_obj subnet_k (with_netattach sub na)) = (KSubnet, [], name)"
    using sub by (simp add: obj_key_def with_netattach_def subnet_for_def)
  show ?thesis
  proof (intro meets_and_then meets_wrap, rule meets_create [OF s])
    fix nad t
    assume t: "inv t" and none: "view s (obj_key (ki_obj nad_k (subnet_nad ns na name))) = None"
      and cr: "created (ki_obj nad_k (subnet_nad ns na name)) (ki_obj nad_k nad)"
      and v: "view t = (view s)(obj_key (ki_obj nad_k (subnet_nad ns na name)) \<mapsto> ki_obj nad_k nad)"
    have undo: "(view t)((KNad, ns, na) := None) = view s" using v none unfolding key by auto
    show "meets (and_then (handle (k8s_create cl subnet_k (with_netattach sub na)) ret (\<lambda>err.
         and_then (ignore (k8s_delete cl nad_k ns na)) (\<lambda>_. throw (Wrap c' err)))) f) t Q E"
    proof (rule meets_and_then, rule meets_handle, rule meets_create [OF t])
      fix y u
      assume "inv u" "view t (obj_key (ki_obj subnet_k (with_netattach sub na))) = None"
        "created (ki_obj subnet_k (with_netattach sub na)) (ki_obj subnet_k y)"
        "view u = (view t)(obj_key (ki_obj subnet_k (with_netattach sub na)) \<mapsto> ki_obj subnet_k y)"
      then show "meets (ret y) u (\<lambda>x t. meets (f x) t Q E) E"
        using none cr v unfolding key skey by (intro meets_ret ok) simp_all
    next
      fix m u ob
      assume u: "inv u" "view u = view t" and "view t (obj_key (ki_obj subnet_k (with_netattach sub na))) = Some ob"
      then have taken: "view s (KSubnet, [], name) = Some ob" using v unfolding skey key by simp
      show "meets (and_then (ignore (k8s_delete cl nad_k ns na)) (\<lambda>_. throw (Wrap c' (K8sError ReasonAlreadyExists m))))
          u (\<lambda>x t. meets (f x) t Q E) E"
        by (intro meets_and_then meets_ignore, rule meets_delete [OF u(1)])
          (use u v undo taken in \<open>auto intro!: meets_throw err simp: key [simplified]\<close>)
    qed simp
  next
    fix m t ob
    assume "inv t" "view t = view s" "view s (obj_key (ki_obj nad_k (subnet_nad ns na name))) = Some ob"
    then show "E (Wrap c (K8sError ReasonAlreadyExists m)) t" unfolding key by (intro err) auto
  qed simp
qed

lemma create_subnet_objects_view:
  assumes t: "inv t" and sub: "subnet_for name d sub"
    and m: "ko_client m = cl" and ns: "ko_namespace m = Some ns"
  shows "meets (create_subnet_objects m sub) t
    (\<lambda>n u. inv u \<and> subnet_created (view t) (view u) ns name d n) (\<lambda>_ u. inv u \<and> view u = view t \<and> name_taken (view t) ns name)"
proof -
  have nm: "m_name (sub_meta sub) = name" using sub by (simp add: subnet_for_def)
  show ?thesis
    unfolding create_subnet_objects_def nm m ns Let_def
  proof (rule meets_and_then, rule meets_deref [OF refl], rule create_pair [OF t sub])
    fix y nad u
    assume u: "inv u" "view t (KNad, ns, formatNetAttachName name) = None" "view t (KSubnet, [], name) = None"
      "view u = (view t)((KNad, ns, formatNetAttachName name) \<mapsto> ONad nad, (KSubnet, [], name) \<mapsto> OSubnet y)"
      and nad: "created (ONad (subnet_nad ns (formatNetAttachName name) name)) (ONad nad)"
      and y: "created (OSubnet (with_netattach sub (formatNetAttachName name))) (OSubnet y)"
    note f = created_subnet [OF y, unfolded subnet_for_with_netattach, OF sub]
    have n: "IsObjectManagedByKubeNfv (nad_meta nad)" "m_labels (nad_meta nad) K8sSubnetNameLabel = Some name"
      "nad_config nad = formatNetAttachConfig (formatNetAttachName name) ns"
      using nad by (auto simp: created_def subnet_nad_def named_meta_def empty_meta_def managed_labels_def
          IsObjectManagedByKubeNfv_def)
    show "meets (handle (sum_act (nfvNetworkSubnetFromKubeovnSubnet (Some y))) ret (\<lambda>err.
        and_then (ignore (DeleteSubnet m [GetSubnetByUid (UIDToIdentifier (m_uid (sub_meta y)))])) (\<lambda>_.
        throw (Wrap ''convert created kubeovn subnet to vivnfm.NetworkSubnet (subnet will be deleted)'' err)))) u
        (\<lambda>n u. inv u \<and> subnet_created (view t) (view u) ns name d n)
        (\<lambda>_ u. inv u \<and> view u = view t \<and> name_taken (view t) ns name)"
      unfolding f(5) sum_act_simps handle_ret subnet_created_def
      by (rule meets_ret, intro conjI exI [of _ y] exI [of _ nad])
        (use u f n in \<open>simp_all add: with_netattach_def\<close>)
  qed (auto simp: name_taken_def)
qed

lemma CreateSubnet_view:
  assumes s: "inv s" and m: "ko_client m = cl" and ns: "ko_namespace m = Some ns"
  shows "meets (CreateSubnet isUUID m name (Some d)) s
    (\<lambda>n t. inv t \<and> subnet_created (view s) (view t) ns name d n)
    (\<lambda>_ t. inv t \<and> view t = view s \<and> subnet_refused (view s) ns name d)"
proof -
  have objects: "meets (create_subnet_objects m sub) t
      (\<lambda>n u. inv u \<and> subnet_created (view s) (view u) ns name d n)
      (\<lambda>_ u. inv u \<and> view u = view s \<and> subnet_refused (view s) ns name d)"
    if "subnet_for name d sub" "inv t" "view t = view s" for sub t
    by (rule meets_weaken [OF create_subnet_objects_view [OF that(2,1) m ns]])
      (auto simp: that(3) intro: subnet_refused_intros)
  show ?thesis
    unfolding CreateSubnet_def
    by (rule meets_and_then, rule meets_deref [OF refl], rule meets_and_then,
        rule meets_weaken [OF lookup_parent_view [OF s m]],
        intro meets_and_then meets_wrap meets_sum_act meets_case_option meets_ret)
      (auto dest!: subnet_for_from_data intro!: meets_attach_for objects intro: subnet_refused_intros)
qed

text \<open>A managed subnet is found by its uid, and found again after anything that keeps it.\<close>

lemma GetSubnet_by_uid_view:
  assumes t: "inv t" and m: "ko_client m = cl"
    and v: "view t (KSubnet, [], name) = Some (OSubnet sub)"
    and n: "nfvNetworkSubnetFromKubeovnSubnet (Some sub) = Inr n"
  shows "\<exists>u. GetSubnet m [GetSubnetByUid (ns_resourceId n)] t = (Ok n, u) \<and> inv u \<and> view u = view t"
proof -
  have sub: "IsObjectInstantiated (sub_meta sub)" "IsObjectManagedByKubeNfv (sub_meta sub)"
    and rid: "ns_resourceId n = Some (m_uid (sub_meta sub))"
    using n by (auto simp: subnetTo_Inr_iff)
  have uid: "has_value (ns_resourceId n)" using sub(1) rid by (simp add: has_value_def IsObjectInstantiated_def)
  have "meets (GetSubnet m [GetSubnetByUid (ns_resourceId n)]) t
      (\<lambda>r u. r = n \<and> inv u \<and> view u = view t) (\<lambda>_ _. False)"
    unfolding GetSubnet_by_uid if_P [OF uid] m
  proof (rule meets_and_then, rule meets_wrap, rule meets_list [OF t])
    fix items u
    assume u: "inv u" "view u = view t"
      and items: "\<And>x. x \<in> set items \<longleftrightarrow> (\<exists>ns nm. view t (ki_kind subnet_k, ns, nm) = Some (ki_obj subnet_k x) \<and>
        (None = None \<or> None = Some ns) \<and> matches managed_selector (obj_meta_of (ki_obj subnet_k x)))"
    have "sub \<in> set items" using v sub(2) items by auto
    moreover have "x = sub" if x: "x \<in> set items" and same: "m_uid (sub_meta x) = m_uid (sub_meta sub)" for x
    proof -
      obtain ns nm where "view t (KSubnet, ns, nm) = Some (OSubnet x)"
        using x items [of x] by auto
      with uid_unique [OF t this v] same v show ?thesis by simp
    qed
    ultimately have "find (\<lambda>x. Some (m_uid (sub_meta x)) = ns_resourceId n) items = Some sub"
      unfolding rid by (induction items) (auto split: if_splits)
    then show "meets (case find (\<lambda>x. Some (m_uid (sub_meta x)) = ns_resourceId n) items of
        None \<Rightarrow> throw (ErrNotFound ''kubeovn subnet'' (str_or_empty (ns_resourceId n)))
      | Some x \<Rightarrow> wrap ''convert kubeovn subnet'' (sum_act (nfvNetworkSubnetFromKubeovnSubnet (Some x)))) u
      (\<lambda>r u. r = n \<and> inv u \<and> view u = view t) (\<lambda>_ _. False)"
      using u n by (simp add: meets_ret)
  qed simp
  then show ?thesis by (auto simp: meets_def split: prod.splits result.splits)
qed

lemma DeleteSubnet_view:
  assumes t: "inv t" and m: "ko_client m = cl" and ns: "ko_namespace m = Some ns"
    and cr: "subnet_created V (view t) ns name d n"
  shows "\<exists>u. DeleteSubnet m [GetSubnetByUid (ns_resourceId n)] t = (Ok (), u) \<and> inv u \<and> view u = V"
proof -
  let ?na = "formatNetAttachName name"
  obtain sub nad where none: "V (KNad, ns, ?na) = None" "V (KSubnet, [], name) = None"
    and v: "view t = V((KNad, ns, ?na) \<mapsto> ONad nad, (KSubnet, [], name) \<mapsto> OSubnet sub)"
    and sub: "subnet_for name d sub" "m_labels (sub_meta sub) K8sSubnetNetAttachNameLabel = Some ?na"
    and n: "nfvNetworkSubnetFromKubeovnSubnet (Some sub) = Inr n"
    using cr by (auto simp: subnet_created_def)
  obtain u where u: "GetSubnet m [GetSubnetByUid (ns_resourceId n)] t = (Ok n, u)" "inv u" "view u = view t"
    using GetSubnet_by_uid_view [OF t m _ n, of name] v by auto
  have md: "ns_metadata n = Some (m_labels (sub_meta sub))" using n by (auto simp: subnetTo_Inr_iff)
  have names: "map_get (m_labels (sub_meta sub)) K8sSubnetNetAttachNameLabel = ?na"
    "map_get (m_labels (sub_meta sub)) K8sSubnetNameLabel = name"
    using sub by (simp_all add: map_get_def subnet_for_def)
  have "meets (DeleteSubnet m [GetSubnetByUid (ns_resourceId n)]) t (\<lambda>_ w. inv w \<and> view w = V) (\<lambda>_ _. False)"
    unfolding DeleteSubnet_def m ns Let_def
    by (rule meets_and_then, rule meetsI)
      (use u in \<open>auto simp: md names v act_simps none fun_upd_twist wrap_Err_iff
        intro!: meets_deref [OF refl] meets_and_then meets_handle meets_delete meets_ret\<close>)
  then show ?thesis by (auto simp: meets_def split: prod.splits result.splits)
qed

lemma find_vpc_view:
  assumes s: "inv s" and m: "ko_client m = cl" and cs: "cluster_scoped (view s)"
  shows "meets (find_vpc m cfg) s
    (\<lambda>v t. inv t \<and> view t = view s \<and> view s (KVpc, [], m_name (vpc_meta v)) = Some (OVpc v))
    (\<lambda>_ t. inv t \<and> view t = view s)"
proof -
  have stored: "view s (KVpc, [], m_name (vpc_meta v)) = Some (OVpc v)"
    if "view s (KVpc, ns, n) = Some (OVpc v)" for ns n v
  proof -
    have "ns = []" using cs that unfolding cluster_scoped_def by (metis option.distinct(1))
    then show ?thesis using view_key [OF s that] that by (simp add: obj_key_def)
  qed
  show ?thesis
    unfolding find_vpc_def m
  proof (intro meets_if meets_wrap meets_and_then meets_throw)
  show "meets (k8s_get cl vpc_k [] (gno_Name cfg)) s
    (\<lambda>v t. inv t \<and> view t = view s \<and> view s (KVpc, [], m_name (vpc_meta v)) = Some (OVpc v))
    (\<lambda>_ t. inv t \<and> view t = view s)"
    by (rule meets_get [OF s]) (auto intro: stored)
next
  show "meets (k8s_list cl vpc_k None managed_selector) s (\<lambda>items t. meets
      (case find (\<lambda>ref. Some (m_uid (vpc_meta ref)) = gno_Uid cfg) items of
         Some vpc \<Rightarrow> ret vpc | None \<Rightarrow> throw (ErrNotFound ''kubeovn vpc'' (str_or_empty (gno_Uid cfg)))) t
      (\<lambda>v t. inv t \<and> view t = view s \<and> view s (KVpc, [], m_name (vpc_meta v)) = Some (OVpc v))
      (\<lambda>_ t. inv t \<and> view t = view s)) (\<lambda>_ t. inv t \<and> view t = view s)"
    by (rule meets_list [OF s]) (auto intro!: meets_case_option meets_throw meets_ret dest!: find_SomeD intro: stored)
  qed (use s in simp)
qed

lemma find_vlan_view:
  assumes s: "inv s" and m: "ko_client m = cl" and cs: "cluster_scoped (view s)"
  shows "meets (find_vlan m cfg) s
    (\<lambda>v t. inv t \<and> view t = view s \<and> view s (KVlan, [], m_name (vlan_meta v)) = Some (OVlan v))
    (\<lambda>_ t. inv t \<and> view t = view s)"
proof -
  have stored: "view s (KVlan, [], m_name (vlan_meta v)) = Some (OVlan v)"
    if "view s (KVlan, ns, n) = Some (OVlan v)" for ns n v
  proof -
    have "ns = []" using cs that unfolding cluster_scoped_def by (metis option.distinct(1))
    then show ?thesis using view_key [OF s that] that by (simp add: obj_key_def)
  qed
  show ?thesis
    unfolding find_vlan_def m
  proof (intro meets_if meets_wrap meets_and_then meets_throw)
  show "meets (k8s_get cl vlan_k [] (gno_Name cfg)) s
    (\<lambda>v t. inv t \<and> view t = view s \<and> view s (KVlan, [], m_name (vlan_meta v)) = Some (OVlan v))
    (\<lambda>_ t. inv t \<and> view t = view s)"
    by (rule meets_get [OF s]) (auto intro: stored)
next
  show "meets (k8s_list cl vlan_k None managed_selector) s (\<lambda>items t. meets
      (case find (\<lambda>ref. Some (m_uid (vlan_meta ref)) = gno_Uid cfg) items of
         Some vlan \<Rightarrow> ret vlan | None \<Rightarrow> throw (ErrNotFound ''kubeovn vlan'' (str_or_empty (gno_Uid cfg)))) t
      (\<lambda>v t. inv t \<and> view t = view s \<and> view s (KVlan, [], m_name (vlan_meta v)) = Some (OVlan v))
      (\<lambda>_ t. inv t \<and> view t = view s)) (\<lambda>_ t. inv t \<and> view t = view s)"
    by (rule meets_list [OF s]) (auto intro!: meets_case_option meets_throw meets_ret dest!: find_SomeD intro: stored)
  qed (use s in simp)
qed

lemma preserves_subnet_ids [preserves_intros]:
  assumes m: "ko_client m = cl"
  shows "preserves (\<lambda>t. inv t \<and> P (view t)) (subnet_ids m c names)"
  unfolding subnet_ids_def by (intro preserves_intros m)

lemma network_backed:
  assumes t: "inv t" "view t = V" and m: "ko_client m = cl"
  shows "V (KVpc, [], m_name (vpc_meta v)) = Some (OVpc v) \<Longrightarrow>
      meets (vpc_network m v) t (\<lambda>n u. backed V n \<and> inv u \<and> view u = V) (\<lambda>_ u. True \<and> inv u \<and> view u = V)"
    and "V (KVlan, [], m_name (vlan_meta w)) = Some (OVlan w) \<Longrightarrow>
      meets (vlan_network m w) t (\<lambda>n u. backed V n \<and> inv u \<and> view u = V) (\<lambda>_ u. True \<and> inv u \<and> view u = V)"
proof -
  have pres: "preserves (\<lambda>t. inv t \<and> view t = V) (vpc_network m v)" "preserves (\<lambda>t. inv t \<and> view t = V) (vlan_network m w)"
    unfolding vpc_network_def vlan_network_def
    by (intro preserves_intros preserves_subnet_ids [where P = "\<lambda>v. v = V"] m)+
  have t': "inv t \<and> view t = V" using t by simp
  show "meets (vpc_network m v) t (\<lambda>n u. backed V n \<and> inv u \<and> view u = V) (\<lambda>_ u. True \<and> inv u \<and> view u = V)"
    if "V (KVpc, [], m_name (vpc_meta v)) = Some (OVpc v)"
  proof (rule meets_preserves [OF _ pres(1) t'])
    show "meets (vpc_network m v) t (\<lambda>n u. backed V n) (\<lambda>_ u. True)"
      unfolding vpc_network_def
      by (intro meets_and_then subnet_ids_complete meets_wrap meets_sum_act)
        (use that in \<open>auto intro: backedI(1)\<close>)
  qed
  show "meets (vlan_network m w) t (\<lambda>n u. backed V n \<and> inv u \<and> view u = V) (\<lambda>_ u. True \<and> inv u \<and> view u = V)"
    if "V (KVlan, [], m_name (vlan_meta w)) = Some (OVlan w)"
  proof (rule meets_preserves [OF _ pres(2) t'])
    show "meets (vlan_network m w) t (\<lambda>n u. backed V n) (\<lambda>_ u. True)"
      unfolding vlan_network_def
      by (intro meets_and_then subnet_ids_complete meets_wrap meets_sum_act)
        (use that in \<open>auto intro: backedI(2)\<close>)
  qed
qed

lemma GetNetwork_backed:
  assumes s: "inv s" and m: "ko_client m = cl" and cs: "cluster_scoped (view s)"
  shows "meets (GetNetwork m opts) s (\<lambda>n t. backed (view s) n \<and> inv t \<and> view t = view s)
    (\<lambda>_ t. inv t \<and> view t = view s)"
proof -
  let ?Q = "\<lambda>n t. backed (view s) n \<and> inv t \<and> view t = view s" and ?E = "\<lambda>_ t. inv t \<and> view t = view s"
  have over: "meets (getOverlayNetwork m opts) t ?Q ?E" if t: "inv t" "view t = view s" for t
    unfolding getOverlayNetwork_def
  proof (rule meets_and_then, rule meets_weaken [OF find_vpc_view [OF t(1) m, unfolded t(2), OF cs]])
    fix v u assume "inv u \<and> view u = view s \<and> view s (KVpc, [], m_name (vpc_meta v)) = Some (OVpc v)"
    then show "meets (vpc_network m v) u ?Q ?E" using network_backed(1) [of u "view s" m v] m by simp
  qed
  have under: "meets (getUnderlayNetwork m opts) t ?Q ?E" if t: "inv t" "view t = view s" for t
    unfolding getUnderlayNetwork_def
  proof (rule meets_and_then, rule meets_weaken [OF find_vlan_view [OF t(1) m, unfolded t(2), OF cs]])
    fix v u assume "inv u \<and> view u = view s \<and> view s (KVlan, [], m_name (vlan_meta v)) = Some (OVlan v)"
    then show "meets (vlan_network m v) u ?Q ?E" using network_backed(2) [of u "view s" m v] m by simp
  qed
  show ?thesis
    unfolding GetNetwork_def
    by (intro meets_handle meets_weaken [OF over [OF s refl]] meets_ret meets_if meets_throw)
      (auto intro!: meets_handle meets_weaken [OF under] meets_ret meets_throw)
qed

lemma preserves_DeleteSubnet:
  assumes m: "ko_client m = cl"
  shows "preserves (\<lambda>t. inv t \<and> only_removed V (view t)) (DeleteSubnet m opts)"
  unfolding DeleteSubnet_def Let_def m
  by (intro preserves_intros preserves_GetSubnet preserves_delete m only_removed_other) simp_all

lemma preserves_delete_found:
  assumes m: "ko_client m = cl" and bk: "backed V n"
  shows "preserves (\<lambda>t. inv t \<and> only_removed V (view t)) (delete_found_network m n)"
proof -
  obtain name where name: "vn_resourceName n = Some name"
    "vn_networkType n = NET_OVERLAY \<Longrightarrow> V (KVpc, [], name) = Some ob \<Longrightarrow> IsObjectManagedByKubeNfv (obj_meta_of ob)"
    "vn_networkType n = NET_UNDERLAY \<Longrightarrow> V (KVlan, [], name) = Some ob \<Longrightarrow> IsObjectManagedByKubeNfv (obj_meta_of ob)"
    for ob using bk by (auto simp: backed_def)
  have deref_name: "and_then (deref (vn_resourceName n)) f = f name" for f :: "string \<Rightarrow> ('s, error, unit) act"
    by (simp add: name(1) deref_def)
  show ?thesis
    unfolding delete_found_network_def m deref_name
    by (intro preserves_intros preserves_DeleteSubnet preserves_delete m only_removed_managed)
      (auto intro: name(2,3))
qed

lemma DeleteNetwork_removes:
  assumes s: "inv s" and m: "ko_client m = cl" and cs: "cluster_scoped (view s)"
    and run: "DeleteNetwork m opts s = (r, t)"
  shows "only_removed (view s) (view t)"
proof -
  let ?P = "\<lambda>t. inv t \<and> only_removed (view s) (view t)"
  obtain r' u where get: "GetNetwork m opts s = (r', u)" by force
  have u: "?P u" and bk: "\<And>n. r' = Ok n \<Longrightarrow> backed (view s) n"
    using GetNetwork_backed [OF s m cs, of opts] get
    by (auto simp: meets_def only_removed_def split: result.splits)
  show ?thesis
  proof (cases r')
    case (Ok n)
    then have "delete_found_network m n u = (r, t)"
      using run get by (simp add: DeleteNetwork_def run_and_then wrap_def handle_def act_simps)
    then show ?thesis using preservesD [OF preserves_delete_found [OF m bk [OF Ok]] u] by simp
  qed (use run get u in \<open>auto simp: DeleteNetwork_def run_and_then wrap_def handle_def act_simps\<close>)
qed

end

subsection \<open>Properties\<close>

text \<open>A request for the witnesses, and its run on the empty in-memory server.\<close>

definition subnet_example :: network_subnet_data where
  "subnet_example = \<lparr>sd_networkId = None, sd_ipVersion = Some IPV4, sd_isDhcpEnabled = None,
     sd_cidr = Some (show_ipv4 (10, 1, 0, 0) @ CHR ''/'' # show_nat 24), sd_gatewayIp = None\<rparr>"

lemma subnet_example_from:
  "\<exists>sub. kubeovnSubnetFromNfvSubnetData ''a'' (Some subnet_example) = Inr sub"
  using ParseCIDR_ipv4 [of 24 10 1 0 0]
  by (simp add: kubeovnSubnetFromNfvSubnetData_def subnet_example_def kubeovnIpVersionFromNfv_def Let_def)

lemma mem_kubeovn_sel [simp]:
  "ko_client mem_kubeovn = mem_client" "ko_namespace mem_kubeovn = Some ''kube-nfv''"
  by (simp_all add: mem_kubeovn_def)

lemma mem_empty_view [simp]: "mem_view mem_empty key = None"
  by (simp add: mem_view_def mem_empty_def)

lemma subnet_example_run:
  obtains n t where "CreateSubnet isUUID mem_kubeovn ''a'' (Some subnet_example) mem_empty = (Ok n, t)"
    and "mem_inv t" and "subnet_created (mem_view mem_empty) (mem_view t) ''kube-nfv'' ''a'' subnet_example n"
proof -
  have "\<not> subnet_refused (mem_view mem_empty) ''kube-nfv'' ''a'' subnet_example"
    using subnet_example_from by (auto simp: subnet_refused_def name_taken_def subnet_example_def)
  then show thesis
    using mem.CreateSubnet_view [OF mem_inv_empty mem_kubeovn_sel, of isUUID "''a''" subnet_example] that
    by (auto simp: meets_def split: prod.splits result.splits)
qed

text \<open>C1. \<open>CreateSubnet\<close> is atomic on a server without faults: it never panics; on success exactly two
  objects were added, the Subnet and the NetworkAttachmentDefinition that carry each other's name
  and the requested attributes; on any error, whichever step failed, the stored objects are those of
  before the call, and the error has one of the foreseen reasons (a name already in use, a network
  reference that does not resolve, an invalid request).\<close>

theorem CreateSubnet_atomic:
  assumes "api_server cl view I" and "I s" and "ko_client m = cl" and "ko_namespace m = Some ns"
  shows "case CreateSubnet isUUID m name (Some d) s of
      (Ok n, t) \<Rightarrow> subnet_created (view s) (view t) ns name d n
    | (Err e, t) \<Rightarrow> view t = view s \<and> subnet_refused (view s) ns name d
    | (Panic, t) \<Rightarrow> False"
  using api_server.CreateSubnet_view [OF assms, of isUUID name d]
  by (auto simp: meets_def split: prod.splits result.splits)

theorem CreateSubnet_atomic_witness:
  "case CreateSubnet (\<lambda>_. True) mem_kubeovn ''a'' (Some subnet_example) mem_empty of
      (Ok n, t) \<Rightarrow> subnet_created (mem_view mem_empty) (mem_view t) ''kube-nfv'' ''a'' subnet_example n
    | (Err e, t) \<Rightarrow> mem_view t = mem_view mem_empty \<and>
        subnet_refused (mem_view mem_empty) ''kube-nfv'' ''a'' subnet_example
    | (Panic, t) \<Rightarrow> False"
  by (rule CreateSubnet_atomic [OF mem.api_server_axioms mem_inv_empty mem_kubeovn_sel])

text \<open>C5. What \<open>CreateSubnet\<close> returns can be looked up: \<open>GetSubnet\<close> by the returned id yields the same
  subnet and changes nothing, and the subnet has the CIDR, the IP version and the DHCP setting of the
  request.\<close>

theorem CreateSubnet_GetSubnet:
  assumes "api_server cl view I" and "I s" and "ko_client m = cl" and "ko_namespace m = Some ns"
    and "CreateSubnet isUUID m name (Some d) s = (Ok n, t)"
  shows "\<exists>u. GetSubnet m [GetSubnetByUid (ns_resourceId n)] t = (Ok n, u) \<and> view u = view t \<and>
    ns_cidr n = sd_cidr d \<and> sd_ipVersion d = Some (ns_ipVersion n) \<and>
    (ns_isDhcpEnabled n \<longleftrightarrow> sd_isDhcpEnabled d = None \<or> sd_isDhcpEnabled d = Some True)"
proof -
  have t: "I t" "subnet_created (view s) (view t) ns name d n"
    using meets_Ok [OF api_server.CreateSubnet_view [OF assms(1-4)] assms(5)] by simp_all
  then obtain sub where v: "view t (KSubnet, [], name) = Some (OSubnet sub)" "subnet_for name d sub"
    and n: "nfvNetworkSubnetFromKubeovnSubnet (Some sub) = Inr n"
    by (auto simp: subnet_created_def)
  obtain u where "GetSubnet m [GetSubnetByUid (ns_resourceId n)] t = (Ok n, u)" "view u = view t"
    using api_server.GetSubnet_by_uid_view [OF assms(1) t(1) assms(3) v(1) n] by blast
  moreover have "ns_cidr n = sd_cidr d" "sd_ipVersion d = Some (ns_ipVersion n)"
    "ns_isDhcpEnabled n \<longleftrightarrow> sd_isDhcpEnabled d = None \<or> sd_isDhcpEnabled d = Some True"
    using n v(2) by (simp_all add: subnetTo_Inr_iff subnet_for_def)
  ultimately show ?thesis by blast
qed

theorem CreateSubnet_GetSubnet_witness:
  "\<exists>n t u. CreateSubnet (\<lambda>_. True) mem_kubeovn ''a'' (Some subnet_example) mem_empty = (Ok n, t) \<and>
     GetSubnet mem_kubeovn [GetSubnetByUid (ns_resourceId n)] t = (Ok n, u) \<and> mem_view u = mem_view t \<and>
     ns_cidr n = sd_cidr subnet_example"
proof -
  obtain n t where run: "CreateSubnet (\<lambda>_. True) mem_kubeovn ''a'' (Some subnet_example) mem_empty = (Ok n, t)"
    using subnet_example_run by blast
  show ?thesis
    using CreateSubnet_GetSubnet [OF mem.api_server_axioms mem_inv_empty mem_kubeovn_sel run] run by blast
qed

text \<open>C6. Deleting what was created undoes it: \<open>DeleteSubnet\<close> by the id \<open>CreateSubnet\<close> returned
  succeeds and leaves exactly the objects of before the creation, so no NetworkAttachmentDefinition
  outlives its subnet.\<close>

theorem CreateSubnet_DeleteSubnet:
  assumes "api_server cl view I" and "I s" and "ko_client m = cl" and "ko_namespace m = Some ns"
    and "CreateSubnet isUUID m name (Some d) s = (Ok n, t)"
  shows "\<exists>u. DeleteSubnet m [GetSubnetByUid (ns_resourceId n)] t = (Ok (), u) \<and> view u = view s"
proof -
  have "I t" "subnet_created (view s) (view t) ns name d n"
    using meets_Ok [OF api_server.CreateSubnet_view [OF assms(1-4)] assms(5)] by simp_all
  then show ?thesis using api_server.DeleteSubnet_view [OF assms(1) _ assms(3,4)] by blast
qed

theorem CreateSubnet_DeleteSubnet_witness:
  "\<exists>n t u. CreateSubnet (\<lambda>_. True) mem_kubeovn ''a'' (Some subnet_example) mem_empty = (Ok n, t) \<and>
     DeleteSubnet mem_kubeovn [GetSubnetByUid (ns_resourceId n)] t = (Ok (), u) \<and>
     mem_view u = mem_view mem_empty"
proof -
  obtain n t where run: "CreateSubnet (\<lambda>_. True) mem_kubeovn ''a'' (Some subnet_example) mem_empty = (Ok n, t)"
    using subnet_example_run by blast
  show ?thesis
    using CreateSubnet_DeleteSubnet [OF mem.api_server_axioms mem_inv_empty mem_kubeovn_sel run] run by blast
qed



definition network_example :: virtual_network_data where
  "network_example = \<lparr>nd_networkType = None, nd_providerNetwork = None, nd_segmentationId = None,
     nd_layer3Attributes = [Some subnet_example]\<rparr>"


text \<open>An underlay network keeps its VLAN: for every 64-bit segmentation id of a request, also one
  that does not fit a signed integer, the Vlan object the manager submits, once created, converts back
  to a network with the requested segmentation id (0 when absent) and provider, so the two
  integer conversions lose nothing.\<close>

theorem vlan_segmentation_roundtrip:
  assumes "kubeovnVlanFromNfvNetworkData name (Some d) = Inr v" and "created (OVlan v) (OVlan v')"
  shows "\<exists>n. kubeovnVlanToNfvNetwork (Some v') ids = Inr n \<and> vn_networkType n = NET_UNDERLAY \<and>
    vn_resourceName n = Some name \<and> vn_providerNetwork n = nd_providerNetwork d \<and>
    vn_segmentationId n = Some (case nd_segmentationId d of None \<Rightarrow> 0 | Some sid \<Rightarrow> sid)"
proof -
  obtain p where v: "v = \<lparr>vlan_meta = named_meta [] name managed_labels,
      vlan_id = (case nd_segmentationId d of None \<Rightarrow> 0 | Some sid \<Rightarrow> sint sid), vlan_provider = p,
      vlan_status_subnets = []\<rparr>" "nd_providerNetwork d = Some p" "name \<noteq> []"
    using assms(1) by (auto simp: kubeovnVlanFromNfvNetworkData_def Let_def split: if_splits option.splits)
  obtain u w t f where v': "v' = v\<lparr>vlan_meta := (vlan_meta v)\<lparr>m_uid := u, m_resourceVersion := w,
      m_creationTimestamp := t, m_managedFields := f\<rparr>\<rparr>" "u \<noteq> []" "w \<noteq> []" "t \<noteq> 0"
    using assms(2) by (auto simp: created_def)
  have "IsObjectInstantiated (vlan_meta v')" "IsObjectManagedByKubeNfv (vlan_meta v')"
    using v v' by (simp_all add: IsObjectInstantiated_def IsObjectManagedByKubeNfv_def named_meta_def
        empty_meta_def managed_labels_def)
  then show ?thesis
    using v v' by (auto simp: kubeovnVlanToNfvNetwork_def Let_def named_meta_def empty_meta_def split: option.splits)
qed

definition underlay_example :: virtual_network_data where
  "underlay_example = \<lparr>nd_networkType = Some NET_UNDERLAY, nd_providerNetwork = Some ''physnet1'',
     nd_segmentationId = Some (2 ^ 63 + 7), nd_layer3Attributes = []\<rparr>"

theorem vlan_segmentation_roundtrip_witness:
  "\<exists>v v' n. kubeovnVlanFromNfvNetworkData ''u'' (Some underlay_example) = Inr v \<and>
     created (OVlan v) (OVlan v') \<and> kubeovnVlanToNfvNetwork (Some v') [] = Inr n \<and>
     vn_segmentationId n = Some (2 ^ 63 + 7)"
proof -
  obtain v where v: "kubeovnVlanFromNfvNetworkData ''u'' (Some underlay_example) = Inr v"
    by (auto simp: kubeovnVlanFromNfvNetworkData_def underlay_example_def GetNetworkType_def Let_def)
  obtain v' where v': "stamp 0 (OVlan v) = OVlan v'" by (auto simp: stamp_def)
  then have "created (OVlan v) (OVlan v')" by (metis stamp_facts(4))
  with vlan_segmentation_roundtrip [OF v this, of "[]"] v show ?thesis
    by (auto simp: underlay_example_def)
qed



text \<open>C7. \<open>DeleteNetwork\<close> removes nothing it does not own: on a server without faults, whatever the
  options and whatever the outcome, objects only disappear, nothing is created or modified, and no
  Vpc or Vlan without kube-vim's managed-by label is removed.\<close>

theorem DeleteNetwork_only_managed:
  assumes "api_server cl view I" and "I s" and "ko_client m = cl" and "cluster_scoped (view s)"
    and "DeleteNetwork m opts s = (r, t)"
  shows "view t \<subseteq>\<^sub>m view s \<and> (\<forall>k ns n ob. k \<in> {KVpc, KVlan} \<and> view s (k, ns, n) = Some ob \<and>
    \<not> IsObjectManagedByKubeNfv (obj_meta_of ob) \<longrightarrow> view t (k, ns, n) = Some ob)"
  using api_server.DeleteNetwork_removes [OF assms] by (simp add: only_removed_def)

definition foreign_vpc :: vpc where
  "foreign_vpc = \<lparr>vpc_meta = empty_meta\<lparr>m_name := ''ovn-cluster'', m_uid := ''x'', m_resourceVersion := ''1'',
     m_creationTimestamp := 1\<rparr>, vpc_status_subnets = []\<rparr>"

definition mem_foreign :: mem where
  "mem_foreign = \<lparr>mem_objs = [OVpc foreign_vpc], mem_next = 1\<rparr>"

lemma mem_foreign_facts:
  "mem_inv mem_foreign" "cluster_scoped (mem_view mem_foreign)"
  "mem_view mem_foreign (KVpc, '''', ''ovn-cluster'') = Some (OVpc foreign_vpc)"
  "\<not> IsObjectManagedByKubeNfv (vpc_meta foreign_vpc)"
  by (auto simp: mem_inv_def mem_foreign_def foreign_vpc_def IsObjectInstantiated_def cluster_scoped_def
      mem_view_def obj_key_def empty_meta_def IsObjectManagedByKubeNfv_def split: if_splits)

theorem DeleteNetwork_only_managed_witness:
  "\<exists>r t. DeleteNetwork mem_kubeovn [GetNetworkByName ''ovn-cluster''] mem_foreign = (r, t) \<and>
     mem_view t (KVpc, '''', ''ovn-cluster'') = Some (OVpc foreign_vpc)"
proof -
  obtain r t where run: "DeleteNetwork mem_kubeovn [GetNetworkByName ''ovn-cluster''] mem_foreign = (r, t)" by force
  have "mem_view t (KVpc, '''', ''ovn-cluster'') = Some (OVpc foreign_vpc)"
    using DeleteNetwork_only_managed [OF mem.api_server_axioms mem_foreign_facts(1) mem_kubeovn_sel(1)
        mem_foreign_facts(2) run] mem_foreign_facts(3,4) by auto
  with run show ?thesis by blast
qed

lemma find_by_ip_panics:
  assumes "sub \<in> set subs" and "ns_networkId sub = None"
    and "\<And>x. x \<in> set subs \<Longrightarrow> ns_networkId x = Some net \<Longrightarrow> \<not> IpBelongsToCidr ip (ns_cidr x)"
  shows "find_by_ip (Some net) ip subs s = (Panic, s)"
  using assms
proof (induction subs)
  case (Cons a subs)
  show ?case
  proof (cases "ns_networkId a")
    case None
    then show ?thesis by (simp add: deref_def run_and_then act_simps)
  next
    case (Some w)
    then have "sub \<in> set subs" using Cons.prems(1,2) by auto
    moreover have "\<not> (w = net \<and> IpBelongsToCidr ip (ns_cidr a))" using Cons.prems(3) [of a] Some by auto
    ultimately show ?thesis using Cons Some by (auto simp: deref_def)
  qed
qed simp

text \<open>A subnet that belongs to no network breaks the lookup by address: whenever the managed
  subnets include one without a network id (which \<open>CreateSubnet\<close> creates for a request without
  \<open>networkId\<close>) and no subnet of the network contains the address, \<open>GetSubnet\<close> by network and IP
  does not return ``not found'' but dereferences the nil network id.\<close>

theorem GetSubnet_by_ip_panics:
  assumes "ListSubnets m s = (Ok subs, t)" and "sub \<in> set subs" and "ns_networkId sub = None"
    and "\<And>x. x \<in> set subs \<Longrightarrow> ns_networkId x = Some net \<Longrightarrow> \<not> IpBelongsToCidr (Some ip) (ns_cidr x)"
  shows "GetSubnet m [GetSubnetByNetworkIP (Some net) (Some ip)] s = (Panic, t)"
proof -
  have "GetSubnet m [GetSubnetByNetworkIP (Some net) (Some ip)] =
      and_then (wrap ''list subnets'' (ListSubnets m)) (find_by_ip (Some net) (Some ip))"
    unfolding GetSubnet_def
    by (subst GetSubnet_body_def) (simp add: subnet_opt_defs has_value_def)
  then show ?thesis
    using find_by_ip_panics [of sub subs net "Some ip" t] assms
    by (simp add: run_and_then wrap_def handle_def act_simps)
qed

definition orphan_subnet :: subnet where
  "orphan_subnet = \<lparr>sub_meta = empty_meta\<lparr>m_name := ''a'', m_uid := ''x'', m_resourceVersion := ''1'',
       m_creationTimestamp := 1, m_labels := managed_labels(K8sSubnetNameLabel \<mapsto> ''a'')\<rparr>,
     sub_protocol = ''IPv4'', sub_enableDHCP = True, sub_cidrBlock = ''10.1.0.0/24'', sub_default = False,
     sub_gatewayType = ''distributed'', sub_natOutgoing = True, sub_gateway = '''', sub_vpc = '''',
     sub_vlan = '''', sub_provider = ''ovn'', sub_excludeIps = []\<rparr>"

theorem GetSubnet_by_ip_panics_witness:
  "\<exists>t. GetSubnet mem_kubeovn [GetSubnetByNetworkIP (Some ''net'') (Some ''10.1.0.5'')]
     \<lparr>mem_objs = [OSubnet orphan_subnet], mem_next = 1\<rparr> = (Panic, t)"
proof -
  let ?s = "\<lparr>mem_objs = [OSubnet orphan_subnet], mem_next = 1\<rparr>"
  have conv: "\<exists>n. nfvNetworkSubnetFromKubeovnSubnet (Some orphan_subnet) = Inr n \<and> ns_networkId n = None"
    by (simp add: subnetTo_Inr_iff orphan_subnet_def IsObjectInstantiated_def IsObjectManagedByKubeNfv_def
        managed_labels_def empty_meta_def has_value_def)
  then obtain n where n: "nfvNetworkSubnetFromKubeovnSubnet (Some orphan_subnet) = Inr n" "ns_networkId n = None"
    by blast
  have "IsObjectManagedByKubeNfv (sub_meta orphan_subnet)" using n(1) by (simp add: subnetTo_Inr_iff)
  then have list: "ListSubnets mem_kubeovn ?s = (Ok [n], ?s)"
    by (simp add: ListSubnets_def k8s_list_def call_def mem_client_def mem_list_def in_scope_def run_and_then
        wrap_def handle_def act_simps n(1) decode_def kind_info_defs)
  have "GetSubnet mem_kubeovn [GetSubnetByNetworkIP (Some ''net'') (Some ''10.1.0.5'')] ?s = (Panic, ?s)"
    by (rule GetSubnet_by_ip_panics [OF list]) (use n(2) in auto)
  then show ?thesis by blast
qed

end
