(* ===== verification/Composite.thy ===== *)
theory Composite
  imports Network
begin

text \<open>
  The composite network manager (\<open>internal/kubevim/network/composite/manager.go\<close>), which dispatches
  between two managers by network type and by which of them knows a network. It is a client of the
  interface \<open>network_manager\<close> twice and provides it again: the locale \<open>two_backends\<close> states what it
  needs of each, and its \<open>sublocale\<close> shows that the composite satisfies the same contract, so its
  clients cannot tell it from a single manager.
\<close>

record 's composite =
  cm_ovn :: "'s network_manager"
  cm_sriov :: "'s network_manager"

definition NewManager :: "'s network_manager \<Rightarrow> 's network_manager \<Rightarrow> 's composite" where
  "NewManager ovn sriov = \<lparr>cm_ovn = ovn, cm_sriov = sriov\<rparr>"

definition isNotFound :: "error \<Rightarrow> bool" where
  "isNotFound err = errors_As is_ErrNotFound err"

definition composite_CreateNetwork ::
  "'s composite \<Rightarrow> string \<Rightarrow> virtual_network_data option \<Rightarrow> ('s, error, virtual_network) act" where
  "composite_CreateNetwork m name data =
     and_then (deref data) (\<lambda>d.
       if nd_networkType d = Some NET_SRIOV then nm_CreateNetwork (cm_sriov m) name data
       else nm_CreateNetwork (cm_ovn m) name data)"

definition composite_GetNetwork :: "'s composite \<Rightarrow> get_network_opt list \<Rightarrow> ('s, error, virtual_network) act" where
  "composite_GetNetwork m opts =
     handle (nm_GetNetwork (cm_ovn m) opts) ret (\<lambda>err.
       if \<not> isNotFound err then throw err
       else handle (nm_GetNetwork (cm_sriov m) opts) ret (\<lambda>sriovErr.
         if \<not> isNotFound sriovErr then throw sriovErr else throw err))"

definition composite_ListNetworks :: "'s composite \<Rightarrow> ('s, error, virtual_network list) act" where
  "composite_ListNetworks m =
     and_then (wrap ''list ovn networks'' (nm_ListNetworks (cm_ovn m))) (\<lambda>ovnNets.
     and_then (wrap ''list sriov networks'' (nm_ListNetworks (cm_sriov m))) (\<lambda>sriovNets.
     ret (ovnNets @ sriovNets)))"

definition composite_DeleteNetwork :: "'s composite \<Rightarrow> get_network_opt list \<Rightarrow> ('s, error, unit) act" where
  "composite_DeleteNetwork m opts =
     handle (nm_DeleteNetwork (cm_ovn m) opts) ret (\<lambda>err.
       if \<not> isNotFound err then throw err
       else handle (nm_DeleteNetwork (cm_sriov m) opts) ret (\<lambda>sriovErr.
         if \<not> isNotFound sriovErr then throw sriovErr else throw err))"

definition composite_CreateSubnet ::
  "'s composite \<Rightarrow> string \<Rightarrow> network_subnet_data option \<Rightarrow> ('s, error, network_subnet) act" where
  "composite_CreateSubnet m name data =
     and_then (deref data) (\<lambda>d.
       case sd_networkId d of
         None \<Rightarrow> nm_CreateSubnet (cm_ovn m) name data
       | Some netId \<Rightarrow>
           and_then (wrap ''resolve network for subnet creation''
             (composite_GetNetwork m [GetNetworkByUid (Some netId)])) (\<lambda>net.
           if vn_networkType net = NET_SRIOV then nm_CreateSubnet (cm_sriov m) name data
           else nm_CreateSubnet (cm_ovn m) name data))"

definition composite_GetSubnet :: "'s composite \<Rightarrow> get_subnet_opt list \<Rightarrow> ('s, error, network_subnet) act" where
  "composite_GetSubnet m opts = nm_GetSubnet (cm_ovn m) opts"

definition composite_ListSubnets :: "'s composite \<Rightarrow> ('s, error, network_subnet list) act" where
  "composite_ListSubnets m = nm_ListSubnets (cm_ovn m)"

definition composite_DeleteSubnet :: "'s composite \<Rightarrow> get_subnet_opt list \<Rightarrow> ('s, error, unit) act" where
  "composite_DeleteSubnet m opts = nm_DeleteSubnet (cm_ovn m) opts"

definition composite_EnsureManagementNetwork :: "'s composite \<Rightarrow> mgmt_config option \<Rightarrow> ('s, error, unit) act" where
  "composite_EnsureManagementNetwork m cfg = nm_EnsureManagementNetwork (cm_ovn m) cfg"

definition composite_manager :: "'s composite \<Rightarrow> 's network_manager" where
  "composite_manager m = \<lparr>nm_CreateNetwork = composite_CreateNetwork m, nm_GetNetwork = composite_GetNetwork m,
     nm_ListNetworks = composite_ListNetworks m, nm_DeleteNetwork = composite_DeleteNetwork m,
     nm_CreateSubnet = composite_CreateSubnet m, nm_GetSubnet = composite_GetSubnet m,
     nm_ListSubnets = composite_ListSubnets m, nm_DeleteSubnet = composite_DeleteSubnet m,
     nm_EnsureManagementNetwork = composite_EnsureManagementNetwork m\<rparr>"

subsection \<open>The contract of the composite\<close>

text \<open>The SR-IOV side needs no subnets: only its networks have to be complete.\<close>

locale two_backends = ovn: network_backend ovn for ovn :: "'s network_manager" +
  fixes sriov :: "'s network_manager"
  assumes sriov_network: "meets (nm_GetNetwork sriov nopts) s (\<lambda>n _. complete_network n) (\<lambda>_ _. True)"
begin

lemma get_network_composite:
  "meets (composite_GetNetwork (NewManager ovn sriov) nopts) s (\<lambda>n _. complete_network n) (\<lambda>_ _. True)"
  unfolding composite_GetNetwork_def NewManager_def composite.simps
  by (intro meets_handle ovn.meets_get_network meets_if meets_ret meets_throw
      meets_weaken [OF sriov_network]) auto

text \<open>A network of type SR-IOV has no subnets of its own: \<open>CreateSubnet\<close> for it reaches only the
  SR-IOV manager, any other only the kube-ovn manager.\<close>

lemma CreateSubnet_dispatch:
  assumes "composite_GetNetwork (NewManager ovn sriov) [GetNetworkByUid (Some i)] s = (Ok n, t)"
    and "sd_networkId d = Some i"
  shows "composite_CreateSubnet (NewManager ovn sriov) name (Some d) s =
    (if vn_networkType n = NET_SRIOV then nm_CreateSubnet sriov name (Some d) t
     else nm_CreateSubnet ovn name (Some d) t)"
  using assms
  by (simp add: composite_CreateSubnet_def run_and_then deref_def act_simps wrap_def handle_def NewManager_def)

end

sublocale two_backends \<subseteq> both: network_backend "composite_manager (NewManager ovn sriov)"
proof
  fix nopts s
  show "meets (nm_GetNetwork (composite_manager (NewManager ovn sriov)) nopts) s
      (\<lambda>n _. complete_network n) (\<lambda>_ _. True)"
    using get_network_composite by (simp add: composite_manager_def)
qed (simp_all add: composite_manager_def composite_GetSubnet_def NewManager_def ovn.get_subnet_ok
    ovn.get_subnet_by_uid ovn.get_subnet_by_name)

subsection \<open>Properties\<close>

text \<open>The composite's lookup is the union of the two managers' lookups with priority to kube-ovn:
  a kube-ovn success is returned as it is and SR-IOV is not consulted; a kube-ovn error other than
  not-found is returned and SR-IOV is not consulted either; only after a kube-ovn not-found does the
  SR-IOV answer count, and if that is not-found as well, the kube-ovn error is the one returned, in
  the state the SR-IOV lookup left.\<close>

theorem composite_GetNetwork_cases:
  "composite_GetNetwork (NewManager ovn sriov) opts s =
    (case nm_GetNetwork ovn opts s of
       (Err e, t) \<Rightarrow> if errors_As is_ErrNotFound e then
           (case nm_GetNetwork sriov opts t of
              (Err e', u) \<Rightarrow> (if errors_As is_ErrNotFound e' then (Err e, u) else (Err e', u))
            | r \<Rightarrow> r)
         else (Err e, t)
     | r \<Rightarrow> r)"
  by (auto simp: composite_GetNetwork_def NewManager_def handle_def isNotFound_def act_simps
      split: prod.splits result.splits)

text \<open>A subnet request that names a network is created by the manager that owns the network: after
  a successful lookup, SR-IOV networks go to the SR-IOV manager (which refuses subnets), all others to
  kube-ovn, and the other manager is not called; when the lookup fails, neither is.\<close>

theorem composite_CreateSubnet_routes:
  assumes "sd_networkId d = Some i"
  shows "composite_CreateSubnet (NewManager ovn sriov) name (Some d) s =
    (case composite_GetNetwork (NewManager ovn sriov) [GetNetworkByUid (Some i)] s of
       (Ok n, t) \<Rightarrow> (if vn_networkType n = NET_SRIOV then nm_CreateSubnet sriov name (Some d) t
          else nm_CreateSubnet ovn name (Some d) t)
     | (Err e, t) \<Rightarrow> (Err (Wrap ''resolve network for subnet creation'' e), t)
     | (Panic, t) \<Rightarrow> (Panic, t))"
  using assms
  by (auto simp: composite_CreateSubnet_def run_and_then deref_def act_simps wrap_def handle_def NewManager_def
      split: prod.splits result.splits)

end
