(* ===== verification/Json.thy ===== *)
theory Json
  imports Prelude
begin

text \<open>
  The part of Go's \<open>encoding/json\<close> the program uses: \<open>json.Marshal\<close> on structs of strings and
  integers (with its HTML-safe string escaping) and the syntax check and value grammar of
  \<open>json.Unmarshal\<close> (white space, literals, numbers, strings with escapes and surrogate pairs,
  nesting limit of 10000), and its case-insensitive match of member names to struct fields. A string
  is a list of bytes; bytes that are not UTF-8 are replaced by U+FFFD as Go does. The main lemma says
  that a printed value of ASCII strings and integers parses back to itself.
\<close>

datatype json =
    JNull | JBool bool | JNum string | JStr string | JArr "json list" | JObj "(string \<times> json) list"

abbreviation dq :: char where "dq \<equiv> CHR 0x22"
abbreviation bs :: char where "bs \<equiv> CHR 0x5C"

subsection \<open>UTF-8\<close>

definition byte_of :: "char \<Rightarrow> nat" where
  "byte_of c = of_char c"

definition in_range :: "nat \<Rightarrow> nat \<Rightarrow> char \<Rightarrow> bool" where
  "in_range lo hi c \<longleftrightarrow> lo \<le> byte_of c \<and> byte_of c \<le> hi"

text \<open>The size of the valid encoded rune at the head of a string, if there is one
  (\<open>utf8.DecodeRuneInString\<close>).\<close>

definition rune_size :: "string \<Rightarrow> nat option" where
  "rune_size s = (case s of
      [] \<Rightarrow> None
    | c # _ \<Rightarrow> (let b = byte_of c;
          cont = (\<lambda>i. i < length s \<and> in_range 128 191 (s ! i));
          snd_in = (\<lambda>lo hi. 1 < length s \<and> in_range lo hi (s ! 1)) in
        if b < 128 then Some 1
        else if 194 \<le> b \<and> b \<le> 223 \<and> cont 1 then Some 2
        else if b = 224 \<and> snd_in 160 191 \<and> cont 2 then Some 3
        else if (225 \<le> b \<and> b \<le> 236 \<or> b = 238 \<or> b = 239) \<and> cont 1 \<and> cont 2 then Some 3
        else if b = 237 \<and> snd_in 128 159 \<and> cont 2 then Some 3
        else if b = 240 \<and> snd_in 144 191 \<and> cont 2 \<and> cont 3 then Some 4
        else if 241 \<le> b \<and> b \<le> 243 \<and> cont 1 \<and> cont 2 \<and> cont 3 then Some 4
        else if b = 244 \<and> snd_in 128 143 \<and> cont 2 \<and> cont 3 then Some 4
        else None))"

definition utf8_encode :: "nat \<Rightarrow> string" where
  "utf8_encode r =
     (if r < 128 then [char_of r]
      else if r < 2048 then [char_of (192 + r div 64), char_of (128 + r mod 64)]
      else if r < 65536 then
        [char_of (224 + r div 4096), char_of (128 + r div 64 mod 64), char_of (128 + r mod 64)]
      else [char_of (240 + r div 262144), char_of (128 + r div 4096 mod 64),
        char_of (128 + r div 64 mod 64), char_of (128 + r mod 64)])"

definition rune_error :: string where
  "rune_error = utf8_encode 65533"

subsection \<open>Printing\<close>

definition hex_digit :: "nat \<Rightarrow> char" where
  "hex_digit d = (if d < 10 then char_of (48 + d) else char_of (87 + d))"

definition html_safe :: "char \<Rightarrow> bool" where
  "html_safe c \<longleftrightarrow> 32 \<le> byte_of c \<and> byte_of c < 128 \<and> c \<notin> {dq, bs, CHR ''<'', CHR ''>'', CHR ''&''}"

definition escape_ascii :: "char \<Rightarrow> string" where
  "escape_ascii c =
     (if html_safe c then [c]
      else if c = bs \<or> c = dq then [bs, c]
      else if byte_of c = 8 then [bs, CHR ''b'']
      else if byte_of c = 12 then [bs, CHR ''f'']
      else if byte_of c = 10 then [bs, CHR ''n'']
      else if byte_of c = 13 then [bs, CHR ''r'']
      else if byte_of c = 9 then [bs, CHR ''t'']
      else [bs, CHR ''u'', CHR ''0'', CHR ''0'', hex_digit (byte_of c div 16), hex_digit (byte_of c mod 16)])"

text \<open>\<open>appendString\<close>: U+2028 and U+2029 are escaped too, bytes that are not UTF-8 become \<open>\ufffd\<close>.\<close>

function escape :: "string \<Rightarrow> string" where
  "escape [] = []"
| "escape (c # cs) =
     (if byte_of c < 128 then escape_ascii c @ escape cs
      else (case rune_size (c # cs) of
          None \<Rightarrow> [bs] @ ''ufffd'' @ escape cs
        | Some n \<Rightarrow>
            (let r = take n (c # cs) in
             if r = utf8_encode 8232 then [bs] @ ''u2028'' @ escape (drop n (c # cs))
             else if r = utf8_encode 8233 then [bs] @ ''u2029'' @ escape (drop n (c # cs))
             else r @ escape (drop n (c # cs)))))"
  by pat_completeness auto
termination
  by (relation "measure length")
    (auto simp: rune_size_def Let_def split: if_splits)

definition print_string :: "string \<Rightarrow> string" where
  "print_string s = dq # escape s @ [dq]"

definition show_int :: "int \<Rightarrow> string" where
  "show_int i = (if i < 0 then CHR ''-'' # show_nat (nat (- i)) else show_nat (nat i))"

fun intersperse :: "string list \<Rightarrow> string" where
  "intersperse [] = []"
| "intersperse [x] = x"
| "intersperse (x # y # xs) = x @ CHR '','' # intersperse (y # xs)"

fun print_json :: "json \<Rightarrow> string" where
  "print_json JNull = ''null''"
| "print_json (JBool b) = (if b then ''true'' else ''false'')"
| "print_json (JNum n) = n"
| "print_json (JStr s) = print_string s"
| "print_json (JArr xs) = CHR ''['' # intersperse (map print_json xs) @ '']''"
| "print_json (JObj ms) =
     CHR ''{'' # intersperse (map (\<lambda>(k, v). print_string k @ CHR '':'' # print_json v) ms) @ ''}''"

subsection \<open>Parsing\<close>

definition is_space :: "char \<Rightarrow> bool" where
  "is_space c \<longleftrightarrow> byte_of c \<in> {32, 9, 13, 10}"

definition skip_ws :: "string \<Rightarrow> string" where
  "skip_ws s = dropWhile is_space s"

definition hex_value :: "char \<Rightarrow> nat option" where
  "hex_value c = (let n = byte_of c in
     if 48 \<le> n \<and> n \<le> 57 then Some (n - 48)
     else if 97 \<le> n \<and> n \<le> 102 then Some (n - 87)
     else if 65 \<le> n \<and> n \<le> 70 then Some (n - 55)
     else None)"

definition hex4 :: "string \<Rightarrow> nat option" where
  "hex4 s = (case map hex_value (take 4 s) of
      [Some a, Some b, Some c, Some d] \<Rightarrow> Some (4096 * a + 256 * b + 16 * c + d)
    | _ \<Rightarrow> None)"

definition simple_escape :: "char \<Rightarrow> char option" where
  "simple_escape c =
     (if c = dq \<or> c = bs \<or> c = CHR ''/'' then Some c
      else if c = CHR ''b'' then Some (char_of (8::nat))
      else if c = CHR ''f'' then Some (char_of (12::nat))
      else if c = CHR ''n'' then Some (char_of (10::nat))
      else if c = CHR ''r'' then Some (char_of (13::nat))
      else if c = CHR ''t'' then Some (char_of (9::nat))
      else None)"

text \<open>The rune of a \<open>\u\<close> escape and the input after it: a surrogate pair is one rune, a lone surrogate
  is U+FFFD.\<close>

definition unicode_escape :: "string \<Rightarrow> (string \<times> string) option" where
  "unicode_escape s = (case hex4 s of
      None \<Rightarrow> None
    | Some r \<Rightarrow>
        let rest = drop 4 s in
        if r < 55296 \<or> 57343 < r then Some (utf8_encode r, rest)
        else if r < 56320 \<and> take 2 rest = [bs, CHR ''u''] then
          (case hex4 (drop 2 rest) of
             Some r2 \<Rightarrow>
               if 56320 \<le> r2 \<and> r2 \<le> 57343
               then Some (utf8_encode (65536 + (r - 55296) * 1024 + (r2 - 56320)), drop 6 rest)
               else Some (rune_error, rest)
           | None \<Rightarrow> Some (rune_error, rest))
        else Some (rune_error, rest))"

lemma unicode_escape_shorter: "unicode_escape s = Some (r, rest) \<Longrightarrow> length rest \<le> length s"
  by (auto simp: unicode_escape_def Let_def split: option.splits if_splits)

text \<open>The bytes after the opening quote, up to and including the closing one.\<close>

function parse_string :: "string \<Rightarrow> (string \<times> string) option" where
  "parse_string [] = None"
| "parse_string (c # cs) =
     (if c = dq then Some ([], cs)
      else if c = bs then
        (case cs of
           [] \<Rightarrow> None
         | e # es \<Rightarrow>
             if e = CHR ''u'' then
               (case unicode_escape es of
                  None \<Rightarrow> None
                | Some (r, rest) \<Rightarrow> map_option (\<lambda>(t, rest'). (r @ t, rest')) (parse_string rest))
             else (case simple_escape e of
                 None \<Rightarrow> None
               | Some x \<Rightarrow> map_option (\<lambda>(t, rest'). (x # t, rest')) (parse_string es)))
      else if byte_of c < 32 then None
      else (case rune_size (c # cs) of
          None \<Rightarrow> map_option (\<lambda>(t, rest'). (rune_error @ t, rest')) (parse_string cs)
        | Some n \<Rightarrow> map_option (\<lambda>(t, rest'). (take n (c # cs) @ t, rest')) (parse_string (drop n (c # cs)))))"
  by pat_completeness auto
termination
  by (relation "measure length")
    (auto simp: rune_size_def Let_def dest!: unicode_escape_shorter split: if_splits)

definition span_digits :: "string \<Rightarrow> string \<times> string" where
  "span_digits s = (takeWhile is_digit s, dropWhile is_digit s)"

text \<open>\<open>-? (0 | [1-9][0-9]*) (. [0-9]+)? ([eE] [+-]? [0-9]+)?\<close>\<close>

definition scan_int :: "string \<Rightarrow> (string \<times> string) option" where
  "scan_int s = (case s of
      [] \<Rightarrow> None
    | c # cs \<Rightarrow> if c = CHR ''0'' then Some (''0'', cs)
        else if is_digit c then Some (span_digits s) else None)"

definition scan_frac :: "string \<Rightarrow> (string \<times> string) option" where
  "scan_frac s = (case s of
      c # cs \<Rightarrow> if c = CHR ''.''
        then (case span_digits cs of (ds, rest) \<Rightarrow> if ds = [] then None else Some (c # ds, rest))
        else Some ([], s)
    | [] \<Rightarrow> Some ([], []))"

definition scan_exp :: "string \<Rightarrow> (string \<times> string) option" where
  "scan_exp s = (case s of
      c # cs \<Rightarrow> if c = CHR ''e'' \<or> c = CHR ''E''
        then (case (case cs of d # ds \<Rightarrow> if d = CHR ''+'' \<or> d = CHR ''-'' then ([d], ds) else ([], cs) | [] \<Rightarrow> ([], [])) of
            (sg, t) \<Rightarrow> (case span_digits t of (ds, rest) \<Rightarrow> if ds = [] then None else Some (c # sg @ ds, rest)))
        else Some ([], s)
    | [] \<Rightarrow> Some ([], []))"

definition scan_number :: "string \<Rightarrow> (string \<times> string) option" where
  "scan_number s = (case (case s of c # cs \<Rightarrow> if c = CHR ''-'' then (''-'', cs) else ([], s) | [] \<Rightarrow> ([], [])) of
     (sg, t) \<Rightarrow> (case scan_int t of
        None \<Rightarrow> None
      | Some (i, t) \<Rightarrow> (case scan_frac t of
          None \<Rightarrow> None
        | Some (fr, t) \<Rightarrow> (case scan_exp t of
            None \<Rightarrow> None
          | Some (ex, t) \<Rightarrow> Some (sg @ i @ fr @ ex, t)))))"

definition max_depth :: nat where
  "max_depth = 10000"

text \<open>Values, with fuel for the recursion; \<open>depth\<close> counts the open arrays and objects. The lists end
  with their closing bracket; after a comma an element must follow.\<close>

fun parse_value :: "nat \<Rightarrow> nat \<Rightarrow> string \<Rightarrow> (json \<times> string) option"
  and parse_elements :: "nat \<Rightarrow> nat \<Rightarrow> string \<Rightarrow> (json list \<times> string) option"
  and parse_members :: "nat \<Rightarrow> nat \<Rightarrow> string \<Rightarrow> ((string \<times> json) list \<times> string) option"
where
  "parse_value 0 depth s = None"
| "parse_value (Suc fuel) depth s = (case skip_ws s of
      [] \<Rightarrow> None
    | c # cs \<Rightarrow>
        if c = CHR ''{'' then
          if depth \<ge> max_depth then None
          else (case skip_ws cs of
              [] \<Rightarrow> None
            | d # ds \<Rightarrow> if d = CHR ''}'' then Some (JObj [], ds)
                else map_option (\<lambda>(ms, rest). (JObj ms, rest)) (parse_members fuel (Suc depth) (d # ds)))
        else if c = CHR ''['' then
          if depth \<ge> max_depth then None
          else (case skip_ws cs of
              [] \<Rightarrow> None
            | d # ds \<Rightarrow> if d = CHR '']'' then Some (JArr [], ds)
                else map_option (\<lambda>(xs, rest). (JArr xs, rest)) (parse_elements fuel (Suc depth) (d # ds)))
        else if c = dq then map_option (\<lambda>(t, rest). (JStr t, rest)) (parse_string cs)
        else if has_prefix (c # cs) ''true'' then Some (JBool True, drop 4 (c # cs))
        else if has_prefix (c # cs) ''false'' then Some (JBool False, drop 5 (c # cs))
        else if has_prefix (c # cs) ''null'' then Some (JNull, drop 4 (c # cs))
        else map_option (\<lambda>(n, rest). (JNum n, rest)) (scan_number (c # cs)))"
| "parse_elements 0 depth s = None"
| "parse_elements (Suc fuel) depth s = (case parse_value fuel depth s of
      None \<Rightarrow> None
    | Some (v, rest) \<Rightarrow> (case skip_ws rest of
        [] \<Rightarrow> None
      | c # cs \<Rightarrow>
          if c = CHR '']'' then Some ([v], cs)
          else if c = CHR '','' then map_option (\<lambda>(vs, rest). (v # vs, rest)) (parse_elements fuel depth cs)
          else None))"
| "parse_members 0 depth s = None"
| "parse_members (Suc fuel) depth s = (case skip_ws s of
      [] \<Rightarrow> None
    | q # cs \<Rightarrow> if q \<noteq> dq then None
        else (case parse_string cs of
            None \<Rightarrow> None
          | Some (k, rest) \<Rightarrow> (case skip_ws rest of
              [] \<Rightarrow> None
            | col # after \<Rightarrow> if col \<noteq> CHR '':'' then None
                else (case parse_value fuel depth after of
                    None \<Rightarrow> None
                  | Some (v, rest) \<Rightarrow> (case skip_ws rest of
                      [] \<Rightarrow> None
                    | c # cs \<Rightarrow>
                        if c = CHR ''}'' then Some ([(k, v)], cs)
                        else if c = CHR '','' then
                          map_option (\<lambda>(ms, rest). ((k, v) # ms, rest)) (parse_members fuel depth cs)
                        else None)))))"

text \<open>A whole document: nothing but white space may follow. The fuel covers every input: each call
  consumes a character or hands over to one that does.\<close>

definition parse_json :: "string \<Rightarrow> json option" where
  "parse_json s = (case parse_value (2 * length s + 2) 0 s of
      Some (v, rest) \<Rightarrow> if skip_ws rest = [] then Some v else None
    | None \<Rightarrow> None)"

subsection \<open>Decoding into struct fields\<close>

text \<open>\<open>foldName\<close>: ASCII letters in upper case, the long s and the Kelvin sign as the letters they fold
  to.\<close>

definition upper :: "char \<Rightarrow> char" where
  "upper c = (if 97 \<le> byte_of c \<and> byte_of c \<le> 122 then char_of (byte_of c - 32) else c)"

fun fold_name :: "string \<Rightarrow> string" where
  "fold_name (a # b # c # s) =
     (if [a, b] = utf8_encode 383 then CHR ''S'' # fold_name (c # s)
      else if [a, b, c] = utf8_encode 8490 then CHR ''K'' # fold_name s
      else upper a # fold_name (b # c # s))"
| "fold_name [a, b] = (if [a, b] = utf8_encode 383 then ''S'' else [upper a, upper b])"
| "fold_name [a] = [upper a]"
| "fold_name [] = []"

text \<open>The field a member sets: the field of that name, else the first whose folded name agrees.\<close>

definition match_field :: "string list \<Rightarrow> string \<Rightarrow> string option" where
  "match_field fields k = (if k \<in> set fields then Some k
     else find (\<lambda>f. fold_name f = fold_name k) fields)"

fun digits_value :: "nat \<Rightarrow> string \<Rightarrow> nat" where
  "digits_value n [] = n"
| "digits_value n (c # cs) = digits_value (n * 10 + (byte_of c - 48)) cs"

text \<open>\<open>strconv.ParseInt(s, 10, 64)\<close> on a number token.\<close>

definition parse_int64 :: "string \<Rightarrow> int option" where
  "parse_int64 s = (case (case s of c # cs \<Rightarrow> if c = CHR ''-'' then (True, cs) else (False, s) | [] \<Rightarrow> (False, [])) of
     (neg, ds) \<Rightarrow>
       if ds = [] \<or> \<not> list_all is_digit ds then None
       else (let n = int (digits_value 0 ds); i = (if neg then - n else n) in
         if - (2 ^ 63) \<le> i \<and> i < 2 ^ 63 then Some i else None))"

subsection \<open>Printed values parse back\<close>

definition ascii :: "string \<Rightarrow> bool" where
  "ascii s \<longleftrightarrow> (\<forall>c\<in>set s. byte_of c < 128)"

lemma ascii_simps [simp]: "ascii []" "ascii (c # s) \<longleftrightarrow> byte_of c < 128 \<and> ascii s"
  by (auto simp: ascii_def)

fun json_ok :: "json \<Rightarrow> bool" where
  "json_ok (JNum n) = (\<exists>i. n = show_int i)"
| "json_ok (JStr s) = ascii s"
| "json_ok (JArr xs) = (\<forall>x\<in>set xs. json_ok x)"
| "json_ok (JObj ms) = (\<forall>(k, v)\<in>set ms. ascii k \<and> json_ok v)"
| "json_ok _ = True"

fun json_depth :: "json \<Rightarrow> nat" where
  "json_depth (JArr xs) = Suc (fold max (map json_depth xs) 0)"
| "json_depth (JObj ms) = Suc (fold max (map (\<lambda>(k, v). json_depth v) ms) 0)"
| "json_depth _ = 0"

fun json_fuel :: "json \<Rightarrow> nat" where
  "json_fuel (JArr xs) = Suc (sum_list (map (\<lambda>x. Suc (json_fuel x)) xs))"
| "json_fuel (JObj ms) = Suc (sum_list (map (\<lambda>(k, v). Suc (json_fuel v)) ms))"
| "json_fuel _ = 1"

lemma hex_value_digit: "d < 16 \<Longrightarrow> hex_value (hex_digit d) = Some d"
  by (auto simp: hex_value_def hex_digit_def byte_of_def Let_def)

lemma unicode_escape_ascii:
  assumes "byte_of c < 128"
  shows "unicode_escape (CHR ''0'' # CHR ''0'' # hex_digit (byte_of c div 16) # hex_digit (byte_of c mod 16) # rest)
    = Some ([c], rest)"
proof -
  have z: "hex_value (CHR ''0'') = Some 0" by (simp add: hex_value_def byte_of_def)
  have "byte_of c div 16 < 16" "byte_of c mod 16 < 16" using assms by auto
  then have "hex4 (CHR ''0'' # CHR ''0'' # hex_digit (byte_of c div 16) # hex_digit (byte_of c mod 16) # rest)
      = Some (byte_of c)"
    by (simp add: hex4_def z hex_value_digit)
  then show ?thesis using assms by (simp add: unicode_escape_def utf8_encode_def byte_of_def Let_def)
qed

lemma char_of_byte [simp]: "char_of (byte_of c) = c"
  by (simp add: byte_of_def)

lemma byte_of_eqD: "byte_of c = n \<Longrightarrow> c = char_of n"
  using char_of_byte [of c] by simp

lemma control_escapes:
  "char_of (8::nat) = CHR 0x08" "char_of (9::nat) = CHR 0x09" "char_of (10::nat) = CHR 0x0A"
  "char_of (12::nat) = CHR 0x0C" "char_of (13::nat) = CHR 0x0D"
  "escape_ascii (CHR 0x08) = [bs, CHR ''b'']" "escape_ascii (CHR 0x09) = [bs, CHR ''t'']"
  "escape_ascii (CHR 0x0A) = [bs, CHR ''n'']" "escape_ascii (CHR 0x0C) = [bs, CHR ''f'']"
  "escape_ascii (CHR 0x0D) = [bs, CHR ''r'']"
  "simple_escape (CHR ''b'') = Some (CHR 0x08)" "simple_escape (CHR ''t'') = Some (CHR 0x09)"
  "simple_escape (CHR ''n'') = Some (CHR 0x0A)" "simple_escape (CHR ''f'') = Some (CHR 0x0C)"
  "simple_escape (CHR ''r'') = Some (CHR 0x0D)"
  by code_simp+

lemma parse_escape_ascii:
  assumes "byte_of c < 128"
  shows "parse_string (escape_ascii c @ rest) = map_option (\<lambda>(t, r). (c # t, r)) (parse_string rest)"
proof (cases "html_safe c")
  case True
  then have "rune_size (c # rest) = Some 1" "c \<noteq> dq" "c \<noteq> bs" "\<not> byte_of c < 32"
    by (auto simp: html_safe_def rune_size_def Let_def)
  then show ?thesis using True by (simp add: escape_ascii_def)
next
  case False
  have simple: "parse_string ([bs, e] @ rest) = map_option (\<lambda>(t, r). (x # t, r)) (parse_string rest)"
    if "simple_escape e = Some x" "e \<noteq> CHR ''u''" for e x
    using that by simp
  let ?u = "[bs, CHR ''u'', CHR ''0'', CHR ''0'', hex_digit (byte_of c div 16), hex_digit (byte_of c mod 16)]"
  have long: "parse_string (?u @ rest) = map_option (\<lambda>(t, r). (c # t, r)) (parse_string rest)"
    using unicode_escape_ascii [OF assms, of rest] by simp
  consider "escape_ascii c = ?u"
    | e where "escape_ascii c = [bs, e]" "simple_escape e = Some c" "e \<noteq> CHR ''u''"
  proof (cases "byte_of c \<in> {8, 12, 10, 13, 9} \<or> c = bs \<or> c = dq")
    case True
    then show thesis
    proof (elim disjE)
      assume "c = bs" then show thesis using False by (intro that(2) [of bs]) (simp_all add: escape_ascii_def simple_escape_def)
    next
      assume "c = dq" then show thesis using False by (intro that(2) [of dq]) (simp_all add: escape_ascii_def simple_escape_def)
    next
      assume "byte_of c \<in> {8, 12, 10, 13, 9}"
      then have "c = CHR 0x08 \<or> c = CHR 0x0C \<or> c = CHR 0x0A \<or> c = CHR 0x0D \<or> c = CHR 0x09"
        using byte_of_eqD [of c 8] byte_of_eqD [of c 12] byte_of_eqD [of c 10] byte_of_eqD [of c 13]
          byte_of_eqD [of c 9] by (auto simp: control_escapes)
      then show thesis
        using that(2) [of "CHR ''b''"] that(2) [of "CHR ''t''"] that(2) [of "CHR ''n''"] that(2) [of "CHR ''f''"]
          that(2) [of "CHR ''r''"] control_escapes(6-15) by auto
    qed
  next
    case no: False
    then show thesis using False by (intro that(1)) (simp add: escape_ascii_def)
  qed
  then show ?thesis
  proof cases
    case 1
    then show ?thesis by (simp only: long)
  next
    case (2 e)
    show ?thesis unfolding 2(1) by (rule simple [OF 2(2,3)])
  qed
qed

lemma parse_print_string: "ascii s \<Longrightarrow> parse_string (escape s @ dq # rest) = Some (s, rest)"
  by (induction s) (simp_all add: parse_escape_ascii)

lemma span_digits_append:
  assumes "\<And>c. c \<in> set ds \<Longrightarrow> is_digit c" and "rest = [] \<or> \<not> is_digit (hd rest)"
  shows "span_digits (ds @ rest) = (ds, rest)"
  using assms by (cases rest) (auto simp: span_digits_def takeWhile_append2 dropWhile_append2)

definition value_end :: "string \<Rightarrow> bool" where
  "value_end rest \<longleftrightarrow> rest = [] \<or> hd rest \<in> {CHR '','', CHR '']'', CHR ''}''}"

lemma value_end_facts:
  assumes "value_end rest"
  shows "rest = [] \<or> \<not> is_digit (hd rest)" "scan_frac rest = Some ([], rest)" "scan_exp rest = Some ([], rest)"
    "skip_ws rest = rest"
  using assms
  by (cases rest; auto simp: value_end_def scan_frac_def scan_exp_def is_digit_def skip_ws_def is_space_def byte_of_def)+

lemma show_nat_head:
  "show_nat n = ''0'' \<or> (\<exists>c cs. show_nat n = c # cs \<and> is_digit c \<and> c \<noteq> CHR ''0'')"
proof (induction n rule: show_nat.induct)
  case (1 n)
  show ?case
  proof (cases "n < 10")
    case True
    have "(of_char (CHR ''0'') :: nat) = 48" by simp
    then have "n = 0 \<or> digit_char n \<noteq> CHR ''0''" using True of_char_digit [of n] by (metis add_cancel_left_right)
    then show ?thesis using True by (subst (1 2) show_nat.simps) auto
  next
    case False
    then have "show_nat n = show_nat (n div 10) @ [digit_char (n mod 10)]" by (subst show_nat.simps) simp
    moreover have "show_nat (n div 10) \<noteq> ''0''"
    proof
      assume z: "show_nat (n div 10) = ''0''"
      have big: "n div 10 \<noteq> 0" using False by auto
      show False
      proof (cases "n div 10 < 10")
        case True
        then have "digit_char (n div 10) = CHR ''0''" using z by (simp add: show_nat.simps)
        then have "(of_char (digit_char (n div 10)) :: nat) = 48" by simp
        then show False using True big by simp
      next
        case no: False
        then have "length (show_nat (n div 10)) = length (show_nat (n div 10 div 10)) + 1"
          by (subst show_nat.simps) simp
        then show False using z by simp
      qed
    qed
    ultimately show ?thesis using 1 [OF False] by auto
  qed
qed

lemma scan_int_show: "value_end rest \<Longrightarrow> scan_int (show_nat n @ rest) = Some (show_nat n, rest)"
proof -
  assume e: "value_end rest"
  have sp: "span_digits (show_nat n @ rest) = (show_nat n, rest)"
    by (rule span_digits_append) (use e value_end_facts show_nat_digits in auto)
  from show_nat_head [of n] show ?thesis
  proof
    assume "show_nat n = ''0''" then show ?thesis by (simp add: scan_int_def)
  next
    assume "\<exists>c cs. show_nat n = c # cs \<and> is_digit c \<and> c \<noteq> CHR ''0''"
    then obtain c cs where "show_nat n = c # cs" "is_digit c" "c \<noteq> CHR ''0''" by blast
    then show ?thesis using sp by (simp add: scan_int_def)
  qed
qed

lemma show_nat_no_minus: "show_nat n \<noteq> CHR ''-'' # cs"
  using show_nat_digits [of "CHR ''-''" n] by (auto simp: is_digit_def)

lemma scan_number_show: "value_end rest \<Longrightarrow> scan_number (show_int i @ rest) = Some (show_int i, rest)"
proof -
  assume e: "value_end rest"
  note f = scan_int_show [OF e] value_end_facts [OF e]
  show ?thesis
  proof (cases "i < 0")
    case True
    then show ?thesis using f by (simp add: scan_number_def show_int_def)
  next
    case False
    obtain c cs where c: "show_nat (nat i) = c # cs" using show_nat_nonempty by (metis neq_Nil_conv)
    then have "c \<noteq> CHR ''-''" using show_nat_no_minus by auto
    then show ?thesis using False f(1) [of "nat i"] f(2-) c by (simp add: scan_number_def show_int_def)
  qed
qed

lemma show_int_head:
  obtains c cs where "show_int i = c # cs" and "c = CHR ''-'' \<or> is_digit c"
proof (cases "i < 0")
  case True then show thesis using that by (simp add: show_int_def)
next
  case False
  obtain c cs where "show_nat (nat i) = c # cs" using show_nat_nonempty by (metis neq_Nil_conv)
  then show thesis using that False show_nat_digits [of c "nat i"] by (simp add: show_int_def)
qed

definition value_head :: "char \<Rightarrow> bool" where
  "value_head c \<longleftrightarrow> \<not> is_space c \<and> c \<noteq> CHR '']'' \<and> c \<noteq> CHR ''}''"

lemma print_head: "json_ok v \<Longrightarrow> \<exists>c cs. print_json v = c # cs \<and> value_head c"
proof (cases v)
  case (JNum n)
  assume "json_ok v"
  then obtain i where "n = show_int i" using JNum by auto
  moreover obtain c cs where "show_int i = c # cs" "c = CHR ''-'' \<or> is_digit c" by (rule show_int_head)
  ultimately show ?thesis using JNum by (auto simp: value_head_def is_space_def is_digit_def byte_of_def)
qed (auto simp: value_head_def is_space_def byte_of_def print_string_def)

lemma skip_ws_head: "\<not> is_space c \<Longrightarrow> skip_ws (c # cs) = c # cs"
  by (simp add: skip_ws_def)

lemma parse_number_value:
  assumes "value_end rest"
  shows "parse_value (Suc fuel) depth (show_int i @ rest) = Some (JNum (show_int i), rest)"
proof -
  obtain c cs where c: "show_int i = c # cs" "c = CHR ''-'' \<or> is_digit c" by (rule show_int_head)
  have "\<not> is_space c" "c \<noteq> CHR ''{''" "c \<noteq> CHR ''[''" "c \<noteq> dq" "c \<noteq> CHR ''t''" "c \<noteq> CHR ''f''" "c \<noteq> CHR ''n''"
    using c(2) by (auto simp: is_space_def is_digit_def byte_of_def)
  then show ?thesis
    using scan_number_show [OF assms, of i] c(1) by (simp add: skip_ws_head)
qed

lemma parse_elements_printed:
  assumes "xs \<noteq> []"
    and "\<And>x rest fuel. x \<in> set xs \<Longrightarrow> value_end rest \<Longrightarrow> json_fuel x < fuel \<Longrightarrow>
      parse_value fuel depth (print_json x @ rest) = Some (x, rest)"
    and "sum_list (map (\<lambda>x. Suc (json_fuel x)) xs) < fuel"
  shows "parse_elements fuel depth (intersperse (map print_json xs) @ CHR '']'' # rest) = Some (xs, rest)"
  using assms
proof (induction xs arbitrary: fuel)
  case (Cons x xs)
  obtain g where g: "fuel = Suc g" using Cons.prems(3) by (cases fuel) auto
  have fx: "json_fuel x < g" using Cons.prems(3) g by simp
  show ?case
  proof (cases xs)
    case Nil
    have "parse_value g depth (print_json x @ CHR '']'' # rest) = Some (x, CHR '']'' # rest)"
      using Cons.prems(2) [of x "CHR '']'' # rest" g] fx by (simp add: value_end_def)
    then show ?thesis by (simp add: g Nil skip_ws_def is_space_def byte_of_def)
  next
    case (Cons y ys)
    let ?t = "intersperse (map print_json xs) @ CHR '']'' # rest"
    have "parse_value g depth (print_json x @ CHR '','' # ?t) = Some (x, CHR '','' # ?t)"
      using Cons.prems(2) [of x "CHR '','' # ?t" g] fx by (simp add: value_end_def)
    moreover have "parse_elements g depth ?t = Some (xs, rest)"
      by (rule Cons.IH) (use Cons.prems g Cons in auto)
    ultimately show ?thesis using Cons by (simp add: g skip_ws_def is_space_def byte_of_def)
  qed
qed simp

definition print_member :: "string \<times> json \<Rightarrow> string" where
  "print_member m = print_string (fst m) @ CHR '':'' # print_json (snd m)"

lemma print_json_obj: "print_json (JObj ms) = CHR ''{'' # intersperse (map print_member ms) @ ''}''"
  by (simp add: print_member_def case_prod_beta' cong: map_cong)

lemma parse_member_key:
  assumes "ascii (fst m)"
  shows "parse_members (Suc g) depth (print_member m @ rest) =
    (case parse_value g depth (print_json (snd m) @ rest) of
       None \<Rightarrow> None
     | Some (v, rest) \<Rightarrow> (case skip_ws rest of
         [] \<Rightarrow> None
       | c # cs \<Rightarrow>
           if c = CHR ''}'' then Some ([(fst m, v)], cs)
           else if c = CHR '','' then map_option (\<lambda>(ms, rest). ((fst m, v) # ms, rest)) (parse_members g depth cs)
           else None))"
  using parse_print_string [OF assms]
  by (simp add: print_member_def print_string_def skip_ws_def is_space_def byte_of_def)

lemma parse_members_printed:
  assumes "ms \<noteq> []" and "\<And>m. m \<in> set ms \<Longrightarrow> ascii (fst m)"
    and "\<And>m rest fuel. m \<in> set ms \<Longrightarrow> value_end rest \<Longrightarrow> json_fuel (snd m) < fuel \<Longrightarrow>
      parse_value fuel depth (print_json (snd m) @ rest) = Some (snd m, rest)"
    and "sum_list (map (\<lambda>m. Suc (json_fuel (snd m))) ms) < fuel"
  shows "parse_members fuel depth (intersperse (map print_member ms) @ CHR ''}'' # rest) = Some (ms, rest)"
  using assms
proof (induction ms arbitrary: fuel)
  case (Cons m ms)
  obtain g where g: "fuel = Suc g" using Cons.prems(4) by (cases fuel) auto
  have fx: "json_fuel (snd m) < g" using Cons.prems(4) g by simp
  have key: "ascii (fst m)" using Cons.prems(2) by simp
  show ?case
  proof (cases ms)
    case Nil
    have "parse_value g depth (print_json (snd m) @ CHR ''}'' # rest) = Some (snd m, CHR ''}'' # rest)"
      using Cons.prems(3) [of m "CHR ''}'' # rest" g] fx by (simp add: value_end_def)
    then show ?thesis
      using parse_member_key [OF key, of g depth "CHR ''}'' # rest"]
      by (simp add: g Nil skip_ws_def is_space_def byte_of_def del: parse_members.simps)
  next
    case (Cons y ys)
    let ?t = "intersperse (map print_member ms) @ CHR ''}'' # rest"
    have "parse_value g depth (print_json (snd m) @ CHR '','' # ?t) = Some (snd m, CHR '','' # ?t)"
      using Cons.prems(3) [of m "CHR '','' # ?t" g] fx by (simp add: value_end_def)
    moreover have "parse_members g depth ?t = Some (ms, rest)"
      by (rule Cons.IH) (use Cons.prems g Cons in auto)
    ultimately show ?thesis
      using Cons parse_member_key [OF key, of g depth "CHR '','' # ?t"]
      by (simp add: g skip_ws_def is_space_def byte_of_def del: parse_members.simps)
  qed
qed simp

lemma fold_max_ge: "x \<in> set xs \<Longrightarrow> x \<le> fold max xs (a::nat)" and fold_max_start: "(a::nat) \<le> fold max xs a"
proof -
  show start: "a \<le> fold max xs a" for a :: nat and xs
  proof (induction xs arbitrary: a)
    case (Cons y ys)
    have "a \<le> max y a" by simp
    then show ?case using Cons [of "max y a"] by (simp only: fold_simps)
  qed simp
  show "x \<in> set xs \<Longrightarrow> x \<le> fold max xs a"
  proof (induction xs arbitrary: a)
    case (Cons y ys)
    then show ?case using start [of "max y a" ys] by auto
  qed simp
qed

lemma intersperse_head:
  "xs \<noteq> [] \<Longrightarrow> hd xs = c # cs \<Longrightarrow> \<exists>ds. intersperse xs @ t = c # ds"
  by (cases xs rule: intersperse.cases) auto

lemma parse_value_printed:
  "json_ok v \<Longrightarrow> depth + json_depth v \<le> max_depth \<Longrightarrow> value_end rest \<Longrightarrow> json_fuel v < fuel \<Longrightarrow>
   parse_value fuel depth (print_json v @ rest) = Some (v, rest)"
proof (induction v arbitrary: depth rest fuel)
  case (JNum n)
  then show ?case by (cases fuel) (auto simp del: parse_value.simps simp: parse_number_value)
next
  case (JArr xs)
  obtain g where g: "fuel = Suc g" using JArr.prems(4) by (cases fuel) auto
  have d: "depth < max_depth" using JArr.prems(2) by simp
  show ?case
  proof (cases "xs = []")
    case True
    then show ?thesis using d by (simp add: g skip_ws_def is_space_def byte_of_def)
  next
    case False
    have "parse_elements g (Suc depth) (intersperse (map print_json xs) @ CHR '']'' # rest) = Some (xs, rest)"
    proof (rule parse_elements_printed [OF False])
      fix x rest fuel assume x: "x \<in> set xs" "value_end rest" "json_fuel x < fuel"
      have "json_depth x \<le> fold max (map json_depth xs) 0" using x(1) by (intro fold_max_ge) simp
      then show "parse_value fuel (Suc depth) (print_json x @ rest) = Some (x, rest)"
        using JArr.IH [of x] x JArr.prems by simp
    qed (use JArr.prems(4) g in simp)
    moreover obtain c ds where "intersperse (map print_json xs) @ CHR '']'' # rest = c # ds" "value_head c"
    proof -
      obtain c cs where c: "print_json (hd xs) = c # cs" "value_head c"
        using print_head [of "hd xs"] JArr.prems(1) False by auto
      then show thesis using that intersperse_head [of "map print_json xs" c cs] False by (simp add: hd_map) blast
    qed
    ultimately show ?thesis
      using d by (simp add: g skip_ws_def value_head_def is_space_def byte_of_def)
  qed
next
  case (JObj ms)
  obtain g where g: "fuel = Suc g" using JObj.prems(4) by (cases fuel) auto
  have d: "depth < max_depth" using JObj.prems(2) by simp
  show ?case
  proof (cases "ms = []")
    case True
    then show ?thesis using d by (simp add: g skip_ws_def is_space_def byte_of_def)
  next
    case False
    have "parse_members g (Suc depth) (intersperse (map print_member ms) @ CHR ''}'' # rest) = Some (ms, rest)"
    proof (rule parse_members_printed [OF False])
      fix m assume "m \<in> set ms" then show "ascii (fst m)" using JObj.prems(1) by auto
    next
      fix m rest fuel assume m: "m \<in> set ms" "value_end rest" "json_fuel (snd m) < fuel"
      have "json_depth (snd m) \<le> fold max (map (\<lambda>(k, v). json_depth v) ms) 0"
        using m(1) by (intro fold_max_ge) (auto simp: image_iff case_prod_beta' intro!: bexI [of _ m])
      then show "parse_value fuel (Suc depth) (print_json (snd m) @ rest) = Some (snd m, rest)"
        using JObj.IH [of m "snd m"] m JObj.prems by (cases m) force
    qed (use JObj.prems(4) g in \<open>simp add: case_prod_beta'\<close>)
    moreover obtain ds where "intersperse (map print_member ms) @ CHR ''}'' # rest = dq # ds"
      using intersperse_head [of "map print_member ms" dq] False
      by (simp add: hd_map print_member_def print_string_def) blast
    ultimately show ?thesis
      using d unfolding print_json_obj by (simp add: g skip_ws_def is_space_def byte_of_def)
  qed
qed (auto simp: gr0_conv_Suc skip_ws_def is_space_def byte_of_def print_string_def parse_print_string
    dest!: gr0_implies_Suc less_imp_Suc_add)

lemma length_intersperse: "xs \<noteq> [] \<Longrightarrow> Suc (length (intersperse xs)) = sum_list (map (\<lambda>x. Suc (length x)) xs)"
  by (induction xs rule: intersperse.induct) auto

lemma sum_list_le: "(\<And>x. x \<in> set xs \<Longrightarrow> f x \<le> (g x :: nat)) \<Longrightarrow> sum_list (map f xs) \<le> sum_list (map g xs)"
  by (induction xs) (auto intro!: add_mono)

lemma json_fuel_le: "json_ok v \<Longrightarrow> json_fuel v \<le> 2 * length (print_json v)"
proof (induction v)
  case (JNum n)
  then obtain i where i: "n = show_int i" by auto
  obtain c cs where "show_int i = c # cs" using show_int_head by blast
  then show ?case by (simp add: i)
next
  case (JArr xs)
  show ?case
  proof (cases "xs = []")
    case False
    have "sum_list (map (\<lambda>x. Suc (json_fuel x)) xs) \<le> sum_list (map (\<lambda>x. 2 * Suc (length (print_json x))) xs)"
      using JArr by (intro sum_list_le) force
    also have "\<dots> = 2 * sum_list (map (\<lambda>x. Suc (length (print_json x))) xs)"
      by (simp only: sum_list_const_mult)
    also have "\<dots> = 2 * Suc (length (intersperse (map print_json xs)))"
      using length_intersperse [of "map print_json xs"] False by (simp add: o_def)
    finally show ?thesis by simp
  qed simp
next
  case (JObj ms)
  show ?case
  proof (cases "ms = []")
    case False
    have "sum_list (map (\<lambda>(k, v). Suc (json_fuel v)) ms) \<le> sum_list (map (\<lambda>m. 2 * Suc (length (print_member m))) ms)"
    proof (rule sum_list_le)
      fix m assume m: "m \<in> set ms"
      then have "json_ok (snd m)" using JObj.prems by (auto simp: case_prod_beta')
      then have "json_fuel (snd m) \<le> 2 * length (print_json (snd m))"
        using JObj.IH [OF m, of "snd m"] by (simp add: snds.simps)
      then show "(case m of (k, v) \<Rightarrow> Suc (json_fuel v)) \<le> 2 * Suc (length (print_member m))"
        by (cases m) (simp add: print_member_def)
    qed
    also have "\<dots> = 2 * sum_list (map (\<lambda>m. Suc (length (print_member m))) ms)"
      by (simp only: sum_list_const_mult)
    also have "\<dots> = 2 * Suc (length (intersperse (map print_member ms)))"
      using length_intersperse [of "map print_member ms"] False by (simp add: o_def)
    finally show ?thesis unfolding print_json_obj by simp
  qed simp
qed (auto simp: print_string_def)

theorem parse_print_json:
  assumes "json_ok v" and "json_depth v \<le> max_depth"
  shows "parse_json (print_json v) = Some v"
proof -
  have "json_fuel v < 2 * length (print_json v) + 2" using json_fuel_le [OF assms(1)] by simp
  then have "parse_value (2 * length (print_json v) + 2) 0 (print_json v @ []) = Some (v, [])"
    using assms by (intro parse_value_printed) (simp_all add: value_end_def)
  then show ?thesis by (simp add: parse_json_def skip_ws_def del: parse_value.simps)
qed

lemma digits_value_show: "digits_value 0 (show_nat n @ rest) = digits_value n rest"
proof (induction n arbitrary: rest rule: show_nat.induct)
  case (1 n)
  show ?case
  proof (cases "n < 10")
    case True
    then show ?thesis by (subst show_nat.simps) (simp add: byte_of_def)
  next
    case False
    have "digits_value 0 (show_nat (n div 10) @ (digit_char (n mod 10) # rest)) = digits_value n rest"
      using 1 [OF False] by (simp add: byte_of_def)
    then show ?thesis using False by (subst show_nat.simps) simp
  qed
qed

lemma parse_int64_show:
  assumes "- (2 ^ 63) \<le> i" and "i < 2 ^ 63"
  shows "parse_int64 (show_int i) = Some i"
proof -
  have all: "list_all is_digit (show_nat n)" for n using show_nat_digits by (auto simp: list_all_iff)
  have val: "digits_value 0 (show_nat n) = n" for n using digits_value_show [of n "[]"] by simp
  show ?thesis
  proof (cases "i < 0")
    case True
    then show ?thesis using assms by (simp add: parse_int64_def show_int_def all val)
  next
    case False
    obtain c cs where c: "show_nat (nat i) = c # cs" using show_nat_nonempty by (metis neq_Nil_conv)
    then have "c \<noteq> CHR ''-''" using show_nat_no_minus by auto
    then show ?thesis using False assms all [of "nat i"] val [of "nat i"] c by (simp add: parse_int64_def show_int_def)
  qed
qed

end
