(* ===== verification/Sriov.thy ===== *)
theory Sriov
  imports Network Json
begin

text \<open>
  The SR-IOV network manager (\<open>internal/kubevim/network/sriov\<close>): a network is one
  NetworkAttachmentDefinition whose configuration is the JSON of an ovs-cni plugin, whose labels mark
  its type and whose annotation names the device-plugin resource; there are no subnets. The VLAN goes
  through \<open>int\<close> and decimal JSON and comes back through \<open>uint64\<close>.
\<close>

subsection \<open>\<open>utils.go\<close>\<close>

definition nadResourceNameAnnotation :: string where
  "nadResourceNameAnnotation = ''k8s.v1.cni.cncf.io/resourceName''"

definition sriovCniVersion :: string where
  "sriovCniVersion = ''0.3.1''"

record ovsCniConfig =
  cni_CniVersion :: string
  cni_Name :: string
  cni_Type :: string
  cni_Vlan :: "int option"
  cni_SocketFile :: string

text \<open>The struct tags: the members in order, \<open>omitempty\<close> on the last two.\<close>

definition ovs_to_json :: "ovsCniConfig \<Rightarrow> json" where
  "ovs_to_json cfg = JObj
     ([(''cniVersion'', JStr (cni_CniVersion cfg)), (''name'', JStr (cni_Name cfg)), (''type'', JStr (cni_Type cfg))]
      @ (case cni_Vlan cfg of None \<Rightarrow> [] | Some v \<Rightarrow> [(''vlan'', JNum (show_int v))])
      @ (if cni_SocketFile cfg = [] then [] else [(''socket_file'', JStr (cni_SocketFile cfg))]))"

definition formatOvsCniConfig :: "string \<Rightarrow> 64 word \<Rightarrow> string \<Rightarrow> string" where
  "formatOvsCniConfig name vlan socketFile =
     (let cfg = \<lparr>cni_CniVersion = sriovCniVersion, cni_Name = name, cni_Type = ''ovs'', cni_Vlan = None,
            cni_SocketFile = socketFile\<rparr>;
          cfg = (if vlan \<noteq> 0 then cfg\<lparr>cni_Vlan := Some (sint vlan)\<rparr> else cfg)
      in print_json (ovs_to_json cfg))"

definition ovs_fields :: "string list" where
  "ovs_fields = [''cniVersion'', ''name'', ''type'', ''vlan'', ''socket_file'']"

text \<open>\<open>json.Unmarshal\<close> into the struct: a member that matches no field is skipped, \<open>null\<close> leaves a
  string and clears a pointer, a value of the wrong type is an error (\<open>None\<close>).\<close>

definition decode_str :: "json \<Rightarrow> string \<Rightarrow> string option" where
  "decode_str v old = (case v of JStr s \<Rightarrow> Some s | JNull \<Rightarrow> Some old | _ \<Rightarrow> None)"

definition decode_int_ptr :: "json \<Rightarrow> int option option" where
  "decode_int_ptr v = (case v of
      JNull \<Rightarrow> Some None
    | JNum n \<Rightarrow> map_option Some (parse_int64 n)
    | _ \<Rightarrow> None)"

definition set_ovs_member :: "string \<times> json \<Rightarrow> ovsCniConfig \<Rightarrow> ovsCniConfig option" where
  "set_ovs_member m cfg = (case match_field ovs_fields (fst m) of
      None \<Rightarrow> Some cfg
    | Some f \<Rightarrow>
        if f = ''cniVersion'' then map_option (\<lambda>x. cfg\<lparr>cni_CniVersion := x\<rparr>) (decode_str (snd m) (cni_CniVersion cfg))
        else if f = ''name'' then map_option (\<lambda>x. cfg\<lparr>cni_Name := x\<rparr>) (decode_str (snd m) (cni_Name cfg))
        else if f = ''type'' then map_option (\<lambda>x. cfg\<lparr>cni_Type := x\<rparr>) (decode_str (snd m) (cni_Type cfg))
        else if f = ''vlan'' then map_option (\<lambda>x. cfg\<lparr>cni_Vlan := x\<rparr>) (decode_int_ptr (snd m))
        else map_option (\<lambda>x. cfg\<lparr>cni_SocketFile := x\<rparr>) (decode_str (snd m) (cni_SocketFile cfg)))"

fun set_ovs_members :: "(string \<times> json) list \<Rightarrow> ovsCniConfig \<Rightarrow> ovsCniConfig option" where
  "set_ovs_members [] cfg = Some cfg"
| "set_ovs_members (m # ms) cfg = (case set_ovs_member m cfg of
      None \<Rightarrow> None
    | Some cfg \<Rightarrow> set_ovs_members ms cfg)"

definition unmarshal_ovs :: "string \<Rightarrow> ovsCniConfig option" where
  "unmarshal_ovs s = (let zero = \<lparr>cni_CniVersion = [], cni_Name = [], cni_Type = [], cni_Vlan = None,
       cni_SocketFile = []\<rparr> in
     case parse_json s of
       Some (JObj ms) \<Rightarrow> set_ovs_members ms zero
     | Some JNull \<Rightarrow> Some zero
     | _ \<Rightarrow> None)"

definition nadToNfvNetwork :: "nad option \<Rightarrow> error + virtual_network" where
  "nadToNfvNetwork nad = (case nad of
      None \<Rightarrow> Inl (ErrInvalidArgument ''nad'' ''cannot be nil'')
    | Some nad \<Rightarrow> (let uid = m_uid (nad_meta nad) in
        if uid = [] then Inl (ErrInvalidArgument ''nad UID'' ''cannot be empty'')
        else if \<not> IsObjectManagedByKubeNfv (nad_meta nad)
          then Inl (ErrK8sObjectNotManagedByKubeNfv ''NetworkAttachmentDefinition'' (m_name (nad_meta nad)) uid)
        else (let name = m_name (nad_meta nad);
                  resourceName = map_get (m_annotations (nad_meta nad)) nadResourceNameAnnotation;
                  vlan = (case unmarshal_ovs (nad_config nad) of
                      None \<Rightarrow> 0
                    | Some cfg \<Rightarrow> (case cni_Vlan cfg of None \<Rightarrow> 0 | Some v \<Rightarrow> word_of_int v)) :: 64 word
          in Inr \<lparr>vn_resourceId = UIDToIdentifier uid, vn_resourceName = Some name, vn_subnetId = [],
               vn_bandwidth = 0, vn_networkType = NET_SRIOV, vn_isShared = False,
               vn_providerNetwork = Some resourceName, vn_segmentationId = Some vlan,
               vn_operationalState = ENABLED,
               vn_metadata = Some [K8sNetworkNetAttachNameLabel \<mapsto> name]\<rparr>)))"

subsection \<open>\<open>manager.go\<close>\<close>

record 's sriov =
  sr_client :: "'s client"
  sr_namespace :: "string option"
  sr_socketFile :: string

text \<open>\<open>socketFileCfg\<close> is \<open>sriovCfg.SocketFile\<close>, nil when the section is absent.\<close>

definition NewSriovNetworkManager :: "'s client \<Rightarrow> string option \<Rightarrow> string option \<Rightarrow> error + 's sriov" where
  "NewSriovNetworkManager cl namespace socketFileCfg =
     (if namespace = None
      then Inl (ErrInvalidArgument ''config k8s.Namespace'' (''can'' @ [CHR 0x27] @ ''t be nil''))
      else Inr \<lparr>sr_client = cl, sr_namespace = namespace, sr_socketFile = str_or_empty socketFileCfg\<rparr>)"

definition sriovSelector :: "(string \<times> string) list" where
  "sriovSelector = [(K8sManagedByLabel, KubeNfvName), (K8sNetworkTypeLabel, network_type_String NET_SRIOV)]"

definition sriov_nad :: "'s sriov \<Rightarrow> string \<Rightarrow> string \<Rightarrow> string \<Rightarrow> 64 word \<Rightarrow> nad" where
  "sriov_nad m namespace name provider vlan =
     (let resourceName = (if CHR ''/'' \<notin> set provider then ''openshift.io/'' @ provider else provider) in
      \<lparr>nad_meta = empty_meta\<lparr>m_name := name, m_namespace := namespace,
         m_annotations := [nadResourceNameAnnotation \<mapsto> resourceName],
         m_labels := [K8sManagedByLabel \<mapsto> KubeNfvName, K8sNetworkTypeLabel \<mapsto> network_type_String NET_SRIOV,
           K8sNetworkNameLabel \<mapsto> name]\<rparr>,
       nad_config = formatOvsCniConfig name vlan (sr_socketFile m)\<rparr>)"

definition sriov_CreateNetwork ::
  "'s sriov \<Rightarrow> string \<Rightarrow> virtual_network_data option \<Rightarrow> ('s, error, virtual_network) act" where
  "sriov_CreateNetwork m name networkData = (case networkData of
      None \<Rightarrow> throw (Wrap ''create sriov network'' ErrUnsupported)
    | Some d \<Rightarrow>
        if GetNetworkType d \<noteq> NET_SRIOV then throw (Wrap ''create sriov network'' ErrUnsupported)
        else if \<not> has_value (nd_providerNetwork d) then
          throw (ErrInvalidArgument ''providerNetwork'' ''required for SR-IOV networks (device plugin resource name)'')
        else if nd_layer3Attributes d \<noteq> [] then
          throw (ErrInvalidArgument ''layer3Attributes'' ''SR-IOV networks do not support subnets'')
        else
          and_then (deref (sr_namespace m)) (\<lambda>namespace.
          and_then (wrap ''create SR-IOV NetworkAttachmentDefinition''
            (k8s_create (sr_client m) nad_k (sriov_nad m namespace name (str_or_empty (nd_providerNetwork d))
              (case nd_segmentationId d of None \<Rightarrow> 0 | Some v \<Rightarrow> v)))) (\<lambda>nad.
          sum_act (nadToNfvNetwork (Some nad)))))"

definition sriov_GetNetwork :: "'s sriov \<Rightarrow> get_network_opt list \<Rightarrow> ('s, error, virtual_network) act" where
  "sriov_GetNetwork m opts = (let cfg = ApplyGetNetworkOpts opts in
     if gno_Name cfg \<noteq> [] then
       and_then (deref (sr_namespace m)) (\<lambda>namespace.
       and_then (handle (k8s_get (sr_client m) nad_k namespace (gno_Name cfg)) ret (\<lambda>err.
           if k8s_IsNotFound err then throw (ErrNotFound (''SR-IOV network '' @ quoted (gno_Name cfg)) [])
           else throw (Wrap ''get SR-IOV NetworkAttachmentDefinition'' err))) (\<lambda>nad.
         if map_get (m_labels (nad_meta nad)) K8sNetworkTypeLabel \<noteq> network_type_String NET_SRIOV
         then throw (ErrNotFound (''SR-IOV network '' @ quoted (gno_Name cfg)) [])
         else sum_act (nadToNfvNetwork (Some nad))))
     else if has_value (gno_Uid cfg) then
       and_then (deref (sr_namespace m)) (\<lambda>namespace.
       and_then (wrap ''list SR-IOV NetworkAttachmentDefinitions''
         (k8s_list (sr_client m) nad_k (Some namespace) sriovSelector)) (\<lambda>items.
       (case find (\<lambda>nad. Some (m_uid (nad_meta nad)) = gno_Uid cfg) items of
          Some nad \<Rightarrow> sum_act (nadToNfvNetwork (Some nad))
        | None \<Rightarrow> throw (ErrNotFound (''SR-IOV network with id '' @ quoted (str_or_empty (gno_Uid cfg))) []))))
     else throw (ErrInvalidArgument ''GetNetworkOpt'' ''name or uid required''))"

text \<open>A malformed definition is skipped with a warning.\<close>

definition sriov_ListNetworks :: "'s sriov \<Rightarrow> ('s, error, virtual_network list) act" where
  "sriov_ListNetworks m =
     and_then (deref (sr_namespace m)) (\<lambda>namespace.
     and_then (wrap ''list SR-IOV NetworkAttachmentDefinitions''
       (k8s_list (sr_client m) nad_k (Some namespace) sriovSelector)) (\<lambda>items.
     ret (List.map_filter (\<lambda>nad. case nadToNfvNetwork (Some nad) of Inl err \<Rightarrow> None | Inr net \<Rightarrow> Some net) items)))"

definition sriov_DeleteNetwork :: "'s sriov \<Rightarrow> get_network_opt list \<Rightarrow> ('s, error, unit) act" where
  "sriov_DeleteNetwork m opts =
     and_then (wrap ''get SR-IOV network'' (sriov_GetNetwork m opts)) (\<lambda>net.
     (case vn_resourceName net of
        None \<Rightarrow> throw (ErrInvalidArgument ''networkResourceName'' ''cannot be nil'')
      | Some name \<Rightarrow>
          and_then (deref (sr_namespace m)) (\<lambda>namespace.
          wrap ''delete SR-IOV NetworkAttachmentDefinition'' (k8s_delete (sr_client m) nad_k namespace name))))"

definition no_subnets :: "('s, error, 'a) act" where
  "no_subnets = throw (Wrap ''SR-IOV networks do not support subnets'' ErrUnsupported)"

definition sriov_manager :: "'s sriov \<Rightarrow> 's network_manager" where
  "sriov_manager m = \<lparr>nm_CreateNetwork = sriov_CreateNetwork m, nm_GetNetwork = sriov_GetNetwork m,
     nm_ListNetworks = sriov_ListNetworks m, nm_DeleteNetwork = sriov_DeleteNetwork m,
     nm_CreateSubnet = (\<lambda>_ _. no_subnets), nm_GetSubnet = (\<lambda>_. no_subnets), nm_ListSubnets = no_subnets,
     nm_DeleteSubnet = (\<lambda>_. no_subnets), nm_EnsureManagementNetwork = (\<lambda>_. ret ())\<rparr>"

subsection \<open>The configuration round trip\<close>

lemma match_ovs_fields [simp]:
  "match_field ovs_fields ''cniVersion'' = Some ''cniVersion''" "match_field ovs_fields ''name'' = Some ''name''"
  "match_field ovs_fields ''type'' = Some ''type''" "match_field ovs_fields ''vlan'' = Some ''vlan''"
  "match_field ovs_fields ''socket_file'' = Some ''socket_file''"
  by (simp_all add: match_field_def ovs_fields_def)

lemma ascii_names [simp]:
  "ascii ''cniVersion''" "ascii ''name''" "ascii ''type''" "ascii ''vlan''" "ascii ''socket_file''"
  "ascii ''ovs''" "ascii sriovCniVersion"
  by (simp_all add: byte_of_def sriovCniVersion_def)

lemma unmarshal_formatted:
  assumes "ascii name" and "ascii socketFile"
  shows "\<exists>cfg. unmarshal_ovs (formatOvsCniConfig name vlan socketFile) = Some cfg \<and> cni_Name cfg = name \<and>
    cni_Vlan cfg = (if vlan = 0 then None else Some (sint vlan)) \<and> cni_SocketFile cfg = socketFile"
proof -
  have range: "- (2 ^ 63) \<le> sint vlan" "sint vlan < 2 ^ 63"
    using sint_ge [of vlan] sint_lt [of vlan] by simp_all
  let ?c = "\<lparr>cni_CniVersion = sriovCniVersion, cni_Name = name, cni_Type = ''ovs'',
      cni_Vlan = (if vlan = 0 then None else Some (sint vlan)), cni_SocketFile = socketFile\<rparr>"
  have "formatOvsCniConfig name vlan socketFile = print_json (ovs_to_json ?c)"
    by (simp add: formatOvsCniConfig_def Let_def)
  moreover have "parse_json (print_json (ovs_to_json ?c)) = Some (ovs_to_json ?c)"
    by (rule parse_print_json) (use assms in \<open>auto simp: ovs_to_json_def max_depth_def byte_of_def sriovCniVersion_def\<close>)
  ultimately show ?thesis
    using parse_int64_show [OF range]
    by (auto simp: unmarshal_ovs_def ovs_to_json_def set_ovs_member_def decode_str_def decode_int_ptr_def Let_def)
qed

subsection \<open>What the operations establish\<close>

lemma nadTo_Inr_iff:
  "nadToNfvNetwork (Some nad) = Inr n \<longleftrightarrow> m_uid (nad_meta nad) \<noteq> [] \<and> IsObjectManagedByKubeNfv (nad_meta nad) \<and>
     n = \<lparr>vn_resourceId = Some (m_uid (nad_meta nad)), vn_resourceName = Some (m_name (nad_meta nad)),
       vn_subnetId = [], vn_bandwidth = 0, vn_networkType = NET_SRIOV, vn_isShared = False,
       vn_providerNetwork = Some (map_get (m_annotations (nad_meta nad)) nadResourceNameAnnotation),
       vn_segmentationId = Some (case unmarshal_ovs (nad_config nad) of None \<Rightarrow> 0
         | Some cfg \<Rightarrow> (case cni_Vlan cfg of None \<Rightarrow> 0 | Some v \<Rightarrow> word_of_int v)),
       vn_operationalState = ENABLED,
       vn_metadata = Some [K8sNetworkNetAttachNameLabel \<mapsto> m_name (nad_meta nad)]\<rparr>"
  by (auto simp: nadToNfvNetwork_def Let_def UIDToIdentifier_def)

lemma nadTo_complete: "nadToNfvNetwork (Some nad) = Inr n \<Longrightarrow> complete_network n"
  by (simp add: nadTo_Inr_iff complete_network_def)

lemma sriov_GetNetwork_complete:
  assumes "sr_namespace m = Some ns"
  shows "meets (sriov_GetNetwork m opts) s (\<lambda>n _. complete_network n) (\<lambda>_ _. True)"
  unfolding sriov_GetNetwork_def Let_def assms
  by (intro meets_if meets_and_then meets_handle meets_wrap meets_any meets_case_option meets_deref [OF refl]
      meets_sum_act meets_throw meets_ret) (auto intro: nadTo_complete)

text \<open>The network a created definition stands for.\<close>

definition sriov_created :: "string \<Rightarrow> virtual_network_data \<Rightarrow> nad \<Rightarrow> virtual_network \<Rightarrow> bool" where
  "sriov_created name d nad n \<longleftrightarrow> nadToNfvNetwork (Some nad) = Inr n \<and> m_name (nad_meta nad) = name \<and>
     matches sriovSelector (nad_meta nad) \<and> m_uid (nad_meta nad) \<noteq> [] \<and>
     vn_providerNetwork n = Some (if CHR ''/'' \<in> set (str_or_empty (nd_providerNetwork d))
       then str_or_empty (nd_providerNetwork d) else ''openshift.io/'' @ str_or_empty (nd_providerNetwork d)) \<and>
     vn_segmentationId n = Some (case nd_segmentationId d of None \<Rightarrow> 0 | Some v \<Rightarrow> v)"

definition sriov_refused ::
  "(okey \<Rightarrow> k8s_object option) \<Rightarrow> string \<Rightarrow> string \<Rightarrow> virtual_network_data option \<Rightarrow> bool" where
  "sriov_refused V ns name nd \<longleftrightarrow> (case nd of None \<Rightarrow> True | Some d \<Rightarrow> GetNetworkType d \<noteq> NET_SRIOV
     \<or> \<not> has_value (nd_providerNetwork d) \<or> nd_layer3Attributes d \<noteq> [] \<or> V (KNad, ns, name) \<noteq> None)"

lemma nad_vlan_roundtrip:
  assumes "ascii name" and "ascii socketFile"
  shows "(case unmarshal_ovs (formatOvsCniConfig name vlan socketFile) of None \<Rightarrow> 0
     | Some cfg \<Rightarrow> (case cni_Vlan cfg of None \<Rightarrow> 0 | Some v \<Rightarrow> word_of_int v)) = vlan"
  using unmarshal_formatted [OF assms, of vlan] by auto

lemma sriov_nad_created:
  assumes "created (ONad (sriov_nad m ns name (str_or_empty (nd_providerNetwork d))
      (case nd_segmentationId d of None \<Rightarrow> 0 | Some v \<Rightarrow> v))) (ONad nad)"
    and "ascii name" and "ascii (sr_socketFile m)"
  shows "\<exists>n. sriov_created name d nad n"
proof -
  let ?v = "case nd_segmentationId d of None \<Rightarrow> 0 | Some v \<Rightarrow> v"
  let ?nad = "sriov_nad m ns name (str_or_empty (nd_providerNetwork d)) ?v"
  obtain u w t f where nad: "nad = ?nad\<lparr>nad_meta := (nad_meta ?nad)\<lparr>m_uid := u, m_resourceVersion := w,
      m_creationTimestamp := t, m_managedFields := f\<rparr>\<rparr>" "u \<noteq> []"
    using assms(1) by (auto simp: created_def)
  have cfg: "nad_config nad = formatOvsCniConfig name ?v (sr_socketFile m)"
    by (simp add: nad sriov_nad_def Let_def)
  have man: "IsObjectManagedByKubeNfv (nad_meta nad)" "matches sriovSelector (nad_meta nad)"
    by (simp_all add: nad sriov_nad_def Let_def IsObjectManagedByKubeNfv_def matches_def sriovSelector_def)
  then obtain n where n: "nadToNfvNetwork (Some nad) = Inr n" using nad(2) by (simp add: nadTo_Inr_iff nad(1))
  have "vn_segmentationId n = Some ?v"
    using n unfolding nadTo_Inr_iff cfg nad_vlan_roundtrip [OF assms(2,3)] by simp
  moreover have "m_name (nad_meta nad) = name" "m_uid (nad_meta nad) \<noteq> []"
    using nad(2) by (simp_all add: nad(1) sriov_nad_def Let_def)
  moreover have "map_get (m_annotations (nad_meta nad)) nadResourceNameAnnotation =
      (if CHR ''/'' \<in> set (str_or_empty (nd_providerNetwork d))
       then str_or_empty (nd_providerNetwork d) else ''openshift.io/'' @ str_or_empty (nd_providerNetwork d))"
    by (simp add: nad(1) sriov_nad_def Let_def map_get_def)
  ultimately show ?thesis using n man(2) by (auto simp: sriov_created_def nadTo_Inr_iff)
qed

context api_server
begin

lemma sriov_CreateNetwork_view:
  assumes s: "inv s" and m: "sr_client m = cl" and ns: "sr_namespace m = Some ns"
    and a: "ascii name" "ascii (sr_socketFile m)"
  shows "meets (sriov_CreateNetwork m name nd) s
    (\<lambda>n t. inv t \<and> (\<exists>d nad. nd = Some d \<and> sriov_created name d nad n \<and> view s (KNad, ns, name) = None \<and>
       view t = (view s)((KNad, ns, name) \<mapsto> ONad nad)))
    (\<lambda>_ t. inv t \<and> view t = view s \<and> sriov_refused (view s) ns name nd)"
proof -
  have key: "obj_key (ONad (sriov_nad m ns name p v)) = (KNad, ns, name)" for p v
    by (simp add: obj_key_def sriov_nad_def Let_def)
  show ?thesis
    unfolding sriov_CreateNetwork_def m ns
    by (intro meets_case_option meets_if meets_throw meets_and_then meets_deref [OF refl] meets_wrap
        meets_create [OF s])
      (use s in \<open>auto simp: key sriov_created_def sriov_refused_def intro!: meets_ret dest!: sriov_nad_created [OF _ a]\<close>)
qed

lemma sriov_GetNetwork_view:
  assumes t: "inv t" and m: "sr_client m = cl" and ns: "sr_namespace m = Some ns"
    and v: "view t (KNad, ns, name) = Some (ONad nad)" and n: "sriov_created name d nad n"
  shows "meets (sriov_GetNetwork m [GetNetworkByUid (vn_resourceId n)]) t
      (\<lambda>r u. r = n \<and> inv u \<and> view u = view t) (\<lambda>_ _. False)"
    and "name \<noteq> [] \<Longrightarrow> meets (sriov_GetNetwork m [GetNetworkByName name]) t
      (\<lambda>r u. r = n \<and> inv u \<and> view u = view t) (\<lambda>_ _. False)"
proof -
  have conv: "nadToNfvNetwork (Some nad) = Inr n" and sel: "matches sriovSelector (nad_meta nad)"
    and rid: "vn_resourceId n = Some (m_uid (nad_meta nad))" "has_value (vn_resourceId n)"
    using n by (auto simp: sriov_created_def nadTo_Inr_iff has_value_def)
  show "meets (sriov_GetNetwork m [GetNetworkByUid (vn_resourceId n)]) t
      (\<lambda>r u. r = n \<and> inv u \<and> view u = view t) (\<lambda>_ _. False)"
    unfolding sriov_GetNetwork_def m ns Let_def
    using rid conv
    by (auto simp: network_opt_defs deref_def sel
        intro!: meets_and_then meets_wrap meets_list_find [OF t _ _ _ _ _, of nad_k ns name nad] meets_ret v)
  have ty: "map_get (m_labels (nad_meta nad)) K8sNetworkTypeLabel = network_type_String NET_SRIOV"
    using sel by (simp add: matches_def sriovSelector_def map_get_def)
  show "meets (sriov_GetNetwork m [GetNetworkByName name]) t
      (\<lambda>r u. r = n \<and> inv u \<and> view u = view t) (\<lambda>_ _. False)" if "name \<noteq> []"
    unfolding sriov_GetNetwork_def m ns Let_def
    using that v conv ty
    by (auto simp: network_opt_defs deref_def intro!: meets_and_then meets_handle meets_get [OF t] meets_ret)
qed

end

end
