(* ===== verification/Network_Stack.thy ===== *)
theory Network_Stack
  imports Kubeovn_Spec Composite Sriov
begin

text \<open>
  The network managers put together as \<open>internal/kubevim/manager.go\<close> does: the composite manager over
  the kube-ovn and the SR-IOV manager, which share one Kubernetes client. The interpretation \<open>stack\<close>
  discharges the contract of the composite on the two concrete managers, for every client; on a server
  without faults an SR-IOV network lives its whole life behind the composite.
\<close>

definition sriov_on :: "'s client \<Rightarrow> string \<Rightarrow> string \<Rightarrow> 's sriov" where
  "sriov_on cl ns sock = \<lparr>sr_client = cl, sr_namespace = Some ns, sr_socketFile = sock\<rparr>"

lemma sriov_on_sel [simp]:
  "sr_client (sriov_on cl ns sock) = cl" "sr_namespace (sriov_on cl ns sock) = Some ns"
  "sr_socketFile (sriov_on cl ns sock) = sock"
  by (simp_all add: sriov_on_def)

interpretation stack: two_backends "kubeovn_manager isUUID ko" "sriov_manager (sriov_on cl ns sock)"
  for isUUID ko cl ns sock
proof
  fix nopts s
  show "meets (nm_GetNetwork (sriov_manager (sriov_on cl ns sock)) nopts) s (\<lambda>n _. complete_network n) (\<lambda>_ _. True)"
    using sriov_GetNetwork_complete [of "sriov_on cl ns sock"] by (simp add: sriov_manager_def)
qed

abbreviation network_stack :: "(string \<Rightarrow> bool) \<Rightarrow> 's kubeovn \<Rightarrow> 's sriov \<Rightarrow> 's composite" where
  "network_stack isUUID ko sr \<equiv> NewManager (kubeovn_manager isUUID ko) (sriov_manager sr)"

text \<open>No object of one of the kinds has the id.\<close>

definition no_uid :: "(okey \<Rightarrow> k8s_object option) \<Rightarrow> kind set \<Rightarrow> string \<Rightarrow> bool" where
  "no_uid V ks u \<longleftrightarrow> (\<forall>k ns n ob. k \<in> ks \<longrightarrow> V (k, ns, n) = Some ob \<longrightarrow> m_uid (obj_meta_of ob) \<noteq> u)"

lemma no_uidD: "no_uid V ks u \<Longrightarrow> k \<in> ks \<Longrightarrow> V (k, ns, n) = Some ob \<Longrightarrow> m_uid (obj_meta_of ob) \<noteq> u"
  by (auto simp: no_uid_def)

lemma no_uid_mono: "no_uid V ks u \<Longrightarrow> ks' \<subseteq> ks \<Longrightarrow> no_uid V ks' u"
  by (auto simp: no_uid_def)

context api_server
begin

lemma no_uid_other:
  assumes "inv s" and "view s (k, ns, n) = Some ob" and "m_uid (obj_meta_of ob) = u" and "k \<notin> ks"
  shows "no_uid (view s) ks u"
  unfolding no_uid_def
proof (intro allI impI notI)
  fix k' ns' n' ob'
  assume "k' \<in> ks" "view s (k', ns', n') = Some ob'" "m_uid (obj_meta_of ob') = u"
  with uid_unique [OF assms(1) this(2) assms(2)] assms(3,4) show False by simp
qed

lemma meets_list_absent:
  assumes s: "inv s" and K: "wf_kind K" and none: "no_uid (view s) {ki_kind K} u"
    and P: "\<And>x. P x \<Longrightarrow> m_uid (obj_meta_of (ki_obj K x)) = u"
    and ok: "\<And>xs t. inv t \<Longrightarrow> view t = view s \<Longrightarrow> find P xs = None \<Longrightarrow> Q xs t"
  shows "meets (k8s_list cl K nso sel) s Q E"
proof (rule meets_list [OF s K])
  fix xs t
  assume "\<And>x. x \<in> set xs \<longleftrightarrow> (\<exists>ns n. view s (ki_kind K, ns, n) = Some (ki_obj K x) \<and>
    (nso = None \<or> nso = Some ns) \<and> matches sel (obj_meta_of (ki_obj K x)))"
  then have "find P xs = None" using no_uidD [OF none] P by (metis find_SomeD not_None_eq singletonI)
  then show "Q xs t" if "inv t" "view t = view s" by (rule ok [OF that])
qed

lemma kubeovn_absent:
  assumes s: "inv s" and m: "ko_client ko = cl" and u: "u \<noteq> []" and none: "no_uid (view s) {KVpc, KVlan} u"
  shows "meets (GetNetwork ko [GetNetworkByUid (Some u)]) s (\<lambda>_ _. False)
    (\<lambda>e t. errors_As is_ErrNotFound e \<and> inv t \<and> view t = view s)"
proof -
  have vpc: "no_uid (view s) {ki_kind vpc_k} u" and vlan: "no_uid (view s) {ki_kind vlan_k} u"
    using none by (auto elim: no_uid_mono)
  have over: "meets (getOverlayNetwork ko [GetNetworkByUid (Some u)]) s (\<lambda>_ _. False)
      (\<lambda>e t. errors_As is_ErrNotFound e \<and> inv t \<and> view t = view s)"
    unfolding getOverlayNetwork_def find_vpc_def m using u
    by (auto simp: network_opt_defs has_value_def intro!: meets_and_then meets_wrap meets_list_absent [OF s _ vpc] meets_throw)
  have under: "meets (getUnderlayNetwork ko [GetNetworkByUid (Some u)]) t (\<lambda>_ _. False)
      (\<lambda>e t. errors_As is_ErrNotFound e \<and> inv t \<and> view t = view s)" if t: "inv t" "view t = view s" for t
    unfolding getUnderlayNetwork_def find_vlan_def m using u
    by (auto simp: network_opt_defs has_value_def t(2) intro!: meets_and_then meets_wrap
        meets_list_absent [OF t(1) _ vlan [folded t(2)]] meets_throw)
  show ?thesis
    unfolding GetNetwork_def
    by (intro meets_handle meets_weaken [OF over] meets_if meets_throw)
      (auto intro!: meets_handle meets_weaken [OF under] meets_throw)
qed

lemma sriov_absent:
  assumes s: "inv s" and u: "u \<noteq> []" and none: "no_uid (view s) {KNad} u"
  shows "meets (sriov_GetNetwork (sriov_on cl ns sock) [GetNetworkByUid (Some u)]) s (\<lambda>_ _. False)
    (\<lambda>e t. errors_As is_ErrNotFound e \<and> inv t \<and> view t = view s)"
proof -
  have nad: "no_uid (view s) {ki_kind nad_k} u" using none by simp
  show ?thesis
    unfolding sriov_GetNetwork_def Let_def using u
    by (auto simp: network_opt_defs deref_def has_value_def intro!: meets_and_then meets_wrap
        meets_list_absent [OF s _ nad] meets_throw)
qed

lemma composite_delete_absent:
  assumes s: "inv s" and m: "ko_client ko = cl" and u: "u \<noteq> []" and none: "no_uid (view s) {KNad} u"
    and get: "meets (GetNetwork ko [GetNetworkByUid (Some u)]) s (\<lambda>_ _. False)
      (\<lambda>e t. errors_As is_ErrNotFound e \<and> inv t \<and> view t = view s)"
  shows "meets (composite_DeleteNetwork (network_stack isUUID ko (sriov_on cl ns sock)) [GetNetworkByUid (Some u)]) s
    (\<lambda>_ _. False) (\<lambda>e t. errors_As is_ErrNotFound e \<and> inv t \<and> view t = view s)"
proof -
  have ovn: "meets (DeleteNetwork ko [GetNetworkByUid (Some u)]) s (\<lambda>_ _. False)
      (\<lambda>e t. errors_As is_ErrNotFound e \<and> inv t \<and> view t = view s)"
    unfolding DeleteNetwork_def
    by (rule meets_and_then, rule meets_wrap, rule meets_weaken [OF get]) auto
  have sriov: "meets (sriov_DeleteNetwork (sriov_on cl ns sock) [GetNetworkByUid (Some u)]) t (\<lambda>_ _. False)
      (\<lambda>e t. errors_As is_ErrNotFound e \<and> inv t \<and> view t = view s)" if "inv t" "view t = view s" for t
    unfolding sriov_DeleteNetwork_def
    by (rule meets_and_then, rule meets_wrap, rule meets_weaken [OF sriov_absent [OF that(1) u]])
      (use none that in auto)
  show ?thesis
    unfolding composite_DeleteNetwork_def NewManager_def kubeovn_manager_def sriov_manager_def isNotFound_def
    using ovn by simp (rule meets_handle, erule meets_weaken, simp,
      auto intro!: meets_handle meets_weaken [OF sriov] meets_throw)
qed

lemma subnet_absent:
  assumes s: "inv s" and m: "ko_client ko = cl" and u: "u \<noteq> []" and none: "no_uid (view s) {KSubnet} u"
  shows "meets (DeleteSubnet ko [GetSubnetByUid (Some u)]) s (\<lambda>_ _. False)
    (\<lambda>e t. errors_As is_ErrNotFound e \<and> inv t \<and> view t = view s)"
proof -
  have sub: "no_uid (view s) {ki_kind subnet_k} u" using none by simp
  show ?thesis
    unfolding DeleteSubnet_def GetSubnet_by_uid m using u
    by (auto simp: has_value_def intro!: meets_and_then meets_wrap meets_list_absent [OF s _ sub] meets_throw)
qed

text \<open>While the status of a Vpc lists a subnet that is gone, the lookup of the network comes back empty.\<close>

lemma subnet_ids_missing:
  assumes "inv s" and "ko_client m = cl" and "missing \<in> set names" and "view s (KSubnet, [], missing) = None"
    and "\<And>n ob. n \<in> set names \<Longrightarrow> view s (KSubnet, [], n) = Some ob \<Longrightarrow>
      \<exists>sub r. ob = OSubnet sub \<and> nfvNetworkSubnetFromKubeovnSubnet (Some sub) = Inr r"
    and "[] \<notin> set names"
  shows "meets (subnet_ids m ctx names) s (\<lambda>_ _. False) (\<lambda>e t. k8s_IsNotFound e \<and> inv t \<and> view t = view s)"
  using assms
proof (induction names arbitrary: s)
  case (Cons n names)
  have n: "n \<noteq> []" using Cons.prems(6) by auto
  show ?case
  proof (cases "view s (KSubnet, [], n)")
    case None
    then show ?thesis
      unfolding subnet_ids_def for_each.simps GetSubnet_by_name Cons.prems(2)
      using n by (auto intro!: meets_and_then meets_wrap meets_get [OF Cons.prems(1)])
  next
    case (Some ob)
    then obtain sub r where sub: "ob = OSubnet sub" "nfvNetworkSubnetFromKubeovnSubnet (Some sub) = Inr r"
      using Cons.prems(5) [of n] by auto
    have "missing \<in> set names" using Some Cons.prems(3,4) by auto
    then have rest: "meets (subnet_ids m ctx names) t (\<lambda>_ _. False) (\<lambda>e t. k8s_IsNotFound e \<and> inv t \<and> view t = view s)"
      if "inv t" "view t = view s" for t
      using Cons.IH [of t] Cons.prems that by auto
    show ?thesis
      unfolding subnet_ids_def for_each.simps GetSubnet_by_name Cons.prems(2)
      using n Some sub by (auto intro!: meets_and_then meets_wrap meets_get [OF Cons.prems(1)] meets_ret
          meets_weaken [OF rest [unfolded subnet_ids_def GetSubnet_by_name Cons.prems(2)]])
  qed
qed simp

lemma lagging_vpc_absent:
  assumes s: "inv s" and m: "ko_client m = cl" and v: "view s (KVpc, [], n) = Some (OVpc vpc)"
    and u: "m_uid (vpc_meta vpc) = u" "u \<noteq> []" and managed: "IsObjectManagedByKubeNfv (vpc_meta vpc)"
    and lag: "missing \<in> set (vpc_status_subnets vpc)" "view s (KSubnet, [], missing) = None" "[] \<notin> set (vpc_status_subnets vpc)"
    and conv: "\<And>n ob. n \<in> set (vpc_status_subnets vpc) \<Longrightarrow> view s (KSubnet, [], n) = Some ob \<Longrightarrow>
      \<exists>sub r. ob = OSubnet sub \<and> nfvNetworkSubnetFromKubeovnSubnet (Some sub) = Inr r"
  shows "meets (GetNetwork m [GetNetworkByUid (Some u)]) s (\<lambda>_ _. False)
      (\<lambda>e t. errors_As is_ErrNotFound e \<and> inv t \<and> view t = view s)"
proof -
  have ids: "meets (subnet_ids m ctx (vpc_status_subnets vpc)) t (\<lambda>_ _. False) (\<lambda>e t. k8s_IsNotFound e \<and> inv t \<and> view t = view s)"
    if "inv t" "view t = view s" for ctx t
    using subnet_ids_missing [OF that(1) m lag(1), of ctx] lag conv that(2) by auto
  have over: "meets (getOverlayNetwork m [GetNetworkByUid (Some u)]) s (\<lambda>_ _. False)
      (\<lambda>e t. k8s_IsNotFound e \<and> inv t \<and> view t = view s)"
    unfolding getOverlayNetwork_def find_vpc_def vpc_network_def m using u managed
    by (auto simp: network_opt_defs has_value_def intro!: meets_and_then meets_wrap
        meets_list_find [OF s _ _ _ _ _, of vpc_k "[]" n vpc] meets_ret v meets_weaken [OF ids])
  have vlan: "no_uid (view s) {ki_kind vlan_k} u" by (rule no_uid_other [OF s v]) (use u in auto)
  have under: "meets (getUnderlayNetwork m [GetNetworkByUid (Some u)]) t (\<lambda>_ _. False)
      (\<lambda>e t. errors_As is_ErrNotFound e \<and> inv t \<and> view t = view s)" if t: "inv t" "view t = view s" for t
    unfolding getUnderlayNetwork_def find_vlan_def m using u
    by (auto simp: network_opt_defs has_value_def t(2) intro!: meets_and_then meets_wrap
        meets_list_absent [OF t(1) _ vlan [folded t(2)]] meets_throw)
  show ?thesis
    unfolding GetNetwork_def
    by (rule meets_handle, rule meets_weaken [OF over])
      (auto intro!: meets_handle meets_weaken [OF under] meets_throw)
qed

lemma composite_create_sriov:
  assumes s: "inv s" and a: "ascii name" "ascii sock" and ty: "nd_networkType d = Some NET_SRIOV"
  shows "meets (composite_CreateNetwork (network_stack isUUID ko (sriov_on cl ns sock)) name (Some d)) s
    (\<lambda>n t. inv t \<and> (\<exists>nad. sriov_created name d nad n \<and> view s (KNad, ns, name) = None \<and>
       view t = (view s)((KNad, ns, name) \<mapsto> ONad nad)))
    (\<lambda>_ t. inv t \<and> view t = view s \<and> sriov_refused (view s) ns name (Some d))"
  using sriov_CreateNetwork_view [OF s, of "sriov_on cl ns sock" ns name "Some d"] a ty
  by (simp add: composite_CreateNetwork_def NewManager_def sriov_manager_def deref_def)

lemma composite_get_sriov:
  assumes t: "inv t" and m: "ko_client ko = cl" and v: "view t (KNad, ns, name) = Some (ONad nad)"
    and n: "sriov_created name d nad n"
  shows "meets (composite_GetNetwork (network_stack isUUID ko (sriov_on cl ns sock)) [GetNetworkByUid (vn_resourceId n)]) t
    (\<lambda>r u. r = n \<and> inv u \<and> view u = view t) (\<lambda>_ _. False)"
proof -
  have uid: "vn_resourceId n = Some (m_uid (nad_meta nad))" "m_uid (nad_meta nad) \<noteq> []"
    using n by (auto simp: sriov_created_def nadTo_Inr_iff)
  have get: "meets (sriov_GetNetwork (sriov_on cl ns sock) [GetNetworkByUid (vn_resourceId n)]) u
      (\<lambda>r w. r = n \<and> inv w \<and> view w = view t) (\<lambda>_ _. False)" if "inv u" "view u = view t" for u
    using sriov_GetNetwork_view(1) [OF that(1), of "sriov_on cl ns sock" ns name nad d n] v n that(2) by simp
  have "meets (GetNetwork ko [GetNetworkByUid (vn_resourceId n)]) t (\<lambda>_ _. False)
      (\<lambda>e u. errors_As is_ErrNotFound e \<and> inv u \<and> view u = view t)"
    unfolding uid(1) by (rule kubeovn_absent [OF t m uid(2) no_uid_other [OF t v]]) simp_all
  then show ?thesis
    unfolding composite_GetNetwork_def NewManager_def kubeovn_manager_def sriov_manager_def isNotFound_def
    by simp (rule meets_handle, erule meets_weaken, simp,
      auto intro!: meets_handle meets_weaken [OF get] meets_ret)
qed

lemma composite_delete_sriov:
  assumes t: "inv t" and m: "ko_client ko = cl" and v: "view t = V((KNad, ns, name) \<mapsto> ONad nad)"
    and V: "V (KNad, ns, name) = None" and n: "sriov_created name d nad n"
  shows "meets (composite_DeleteNetwork (network_stack isUUID ko (sriov_on cl ns sock)) [GetNetworkByUid (vn_resourceId n)]) t
    (\<lambda>_ u. inv u \<and> view u = V) (\<lambda>_ _. False)"
proof -
  have v': "view t (KNad, ns, name) = Some (ONad nad)" using v by simp
  have uid: "vn_resourceId n = Some (m_uid (nad_meta nad))" "m_uid (nad_meta nad) \<noteq> []"
    and name: "vn_resourceName n = Some name"
    using n by (auto simp: sriov_created_def nadTo_Inr_iff)
  have over: "meets (DeleteNetwork ko [GetNetworkByUid (vn_resourceId n)]) t (\<lambda>_ _. False)
      (\<lambda>e u. errors_As is_ErrNotFound e \<and> inv u \<and> view u = view t)"
    unfolding DeleteNetwork_def uid(1)
    by (rule meets_and_then, rule meets_wrap, rule meets_weaken [OF kubeovn_absent [OF t m uid(2) no_uid_other [OF t v']]]) auto
  have "meets (sriov_DeleteNetwork (sriov_on cl ns sock) [GetNetworkByUid (vn_resourceId n)]) u
      (\<lambda>_ w. inv w \<and> view w = V) (\<lambda>_ _. False)" if u: "inv u" "view u = view t" for u
    unfolding sriov_DeleteNetwork_def
    by (rule meets_and_then, rule meets_wrap,
        rule meets_weaken [OF sriov_GetNetwork_view(1) [OF u(1), of "sriov_on cl ns sock" ns name nad d n]])
      (auto simp: u v' n name deref_def v V intro!: meets_wrap meets_delete)
  note sriov = this
  show ?thesis
    unfolding composite_DeleteNetwork_def NewManager_def kubeovn_manager_def sriov_manager_def isNotFound_def
    using over by simp (rule meets_handle, erule meets_weaken, simp,
      auto intro!: meets_handle meets_weaken [OF sriov] meets_ret)
qed

end

subsection \<open>Properties\<close>

text \<open>The contract of the network interface holds of the composite over the two concrete managers,
  for every client: a network lookup never panics and returns a network with id, name, a known type and
  (for SR-IOV) the attachment name in its metadata, which the IPAM resolver and the compute manager
  read without a check; a subnet it returns has an id, metadata, CIDR and gateway.\<close>

theorem network_stack_contract:
  "(case composite_GetNetwork (network_stack isUUID ko (sriov_on cl ns sock)) opts s of
      (Ok n, t) \<Rightarrow> complete_network n | (Err e, t) \<Rightarrow> True | (Panic, t) \<Rightarrow> False)
   \<and> (case composite_GetSubnet (network_stack isUUID ko (sriov_on cl ns sock)) [GetSubnetByUid i] s of
      (Ok n, t) \<Rightarrow> complete_subnet n | (Err e, t) \<Rightarrow> True | (Panic, t) \<Rightarrow> False)"
proof -
  let ?cm = "network_stack isUUID ko (sriov_on cl ns sock)"
  have "meets (composite_GetSubnet ?cm [GetSubnetByUid i]) s (\<lambda>n _. complete_subnet n) (\<lambda>_ _. True)"
    using stack.both.meets_get_subnet_by_uid [of "\<lambda>n _. complete_subnet n" "\<lambda>_ _. True"]
    by (simp add: composite_manager_def)
  then show ?thesis
    using stack.get_network_composite [of isUUID ko cl ns sock opts s] by (simp add: meets_def)
qed

text \<open>C11. An SR-IOV network behind the composite, on a server without faults: the network that
  \<open>CreateNetwork\<close> returns has the requested VLAN (every 64-bit value survives the JSON of the plugin
  configuration) and the device-plugin resource name, with the default prefix added only when the
  request has none; \<open>GetNetwork\<close> by its id returns the same network and changes nothing; \<open>DeleteNetwork\<close> by
  its id restores the objects of before. The kube-ovn manager is asked first each time and its answer
  is always not-found.\<close>

theorem sriov_network_lifecycle:
  assumes "api_server cl view I" and "I s" and "ko_client ko = cl" and "ascii name" and "ascii sock"
    and "nd_networkType d = Some NET_SRIOV"
    and "composite_CreateNetwork (network_stack isUUID ko (sriov_on cl ns sock)) name (Some d) s = (Ok n, t)"
  shows "vn_segmentationId n = Some (case nd_segmentationId d of None \<Rightarrow> 0 | Some v \<Rightarrow> v) \<and>
    vn_providerNetwork n = Some (if CHR ''/'' \<in> set (str_or_empty (nd_providerNetwork d))
       then str_or_empty (nd_providerNetwork d) else ''openshift.io/'' @ str_or_empty (nd_providerNetwork d)) \<and>
    (\<exists>u. composite_GetNetwork (network_stack isUUID ko (sriov_on cl ns sock)) [GetNetworkByUid (vn_resourceId n)] t =
       (Ok n, u) \<and> view u = view t) \<and>
    (\<exists>u. composite_DeleteNetwork (network_stack isUUID ko (sriov_on cl ns sock)) [GetNetworkByUid (vn_resourceId n)] t =
       (Ok (), u) \<and> view u = view s)"
proof -
  note api = assms(1)
  obtain nad where t: "I t" "view t = (view s)((KNad, ns, name) \<mapsto> ONad nad)" "view s (KNad, ns, name) = None"
    and n: "sriov_created name d nad n"
    using meets_Ok [OF api_server.composite_create_sriov [OF api assms(2,4,5,6)] assms(7)] by blast
  have get: "meets (composite_GetNetwork (network_stack isUUID ko (sriov_on cl ns sock))
      [GetNetworkByUid (vn_resourceId n)]) t (\<lambda>r u. r = n \<and> I u \<and> view u = view t) (\<lambda>_ _. False)"
    using api_server.composite_get_sriov [OF api t(1) assms(3) _ n] t(2) by simp
  note del = api_server.composite_delete_sriov [OF api t(1) assms(3) t(2,3) n]
  show ?thesis
    using n get del [of isUUID sock] by (auto simp: sriov_created_def meets_def split: prod.splits result.splits)
qed

definition sriov_example :: virtual_network_data where
  "sriov_example = \<lparr>nd_networkType = Some NET_SRIOV, nd_providerNetwork = Some ''mlx'',
     nd_segmentationId = Some 100, nd_layer3Attributes = []\<rparr>"

abbreviation mem_stack :: "mem composite" where
  "mem_stack \<equiv> network_stack (\<lambda>_. True) mem_kubeovn (sriov_on mem_client ''kube-nfv'' [])"

lemma sriov_example_run:
  obtains n t where "composite_CreateNetwork mem_stack ''v'' (Some sriov_example) mem_empty = (Ok n, t)"
proof -
  have a: "ascii ''v''" "ascii []" by (simp_all add: byte_of_def)
  have ty: "nd_networkType sriov_example = Some NET_SRIOV" by (simp add: sriov_example_def)
  have "\<not> sriov_refused (mem_view mem_empty) ''kube-nfv'' ''v'' (Some sriov_example)"
    by (simp add: sriov_refused_def sriov_example_def GetNetworkType_def has_value_def)
  then show thesis
    using mem.composite_create_sriov [OF mem_inv_empty a ty, of "\<lambda>_. True" mem_kubeovn "''kube-nfv''"] that
    by (auto simp: meets_def split: prod.splits result.splits)
qed

theorem sriov_network_lifecycle_witness:
  "\<exists>n t u. composite_CreateNetwork mem_stack ''v'' (Some sriov_example) mem_empty = (Ok n, t) \<and>
     vn_segmentationId n = Some 100 \<and> vn_providerNetwork n = Some ''openshift.io/mlx'' \<and>
     composite_DeleteNetwork mem_stack [GetNetworkByUid (vn_resourceId n)] t = (Ok (), u) \<and>
     mem_view u = mem_view mem_empty"
proof -
  have a: "ascii ''v''" "ascii []" by (simp_all add: byte_of_def)
  have ty: "nd_networkType sriov_example = Some NET_SRIOV" by (simp add: sriov_example_def)
  obtain n t where run: "composite_CreateNetwork mem_stack ''v'' (Some sriov_example) mem_empty = (Ok n, t)"
    by (rule sriov_example_run)
  show ?thesis
    using sriov_network_lifecycle [OF mem.api_server_axioms mem_inv_empty mem_kubeovn_sel(1) a ty run] run
    by (auto simp: sriov_example_def str_or_empty_def)
qed

theorem composite_CreateSubnet_routes_witness:
  "\<exists>n t u. composite_CreateNetwork mem_stack ''v'' (Some sriov_example) mem_empty = (Ok n, t) \<and>
     composite_CreateSubnet mem_stack ''a'' (Some (subnet_example\<lparr>sd_networkId := vn_resourceId n\<rparr>)) t =
       (Err (Wrap ''SR-IOV networks do not support subnets'' ErrUnsupported), u)"
proof -
  have a: "ascii ''v''" "ascii []" by (simp_all add: byte_of_def)
  have ty: "nd_networkType sriov_example = Some NET_SRIOV" by (simp add: sriov_example_def)
  obtain n t where run: "composite_CreateNetwork mem_stack ''v'' (Some sriov_example) mem_empty = (Ok n, t)"
    by (rule sriov_example_run)
  obtain nad where t: "mem_inv t" "mem_view t (KNad, ''kube-nfv'', ''v'') = Some (ONad nad)"
    and n: "sriov_created ''v'' sriov_example nad n"
    using meets_Ok [OF mem.composite_create_sriov [OF mem_inv_empty a ty] run] by auto
  obtain i where i: "vn_resourceId n = Some i" "vn_networkType n = NET_SRIOV"
    using n by (auto simp: sriov_created_def nadTo_Inr_iff)
  obtain u where "composite_GetNetwork mem_stack [GetNetworkByUid (Some i)] t = (Ok n, u)"
    using mem.composite_get_sriov [OF t(1) mem_kubeovn_sel(1) t(2) n, of "\<lambda>_. True" "[]"] i(1)
    by (auto simp: meets_def split: prod.splits result.splits)
  then show ?thesis
    using composite_CreateSubnet_routes [of "subnet_example\<lparr>sd_networkId := vn_resourceId n\<rparr>" i
        "kubeovn_manager (\<lambda>_. True) mem_kubeovn" "sriov_manager (sriov_on mem_client ''kube-nfv'' [])" "''a''" t] run i
    by (auto simp: sriov_manager_def no_subnets_def act_simps)
qed

end
