(* ===== verification/Ipam.thy ===== *)
theory Ipam
  imports Network_Stack
begin

text \<open>
  The IPAM resolver of the compute manager (\<open>internal/kubevim/compute/kubevirt/ipam.go\<close>): it turns the
  interface data and the IPAM entries of an allocation request into the KubeVirt networks, interfaces
  and kube-ovn annotations of a VM. It is a client of the network interface: its lemmas are proved once
  in the locale \<open>network_backend\<close> and reach the composite manager through the interpretation \<open>stack\<close>.

  The request's IPAM entries are pointers that \<open>networkIpam\<close> updates in place, so the list is threaded
  through; an entry it appends is lost to the caller, whose slice keeps its length. The elements of the
  repeated fields of a decoded request are never nil. \<open>uuid.NewRandom\<close> and \<open>uuid.Parse\<close> are parameters.
\<close>

subsection \<open>Messages\<close>

record interface_data =
  id_networkId :: "string option"
  id_subnetId :: "string option"
  id_metadata :: "labels option"

record ipam =
  ip_networkId :: "string option"
  ip_subnetId :: "string option"
  ip_ipAddress :: "string option"
  ip_macAddress :: "string option"

definition KubevirtVmMgmtNetworkName :: string where "KubevirtVmMgmtNetworkName = ''default''"

definition KubenfvVmNetworkSubnetAssignmentAnnotation :: string where
  "KubenfvVmNetworkSubnetAssignmentAnnotation = ''compute.kubevim.kubenfv.io/network.subnet.assignment''"

record 's ipamResolver =
  ir_netManager :: "'s network_manager"
  ir_namespace :: string

definition newIpamResolver :: "'s network_manager \<Rightarrow> string \<Rightarrow> 's ipamResolver" where
  "newIpamResolver netManager namespace = \<lparr>ir_netManager = netManager, ir_namespace = namespace\<rparr>"

subsection \<open>\<open>subnetIpam\<close> and \<open>networkIpam\<close>\<close>

fun find_subnet_ipam :: "string option \<Rightarrow> ipam list \<Rightarrow> ('s, error, ipam option) act" where
  "find_subnet_ipam subnetId [] = ret None"
| "find_subnet_ipam subnetId (ipam # ipams) = (case ip_subnetId ipam of
      None \<Rightarrow> find_subnet_ipam subnetId ipams
    | Some v \<Rightarrow> and_then (deref subnetId) (\<lambda>w.
        if v = w then ret (Some ipam) else find_subnet_ipam subnetId ipams))"

definition subnetIpam :: "'s ipamResolver \<Rightarrow> string option \<Rightarrow> ipam list \<Rightarrow> ('s, error, ipam) act" where
  "subnetIpam r subnetId netIPAMs =
     and_then (find_subnet_ipam subnetId netIPAMs) (\<lambda>found. (case found of
        None \<Rightarrow> ret \<lparr>ip_networkId = None, ip_subnetId = subnetId, ip_ipAddress = None, ip_macAddress = None\<rparr>
      | Some netIpam \<Rightarrow>
          if ip_ipAddress netIpam = None then ret netIpam
          else and_then (wrap ''get subnet'' (nm_GetSubnet (ir_netManager r) [GetSubnetByUid subnetId])) (\<lambda>sub.
            if ns_cidr sub = None then
              and_then (deref (ns_resourceId sub)) (\<lambda>i.
                throw (ErrInvalidArgument ''subnet CIDR'' (''cannot be nil for subnet '' @ quoted i)))
            else if \<not> IpBelongsToCidr (ip_ipAddress netIpam) (ns_cidr sub)
              then throw (Plain ''IP address not in subnet CIDR'')
            else ret netIpam)))"

text \<open>The write through the pointer to the first entry of the network.\<close>

fun set_subnet :: "string \<Rightarrow> string option \<Rightarrow> ipam list \<Rightarrow> ipam list" where
  "set_subnet networkId subnetId [] = []"
| "set_subnet networkId subnetId (ipam # ipams) =
     (if ip_networkId ipam = Some networkId then ipam\<lparr>ip_subnetId := subnetId\<rparr> # ipams
      else ipam # set_subnet networkId subnetId ipams)"

definition with_ipams :: "ipam list \<Rightarrow> ('s, error, ipam) act \<Rightarrow> ('s, error, ipam \<times> ipam list) act" where
  "with_ipams ipams m = and_then m (\<lambda>x. ret (x, ipams))"

definition first_subnet_ipam ::
  "'s ipamResolver \<Rightarrow> string \<Rightarrow> ipam list \<Rightarrow> bool \<Rightarrow> ('s, error, ipam \<times> ipam list) act" where
  "first_subnet_ipam r networkId netIPAMs known =
     and_then (wrap ''get network'' (nm_GetNetwork (ir_netManager r) [GetNetworkByUid (Some networkId)])) (\<lambda>net.
     (case vn_subnetId net of
        [] \<Rightarrow> throw (ErrInvalidArgument ''network subnets'' (''network '' @ quoted networkId @ '' has no subnets''))
      | fstSubId # _ \<Rightarrow>
          if known then
            (let ipams = set_subnet networkId fstSubId netIPAMs in with_ipams ipams (subnetIpam r fstSubId ipams))
          else with_ipams netIPAMs (subnetIpam r fstSubId (netIPAMs @
            [\<lparr>ip_networkId = Some networkId, ip_subnetId = fstSubId, ip_ipAddress = None, ip_macAddress = None\<rparr>]))))"

definition networkIpam ::
  "'s ipamResolver \<Rightarrow> string \<Rightarrow> ipam list \<Rightarrow> bool \<Rightarrow> ('s, error, ipam \<times> ipam list) act" where
  "networkIpam r networkId netIPAMs returnIfNoIpam =
     (let netIpam = find (\<lambda>ipam. ip_networkId ipam = Some networkId) netIPAMs in
      if netIpam \<noteq> None \<and> ip_subnetId (the netIpam) \<noteq> None then
        with_ipams netIPAMs (subnetIpam r (ip_subnetId (the netIpam)) netIPAMs)
      else if netIpam \<noteq> None \<and> ip_ipAddress (the netIpam) \<noteq> None then
        and_then (wrap ''get subnet with networkId and IP'' (nm_GetSubnet (ir_netManager r)
          [GetSubnetByNetworkIP (Some networkId) (ip_ipAddress (the netIpam))])) (\<lambda>sub.
        and_then (deref (ip_subnetId (the netIpam))) (\<lambda>_.
        and_then (deref (ns_resourceId sub)) (\<lambda>i.
        (let ipams = set_subnet networkId (Some i) netIPAMs in
         with_ipams ipams (subnetIpam r (ns_resourceId sub) ipams)))))
      else if returnIfNoIpam then throw ErrIPAMConfigurationMissing
      else first_subnet_ipam r networkId netIPAMs (netIpam \<noteq> None))"

subsection \<open>\<open>initSriovNetwork\<close> and \<open>initNetwork\<close>\<close>

definition sriov_mac :: "virtual_network \<Rightarrow> ipam list \<Rightarrow> string" where
  "sriov_mac netInst networkIpams =
     (case find (\<lambda>ipam. ip_networkId ipam \<noteq> None \<and> vn_resourceId netInst \<noteq> None \<and>
         ip_networkId ipam = vn_resourceId netInst) networkIpams of
        None \<Rightarrow> []
      | Some ipam \<Rightarrow> str_or_empty (ip_macAddress ipam))"

definition initSriovNetwork ::
  "virtual_network \<Rightarrow> ipam list \<Rightarrow> error + (kv_network \<times> kv_interface \<times> labels)" where
  "initSriovNetwork netInst networkIpams = (case vn_metadata netInst of
      None \<Rightarrow> Inl (Wrap ''SR-IOV network has no metadata'' ErrUnsupported)
    | Some flds \<Rightarrow> (case flds K8sNetworkNetAttachNameLabel of
        None \<Rightarrow> Inl (Wrap ''SR-IOV network missing label'' ErrUnsupported)
      | Some nadName \<Rightarrow>
          Inr (\<lparr>kn_name = nadName, kn_pod = False, kn_multus = Some \<lparr>mn_networkName = nadName, mn_default = False\<rparr>\<rparr>,
               \<lparr>if_name = nadName, if_macAddress = sriov_mac netInst networkIpams, if_bridge = False,
                if_masquerade = False, if_sriov = True\<rparr>,
               Map.empty)))"

definition ovn_key :: "string \<Rightarrow> string \<Rightarrow> string \<Rightarrow> string" where
  "ovn_key netAttachName namespace attr = netAttachName @ ''.'' @ namespace @ ''.ovn.kubernetes.io/'' @ attr"

definition ovn_annotations :: "string \<Rightarrow> string \<Rightarrow> string \<Rightarrow> ipam \<Rightarrow> labels" where
  "ovn_annotations netAttachName namespace subnetName ipam =
     (let ann = (if has_value (ip_ipAddress ipam)
            then [ovn_key netAttachName namespace ''ip_address'' \<mapsto> str_or_empty (ip_ipAddress ipam)] else Map.empty);
          ann = (if has_value (ip_macAddress ipam)
            then ann(ovn_key netAttachName namespace ''mac_address'' \<mapsto> str_or_empty (ip_macAddress ipam)) else ann)
      in ann(ovn_key netAttachName namespace ''logical_switch'' \<mapsto> subnetName))"

definition initNetwork ::
  "(string \<Rightarrow> bool) \<Rightarrow> ('s, error, string) act \<Rightarrow> 's ipamResolver \<Rightarrow> ipam option \<Rightarrow>
   ('s, error, kv_network \<times> kv_interface \<times> labels) act" where
  "initNetwork isUUID newRandom r ipamRef =
     and_then (deref ipamRef) (\<lambda>ipam.
     if \<not> has_value (ip_subnetId ipam) then
       throw (ErrInvalidArgument ''network IPAM'' ''must have a subnetId reference'')
     else
       and_then (wrap ''get subnet'' (nm_GetSubnet (ir_netManager r)
         (if isUUID (str_or_empty (ip_subnetId ipam)) then [GetSubnetByUid (ip_subnetId ipam)]
          else [GetSubnetByName (str_or_empty (ip_subnetId ipam))]))) (\<lambda>subnet.
       and_then (deref (ns_metadata subnet)) (\<lambda>flds.
       (case flds K8sSubnetNetAttachNameLabel of
          None \<Rightarrow> throw (Wrap ''network subnet missing label to identify subnet name'' ErrUnsupported)
        | Some netAttachName \<Rightarrow> (case flds K8sSubnetNameLabel of
            None \<Rightarrow> throw (Wrap ''network subnet missing label to identify subnet name'' ErrUnsupported)
          | Some subnetName \<Rightarrow>
              and_then (wrap ''generate UUID for interface in subnet'' newRandom) (\<lambda>ifaceUid.
              (let ifaceName = subnetName @ ''-'' @ ifaceUid in
               ret (\<lparr>kn_name = ifaceName, kn_pod = False,
                      kn_multus = Some \<lparr>mn_networkName = netAttachName, mn_default = False\<rparr>\<rparr>,
                    \<lparr>if_name = ifaceName, if_macAddress = [], if_bridge = True, if_masquerade = False, if_sriov = False\<rparr>,
                    ovn_annotations netAttachName (ir_namespace r) subnetName ipam))))))))"

subsection \<open>\<open>resolveInterfaces\<close>\<close>

text \<open>The check that a subnet belongs to the network the request names beside it.\<close>

definition check_parent :: "interface_data \<Rightarrow> network_subnet \<Rightarrow> ('s, error, unit) act" where
  "check_parent netData subInst =
     (if has_value (id_networkId netData) then
        (case ns_networkId subInst of
           None \<Rightarrow> throw (Plain ''subnet has no networkId but it is specified in the request'')
         | Some v \<Rightarrow> if Some v \<noteq> id_networkId netData
             then throw (Plain ''subnet references a different network than specified in the request'') else ret ())
      else ret ())"

definition resolve_by_subnet ::
  "(string \<Rightarrow> bool) \<Rightarrow> ('s, error, string) act \<Rightarrow> 's ipamResolver \<Rightarrow> interface_data \<Rightarrow> ipam list \<Rightarrow>
   ('s, error, (kv_network \<times> kv_interface \<times> labels) \<times> ipam list) act" where
  "resolve_by_subnet isUUID newRandom r netData ipams =
     and_then (wrap ''get subnet referenced in VirtualNetworkInterfaceData''
       (nm_GetSubnet (ir_netManager r) [GetSubnetByUid (id_subnetId netData)])) (\<lambda>subInst.
     and_then (check_parent netData subInst) (\<lambda>_.
     and_then (wrap ''get IPAM for subnet'' (subnetIpam r (id_subnetId netData) ipams)) (\<lambda>ipam.
     and_then (wrap ''initialize kubevirt network and interface from IPAM for subnet''
       (initNetwork isUUID newRandom r (Some ipam))) (\<lambda>res. ret (res, ipams)))))"

text \<open>A network of neither type leaves the IPAM nil.\<close>

definition ipam_for_network ::
  "'s ipamResolver \<Rightarrow> interface_data \<Rightarrow> virtual_network \<Rightarrow> ipam list \<Rightarrow> ('s, error, ipam option \<times> ipam list) act" where
  "ipam_for_network r netData netInst ipams =
     (let networkId = str_or_empty (id_networkId netData);
          some = (\<lambda>m. and_then m (\<lambda>(x, ips). ret (Some x, ips))) in
      if vn_networkType netInst = NET_UNDERLAY then some (networkIpam r networkId ipams False)
      else if vn_networkType netInst = NET_OVERLAY then
        (let returnOnMiss = (case id_metadata netData of
             None \<Rightarrow> True
           | Some flds \<Rightarrow> flds KubenfvVmNetworkSubnetAssignmentAnnotation \<noteq> Some ''random'')
         in some (networkIpam r networkId ipams returnOnMiss))
      else ret (None, ipams))"

definition resolve_by_network ::
  "(string \<Rightarrow> bool) \<Rightarrow> ('s, error, string) act \<Rightarrow> 's ipamResolver \<Rightarrow> interface_data \<Rightarrow> ipam list \<Rightarrow>
   ('s, error, (kv_network \<times> kv_interface \<times> labels) \<times> ipam list) act" where
  "resolve_by_network isUUID newRandom r netData ipams =
     and_then (wrap ''get network referenced in VirtualNetworkInterfaceData''
       (nm_GetNetwork (ir_netManager r) [GetNetworkByUid (id_networkId netData)])) (\<lambda>netInst.
     if vn_networkType netInst = NET_SRIOV then
       and_then (wrap ''initialize SR-IOV interface for network'' (sum_act (initSriovNetwork netInst ipams))) (\<lambda>res.
       ret (res, ipams))
     else
       and_then (wrap ''get IPAM for network'' (ipam_for_network r netData netInst ipams)) (\<lambda>(ipam, ipams').
       and_then (wrap ''initialize kubevirt network and interface from IPAM for network''
         (initNetwork isUUID newRandom r ipam)) (\<lambda>res. ret (res, ipams'))))"

fun resolve_each ::
  "(string \<Rightarrow> bool) \<Rightarrow> ('s, error, string) act \<Rightarrow> 's ipamResolver \<Rightarrow> nat \<Rightarrow> interface_data list \<Rightarrow> ipam list \<Rightarrow>
   ('s, error, (kv_network \<times> kv_interface \<times> labels) list) act" where
  "resolve_each isUUID newRandom r netIdx [] ipams = ret []"
| "resolve_each isUUID newRandom r netIdx (netData # rest) ipams =
     and_then
       (if \<not> has_value (id_networkId netData) \<and> \<not> has_value (id_subnetId netData) then
          throw (ErrInvalidArgument (''VM interface index '' @ show_nat netIdx)
            ''either networkId or subnetId must be defined to identify the VirtualNetworkInterfaceData related network'')
        else if has_value (id_subnetId netData) then resolve_by_subnet isUUID newRandom r netData ipams
        else resolve_by_network isUUID newRandom r netData ipams) (\<lambda>(res, ipams').
     and_then (resolve_each isUUID newRandom r (Suc netIdx) rest ipams') (\<lambda>more. ret (res # more)))"

definition pod_network :: kv_network where
  "pod_network = \<lparr>kn_name = KubevirtVmMgmtNetworkName, kn_pod = True, kn_multus = None\<rparr>"

definition pod_interface :: kv_interface where
  "pod_interface = \<lparr>if_name = KubevirtVmMgmtNetworkName, if_macAddress = [], if_bridge = False,
     if_masquerade = True, if_sriov = False\<rparr>"

definition resolveInterfaces ::
  "(string \<Rightarrow> bool) \<Rightarrow> ('s, error, string) act \<Rightarrow> 's ipamResolver \<Rightarrow> interface_data list \<Rightarrow> ipam list \<Rightarrow>
   ('s, error, kv_network list \<times> kv_interface list \<times> labels) act" where
  "resolveInterfaces isUUID newRandom r networksData netIPAMs =
     and_then (resolve_each isUUID newRandom r 0 networksData netIPAMs) (\<lambda>res.
     ret (pod_network # map fst res, pod_interface # map (fst \<circ> snd) res,
          foldl (\<lambda>annotations x. annotations ++ snd (snd x)) Map.empty res))"

subsection \<open>What the resolver establishes\<close>

text \<open>A request whose static addresses all name their subnet.\<close>

definition static_named :: "ipam list \<Rightarrow> bool" where
  "static_named ipams \<longleftrightarrow> list_all (\<lambda>ipam. ip_ipAddress ipam \<noteq> None \<longrightarrow> ip_subnetId ipam \<noteq> None) ipams"

text \<open>A network and its interface: same name, attached by multus, bridged or SR-IOV.\<close>

definition port_wf :: "kv_network \<times> kv_interface \<times> labels \<Rightarrow> bool" where
  "port_wf p \<longleftrightarrow> kn_name (fst p) = if_name (fst (snd p)) \<and> \<not> kn_pod (fst p) \<and>
     (\<exists>a. kn_multus (fst p) = Some \<lparr>mn_networkName = a, mn_default = False\<rparr>) \<and>
     \<not> if_masquerade (fst (snd p)) \<and> (if_bridge (fst (snd p)) \<longleftrightarrow> \<not> if_sriov (fst (snd p)))"

definition total_source :: "('s, error, string) act \<Rightarrow> bool" where
  "total_source newRandom \<longleftrightarrow> (\<forall>s. meets newRandom s (\<lambda>_ _. True) (\<lambda>_ _. True))"

lemma total_source_ret [simp]: "total_source (ret u)"
  by (simp add: total_source_def meets_ret)

lemma find_subnet_ipam_eq:
  "find_subnet_ipam (Some v) ipams = ret (find (\<lambda>ipam. ip_subnetId ipam = Some v) ipams)"
  by (induction ipams) (auto simp: deref_def split: option.splits)

lemma static_named_set_subnet [simp]: "static_named ipams \<Longrightarrow> static_named (set_subnet n (Some v) ipams)"
  by (induction ipams) (auto simp: static_named_def)

lemma port_wf_sriov: "initSriovNetwork net ipams = Inr p \<Longrightarrow> port_wf p"
  by (auto simp: initSriovNetwork_def port_wf_def split: option.splits)

lemma check_parent_total: "(\<And>x t. Q x t) \<Longrightarrow> (\<And>e t. E e t) \<Longrightarrow> meets (check_parent netData sub) s Q E"
  unfolding check_parent_def by (intro meets_if meets_case_option meets_ret meets_throw)

text \<open>The resolver keeps every property of the state that the network lookups and the source of UUIDs keep.\<close>

lemma preserves_find_subnet_ipam: "preserves P (find_subnet_ipam subnetId ipams)"
  by (induction ipams) (auto intro!: preserves_intros split: option.splits)

lemma preserves_resolve_each:
  assumes reads: "\<And>opts. preserves P (nm_GetNetwork (ir_netManager r) opts)" "\<And>opts. preserves P (nm_GetSubnet (ir_netManager r) opts)"
    and uuid: "preserves P newRandom"
  shows "preserves P (resolve_each isUUID newRandom r k data ipams)"
proof (induction data arbitrary: k ipams)
  case Nil
  show ?case by (simp add: preserves_simple)
next
  case (Cons netData rest)
  have sub: "preserves P (subnetIpam r i ips)" for i ips
    unfolding subnetIpam_def by (intro preserves_intros preserves_find_subnet_ipam reads)
  have net: "preserves P (networkIpam r i ips b)" for i ips b
    unfolding networkIpam_def first_subnet_ipam_def with_ipams_def Let_def
    by (auto intro!: preserves_intros sub reads split: list.splits)
  have init: "preserves P (initNetwork isUUID newRandom r ip)" for ip
    unfolding initNetwork_def Let_def by (intro preserves_intros reads uuid)
  have one: "preserves P (resolve_by_subnet isUUID newRandom r netData ips)"
    "preserves P (resolve_by_network isUUID newRandom r netData ips)" for ips
    unfolding resolve_by_subnet_def resolve_by_network_def ipam_for_network_def check_parent_def Let_def
    by (auto intro!: preserves_intros sub net init reads split: prod.splits)
  show ?case
    by (auto intro!: preserves_intros one Cons.IH split: prod.splits)
qed

lemma preserves_resolveInterfaces:
  assumes "\<And>opts. preserves P (nm_GetNetwork (ir_netManager r) opts)" "\<And>opts. preserves P (nm_GetSubnet (ir_netManager r) opts)"
    and "preserves P newRandom"
  shows "preserves P (resolveInterfaces isUUID newRandom r data ipams)"
  unfolding resolveInterfaces_def by (intro preserves_intros preserves_resolve_each assms)

context network_backend
begin

lemma meets_get_subnet_by_name:
  assumes "\<And>sub t. complete_subnet sub \<Longrightarrow> Q sub t" and "\<And>e t. E e t"
  shows "meets (nm_GetSubnet nm [GetSubnetByName n]) s Q E"
  using assms by (intro meetsI) (auto dest: get_subnet_ok simp: get_subnet_by_name)

lemma meets_subnetIpam:
  assumes r: "ir_netManager r = nm" and ok: "\<And>x t. ip_subnetId x = Some v \<Longrightarrow> Q x t" and "\<And>e t. E e t"
  shows "meets (subnetIpam r (Some v) ipams) s Q E"
  unfolding subnetIpam_def find_subnet_ipam_eq and_then_ret r
  by (intro meets_case_option meets_ret meets_if meets_and_then meets_wrap meets_get_subnet_by_uid meets_throw)
    (auto dest!: find_SomeD intro!: ok assms(3) meets_deref meets_throw simp: complete_subnet_def)

lemma meets_networkIpam:
  assumes r: "ir_netManager r = nm" and st: "static_named ipams"
    and ok: "\<And>x ips t. ip_subnetId x \<noteq> None \<Longrightarrow> static_named ips \<Longrightarrow> Q (x, ips) t" and err: "\<And>e t. E e t"
  shows "meets (networkIpam r i ipams b) s Q E"
proof -
  have first: "meets (first_subnet_ipam r i ipams known) s Q E" for known
    unfolding first_subnet_ipam_def with_ipams_def r Let_def
  proof (intro meets_and_then meets_wrap meets_get_network)
    fix n t assume n: "complete_network n"
    show "meets (case vn_subnetId n of
        [] \<Rightarrow> throw (ErrInvalidArgument ''network subnets'' (''network '' @ quoted i @ '' has no subnets''))
      | fstSubId # _ \<Rightarrow>
          if known then and_then (subnetIpam r fstSubId (set_subnet i fstSubId ipams)) (\<lambda>x. ret (x, set_subnet i fstSubId ipams))
          else and_then (subnetIpam r fstSubId (ipams @
            [\<lparr>ip_networkId = Some i, ip_subnetId = fstSubId, ip_ipAddress = None, ip_macAddress = None\<rparr>])) (\<lambda>x. ret (x, ipams))) t Q E"
      using n st by (auto simp: complete_network_def split: list.splits
          intro!: meets_throw err meets_if meets_and_then meets_subnetIpam [OF r] meets_ret ok)
  qed (rule err)
  have mem: "find (\<lambda>ipam. ip_networkId ipam = Some i) ipams = Some x \<Longrightarrow> ip_ipAddress x = Some a \<Longrightarrow> ip_subnetId x \<noteq> None" for x a
    using st by (auto dest!: find_SomeD simp: static_named_def list_all_iff)
  show ?thesis
    unfolding networkIpam_def Let_def with_ipams_def
    by (intro meets_if first) (use st in \<open>auto dest: mem intro!: meets_and_then meets_subnetIpam [OF r] meets_ret meets_throw ok err\<close>)
qed

lemma meets_initNetwork:
  assumes r: "ir_netManager r = nm" and uuid: "total_source newRandom"
    and ok: "\<And>p t. port_wf p \<Longrightarrow> Q p t" and err: "\<And>e t. E e t"
  shows "meets (initNetwork isUUID newRandom r (Some x)) s Q E"
proof -
  have new: "meets newRandom t Q' E'" if "\<And>u w. Q' u w" "\<And>e w. E' e w" for t Q' E'
    using uuid that by (auto simp: total_source_def intro: meets_weaken)
  have get: "meets (nm_GetSubnet nm (if c then [GetSubnetByUid j] else [GetSubnetByName k])) t Q' E'"
    if "\<And>sub t. complete_subnet sub \<Longrightarrow> Q' sub t" "\<And>e t. E' e t" for c j k t Q' E'
    using that by (auto intro: meets_get_subnet_by_uid meets_get_subnet_by_name)
  show ?thesis
    unfolding initNetwork_def r Let_def
    by (intro meets_and_then meets_deref [OF refl] meets_if meets_throw err meets_wrap get)
      (auto simp: complete_subnet_def port_wf_def
        intro!: meets_and_then meets_deref meets_case_option meets_throw meets_wrap new meets_ret err ok)
qed

lemma meets_resolve_each:
  assumes r: "ir_netManager r = nm" and uuid: "total_source newRandom" and "static_named ipams"
  shows "meets (resolve_each isUUID newRandom r k data ipams) s
    (\<lambda>res _. length res = length data \<and> list_all port_wf res) (\<lambda>_ _. True)"
  using assms(3)
proof (induction data arbitrary: k ipams s)
  case Nil
  then show ?case by (simp add: meets_ret)
next
  case (Cons netData rest)
  let ?Q = "\<lambda>p _. port_wf (fst p) \<and> static_named (snd p)"
  have sub: "meets (resolve_by_subnet isUUID newRandom r netData ipams) s ?Q (\<lambda>_ _. True)"
    if "has_value (id_subnetId netData)"
    unfolding resolve_by_subnet_def r
    using that Cons.prems
    by (auto simp: has_value_iff intro!: meets_and_then meets_wrap meets_get_subnet_by_uid check_parent_total
        meets_subnetIpam [OF r] meets_initNetwork [OF r uuid] meets_ret)
  have net: "meets (resolve_by_network isUUID newRandom r netData ipams) s ?Q (\<lambda>_ _. True)"
    unfolding resolve_by_network_def ipam_for_network_def r Let_def
    using Cons.prems
    by (auto simp: complete_network_def port_wf_sriov intro!: meets_and_then meets_wrap meets_get_network meets_if
        meets_sum_act meets_networkIpam [OF r] meets_initNetwork [OF r uuid] meets_ret)
  have step: "meets (case p of (res, ipams') \<Rightarrow> and_then (resolve_each isUUID newRandom r (Suc k) rest ipams')
      (\<lambda>more. ret (res # more))) t (\<lambda>res _. length res = length (netData # rest) \<and> list_all port_wf res) (\<lambda>_ _. True)"
    if "?Q p t" for p t
    using that by (cases p) (auto intro!: meets_and_then meets_weaken [OF Cons.IH] meets_ret)
  show ?case
    unfolding resolve_each.simps
    by (intro meets_and_then meets_if meets_throw meets_weaken [OF sub] meets_weaken [OF net] step) auto
qed

lemma meets_resolveInterfaces:
  assumes r: "ir_netManager r = nm" and uuid: "total_source newRandom" and "static_named ipams"
  shows "meets (resolveInterfaces isUUID newRandom r data ipams) s
    (\<lambda>(nets, ifs, ann) _. length nets = Suc (length data) \<and> map kn_name nets = map if_name ifs \<and>
       hd nets = pod_network \<and> hd ifs = pod_interface \<and>
       list_all (\<lambda>(n, i). port_wf (n, i, Map.empty)) (zip (tl nets) (tl ifs))) (\<lambda>_ _. True)"
  unfolding resolveInterfaces_def
  by (rule meets_and_then, rule meets_weaken [OF meets_resolve_each [OF assms]])
    (auto intro!: meets_ret simp: list_all_iff port_wf_def pod_network_def pod_interface_def zip_map_map set_zip)

end

subsection \<open>Properties\<close>

abbreviation stack_resolver :: "(string \<Rightarrow> bool) \<Rightarrow> 's kubeovn \<Rightarrow> 's client \<Rightarrow> string \<Rightarrow> string \<Rightarrow> 's ipamResolver" where
  "stack_resolver isUUID ko cl ns sock \<equiv>
     newIpamResolver (composite_manager (network_stack isUUID ko (sriov_on cl ns sock))) ns"

text \<open>C13. The resolver on the composite network manager, for every client: when each static address of the
  request names its subnet, \<open>resolveInterfaces\<close> never panics, and a result has one network and one
  interface per requested interface after the management one, in the same order and with pairwise equal
  names; the first pair is the pod network with masquerade, every other is attached through multus and is
  either bridged or SR-IOV. KubeVirt joins networks and interfaces by name, so this is what makes the VM
  valid.\<close>

theorem resolveInterfaces_wellformed:
  assumes "total_source newRandom" and "static_named ipams"
  shows "case resolveInterfaces isUUID newRandom (stack_resolver isUUID ko cl ns sock) data ipams s of
      (Ok (nets, ifs, ann), t) \<Rightarrow> length nets = Suc (length data) \<and> map kn_name nets = map if_name ifs \<and>
         hd nets = pod_network \<and> hd ifs = pod_interface \<and>
         list_all (\<lambda>(n, i). port_wf (n, i, Map.empty)) (zip (tl nets) (tl ifs))
    | (Err e, t) \<Rightarrow> True
    | (Panic, t) \<Rightarrow> False"
  using stack.both.meets_resolveInterfaces [of "stack_resolver isUUID ko cl ns sock" isUUID ko cl ns sock newRandom
      ipams isUUID data s] assms
  by (auto simp: meets_def newIpamResolver_def split: prod.splits result.splits)

definition static_ipam :: ipam where
  "static_ipam = \<lparr>ip_networkId = None, ip_subnetId = Some ''a'', ip_ipAddress = Some (show_ipv4 (10, 1, 0, 5)), ip_macAddress = None\<rparr>"

definition nic_example :: interface_data where
  "nic_example = \<lparr>id_networkId = None, id_subnetId = Some ''a'', id_metadata = None\<rparr>"

theorem resolveInterfaces_wellformed_witness:
  "total_source (ret ''u'' :: (mem, error, string) act) \<and> static_named [static_ipam] \<and>
   (case resolveInterfaces (\<lambda>_. True) (ret ''u'') (stack_resolver (\<lambda>_. True) mem_kubeovn mem_client ''kube-nfv'' [])
        [nic_example] [static_ipam] mem_empty of
      (Ok (nets, ifs, ann), t) \<Rightarrow> length nets = 2 \<and> map kn_name nets = map if_name ifs
    | (Err e, t) \<Rightarrow> True
    | (Panic, t) \<Rightarrow> False)"
proof -
  have h: "total_source (ret ''u'' :: (mem, error, string) act)" "static_named [static_ipam]"
    by (simp_all add: static_named_def static_ipam_def)
  from resolveInterfaces_wellformed [OF h, where isUUID = "\<lambda>_. True" and ko = mem_kubeovn and cl = mem_client
      and ns = "''kube-nfv''" and sock = "[]" and data = "[nic_example]" and s = mem_empty] h
  show ?thesis by (auto split: prod.splits result.splits)
qed

text \<open>C14. A static address is only accepted inside its subnet: whenever \<open>subnetIpam\<close> returns an entry with an
  address, that entry is the first one of the request for this subnet, and the network manager returned,
  for this subnet id, a subnet whose CIDR contains the address. An entry without an address, or the
  default one, asks for a dynamic address.\<close>

theorem subnetIpam_static_in_cidr:
  assumes "subnetIpam r (Some v) ipams s = (Ok x, t)" and "ip_ipAddress x = Some ip"
  shows "find (\<lambda>ipam. ip_subnetId ipam = Some v) ipams = Some x \<and>
    (\<exists>sub. nm_GetSubnet (ir_netManager r) [GetSubnetByUid (Some v)] s = (Ok sub, t) \<and>
       IpBelongsToCidr (Some ip) (ns_cidr sub))"
  using assms
  by (auto simp: subnetIpam_def find_subnet_ipam_eq and_then_Ok_iff act_simps split: option.splits if_splits)

definition cidr_subnet :: network_subnet where
  "cidr_subnet = \<lparr>ns_resourceId = Some ''a'', ns_networkId = Some ''net'', ns_ipVersion = IPV4, ns_gatewayIp = Some [],
     ns_cidr = Some (show_ipv4 (10, 1, 0, 0) @ CHR ''/'' # show_nat 24), ns_isDhcpEnabled = True,
     ns_metadata = Some Map.empty\<rparr>"

definition one_subnet :: "mem network_manager" where
  "one_subnet = (composite_manager mem_stack)\<lparr>nm_GetSubnet := (\<lambda>_. ret cidr_subnet)\<rparr>"

theorem subnetIpam_static_in_cidr_witness:
  "\<exists>x t. subnetIpam (newIpamResolver one_subnet ''kube-nfv'') (Some ''a'') [static_ipam] mem_empty = (Ok x, t) \<and>
     ip_ipAddress x = Some (show_ipv4 (10, 1, 0, 5)) \<and>
     IpBelongsToCidr (Some (show_ipv4 (10, 1, 0, 5))) (ns_cidr cidr_subnet)"
proof -
  have "IpBelongsToCidr (Some (show_ipv4 (10, 1, 0, 5))) (ns_cidr cidr_subnet)"
    using IpBelongsToCidr_v4 [of 24 "(10, 1, 0, 5)" "(10, 1, 0, 0)"] by (simp add: cidr_subnet_def ipv4_num_def)
  then have run: "subnetIpam (newIpamResolver one_subnet ''kube-nfv'') (Some ''a'') [static_ipam] mem_empty = (Ok static_ipam, mem_empty)"
    unfolding subnetIpam_def find_subnet_ipam_eq and_then_ret
    by (simp add: newIpamResolver_def one_subnet_def static_ipam_def act_simps cidr_subnet_def)
  have ip: "ip_ipAddress static_ipam = Some (show_ipv4 (10, 1, 0, 5))" by (simp add: static_ipam_def)
  from subnetIpam_static_in_cidr [OF run ip] run ip show ?thesis
    by (auto simp: newIpamResolver_def one_subnet_def act_simps)
qed

text \<open>A static address without a subnet id can never be served: when the first IPAM entry of the network
  has an address and no subnet id and the network manager finds the subnet that holds the address,
  \<open>networkIpam\<close> dereferences the nil subnet id of the entry instead of recording the subnet it found. The
  documented case ``IPAM has a static IP: find the subnet in the VPC that holds the IP'' always panics.\<close>

theorem networkIpam_static_ip_panics:
  assumes "find (\<lambda>ipam. ip_networkId ipam = Some i) ipams = Some x" and "ip_subnetId x = None"
    and "ip_ipAddress x = Some ip"
    and "nm_GetSubnet (ir_netManager r) [GetSubnetByNetworkIP (Some i) (Some ip)] s = (Ok sub, t)"
  shows "networkIpam r i ipams returnIfNoIpam s = (Panic, t)"
  using assms by (simp add: networkIpam_def Let_def run_and_then wrap_def handle_def act_simps deref_def)

theorem networkIpam_static_ip_panics_witness:
  "networkIpam (newIpamResolver one_subnet ''kube-nfv'') ''net''
     [static_ipam\<lparr>ip_networkId := Some ''net'', ip_subnetId := None\<rparr>] False mem_empty = (Panic, mem_empty)"
  by (rule networkIpam_static_ip_panics [of "''net''" _ "static_ipam\<lparr>ip_networkId := Some ''net'', ip_subnetId := None\<rparr>"
        "show_ipv4 (10, 1, 0, 5)" _ _ cidr_subnet])
    (simp_all add: static_ipam_def newIpamResolver_def one_subnet_def act_simps)

end
