(* ===== verification/Flavour.thy ===== *)
theory Flavour
  imports Network
begin

text \<open>
  The flavour manager (\<open>internal/kubevim/flavour/kubevirt\<close>): a flavour is a KubeVirt instancetype and a
  preference that share a flavour-id label; the storage attributes travel as JSON in an annotation.
  The message \<open>VirtualStorageData\<close> and the JSON of its generated struct are not part of the program: the
  codec is a parameter, and where a property needs it, decoding is assumed to invert encoding. So is the
  source of random UUIDs, an action that may fail. The locale \<open>flavour_store\<close> states what the compute
  manager relies on.
\<close>

subsection \<open>Messages\<close>

record virtual_storage_data =
  vs_isBoot :: "bool option"
  vs_sizeOfStorage :: "quantity option"

record storage_codec =
  sc_Marshal :: "virtual_storage_data option list \<Rightarrow> error + string"
  sc_Unmarshal :: "string \<Rightarrow> error + virtual_storage_data option list"

definition codec_roundtrip :: "storage_codec \<Rightarrow> bool" where
  "codec_roundtrip codec \<longleftrightarrow> (\<forall>x js. sc_Marshal codec x = Inr js \<longrightarrow> sc_Unmarshal codec js = Inr x)"

text \<open>\<open>cf_virtualCpu\<close> is \<open>VirtualCpu.NumVirtualCpu\<close>, \<open>cf_virtualMemory\<close> the optional
  \<open>VirtualMemory.VirtualMemSize\<close>; the outer \<open>option\<close> is the pointer to the message.\<close>

record compute_flavour =
  cf_flavourId :: "string option"
  cf_isPublic :: "bool option"
  cf_virtualCpu :: "32 word option"
  cf_virtualMemory :: "quantity option option"
  cf_storageAttributes :: "virtual_storage_data option list"
  cf_metadata :: "labels option"

definition InstancetypeAnnotation :: string where "InstancetypeAnnotation = ''kubevirt.io/instancetype-name''"
definition PreferenceAnnotation :: string where "PreferenceAnnotation = ''kubevirt.io/preference-name''"
definition KubevirtInstanceTypeIdAnnotation :: string where
  "KubevirtInstanceTypeIdAnnotation = ''kubevirt.io/instancetype-id''"
definition KubevirtPreferenceIdAnnotation :: string where
  "KubevirtPreferenceIdAnnotation = ''kubevirt.io/preference-id''"
definition KubevirtFlavourSource :: string where "KubevirtFlavourSource = ''kubevirt.io''"

lemmas flavour_metadata_defs = InstancetypeAnnotation_def PreferenceAnnotation_def
  KubevirtInstanceTypeIdAnnotation_def KubevirtPreferenceIdAnnotation_def K8sFlavourSourceLabel_def
  K8sFlavourAttNameAnnotation_def

record 's flavour_manager =
  fm_CreateFlavour :: "compute_flavour option \<Rightarrow> ('s, error, string option) act"
  fm_GetFlavour :: "string option \<Rightarrow> ('s, error, compute_flavour) act"
  fm_GetFlavours :: "('s, error, compute_flavour list) act"
  fm_DeleteFlavour :: "string option \<Rightarrow> ('s, error, unit) act"

subsection \<open>\<open>utils.go\<close>\<close>

definition flavourNameFromId :: "string \<Rightarrow> string" where
  "flavourNameFromId i = ''flavour-'' @ i"

definition flavourPreferenceNameFromId :: "string \<Rightarrow> string" where
  "flavourPreferenceNameFromId i = ''flavour-pref-'' @ i"

definition idFromFlavourName :: "string \<Rightarrow> error + string" where
  "idFromFlavourName flavourName = (let prefix = ''flavour-'' in
     if \<not> has_prefix flavourName prefix then
       Inl (ErrInvalidArgument ''flavour name'' (''invalid format: '' @ flavourName))
     else (let i = trim_prefix flavourName prefix in
       if i = [] then Inl (ErrInvalidArgument ''flavour id'' ''empty id in name'') else Inr i))"

definition kubeVirtInstanceTypePreferencesFromNfvFlavour ::
  "storage_codec \<Rightarrow> string \<Rightarrow> compute_flavour option \<Rightarrow> error + (inst_type \<times> inst_pref)" where
  "kubeVirtInstanceTypePreferencesFromNfvFlavour codec flavorId nfvFlavour = (case nfvFlavour of
      None \<Rightarrow> Inl (ErrInvalidArgument ''flavour'' ''cannot be empty'')
    | Some fl \<Rightarrow> (case (cf_virtualCpu fl, cf_virtualMemory fl) of
        (None, _) \<Rightarrow> Inl (ErrInvalidArgument ''virtual cpu'' ''cannot be empty'')
      | (Some cpu, None) \<Rightarrow> Inl (ErrInvalidArgument ''virtual memory'' ''cannot be empty'')
      | (Some cpu, Some memSize) \<Rightarrow>
          if cpu = 0 then Inl (ErrInvalidArgument ''virtual CPU count'' ''cannot be 0'')
          else (case memSize of
            None \<Rightarrow> Inl (ErrInvalidArgument ''virtual memory size'' ''cannot be nil'')
          | Some mem \<Rightarrow> (case sc_Marshal codec (cf_storageAttributes fl) of
              Inl err \<Rightarrow> Inl (Wrap ''marshal storage attributes for flavour'' err)
            | Inr volumesJson \<Rightarrow>
                (let labels = [K8sManagedByLabel \<mapsto> KubeNfvName, K8sFlavourIdLabel \<mapsto> flavorId];
                     ann = [K8sVolumesAnnotation \<mapsto> volumesJson] ++
                       (case cf_metadata fl of None \<Rightarrow> Map.empty | Some flds \<Rightarrow> flds)
                 in Inr (\<lparr>it_meta = empty_meta\<lparr>m_name := flavourNameFromId flavorId, m_labels := labels,
                            m_annotations := ann\<rparr>, it_cpuGuest = cpu, it_memoryGuest = mem\<rparr>,
                         \<lparr>pf_meta = empty_meta\<lparr>m_name := flavourPreferenceNameFromId flavorId,
                            m_labels := labels, m_annotations := ann\<rparr>\<rparr>))))))"

definition flavour_metadata :: "inst_type \<Rightarrow> inst_pref option \<Rightarrow> labels" where
  "flavour_metadata instType pref =
     (let metadata = [InstancetypeAnnotation \<mapsto> m_name (it_meta instType),
            KubevirtInstanceTypeIdAnnotation \<mapsto> m_uid (it_meta instType),
            K8sFlavourSourceLabel \<mapsto> KubevirtFlavourSource];
          metadata = (case pref of
              None \<Rightarrow> metadata
            | Some p \<Rightarrow> metadata(PreferenceAnnotation \<mapsto> m_name (pf_meta p),
                KubevirtPreferenceIdAnnotation \<mapsto> m_uid (pf_meta p)))
      in (case m_annotations (it_meta instType) K8sFlavourAttNameAnnotation of
            None \<Rightarrow> metadata
          | Some val \<Rightarrow> metadata(K8sFlavourAttNameAnnotation \<mapsto> val)))"

definition nfvFlavourFromKubeVirtInstanceTypePreferences ::
  "storage_codec \<Rightarrow> string \<Rightarrow> inst_type option \<Rightarrow> inst_pref option \<Rightarrow> error + compute_flavour" where
  "nfvFlavourFromKubeVirtInstanceTypePreferences codec flavourId instType pref = (case instType of
      None \<Rightarrow> Inl (ErrInvalidArgument ''VirtualMachineInstancetype'' ''cannot be nil'')
    | Some it \<Rightarrow>
        if \<not> IsObjectInstantiated (it_meta it) then
          Inl (ErrK8sObjectNotInstantiated ''VirtualMachineInstancetype'' (m_name (it_meta it)))
        else if pref \<noteq> None \<and> \<not> IsObjectInstantiated (pf_meta (the pref)) then
          Inl (ErrK8sObjectNotInstantiated ''VirtualMachinePreference'' (m_name (pf_meta (the pref))))
        else if \<not> IsObjectManagedByKubeNfv (it_meta it) then
          Inl (ErrK8sObjectNotManagedByKubeNfv ''VirtualMachineInstancetype'' (m_name (it_meta it)) (m_uid (it_meta it)))
        else if pref \<noteq> None \<and> \<not> IsObjectManagedByKubeNfv (pf_meta (the pref)) then
          Inl (ErrK8sObjectNotManagedByKubeNfv ''VirtualMachinePreference'' (m_name (pf_meta (the pref)))
            (m_uid (pf_meta (the pref))))
        else (case m_annotations (it_meta it) K8sVolumesAnnotation of
            None \<Rightarrow> Inl (Plain ''VirtualMachineInstancetype missing storage attributes annotation'')
          | Some val \<Rightarrow> (case sc_Unmarshal codec val of
              Inl err \<Rightarrow> Inl (Wrap ''unmarshal storage attributes from instancetype'' err)
            | Inr storageAttributes \<Rightarrow>
                Inr \<lparr>cf_flavourId = Some flavourId, cf_isPublic = Some False,
                  cf_virtualCpu = Some (it_cpuGuest it), cf_virtualMemory = Some (Some (it_memoryGuest it)),
                  cf_storageAttributes = storageAttributes,
                  cf_metadata = Some (flavour_metadata it pref)\<rparr>)))"

subsection \<open>\<open>manager.go\<close>\<close>

record 's flavours =
  fl_client :: "'s client"
  fl_apiReader :: "'s client"
  fl_namespace :: "string option"

text \<open>\<open>cfg\<close> is the \<open>K8sConfig\<close>, of which the manager keeps the namespace.\<close>

definition NewFlavourManager :: "'s client \<Rightarrow> 's client \<Rightarrow> string option option \<Rightarrow> error + 's flavours" where
  "NewFlavourManager cl apiReader cfg =
     (if cfg = None \<or> cfg = Some None then Inl (ErrInvalidArgument ''k8sConfig.namespace'' ''required'')
      else Inr \<lparr>fl_client = cl, fl_apiReader = apiReader, fl_namespace = the cfg\<rparr>)"

definition create_flavour_objects :: "'s flavours \<Rightarrow> string \<Rightarrow> inst_type \<Rightarrow> inst_pref \<Rightarrow> ('s, error, string option) act" where
  "create_flavour_objects m flavourId instType instPref =
     and_then (deref (fl_namespace m)) (\<lambda>namespace.
     and_then (wrap ''create VirtualMachineInstancetype'' (k8s_create (fl_client m) inst_type_k
       (instType\<lparr>it_meta := (it_meta instType)\<lparr>m_namespace := namespace\<rparr>\<rparr>))) (\<lambda>_.
     and_then (wrap ''create VirtualMachinePreference'' (k8s_create (fl_client m) inst_pref_k
       (instPref\<lparr>pf_meta := (pf_meta instPref)\<lparr>m_namespace := namespace\<rparr>\<rparr>))) (\<lambda>_.
     ret (Some flavourId))))"

definition CreateFlavour ::
  "('s, error, string) act \<Rightarrow> storage_codec \<Rightarrow> 's flavours \<Rightarrow> compute_flavour option \<Rightarrow> ('s, error, string option) act" where
  "CreateFlavour newRandom codec m nfvFlavour = (case nfvFlavour of
      None \<Rightarrow> throw (ErrInvalidArgument ''flavour'' ''cannot be nil'')
    | Some fl \<Rightarrow>
        and_then (if has_value (cf_flavourId fl) then ret (str_or_empty (cf_flavourId fl))
                  else wrap ''generate flavour UUID'' newRandom) (\<lambda>flavourId.
        and_then (wrap ''convert flavour to kubevirt resources'' (sum_act
          (kubeVirtInstanceTypePreferencesFromNfvFlavour codec flavourId nfvFlavour))) (\<lambda>(instType, instPref).
        create_flavour_objects m flavourId instType instPref)))"

definition flavour_selector :: "string \<Rightarrow> selector" where
  "flavour_selector i = [(K8sFlavourIdLabel, i)]"

text \<open>The preference is optional: an error of the list call, no match and several matches all leave it nil.\<close>

definition find_preference :: "'s flavours \<Rightarrow> string \<Rightarrow> string \<Rightarrow> ('s, error, inst_pref option) act" where
  "find_preference m namespace i =
     handle (k8s_list (fl_client m) inst_pref_k (Some namespace) (flavour_selector i))
       (\<lambda>items. (case items of
           [p] \<Rightarrow> if \<not> IsObjectManagedByKubeNfv (pf_meta p)
             then throw (ErrK8sObjectNotManagedByKubeNfv ''VirtualMachinePreference'' (m_name (pf_meta p)) (m_uid (pf_meta p)))
             else ret (Some p)
         | _ \<Rightarrow> ret None))
       (\<lambda>err. ret None)"

definition GetFlavour :: "storage_codec \<Rightarrow> 's flavours \<Rightarrow> string option \<Rightarrow> ('s, error, compute_flavour) act" where
  "GetFlavour codec m i =
     (if \<not> has_value i then throw (ErrInvalidArgument ''flavour id'' ''required'')
      else and_then (deref (fl_namespace m)) (\<lambda>namespace.
        and_then (wrap ''list VirtualMachineInstancetypes for flavour''
          (k8s_list (fl_client m) inst_type_k (Some namespace) (flavour_selector (str_or_empty i)))) (\<lambda>items.
        (case items of
           [] \<Rightarrow> throw (ErrNotFound ''flavour'' (str_or_empty i))
         | [instType] \<Rightarrow>
             if \<not> IsObjectManagedByKubeNfv (it_meta instType)
             then throw (ErrK8sObjectNotManagedByKubeNfv ''VirtualMachineInstancetype'' (m_name (it_meta instType))
               (m_uid (it_meta instType)))
             else and_then (find_preference m namespace (str_or_empty i)) (\<lambda>instPref.
               wrap ''convert kubevirt resources to flavour'' (sum_act
                 (nfvFlavourFromKubeVirtInstanceTypePreferences codec (str_or_empty i) (Some instType) instPref)))
         | _ \<Rightarrow> throw (ErrInvalidArgument ''flavour id''
             (''multiple flavours found with id '' @ quoted (str_or_empty i)))))))"

definition GetFlavours :: "storage_codec \<Rightarrow> 's flavours \<Rightarrow> ('s, error, compute_flavour list) act" where
  "GetFlavours codec m =
     and_then (deref (fl_namespace m)) (\<lambda>namespace.
     and_then (wrap ''list VirtualMachineInstancetypes'' (k8s_list (fl_client m) inst_type_k (Some namespace) managed_selector)) (\<lambda>types.
     and_then (wrap ''list VirtualMachinePreferences'' (k8s_list (fl_client m) inst_pref_k (Some namespace) managed_selector)) (\<lambda>prefs.
     for_each (\<lambda>instTypeRef. (case m_labels (it_meta instTypeRef) K8sFlavourIdLabel of
         None \<Rightarrow> throw (ErrInvalidArgument (''VirtualMachineInstancetype '' @ quoted (m_name (it_meta instTypeRef)))
           ''missing flavour id label'')
       | Some flavourId \<Rightarrow>
           wrap ''convert kubevirt resources to flavour'' (sum_act
             (nfvFlavourFromKubeVirtInstanceTypePreferences codec flavourId (Some instTypeRef)
               (find (\<lambda>p. m_labels (pf_meta p) K8sFlavourIdLabel = Some flavourId) prefs))))) types)))"

definition owned_selector :: "string option \<Rightarrow> selector" where
  "owned_selector i = [(K8sManagedByLabel, KubeNfvName), (K8sFlavourIdLabel, str_or_empty i)]"

definition DeleteFlavour :: "'s flavours \<Rightarrow> string option \<Rightarrow> ('s, error, unit) act" where
  "DeleteFlavour m i =
     and_then (deref (fl_namespace m)) (\<lambda>namespace.
     and_then (wrap ''delete VirtualMachineInstancetype for flavour''
       (k8s_delete_all (fl_client m) inst_type_k (Some namespace) (owned_selector i))) (\<lambda>_.
     wrap ''delete VirtualMachinePreference for flavour''
       (k8s_delete_all (fl_client m) inst_pref_k (Some namespace) (owned_selector i))))"

definition kubevirt_flavours ::
  "('s, error, string) act \<Rightarrow> storage_codec \<Rightarrow> 's flavours \<Rightarrow> 's flavour_manager" where
  "kubevirt_flavours newRandom codec m = \<lparr>fm_CreateFlavour = CreateFlavour newRandom codec m,
     fm_GetFlavour = GetFlavour codec m, fm_GetFlavours = GetFlavours codec m, fm_DeleteFlavour = DeleteFlavour m\<rparr>"

subsection \<open>Names and conversions\<close>

lemma idFromFlavourName_iff: "idFromFlavourName s = Inr i \<longleftrightarrow> s = flavourNameFromId i \<and> i \<noteq> []"
  by (auto simp: idFromFlavourName_def flavourNameFromId_def has_prefix_iff trim_prefix_def Let_def)

lemma fromFlavour_Inr_iff:
  "kubeVirtInstanceTypePreferencesFromNfvFlavour codec i (Some fl) = Inr (it, pf) \<longleftrightarrow>
     (\<exists>cpu mem js. cf_virtualCpu fl = Some cpu \<and> cpu \<noteq> 0 \<and> cf_virtualMemory fl = Some (Some mem) \<and>
       sc_Marshal codec (cf_storageAttributes fl) = Inr js \<and>
       (let md = empty_meta\<lparr>m_labels := [K8sManagedByLabel \<mapsto> KubeNfvName, K8sFlavourIdLabel \<mapsto> i],
          m_annotations := [K8sVolumesAnnotation \<mapsto> js] ++
            (case cf_metadata fl of None \<Rightarrow> Map.empty | Some flds \<Rightarrow> flds)\<rparr> in
        it = \<lparr>it_meta = md\<lparr>m_name := flavourNameFromId i\<rparr>, it_cpuGuest = cpu, it_memoryGuest = mem\<rparr> \<and>
        pf = \<lparr>pf_meta = md\<lparr>m_name := flavourPreferenceNameFromId i\<rparr>\<rparr>))"
  by (auto simp: kubeVirtInstanceTypePreferencesFromNfvFlavour_def Let_def empty_meta_def
      split: option.splits sum.splits)

lemma toFlavour_Inr_iff:
  "nfvFlavourFromKubeVirtInstanceTypePreferences codec i (Some it) pref = Inr fl \<longleftrightarrow>
     IsObjectInstantiated (it_meta it) \<and> IsObjectManagedByKubeNfv (it_meta it) \<and>
     (\<forall>p. pref = Some p \<longrightarrow> IsObjectInstantiated (pf_meta p) \<and> IsObjectManagedByKubeNfv (pf_meta p)) \<and>
     (\<exists>js st. m_annotations (it_meta it) K8sVolumesAnnotation = Some js \<and> sc_Unmarshal codec js = Inr st \<and>
       fl = \<lparr>cf_flavourId = Some i, cf_isPublic = Some False, cf_virtualCpu = Some (it_cpuGuest it),
         cf_virtualMemory = Some (Some (it_memoryGuest it)), cf_storageAttributes = st,
         cf_metadata = Some (flavour_metadata it pref)\<rparr>)"
  by (cases pref) (auto simp: nfvFlavourFromKubeVirtInstanceTypePreferences_def split: option.splits sum.splits if_splits)

lemma flavour_metadata_keys:
  "flavour_metadata it pref K8sFlavourSourceLabel = Some KubevirtFlavourSource"
  "flavour_metadata it pref InstancetypeAnnotation = Some (m_name (it_meta it))"
  "flavour_metadata it pref PreferenceAnnotation = map_option (\<lambda>p. m_name (pf_meta p)) pref"
  by (simp_all add: flavour_metadata_def Let_def flavour_metadata_defs split: option.splits)

subsection \<open>The contract\<close>

text \<open>What a flavour carries for the compute manager: its source and the name of its instancetype.\<close>

definition flavour_ready :: "compute_flavour \<Rightarrow> bool" where
  "flavour_ready fl \<longleftrightarrow> cf_flavourId fl \<noteq> None \<and> (\<exists>md. cf_metadata fl = Some md \<and>
     md K8sFlavourSourceLabel = Some KubevirtFlavourSource \<and> md InstancetypeAnnotation \<noteq> None)"

locale flavour_store =
  fixes fm :: "'s flavour_manager"
  assumes get_flavour: "meets (fm_GetFlavour fm i) s (\<lambda>fl _. flavour_ready fl) (\<lambda>_ _. True)"

lemma meets_case_list:
  assumes "xs = [] \<Longrightarrow> meets a s Q E" and "\<And>x. xs = [x] \<Longrightarrow> meets (b x) s Q E"
    and "\<And>x y ys. xs = x # y # ys \<Longrightarrow> meets (c x y ys) s Q E"
  shows "meets (case xs of [] \<Rightarrow> a | [x] \<Rightarrow> b x | x # y # ys \<Rightarrow> c x y ys) s Q E"
  using assms by (cases xs rule: remdups_adj.cases) auto

lemma toFlavour_ready:
  "nfvFlavourFromKubeVirtInstanceTypePreferences codec i (Some it) pref = Inr fl \<Longrightarrow> flavour_ready fl"
  by (auto simp: toFlavour_Inr_iff flavour_ready_def flavour_metadata_keys)

lemma meets_find_preference:
  assumes "\<And>p t. Q p t" and "\<And>e t. E e t"
  shows "meets (find_preference m ns i) s Q E"
  unfolding find_preference_def
  by (intro meets_handle meets_any meets_case_list meets_if meets_ret meets_throw assms)

lemma GetFlavour_ready:
  assumes "fl_namespace m = Some ns"
  shows "meets (GetFlavour codec m i) s (\<lambda>fl _. flavour_ready fl) (\<lambda>_ _. True)"
  unfolding GetFlavour_def assms
  by (intro meets_if meets_throw meets_and_then meets_deref [OF refl] meets_wrap meets_any meets_case_list
      meets_find_preference meets_sum_act) (auto intro: toFlavour_ready)

definition flavours_on :: "'s client \<Rightarrow> 's client \<Rightarrow> string \<Rightarrow> 's flavours" where
  "flavours_on cl rd ns = \<lparr>fl_client = cl, fl_apiReader = rd, fl_namespace = Some ns\<rparr>"

lemma flavours_on_sel [simp]:
  "fl_client (flavours_on cl rd ns) = cl" "fl_namespace (flavours_on cl rd ns) = Some ns"
  by (simp_all add: flavours_on_def)

lemma NewFlavourManager_Inr_iff:
  "NewFlavourManager cl rd cfg = Inr m \<longleftrightarrow> (\<exists>ns. cfg = Some (Some ns) \<and> m = flavours_on cl rd ns)"
  by (auto simp: NewFlavourManager_def flavours_on_def)

interpretation kubevirt_fl: flavour_store "kubevirt_flavours newRandom codec (flavours_on cl rd ns)"
  for newRandom codec cl rd ns
  by standard (simp add: kubevirt_flavours_def GetFlavour_ready [of _ ns])

subsection \<open>On a server without faults\<close>

text \<open>The objects of a flavour, and the server after a deletion by flavour id.\<close>

definition flavour_object :: "string \<Rightarrow> string \<Rightarrow> okey \<Rightarrow> k8s_object \<Rightarrow> bool" where
  "flavour_object ns i key ob \<longleftrightarrow> fst key \<in> {KInstanceType, KPreference} \<and> fst (snd key) = ns \<and>
     m_labels (obj_meta_of ob) K8sFlavourIdLabel = Some i"

definition unused_flavour :: "(okey \<Rightarrow> k8s_object option) \<Rightarrow> string \<Rightarrow> string \<Rightarrow> bool" where
  "unused_flavour V ns i \<longleftrightarrow> (\<forall>key ob. V key = Some ob \<longrightarrow> \<not> flavour_object ns i key ob)"

definition without_flavour ::
  "(okey \<Rightarrow> k8s_object option) \<Rightarrow> string \<Rightarrow> string \<Rightarrow> okey \<Rightarrow> k8s_object option" where
  "without_flavour V ns i key = (case V key of
      None \<Rightarrow> None
    | Some ob \<Rightarrow> if flavour_object ns i key ob \<and> IsObjectManagedByKubeNfv (obj_meta_of ob) then None else Some ob)"

lemma matches_owned: "matches (owned_selector i) m \<longleftrightarrow>
    IsObjectManagedByKubeNfv m \<and> m_labels m K8sFlavourIdLabel = Some (str_or_empty i)"
  by (auto simp: matches_def owned_selector_def IsObjectManagedByKubeNfv_def split: option.splits)

lemma without_unused: "unused_flavour V ns i \<Longrightarrow> without_flavour V ns i = V"
  by (auto simp: without_flavour_def unused_flavour_def fun_eq_iff split: option.splits)

text \<open>What \<open>CreateFlavour\<close> stored for flavour \<open>i\<close>.\<close>

definition flavour_stored ::
  "storage_codec \<Rightarrow> (okey \<Rightarrow> k8s_object option) \<Rightarrow> (okey \<Rightarrow> k8s_object option) \<Rightarrow> string \<Rightarrow> string \<Rightarrow>
   compute_flavour \<Rightarrow> inst_type \<Rightarrow> inst_pref \<Rightarrow> bool" where
  "flavour_stored codec V W ns i fl it pf \<longleftrightarrow>
     V (KInstanceType, ns, flavourNameFromId i) = None \<and> V (KPreference, ns, flavourPreferenceNameFromId i) = None \<and>
     W = V((KInstanceType, ns, flavourNameFromId i) \<mapsto> OInstanceType it,
           (KPreference, ns, flavourPreferenceNameFromId i) \<mapsto> OPreference pf) \<and>
     IsObjectInstantiated (it_meta it) \<and> IsObjectInstantiated (pf_meta pf) \<and>
     m_name (it_meta it) = flavourNameFromId i \<and> m_name (pf_meta pf) = flavourPreferenceNameFromId i \<and>
     m_labels (it_meta it) = [K8sManagedByLabel \<mapsto> KubeNfvName, K8sFlavourIdLabel \<mapsto> i] \<and>
     m_labels (pf_meta pf) = [K8sManagedByLabel \<mapsto> KubeNfvName, K8sFlavourIdLabel \<mapsto> i] \<and>
     cf_virtualCpu fl = Some (it_cpuGuest it) \<and> cf_virtualMemory fl = Some (Some (it_memoryGuest it)) \<and>
     (\<exists>js. sc_Marshal codec (cf_storageAttributes fl) = Inr js \<and>
       m_annotations (it_meta it) = [K8sVolumesAnnotation \<mapsto> js] ++
         (case cf_metadata fl of None \<Rightarrow> Map.empty | Some flds \<Rightarrow> flds))"

text \<open>After a failed creation either nothing was stored or the instancetype was and the preference was
  not: its name was taken.\<close>

definition flavour_half_stored :: "(okey \<Rightarrow> k8s_object option) \<Rightarrow> (okey \<Rightarrow> k8s_object option) \<Rightarrow> string \<Rightarrow> bool" where
  "flavour_half_stored V W ns \<longleftrightarrow> W = V \<or> (\<exists>i it ob. V (KInstanceType, ns, flavourNameFromId i) = None \<and>
     W = V((KInstanceType, ns, flavourNameFromId i) \<mapsto> OInstanceType it) \<and>
     V (KPreference, ns, flavourPreferenceNameFromId i) = Some ob)"

lemma flavour_created:
  assumes "kubeVirtInstanceTypePreferencesFromNfvFlavour codec i (Some fl) = Inr (it, pf)"
    and "created (OInstanceType (it\<lparr>it_meta := (it_meta it)\<lparr>m_namespace := ns\<rparr>\<rparr>)) (OInstanceType it')"
    and "created (OPreference (pf\<lparr>pf_meta := (pf_meta pf)\<lparr>m_namespace := ns\<rparr>\<rparr>)) (OPreference pf')"
    and "V (KInstanceType, ns, flavourNameFromId i) = None" "V (KPreference, ns, flavourPreferenceNameFromId i) = None"
  shows "flavour_stored codec V (V((KInstanceType, ns, flavourNameFromId i) \<mapsto> OInstanceType it',
      (KPreference, ns, flavourPreferenceNameFromId i) \<mapsto> OPreference pf')) ns i fl it' pf'"
  using assms by (auto simp: flavour_stored_def created_def fromFlavour_Inr_iff Let_def empty_meta_def
      IsObjectInstantiated_def)

lemma flavour_keys:
  assumes "kubeVirtInstanceTypePreferencesFromNfvFlavour codec i (Some fl) = Inr (it, pf)"
  shows "obj_key (OInstanceType (it\<lparr>it_meta := (it_meta it)\<lparr>m_namespace := ns\<rparr>\<rparr>)) = (KInstanceType, ns, flavourNameFromId i)"
    "obj_key (OPreference (pf\<lparr>pf_meta := (pf_meta pf)\<lparr>m_namespace := ns\<rparr>\<rparr>)) = (KPreference, ns, flavourPreferenceNameFromId i)"
  using assms by (auto simp: fromFlavour_Inr_iff Let_def obj_key_def)

text \<open>A source of UUIDs that leaves the cluster alone.\<close>

definition uuid_source ::
  "('s \<Rightarrow> okey \<Rightarrow> k8s_object option) \<Rightarrow> ('s \<Rightarrow> bool) \<Rightarrow> ('s, error, string) act \<Rightarrow> bool" where
  "uuid_source view I newRandom \<longleftrightarrow> (\<forall>s. I s \<longrightarrow>
     meets newRandom s (\<lambda>u t. u \<noteq> [] \<and> I t \<and> view t = view s) (\<lambda>_ t. I t \<and> view t = view s))"

lemma uuid_source_ret: "u \<noteq> [] \<Longrightarrow> uuid_source view I (ret u)"
  by (auto simp: uuid_source_def intro: meets_ret)

lemma stored_labels:
  assumes "flavour_stored codec V W ns i fl it pf"
  shows "matches (flavour_selector i) (it_meta it)" "matches (flavour_selector i) (pf_meta pf)"
    "IsObjectManagedByKubeNfv (it_meta it)" "IsObjectManagedByKubeNfv (pf_meta pf)"
  using assms by (auto simp: flavour_stored_def matches_def flavour_selector_def IsObjectManagedByKubeNfv_def)

lemma stored_unique:
  assumes "flavour_stored codec V W ns i fl it pf" and "unused_flavour V ns i"
  shows "W (KInstanceType, ns, n) = Some (OInstanceType x) \<Longrightarrow> matches (flavour_selector i) (it_meta x) \<Longrightarrow> x = it"
    and "W (KPreference, ns, n) = Some (OPreference y) \<Longrightarrow> matches (flavour_selector i) (pf_meta y) \<Longrightarrow> y = pf"
proof -
  have W: "W = V((KInstanceType, ns, flavourNameFromId i) \<mapsto> OInstanceType it,
      (KPreference, ns, flavourPreferenceNameFromId i) \<mapsto> OPreference pf)"
    using assms(1) by (simp add: flavour_stored_def)
  have no: "\<not> flavour_object ns i key ob" if "V key = Some ob" for key ob
    using assms(2) that unfolding unused_flavour_def by blast
  show "W (KInstanceType, ns, n) = Some (OInstanceType x) \<Longrightarrow> matches (flavour_selector i) (it_meta x) \<Longrightarrow> x = it"
    using no [of "(KInstanceType, ns, n)" "OInstanceType x"] W
    by (auto simp: matches_def flavour_selector_def flavour_object_def split: if_splits)
  show "W (KPreference, ns, n) = Some (OPreference y) \<Longrightarrow> matches (flavour_selector i) (pf_meta y) \<Longrightarrow> y = pf"
    using no [of "(KPreference, ns, n)" "OPreference y"] W
    by (auto simp: matches_def flavour_selector_def flavour_object_def split: if_splits)
qed

lemma distinct_singleton: "distinct xs \<Longrightarrow> (\<And>x. x \<in> set xs \<longleftrightarrow> x = a) \<Longrightarrow> xs = [a]"
  by (cases xs rule: remdups_adj.cases) (auto, metis)

text \<open>The request's own metadata does not use the key of the volumes annotation.\<close>

definition no_volumes_key :: "compute_flavour \<Rightarrow> bool" where
  "no_volumes_key fl \<longleftrightarrow> (case cf_metadata fl of None \<Rightarrow> True | Some md \<Rightarrow> md K8sVolumesAnnotation = None)"

lemma stored_to_flavour:
  assumes "flavour_stored codec V W ns i fl it pf" and "codec_roundtrip codec"
    and "no_volumes_key fl"
  shows "nfvFlavourFromKubeVirtInstanceTypePreferences codec i (Some it) (Some pf) =
    Inr \<lparr>cf_flavourId = Some i, cf_isPublic = Some False, cf_virtualCpu = cf_virtualCpu fl,
      cf_virtualMemory = cf_virtualMemory fl, cf_storageAttributes = cf_storageAttributes fl,
      cf_metadata = Some (flavour_metadata it (Some pf))\<rparr>"
  using assms stored_labels(3,4) [OF assms(1)] unfolding toFlavour_Inr_iff
  by (auto simp: flavour_stored_def codec_roundtrip_def no_volumes_key_def map_add_def split: option.splits)

context api_server
begin

lemma create_flavour_objects_view:
  assumes s: "inv s" and m: "m = flavours_on cl rd ns"
    and conv: "kubeVirtInstanceTypePreferencesFromNfvFlavour codec i (Some fl) = Inr (it, pf)"
  shows "meets (create_flavour_objects m i it pf) s
    (\<lambda>r t. inv t \<and> r = Some i \<and> (\<exists>it' pf'. flavour_stored codec (view s) (view t) ns i fl it' pf'))
    (\<lambda>_ t. inv t \<and> flavour_half_stored (view s) (view t) ns)"
  unfolding create_flavour_objects_def m flavours_on_sel
proof (intro meets_and_then meets_deref [OF refl] meets_wrap meets_create [OF s wf_kinds(7)])
  let ?it = "it\<lparr>it_meta := (it_meta it)\<lparr>m_namespace := ns\<rparr>\<rparr>" and ?pf = "pf\<lparr>pf_meta := (pf_meta pf)\<lparr>m_namespace := ns\<rparr>\<rparr>"
  note keys = flavour_keys [OF conv, of ns]
  fix it' t
  assume t: "inv t" and none: "view s (obj_key (ki_obj inst_type_k ?it)) = None"
    and it': "created (ki_obj inst_type_k ?it) (ki_obj inst_type_k it')"
    and v: "view t = (view s)(obj_key (ki_obj inst_type_k ?it) \<mapsto> ki_obj inst_type_k it')"
  show "meets (k8s_create cl inst_pref_k ?pf) t (\<lambda>x t. meets (ret (Some i)) t
      (\<lambda>r t. inv t \<and> r = Some i \<and> (\<exists>it' pf'. flavour_stored codec (view s) (view t) ns i fl it' pf'))
      (\<lambda>_ t. inv t \<and> flavour_half_stored (view s) (view t) ns))
    (\<lambda>_ t. inv t \<and> flavour_half_stored (view s) (view t) ns)"
  proof (rule meets_create [OF t wf_kinds(8)])
    fix pf' u
    assume u: "inv u" "view t (obj_key (ki_obj inst_pref_k ?pf)) = None"
      "created (ki_obj inst_pref_k ?pf) (ki_obj inst_pref_k pf')"
      "view u = (view t)(obj_key (ki_obj inst_pref_k ?pf) \<mapsto> ki_obj inst_pref_k pf')"
    have "flavour_stored codec (view s) (view u) ns i fl it' pf'"
      using flavour_created [OF conv, of ns it' pf' "view s"] it' none v u by (simp add: keys)
    with u(1) show "meets (ret (Some i)) u
      (\<lambda>r t. inv t \<and> r = Some i \<and> (\<exists>it' pf'. flavour_stored codec (view s) (view t) ns i fl it' pf'))
      (\<lambda>_ t. inv t \<and> flavour_half_stored (view s) (view t) ns)" by (auto intro: meets_ret)
  next
    fix msg u ob
    assume "inv u" "view u = view t" "view t (obj_key (ki_obj inst_pref_k ?pf)) = Some ob"
    then show "inv u \<and> flavour_half_stored (view s) (view u) ns"
      using none v by (auto simp: keys flavour_half_stored_def)
  qed
qed (auto simp: flavour_half_stored_def)

lemma CreateFlavour_view:
  assumes s: "inv s" and m: "m = flavours_on cl rd ns" and uuid: "uuid_source view inv newRandom"
  shows "meets (CreateFlavour newRandom codec m (Some fl)) s
    (\<lambda>r t. inv t \<and> (\<exists>i it pf. r = Some i \<and> i \<noteq> [] \<and> (has_value (cf_flavourId fl) \<longrightarrow> r = cf_flavourId fl) \<and>
       flavour_stored codec (view s) (view t) ns i fl it pf))
    (\<lambda>_ t. inv t \<and> flavour_half_stored (view s) (view t) ns)"
proof -
  have ident: "meets (if has_value (cf_flavourId fl) then ret (str_or_empty (cf_flavourId fl))
      else wrap ''generate flavour UUID'' newRandom) s
      (\<lambda>i t. inv t \<and> view t = view s \<and> i \<noteq> [] \<and> (has_value (cf_flavourId fl) \<longrightarrow> Some i = cf_flavourId fl))
      (\<lambda>_ t. inv t \<and> view t = view s)"
  proof (rule meets_if)
    assume "\<not> has_value (cf_flavourId fl)"
    moreover have "meets newRandom s (\<lambda>u t. u \<noteq> [] \<and> inv t \<and> view t = view s) (\<lambda>_ t. inv t \<and> view t = view s)"
      using uuid s by (simp add: uuid_source_def)
    ultimately show "meets (wrap ''generate flavour UUID'' newRandom) s
      (\<lambda>i t. inv t \<and> view t = view s \<and> i \<noteq> [] \<and> (has_value (cf_flavourId fl) \<longrightarrow> Some i = cf_flavourId fl))
      (\<lambda>_ t. inv t \<and> view t = view s)"
      by (intro meets_wrap) (erule meets_weaken, auto)
  qed (use s in \<open>auto simp: has_value_iff str_or_empty_def intro!: meets_ret\<close>)
  show ?thesis
    unfolding CreateFlavour_def option.case
  proof (rule meets_and_then, rule meets_weaken [OF ident])
    fix i t
    assume t: "inv t \<and> view t = view s \<and> i \<noteq> [] \<and> (has_value (cf_flavourId fl) \<longrightarrow> Some i = cf_flavourId fl)"
    then show "meets (and_then (wrap ''convert flavour to kubevirt resources'' (sum_act
        (kubeVirtInstanceTypePreferencesFromNfvFlavour codec i (Some fl)))) (\<lambda>(it, pf). create_flavour_objects m i it pf)) t
      (\<lambda>r t. inv t \<and> (\<exists>i it pf. r = Some i \<and> i \<noteq> [] \<and> (has_value (cf_flavourId fl) \<longrightarrow> r = cf_flavourId fl) \<and>
         flavour_stored codec (view s) (view t) ns i fl it pf))
      (\<lambda>_ t. inv t \<and> flavour_half_stored (view s) (view t) ns)"
      by (intro meets_and_then meets_wrap meets_sum_act)
        (auto simp: flavour_half_stored_def intro!: meets_weaken [OF create_flavour_objects_view [OF _ m]], metis+)
  qed (simp add: flavour_half_stored_def)
qed

lemma create_flavour_conflict:
  assumes s: "inv s" and conv: "kubeVirtInstanceTypePreferencesFromNfvFlavour codec i (Some fl) = Inr (it, pf)"
    and pref: "view s (KPreference, ns, flavourPreferenceNameFromId i) = Some ob"
  shows "meets (create_flavour_objects (flavours_on cl rd ns) i it pf) s (\<lambda>_ _. False)
    (\<lambda>_ t. inv t \<and> (case view s (KInstanceType, ns, flavourNameFromId i) of
         None \<Rightarrow> \<exists>it'. view t = (view s)((KInstanceType, ns, flavourNameFromId i) \<mapsto> it')
       | Some _ \<Rightarrow> view t = view s))"
  unfolding create_flavour_objects_def flavours_on_sel
  by (intro meets_and_then meets_deref [OF refl] meets_wrap meets_create [OF s] meets_create)
    (auto simp: flavour_keys [OF conv] pref)

lemma list_flavour:
  assumes t: "inv t" and st: "flavour_stored codec V (view t) ns i fl it pf" and un: "unused_flavour V ns i"
    and ok: "\<And>u. inv u \<Longrightarrow> view u = view t \<Longrightarrow> Q [it] u" "\<And>u. inv u \<Longrightarrow> view u = view t \<Longrightarrow> Q' [pf] u"
  shows "meets (k8s_list cl inst_type_k (Some ns) (flavour_selector i)) t Q E"
    "meets (k8s_list cl inst_pref_k (Some ns) (flavour_selector i)) t Q' E"
proof -
  have v: "view t (KInstanceType, ns, flavourNameFromId i) = Some (OInstanceType it)"
    "view t (KPreference, ns, flavourPreferenceNameFromId i) = Some (OPreference pf)"
    using st by (simp_all add: flavour_stored_def)
  note lab = stored_labels [OF st] and uniq = stored_unique [OF st un]
  show "meets (k8s_list cl inst_type_k (Some ns) (flavour_selector i)) t Q E"
  proof (rule meets_list [OF t wf_kinds(7)])
    fix xs u
    assume u: "inv u" "view u = view t" "distinct xs" and xs: "\<And>x. x \<in> set xs \<longleftrightarrow>
      (\<exists>ns' n. view t (ki_kind inst_type_k, ns', n) = Some (ki_obj inst_type_k x) \<and>
        (Some ns = None \<or> Some ns = Some ns') \<and> matches (flavour_selector i) (obj_meta_of (ki_obj inst_type_k x)))"
    have "it \<in> set xs" using v(1) lab(1) by (auto simp: xs)
    moreover have "x = it" if "x \<in> set xs" for x using that by (auto simp: xs intro: uniq(1))
    ultimately have "x \<in> set xs \<longleftrightarrow> x = it" for x by blast
    with u(3) have "xs = [it]" by (rule distinct_singleton)
    with ok(1) u show "Q xs u" by simp
  qed
  show "meets (k8s_list cl inst_pref_k (Some ns) (flavour_selector i)) t Q' E"
  proof (rule meets_list [OF t wf_kinds(8)])
    fix xs u
    assume u: "inv u" "view u = view t" "distinct xs" and xs: "\<And>x. x \<in> set xs \<longleftrightarrow>
      (\<exists>ns' n. view t (ki_kind inst_pref_k, ns', n) = Some (ki_obj inst_pref_k x) \<and>
        (Some ns = None \<or> Some ns = Some ns') \<and> matches (flavour_selector i) (obj_meta_of (ki_obj inst_pref_k x)))"
    have "pf \<in> set xs" using v(2) lab(2) by (auto simp: xs)
    moreover have "x = pf" if "x \<in> set xs" for x using that by (auto simp: xs intro: uniq(2))
    ultimately have "x \<in> set xs \<longleftrightarrow> x = pf" for x by blast
    with u(3) have "xs = [pf]" by (rule distinct_singleton)
    with ok(2) u show "Q' xs u" by simp
  qed
qed

lemma GetFlavour_view:
  assumes t: "inv t" and st: "flavour_stored codec V (view t) ns i fl it pf" and un: "unused_flavour V ns i"
    and i: "i \<noteq> []"
  shows "meets (GetFlavour codec (flavours_on cl rd ns) (Some i)) t
    (\<lambda>r u. nfvFlavourFromKubeVirtInstanceTypePreferences codec i (Some it) (Some pf) = Inr r \<and> inv u \<and> view u = view t)
    (\<lambda>_ u. (\<nexists>r. nfvFlavourFromKubeVirtInstanceTypePreferences codec i (Some it) (Some pf) = Inr r) \<and>
       inv u \<and> view u = view t)"
proof -
  have hv: "has_value (Some i)" "str_or_empty (Some i) = i" using i by (simp_all add: has_value_def str_or_empty_def)
  have pref: "meets (find_preference (flavours_on cl rd ns) ns i) u
      (\<lambda>p w. p = Some pf \<and> inv w \<and> view w = view t) (\<lambda>_ _. False)" if u: "inv u" "view u = view t" for u
    unfolding find_preference_def flavours_on_sel
    by (rule meets_handle, rule list_flavour(2) [OF u(1) st [folded u(2)] un, where Q = "\<lambda>_ _. True"])
      (use stored_labels(4) [OF st] u in \<open>auto intro!: meets_ret\<close>)
  show ?thesis
    unfolding GetFlavour_def flavours_on_sel hv(2)
    using hv(1) stored_labels(3) [OF st]
    by (auto simp: deref_def intro!: meets_and_then meets_wrap meets_sum_act meets_weaken [OF pref]
        list_flavour(1) [OF t st un, where Q' = "\<lambda>_ _. True"])
qed

lemma DeleteFlavour_view:
  assumes s: "inv s"
  shows "meets (DeleteFlavour (flavours_on cl rd ns) i) s
    (\<lambda>_ t. inv t \<and> view t = without_flavour (view s) ns (str_or_empty i)) (\<lambda>_ _. False)"
  unfolding DeleteFlavour_def flavours_on_sel
  by (intro meets_and_then meets_deref [OF refl] meets_wrap meets_delete_all [OF s] meets_delete_all)
    (auto simp: fun_eq_iff without_flavour_def flavour_object_def matches_owned
      split: option.splits if_splits)

end

subsection \<open>Properties\<close>

text \<open>C12. A flavour can be read back: on a server without faults, with a JSON codec that inverts itself,
  when \<open>CreateFlavour\<close> returns an id that no stored instancetype or preference of the namespace carries
  yet, \<open>GetFlavour\<close> by that id returns the CPU count, the memory size and the storage attributes of the
  request, and metadata that names the two created objects; a requested id is the id returned. The
  request must not carry the volumes annotation among its own metadata.\<close>

theorem CreateFlavour_GetFlavour:
  assumes "api_server cl view I" and "I s" and "codec_roundtrip codec" and "uuid_source view I newRandom"
    and "CreateFlavour newRandom codec (flavours_on cl rd ns) (Some fl) s = (Ok (Some i), t)"
    and "unused_flavour (view s) ns i"
    and "no_volumes_key fl"
  shows "\<exists>r md u. GetFlavour codec (flavours_on cl rd ns) (Some i) t = (Ok r, u) \<and> view u = view t \<and>
    (has_value (cf_flavourId fl) \<longrightarrow> cf_flavourId fl = Some i) \<and> cf_flavourId r = Some i \<and>
    cf_virtualCpu r = cf_virtualCpu fl \<and> cf_virtualMemory r = cf_virtualMemory fl \<and>
    cf_storageAttributes r = cf_storageAttributes fl \<and> cf_metadata r = Some md \<and>
    md InstancetypeAnnotation = Some (flavourNameFromId i) \<and>
    md PreferenceAnnotation = Some (flavourPreferenceNameFromId i)"
proof -
  obtain it pf where t: "I t" "i \<noteq> []" "flavour_stored codec (view s) (view t) ns i fl it pf"
    and ident: "has_value (cf_flavourId fl) \<longrightarrow> cf_flavourId fl = Some i"
    using meets_Ok [OF api_server.CreateFlavour_view [OF assms(1,2) refl assms(4)] assms(5)] by auto
  have names: "m_name (it_meta it) = flavourNameFromId i" "m_name (pf_meta pf) = flavourPreferenceNameFromId i"
    using t(3) by (simp_all add: flavour_stored_def)
  note conv = stored_to_flavour [OF t(3) assms(3,7)]
  show ?thesis
    using api_server.GetFlavour_view [OF assms(1) t(1,3) assms(6) t(2), of rd] ident
    by (auto simp: conv meets_def flavour_metadata_keys names split: prod.splits result.splits)
qed

text \<open>A codec for the witnesses: it knows the two lists below, with their JSON, and rejects every other.\<close>

definition boot_volume :: virtual_storage_data where
  "boot_volume = \<lparr>vs_isBoot = Some True, vs_sizeOfStorage = Some \<lparr>q_amount = 10, q_format = ''DecimalSI''\<rparr>\<rparr>"

definition table_codec :: storage_codec where
  "table_codec = \<lparr>sc_Marshal = (\<lambda>x. if x = [] then Inr ''null''
       else if x = [Some boot_volume] then Inr ''[{10}]'' else Inl (Plain ''unsupported'')),
     sc_Unmarshal = (\<lambda>js. if js = ''null'' then Inr []
       else if js = ''[{10}]'' then Inr [Some boot_volume] else Inl (Plain ''unsupported''))\<rparr>"

lemma table_codec_roundtrip: "codec_roundtrip table_codec"
  by (simp add: codec_roundtrip_def table_codec_def)

definition flavour_example :: compute_flavour where
  "flavour_example = \<lparr>cf_flavourId = Some ''small'', cf_isPublic = None, cf_virtualCpu = Some 2,
     cf_virtualMemory = Some (Some \<lparr>q_amount = 4, q_format = ''BinarySI''\<rparr>),
     cf_storageAttributes = [Some boot_volume], cf_metadata = None\<rparr>"

abbreviation mem_flavours :: "mem flavours" where
  "mem_flavours \<equiv> flavours_on mem_client mem_client ''kube-nfv''"

lemma mem_unused_flavour [simp]: "unused_flavour (mem_view mem_empty) ns i"
  by (simp add: unused_flavour_def mem_view_def mem_empty_def)

lemma flavour_example_run:
  obtains t where "CreateFlavour (ret ''u'') table_codec mem_flavours (Some flavour_example) mem_empty = (Ok (Some ''small''), t)"
    and "mem_inv t"
proof -
  obtain it pf where conv: "kubeVirtInstanceTypePreferencesFromNfvFlavour table_codec ''small'' (Some flavour_example) = Inr (it, pf)"
    by (simp add: kubeVirtInstanceTypePreferencesFromNfvFlavour_def flavour_example_def table_codec_def Let_def)
  have none: "mem_view mem_empty key = None" for key by (simp add: mem_view_def mem_empty_def)
  note keys = flavour_keys [OF conv, of "''kube-nfv''"]
  have nh: "meets (create_flavour_objects mem_flavours ''small'' it pf) mem_empty (\<lambda>r t. mem_inv t \<and> r = Some ''small'') (\<lambda>_ _. False)"
    unfolding create_flavour_objects_def flavours_on_sel
    by (intro meets_and_then meets_deref [OF refl] meets_wrap mem.meets_create [OF mem_inv_empty] mem.meets_create)
      (auto simp: keys none intro!: meets_ret)
  have "CreateFlavour (ret ''u'') table_codec mem_flavours (Some flavour_example) mem_empty =
      create_flavour_objects mem_flavours ''small'' it pf mem_empty"
    by (simp add: CreateFlavour_def flavour_example_def [of] has_value_def str_or_empty_def conv [unfolded flavour_example_def])
  with nh that show thesis by (auto simp: meets_def split: prod.splits result.splits)
qed

theorem CreateFlavour_GetFlavour_witness:
  "\<exists>t r u. CreateFlavour (ret ''u'') table_codec mem_flavours (Some flavour_example) mem_empty = (Ok (Some ''small''), t) \<and>
     GetFlavour table_codec mem_flavours (Some ''small'') t = (Ok r, u) \<and>
     cf_virtualCpu r = Some 2 \<and> cf_storageAttributes r = [Some boot_volume]"
proof -
  obtain t where run: "CreateFlavour (ret ''u'') table_codec mem_flavours (Some flavour_example) mem_empty = (Ok (Some ''small''), t)"
    by (rule flavour_example_run)
  have uuid: "uuid_source mem_view mem_inv (ret ''u'')" by (simp add: uuid_source_ret)
  have "no_volumes_key flavour_example"
    by (simp add: flavour_example_def no_volumes_key_def)
  from CreateFlavour_GetFlavour [OF mem.api_server_axioms mem_inv_empty table_codec_roundtrip uuid run mem_unused_flavour this]
  show ?thesis using run by (auto simp: flavour_example_def)
qed

text \<open>C35. \<open>DeleteFlavour\<close> on a server without faults removes exactly the instancetypes and preferences of
  the configured namespace that carry both the flavour id and the managed-by label: it succeeds, every
  other object stays, also one with the same id that kube-vim does not manage, and a second call
  succeeds and finds nothing left to remove.\<close>

theorem DeleteFlavour_exact:
  assumes "api_server cl view I" and "I s"
  shows "\<exists>t u. DeleteFlavour (flavours_on cl rd ns) (Some i) s = (Ok (), t) \<and>
    view t = without_flavour (view s) ns i \<and>
    DeleteFlavour (flavours_on cl rd ns) (Some i) t = (Ok (), u) \<and> view u = view t"
proof -
  note del = api_server.DeleteFlavour_view [OF assms(1), of _ rd ns "Some i"]
  obtain t where t: "DeleteFlavour (flavours_on cl rd ns) (Some i) s = (Ok (), t)" "I t"
    "view t = without_flavour (view s) ns i"
    using del [OF assms(2)] by (auto simp: meets_def str_or_empty_def split: prod.splits result.splits)
  obtain u where u: "DeleteFlavour (flavours_on cl rd ns) (Some i) t = (Ok (), u)"
    "view u = without_flavour (view t) ns i"
    using del [OF t(2)] by (auto simp: meets_def str_or_empty_def split: prod.splits result.splits)
  have "without_flavour (without_flavour V ns i) ns i = without_flavour V ns i" for V
    by (auto simp: without_flavour_def fun_eq_iff split: option.splits)
  with t u show ?thesis by auto
qed

theorem DeleteFlavour_exact_witness:
  "\<exists>s t u. CreateFlavour (ret ''u'') table_codec mem_flavours (Some flavour_example) mem_empty = (Ok (Some ''small''), s) \<and>
     DeleteFlavour mem_flavours (Some ''small'') s = (Ok (), t) \<and>
     mem_view t = without_flavour (mem_view s) ''kube-nfv'' ''small'' \<and>
     DeleteFlavour mem_flavours (Some ''small'') t = (Ok (), u)"
proof -
  obtain s where s: "CreateFlavour (ret ''u'') table_codec mem_flavours (Some flavour_example) mem_empty = (Ok (Some ''small''), s)"
    "mem_inv s" by (rule flavour_example_run)
  from DeleteFlavour_exact [OF mem.api_server_axioms s(2), of mem_client "''kube-nfv''" "''small''"] s(1)
  show ?thesis by blast
qed

text \<open>Deleting a flavour undoes its creation: on a server without faults, after \<open>CreateFlavour\<close> returned
  an id nobody used before, \<open>DeleteFlavour\<close> by that id leaves exactly the objects of before the creation,
  instancetype and preference both gone.\<close>

theorem CreateFlavour_DeleteFlavour:
  assumes "api_server cl view I" and "I s" and "uuid_source view I newRandom"
    and "CreateFlavour newRandom codec (flavours_on cl rd ns) (Some fl) s = (Ok (Some i), t)"
    and "unused_flavour (view s) ns i"
  shows "\<exists>u. DeleteFlavour (flavours_on cl rd ns) (Some i) t = (Ok (), u) \<and> view u = view s"
proof -
  obtain it pf where t: "I t" and st: "flavour_stored codec (view s) (view t) ns i fl it pf"
    using meets_Ok [OF api_server.CreateFlavour_view [OF assms(1,2) refl assms(3)] assms(4)] by auto
  obtain u where u: "DeleteFlavour (flavours_on cl rd ns) (Some i) t = (Ok (), u)"
    "view u = without_flavour (view t) ns i"
    using api_server.DeleteFlavour_view [OF assms(1) t, of rd ns "Some i"]
    by (auto simp: meets_def str_or_empty_def split: prod.splits result.splits)
  note lab = stored_labels [OF st]
  have "without_flavour (view t) ns i key = without_flavour (view s) ns i key" for key
    using st lab unfolding flavour_stored_def
    by (auto simp: without_flavour_def flavour_object_def)
  then have "without_flavour (view t) ns i = view s" using without_unused [OF assms(5)] by (simp add: fun_eq_iff)
  with u show ?thesis by simp
qed

theorem CreateFlavour_DeleteFlavour_witness:
  "\<exists>t u. CreateFlavour (ret ''u'') table_codec mem_flavours (Some flavour_example) mem_empty = (Ok (Some ''small''), t) \<and>
     DeleteFlavour mem_flavours (Some ''small'') t = (Ok (), u) \<and> mem_view u = mem_view mem_empty"
proof -
  obtain t where run: "CreateFlavour (ret ''u'') table_codec mem_flavours (Some flavour_example) mem_empty = (Ok (Some ''small''), t)"
    by (rule flavour_example_run)
  have uuid: "uuid_source mem_view mem_inv (ret ''u'')" by (simp add: uuid_source_ret)
  from CreateFlavour_DeleteFlavour [OF mem.api_server_axioms mem_inv_empty uuid run mem_unused_flavour] run
  show ?thesis by blast
qed

text \<open>Flavour names and ids: \<open>idFromFlavourName\<close> succeeds exactly on the names that
  \<open>flavourNameFromId\<close> gives to non-empty ids, and returns that id; every other name is refused as an
  invalid argument.\<close>

theorem flavour_name_roundtrip:
  "case idFromFlavourName s of
      Inr i \<Rightarrow> s = flavourNameFromId i \<and> i \<noteq> []
    | Inl e \<Rightarrow> is_ErrInvalidArgument e \<and> (\<nexists>i. s = flavourNameFromId i \<and> i \<noteq> [])"
proof (cases "idFromFlavourName s")
  case (Inl e)
  then have "\<nexists>i. s = flavourNameFromId i \<and> i \<noteq> []" by (metis idFromFlavourName_iff Inl_Inr_False)
  moreover have "is_ErrInvalidArgument e"
    using Inl by (auto simp: idFromFlavourName_def Let_def split: if_splits)
  ultimately show ?thesis using Inl by simp
next
  case (Inr i)
  then show ?thesis using idFromFlavourName_iff [of s i] by simp
qed

text \<open>\<open>CreateFlavour\<close> is not atomic: when the preference cannot be created because its name is taken,
  the call fails but the instancetype it created before stays, with nothing to reclaim it; a retry of
  the same request then fails on the instancetype and changes nothing, so the flavour can be neither
  created nor, since \<open>GetFlavour\<close> now finds the leftover, told from a created one.\<close>

theorem CreateFlavour_leaves_instancetype:
  assumes "api_server cl view I" and "I s" and "cf_flavourId fl = Some i" and "i \<noteq> []"
    and "kubeVirtInstanceTypePreferencesFromNfvFlavour codec i (Some fl) = Inr (it, pf)"
    and "view s (KInstanceType, ns, flavourNameFromId i) = None"
    and "view s (KPreference, ns, flavourPreferenceNameFromId i) = Some ob"
  shows "\<exists>e t it' e' u. CreateFlavour newRandom codec (flavours_on cl rd ns) (Some fl) s = (Err e, t) \<and>
    view t = (view s)((KInstanceType, ns, flavourNameFromId i) \<mapsto> it') \<and>
    CreateFlavour newRandom codec (flavours_on cl rd ns) (Some fl) t = (Err e', u) \<and> view u = view t"
proof -
  have run: "CreateFlavour newRandom codec (flavours_on cl rd ns) (Some fl) =
      create_flavour_objects (flavours_on cl rd ns) i it pf"
    using assms(3-5) by (simp add: CreateFlavour_def has_value_def str_or_empty_def)
  note conflict = api_server.create_flavour_conflict [OF assms(1) _ assms(5)]
  obtain e t it' where t: "create_flavour_objects (flavours_on cl rd ns) i it pf s = (Err e, t)" "I t"
    "view t = (view s)((KInstanceType, ns, flavourNameFromId i) \<mapsto> it')"
    using conflict [OF assms(2,7), of rd] assms(6) by (auto simp: meets_def split: prod.splits result.splits)
  have "view t (KPreference, ns, flavourPreferenceNameFromId i) = Some ob" using t(3) assms(7) by simp
  from conflict [OF t(2) this, of rd] obtain e' u where
    "create_flavour_objects (flavours_on cl rd ns) i it pf t = (Err e', u)" "view u = view t"
    by (auto simp: meets_def t(3) split: prod.splits result.splits)
  with t show ?thesis unfolding run by blast
qed

definition taken_preference :: inst_pref where
  "taken_preference = \<lparr>pf_meta = empty_meta\<lparr>m_name := ''flavour-pref-small'', m_namespace := ''kube-nfv'',
     m_uid := ''x'', m_resourceVersion := ''1'', m_creationTimestamp := 1\<rparr>\<rparr>"

definition mem_taken :: mem where
  "mem_taken = \<lparr>mem_objs = [OPreference taken_preference], mem_next = 1\<rparr>"

theorem CreateFlavour_leaves_instancetype_witness:
  "\<exists>e t it'. CreateFlavour (ret ''u'') table_codec mem_flavours (Some flavour_example) mem_taken = (Err e, t) \<and>
     mem_view t = (mem_view mem_taken)((KInstanceType, ''kube-nfv'', ''flavour-small'') \<mapsto> it')"
proof -
  have view: "mem_view mem_taken (KInstanceType, ''kube-nfv'', flavourNameFromId ''small'') = None"
    "mem_view mem_taken (KPreference, ''kube-nfv'', flavourPreferenceNameFromId ''small'') = Some (OPreference taken_preference)"
    and I: "mem_inv mem_taken"
    by (simp_all add: mem_view_def mem_taken_def taken_preference_def obj_key_def flavourPreferenceNameFromId_def
        empty_meta_def mem_inv_def IsObjectInstantiated_def)
  obtain it pf where conv: "kubeVirtInstanceTypePreferencesFromNfvFlavour table_codec ''small'' (Some flavour_example) = Inr (it, pf)"
    by (simp add: kubeVirtInstanceTypePreferencesFromNfvFlavour_def flavour_example_def table_codec_def Let_def)
  have ident: "cf_flavourId flavour_example = Some ''small''" "''small'' \<noteq> []" by (simp_all add: flavour_example_def)
  from CreateFlavour_leaves_instancetype [OF mem.api_server_axioms, OF I ident conv view, of "ret ''u''" mem_client]
  show ?thesis by (auto simp: flavourNameFromId_def)
qed

end
