(* ===== verification/Image_Cdi.thy ===== *)
theory Image_Cdi
  imports Network
begin

text \<open>
  The image interface (\<open>internal/kubevim/image/manager.go\<close>) and the CDI image manager
  (\<open>internal/kubevim/image/cdi\<close>): an image is a VolumeImportSource and, unless the download is lazy, a
  DataVolume of the same name. \<open>resource.ParseQuantity\<close> is a parameter. A Go map in a request is the list
  of its entries in the order the loop meets them; the \<open>Kind\<close> of a decoded object is empty. The results
  that the interface returns by pointer are \<open>option\<close>s, since other image managers return nil without
  an error.
\<close>

subsection \<open>\<open>image/manager.go\<close>\<close>

record image_info =
  si_id :: "string option"
  si_name :: string
  si_createdAt :: "int option"
  si_updatedAt :: "int option"
  si_size :: "quantity option"
  si_status :: string
  si_metadata :: "labels option"

datatype image_source_type = ImgHTTP | ImgOther string

record http_source_msg =
  hm_url :: string
  hm_headers :: "(string \<times> string) list"

record image_source =
  im_type :: image_source_type
  im_http :: "http_source_msg option"

record download_options =
  do_lazyDownload :: "bool option"
  do_storageClass :: "string option"
  do_storageSize :: "string option"

record download_request =
  dr_name :: "string option"
  dr_source :: "image_source option"
  dr_options :: "download_options option"

record 's image_manager =
  im_GetImage :: "string option \<Rightarrow> ('s, error, image_info option) act"
  im_ListImages :: "('s, error, image_info list) act"
  im_DownloadImage :: "download_request option \<Rightarrow> ('s, error, string option) act"

definition K8sSourceLabel :: string where "K8sSourceLabel = ''image.kubevim.kubenfv.io/source''"
definition K8sIsUploadLabel :: string where "K8sIsUploadLabel = ''image.kubevim.kubenfv.io/uploaded''"
definition K8sSourceUrlAnnotation :: string where
  "K8sSourceUrlAnnotation = ''image.kubevim.kubenfv.io/source-url''"
definition K8sIsImageBoundToPvc :: string where "K8sIsImageBoundToPvc = ''image.kubevim.kubenfv.io/is-pvc-bound''"
definition K8sDataVolumeIdLabel :: string where "K8sDataVolumeIdLabel = ''cdi.image.kubevim.kubenfv.io/data-volume-id''"
definition K8sDataVolumePhase :: string where "K8sDataVolumePhase = ''cdi.image.kubevim.kubenfv.io/data-volume-phase''"

lemmas image_label_defs = K8sManagedByLabel_def K8sImageIdLabel_def K8sSourceLabel_def K8sIsUploadLabel_def
  K8sIsImageBoundToPvc_def K8sDataVolumeIdLabel_def K8sDataVolumePhase_def

definition HTTP :: string where "HTTP = ''http''"
definition HTTPS :: string where "HTTPS = ''https''"

definition SourceTypeFromString :: "string \<Rightarrow> error + string" where
  "SourceTypeFromString s = (if s = HTTPS then Inr HTTPS else if s = HTTP then Inr HTTP
     else Inl (Wrap ''unknown source type'' ErrUnsupported))"

subsection \<open>\<open>cdi/utils.go\<close>\<close>

definition convertToHttpDataVolumeSource :: "http_source_msg option \<Rightarrow> error + http_source" where
  "convertToHttpDataVolumeSource http = (case http of
      None \<Rightarrow> Inl (ErrInvalidArgument ''httpSource'' (''can'' @ [CHR 0x27] @ ''t be nil''))
    | Some h \<Rightarrow> Inr \<lparr>hs_url = hm_url h, hs_certConfigMap = [], hs_secretRef = [],
        hs_extraHeaders = map (\<lambda>(hdr, val). hdr @ '': '' @ val) (hm_headers h)\<rparr>)"

definition importSourceTypeFromImageSource :: "image_source option \<Rightarrow> error + import_source" where
  "importSourceTypeFromImageSource imgSource = (case imgSource of
      None \<Rightarrow> Inl (ErrInvalidArgument ''imageSource'' (''can'' @ [CHR 0x27] @ ''t be nil''))
    | Some src \<Rightarrow> (case im_type src of
        ImgHTTP \<Rightarrow> (case convertToHttpDataVolumeSource (im_http src) of
            Inl err \<Rightarrow> Inl (Wrap ''convert to http data volume source'' err)
          | Inr h \<Rightarrow> Inr \<lparr>src_http = Some h\<rparr>)
      | ImgOther _ \<Rightarrow> Inl (Wrap ''unknown imageSource type'' ErrUnsupported)))"

definition is_default_class :: "storage_class \<Rightarrow> bool" where
  "is_default_class sc \<longleftrightarrow>
     map_get (m_annotations (stc_meta sc)) ''storageclass.kubernetes.io/is-default-class'' = ''true'' \<or>
     map_get (m_annotations (stc_meta sc)) ''storageclass.beta.kubernetes.io/is-default-class'' = ''true''"

definition getStorageClass :: "string \<Rightarrow> 's client \<Rightarrow> ('s, error, storage_class) act" where
  "getStorageClass name reader =
     (if name = [] then throw (ErrInvalidArgument ''name'' (''can'' @ [CHR 0x27] @ ''t be empty''))
      else if name \<noteq> ''default'' then wrap ''failed to get storage class'' (k8s_get reader storage_class_k [] name)
      else
        and_then (wrap ''failed to list storage classes'' (k8s_list reader storage_class_k None [])) (\<lambda>items.
        (case find is_default_class items of
           Some sc \<Rightarrow> ret sc
         | None \<Rightarrow> throw (ErrNotFound ''storageClass'' ''default''))))"

definition sourceNameFromImportSourceType :: "import_source option \<Rightarrow> error + string" where
  "sourceNameFromImportSourceType source = (case source of
      None \<Rightarrow> Inl (ErrInvalidArgument ''source'' (''can'' @ [CHR 0x27] @ ''t be nil''))
    | Some src \<Rightarrow> (case src_http src of
        Some h \<Rightarrow> if hs_certConfigMap h \<noteq> [] \<or> hs_secretRef h \<noteq> [] then Inr HTTPS else Inr HTTP
      | None \<Rightarrow> Inl (Wrap ''unsupported source'' ErrUnsupported)))"

definition bound_metadata :: "(string \<times> string) list \<Rightarrow> labels \<Rightarrow> labels" where
  "bound_metadata conds metadata = foldl (\<lambda>md (ctype, status).
     if ctype = ''Bound'' then md(K8sIsImageBoundToPvc \<mapsto> (if status = ''True'' then ''true'' else ''false'')) else md)
     metadata conds"

definition nfvImageFromCdiDataVolumeVis :: "dv option \<Rightarrow> vis option \<Rightarrow> ('s, error, image_info) act" where
  "nfvImageFromCdiDataVolumeVis dvp visp = (case (dvp, visp) of
      (Some dv, Some vis) \<Rightarrow>
        if \<not> IsObjectInstantiated (dv_meta dv) then throw (ErrK8sObjectNotInstantiated [] (m_name (dv_meta dv)))
        else if \<not> IsObjectInstantiated (vis_meta vis) then throw (ErrK8sObjectNotInstantiated [] (m_name (vis_meta vis)))
        else if \<not> IsObjectManagedByKubeNfv (dv_meta dv) then
          throw (ErrK8sObjectNotManagedByKubeNfv [] (m_name (dv_meta dv)) (m_uid (dv_meta dv)))
        else if \<not> IsObjectManagedByKubeNfv (vis_meta vis) then
          throw (ErrK8sObjectNotManagedByKubeNfv [] (m_name (vis_meta vis)) (m_uid (vis_meta vis)))
        else
          and_then (wrap ''get sourceName from ImportSourceType'' (sum_act (sourceNameFromImportSourceType (vis_source vis)))) (\<lambda>srcTypeName.
          (let metadata = [K8sImageIdLabel \<mapsto> m_uid (vis_meta vis), K8sSourceLabel \<mapsto> srcTypeName,
                 K8sDataVolumeIdLabel \<mapsto> m_uid (dv_meta dv), K8sDataVolumePhase \<mapsto> dv_status_phase dv];
               metadata = bound_metadata (dv_status_conditions dv) metadata;
               crtTime = ConvertToProtoTimestamp (m_creationTimestamp (vis_meta vis));
               updtTime = (case GetLastUpdateTime (dv_meta dv) of
                   None \<Rightarrow> crtTime
                 | Some lstUpdtTime \<Rightarrow> ConvertToProtoTimestamp lstUpdtTime);
               metadata = metadata(K8sIsUploadLabel \<mapsto> ''true'')
           in and_then (deref (dv_storage dv)) (\<lambda>storage.
              ret \<lparr>si_id = UIDToIdentifier (m_uid (vis_meta vis)), si_name = m_name (vis_meta vis), si_createdAt = crtTime,
                   si_updatedAt = updtTime, si_size = Some (ds_size storage), si_status = ''ready'',
                   si_metadata = Some metadata\<rparr>)))
    | _ \<Rightarrow> throw (ErrInvalidArgument ''dataVolume or volumeImportSource'' (''can'' @ [CHR 0x27] @ ''t be nil'')))"

subsection \<open>\<open>cdi/manager.go\<close>\<close>

record 's cdiManager =
  cdi_client :: "'s client"
  cdi_apiReader :: "'s client"
  cdi_storageClass :: "string option"
  cdi_namespace :: "string option"

definition defaultImageSize :: quantity where
  "defaultImageSize = \<lparr>q_amount = 10 * 1024 ^ 3, q_format = ''BinarySI''\<rparr>"

definition NewCDIImageManager :: "'s client \<Rightarrow> 's client \<Rightarrow> string option \<Rightarrow> string option \<Rightarrow> error + 's cdiManager" where
  "NewCDIImageManager cl apiReader storageClass namespace =
     (if storageClass = None then Inl (ErrInvalidArgument ''config image.StorageClass'' (''can'' @ [CHR 0x27] @ ''t be empty''))
      else if namespace = None then Inl (ErrInvalidArgument ''config k8s.Namespace'' (''can'' @ [CHR 0x27] @ ''t be nil''))
      else Inr \<lparr>cdi_client = cl, cdi_apiReader = apiReader, cdi_storageClass = storageClass, cdi_namespace = namespace\<rparr>)"

definition cdi_GetImage :: "'s cdiManager \<Rightarrow> string option \<Rightarrow> ('s, error, image_info option) act" where
  "cdi_GetImage m i = (case i of
      None \<Rightarrow> throw (ErrInvalidArgument ''id'' (''can'' @ [CHR 0x27] @ ''t be nil''))
    | Some v \<Rightarrow>
        and_then (deref (cdi_namespace m)) (\<lambda>namespace.
        and_then (wrap ''list CDI VolumeImportSources'' (k8s_list (cdi_client m) vis_k (Some namespace) managed_selector)) (\<lambda>items.
        (case find (\<lambda>vis. v = m_uid (vis_meta vis)) items of
           None \<Rightarrow> throw (ErrNotFound ''software image'' v)
         | Some imageVis \<Rightarrow>
             and_then (wrap ''get CDI DataVolume from image'' (k8s_get (cdi_client m) dv_k namespace (m_name (vis_meta imageVis)))) (\<lambda>dv.
             and_then (wrap ''convert CDI DataVolume and VolumeImportSource to NFV SoftwareImageInformation''
               (nfvImageFromCdiDataVolumeVis (Some dv) (Some imageVis))) (\<lambda>img. ret (Some img)))))))"

definition index_dvs :: "dv list \<Rightarrow> string \<rightharpoonup> dv" where
  "index_dvs items = foldl (\<lambda>idx d. idx(m_name (dv_meta d) \<mapsto> d)) Map.empty items"

text \<open>The loop of \<open>ListImages\<close>: an image without a data volume, and one that does not convert, is skipped.\<close>

fun collect_images :: "(string \<rightharpoonup> dv) \<Rightarrow> vis list \<Rightarrow> ('s, error, image_info list) act" where
  "collect_images idx [] = ret []"
| "collect_images idx (img # items) = (case idx (m_name (vis_meta img)) of
      None \<Rightarrow> collect_images idx items
    | Some imgDv \<Rightarrow> handle (nfvImageFromCdiDataVolumeVis (Some imgDv) (Some img))
        (\<lambda>nfvImg. and_then (collect_images idx items) (\<lambda>res. ret (nfvImg # res)))
        (\<lambda>err. collect_images idx items))"

definition cdi_ListImages :: "'s cdiManager \<Rightarrow> ('s, error, image_info list) act" where
  "cdi_ListImages m =
     and_then (deref (cdi_namespace m)) (\<lambda>namespace.
     and_then (wrap ''list CDI VolumeImportSources'' (k8s_list (cdi_client m) vis_k (Some namespace) managed_selector)) (\<lambda>visList.
     and_then (wrap ''list CDI DataVolumes'' (k8s_list (cdi_client m) dv_k (Some namespace) managed_selector)) (\<lambda>dvList.
     collect_images (index_dvs dvList) visList)))"

definition download_vis :: "string \<Rightarrow> string \<Rightarrow> import_source \<Rightarrow> vis" where
  "download_vis namespace imgName source = \<lparr>vis_meta = empty_meta\<lparr>m_name := imgName, m_namespace := namespace,
     m_labels := [K8sManagedByLabel \<mapsto> KubeNfvName, K8sIsUploadLabel \<mapsto> ''false'']\<rparr>, vis_source = Some source\<rparr>"

definition image_size :: "(string \<Rightarrow> quantity option) \<Rightarrow> download_request \<Rightarrow> quantity" where
  "image_size parseQuantity req =
     (let sz = (case dr_options req of
          None \<Rightarrow> defaultImageSize
        | Some opt \<Rightarrow> (case do_storageSize opt of
            None \<Rightarrow> defaultImageSize
          | Some str \<Rightarrow> (case parseQuantity str of None \<Rightarrow> defaultImageSize | Some reqSize \<Rightarrow> reqSize)))
      in sz\<lparr>q_format := ''BinarySI''\<rparr>)"

definition download_dv :: "string \<Rightarrow> string \<Rightarrow> string \<Rightarrow> string \<Rightarrow> bool \<Rightarrow> quantity \<Rightarrow> dv" where
  "download_dv namespace imgName visUid storageClassName bindImmediate imageSize =
     \<lparr>dv_meta = empty_meta\<lparr>m_name := imgName, m_namespace := namespace,
        m_labels := [K8sManagedByLabel \<mapsto> KubeNfvName, K8sImageIdLabel \<mapsto> visUid],
        m_annotations := (if bindImmediate then [''cdi.kubevirt.io/storage.bind.immediate.requested'' \<mapsto> ''true'']
          else Map.empty)\<rparr>,
      dv_source = None, dv_contentType = [],
      dv_storage = Some \<lparr>ds_size = imageSize, ds_accessModes = [''ReadWriteOnce''], ds_storageClassName = Some storageClassName,
        ds_dataSourceRef = Some \<lparr>km_kind = ''VolumeImportSource'', km_name = imgName\<rparr>\<rparr>,
      dv_status_phase = [], dv_status_conditions = []\<rparr>"

text \<open>The part of \<open>DownloadImage\<close> after the VolumeImportSource \<open>vis\<close> was created. A failure deletes it
  again, and the data volume with it once that exists; the errors of the deletions are dropped.\<close>

definition download_data_volume ::
  "(string \<Rightarrow> quantity option) \<Rightarrow> 's cdiManager \<Rightarrow> download_request \<Rightarrow> string \<Rightarrow> string \<Rightarrow> vis \<Rightarrow> ('s, error, string option) act" where
  "download_data_volume parseQuantity m req namespace imgName vis =
     (let cleanupVis = ignore (k8s_delete (cdi_client m) vis_k namespace imgName);
          cleanupDv = and_then cleanupVis (\<lambda>_. ignore (k8s_delete (cdi_client m) dv_k namespace imgName)) in
      and_then (deref (cdi_storageClass m)) (\<lambda>dflt.
      (let storageClassName = (case dr_options req of
             None \<Rightarrow> dflt
           | Some opt \<Rightarrow> if has_value (do_storageClass opt) then str_or_empty (do_storageClass opt) else dflt) in
      handle (getStorageClass storageClassName (cdi_apiReader m))
        (\<lambda>storageClass.
          handle (k8s_create (cdi_client m) dv_k (download_dv namespace imgName (m_uid (vis_meta vis)) storageClassName
              (stc_volumeBindingMode storageClass = Some ''WaitForFirstConsumer'') (image_size parseQuantity req)))
            (\<lambda>dataVolume.
              handle (k8s_patch (cdi_client m) vis_k vis (vis\<lparr>vis_meta := (vis_meta vis)\<lparr>m_labels :=
                  (m_labels (vis_meta vis))(K8sDataVolumeIdLabel \<mapsto> m_uid (dv_meta dataVolume))\<rparr>\<rparr>))
                (\<lambda>_. ret (UIDToIdentifier (m_uid (vis_meta vis))))
                (\<lambda>err. and_then cleanupDv (\<lambda>_. throw (Wrap ''update CDI VolumeImportSource label for image'' err))))
            (\<lambda>err. and_then cleanupVis (\<lambda>_. throw (Wrap ''create CDI DataVolume for image'' err))))
        (\<lambda>err. and_then cleanupVis (\<lambda>_. throw (Wrap ''get storageClass'' err))))))"

definition is_lazy :: "download_request \<Rightarrow> bool" where
  "is_lazy req \<longleftrightarrow> (case dr_options req of None \<Rightarrow> False | Some opt \<Rightarrow> do_lazyDownload opt = Some True)"

definition DownloadImage ::
  "(string \<Rightarrow> quantity option) \<Rightarrow> 's cdiManager \<Rightarrow> download_request option \<Rightarrow> ('s, error, string option) act" where
  "DownloadImage parseQuantity m reqp = (case reqp of
      None \<Rightarrow> throw (ErrInvalidArgument ''request'' (''can'' @ [CHR 0x27] @ ''t be nil''))
    | Some req \<Rightarrow> (let imgName = str_or_empty (dr_name req) in
        and_then (wrap ''get CDI ImportSourceType from imageSource'' (sum_act (importSourceTypeFromImageSource (dr_source req)))) (\<lambda>source.
        and_then (deref (cdi_namespace m)) (\<lambda>namespace.
        and_then (wrap ''create CDI VolumeImportSource'' (k8s_create (cdi_client m) vis_k (download_vis namespace imgName source))) (\<lambda>vis.
        if is_lazy req then ret (UIDToIdentifier (m_uid (vis_meta vis)))
        else download_data_volume parseQuantity m req namespace imgName vis)))))"

definition cdi_manager :: "(string \<Rightarrow> quantity option) \<Rightarrow> 's cdiManager \<Rightarrow> 's image_manager" where
  "cdi_manager parseQuantity m = \<lparr>im_GetImage = cdi_GetImage m, im_ListImages = cdi_ListImages m,
     im_DownloadImage = DownloadImage parseQuantity m\<rparr>"

subsection \<open>Conversion\<close>

definition image_of :: "dv \<Rightarrow> vis \<Rightarrow> string \<Rightarrow> dv_storage \<Rightarrow> image_info" where
  "image_of dv vis src sto = \<lparr>si_id = Some (m_uid (vis_meta vis)), si_name = m_name (vis_meta vis),
     si_createdAt = ConvertToProtoTimestamp (m_creationTimestamp (vis_meta vis)),
     si_updatedAt = (case GetLastUpdateTime (dv_meta dv) of
        None \<Rightarrow> ConvertToProtoTimestamp (m_creationTimestamp (vis_meta vis))
      | Some lst \<Rightarrow> ConvertToProtoTimestamp lst),
     si_size = Some (ds_size sto), si_status = ''ready'',
     si_metadata = Some ((bound_metadata (dv_status_conditions dv) [K8sImageIdLabel \<mapsto> m_uid (vis_meta vis),
       K8sSourceLabel \<mapsto> src, K8sDataVolumeIdLabel \<mapsto> m_uid (dv_meta dv),
       K8sDataVolumePhase \<mapsto> dv_status_phase dv])(K8sIsUploadLabel \<mapsto> ''true''))\<rparr>"

definition image_parts :: "dv \<Rightarrow> vis \<Rightarrow> image_info \<Rightarrow> bool" where
  "image_parts dv vis img \<longleftrightarrow> IsObjectInstantiated (dv_meta dv) \<and> IsObjectInstantiated (vis_meta vis) \<and>
     IsObjectManagedByKubeNfv (dv_meta dv) \<and> IsObjectManagedByKubeNfv (vis_meta vis) \<and>
     (\<exists>src sto. sourceNameFromImportSourceType (vis_source vis) = Inr src \<and> dv_storage dv = Some sto \<and>
       img = image_of dv vis src sto)"

lemma nfvImage_Ok_iff:
  "nfvImageFromCdiDataVolumeVis (Some dv) (Some vis) s = (Ok img, t) \<longleftrightarrow> t = s \<and> image_parts dv vis img"
  by (auto simp: nfvImageFromCdiDataVolumeVis_def image_parts_def image_of_def and_then_Ok_iff act_simps Let_def
      sum_act_def deref_def UIDToIdentifier_def split: if_splits sum.splits option.splits)

lemma nfvImage_state: "nfvImageFromCdiDataVolumeVis dvp visp s = (r, t) \<Longrightarrow> t = s"
  by (auto simp: nfvImageFromCdiDataVolumeVis_def run_and_then wrap_def handle_def act_simps Let_def
      sum_act_def deref_def split: if_splits sum.splits option.splits)

lemma collect_images_Ok:
  "collect_images idx items s = (Ok res, t) \<Longrightarrow> t = s \<and>
     set res = {img. \<exists>vis dv. vis \<in> set items \<and> idx (m_name (vis_meta vis)) = Some dv \<and> image_parts dv vis img}"
proof (induction items arbitrary: res t)
  case Nil
  then show ?case by (simp add: act_simps)
next
  case (Cons img items)
  show ?case
  proof (cases "idx (m_name (vis_meta img))")
    case None
    then show ?thesis using Cons by auto
  next
    case (Some d)
    obtain r u where conv: "nfvImageFromCdiDataVolumeVis (Some d) (Some img) s = (r, u)" by force
    then have u: "u = s" by (rule nfvImage_state)
    show ?thesis
    proof (cases r)
      case (Ok x)
      then have x: "image_parts d img y \<longleftrightarrow> y = x" for y
        using conv u nfvImage_Ok_iff [of d img s _ s] by (metis fst_conv result.inject(1))
      obtain more where "collect_images idx items s = (Ok more, t)" "res = x # more"
        using Cons.prems Some conv u Ok by (auto simp: handle_def and_then_Ok_iff act_simps)
      with Cons.IH Some x show ?thesis by auto
    next
      case (Err e)
      then have "\<not> image_parts d img y" for y using conv u nfvImage_Ok_iff [of d img s y s] by auto
      moreover have "collect_images idx items s = (Ok res, t)"
        using Cons.prems Some conv u Err by (simp add: handle_def)
      ultimately show ?thesis using Cons.IH Some by auto
    qed (use Cons.prems Some conv in \<open>simp add: handle_def\<close>)
  qed
qed

text \<open>What the compute manager relies on in an image.\<close>

locale image_store =
  fixes im :: "'s image_manager"
  assumes get_image: "im_GetImage im i s = (Ok r, t) \<Longrightarrow>
    \<exists>img. r = Some img \<and> si_id img \<noteq> None \<and> si_size img \<noteq> None \<and> si_status img = ''ready''"

interpretation cdi: image_store "cdi_manager parseQuantity m" for parseQuantity m
  by standard (auto simp: cdi_manager_def cdi_GetImage_def and_then_Ok_iff act_simps nfvImage_Ok_iff image_parts_def
      image_of_def split: option.splits)

definition cdi_on :: "'s client \<Rightarrow> string \<Rightarrow> string \<Rightarrow> 's cdiManager" where
  "cdi_on cl sc ns = \<lparr>cdi_client = cl, cdi_apiReader = cl, cdi_storageClass = Some sc, cdi_namespace = Some ns\<rparr>"

lemma cdi_on_sel [simp]:
  "cdi_client (cdi_on cl sc ns) = cl" "cdi_apiReader (cdi_on cl sc ns) = cl"
  "cdi_storageClass (cdi_on cl sc ns) = Some sc" "cdi_namespace (cdi_on cl sc ns) = Some ns"
  by (simp_all add: cdi_on_def)

subsection \<open>On a server without faults\<close>

text \<open>What a successful download added to the cluster.\<close>

definition vis_for :: "download_request \<Rightarrow> string \<Rightarrow> vis \<Rightarrow> bool" where
  "vis_for req i vis \<longleftrightarrow> m_uid (vis_meta vis) = i \<and> IsObjectInstantiated (vis_meta vis) \<and>
     IsObjectManagedByKubeNfv (vis_meta vis) \<and> m_name (vis_meta vis) = str_or_empty (dr_name req) \<and>
     (\<exists>src. importSourceTypeFromImageSource (dr_source req) = Inr src \<and> vis_source vis = Some src)"

definition dv_for :: "(string \<Rightarrow> quantity option) \<Rightarrow> download_request \<Rightarrow> dv \<Rightarrow> bool" where
  "dv_for parseQuantity req dv \<longleftrightarrow> IsObjectInstantiated (dv_meta dv) \<and> IsObjectManagedByKubeNfv (dv_meta dv) \<and>
     m_name (dv_meta dv) = str_or_empty (dr_name req) \<and>
     (\<exists>sto. dv_storage dv = Some sto \<and> ds_size sto = image_size parseQuantity req)"

definition image_stored ::
  "(string \<Rightarrow> quantity option) \<Rightarrow> (okey \<Rightarrow> k8s_object option) \<Rightarrow> (okey \<Rightarrow> k8s_object option) \<Rightarrow> string \<Rightarrow>
   download_request \<Rightarrow> string \<Rightarrow> bool" where
  "image_stored parseQuantity V W ns req i \<longleftrightarrow> (let name = str_or_empty (dr_name req) in
     V (KVis, ns, name) = None \<and> (\<exists>vis. vis_for req i vis \<and>
       (if is_lazy req then W = V((KVis, ns, name) \<mapsto> OVis vis)
        else V (KDv, ns, name) = None \<and> (\<exists>dv. dv_for parseQuantity req dv \<and>
          W = V((KVis, ns, name) \<mapsto> OVis vis, (KDv, ns, name) \<mapsto> ODv dv)))))"

lemma vis_created:
  assumes "created (OVis (download_vis ns name src)) (OVis vis)"
    and "importSourceTypeFromImageSource (dr_source req) = Inr src" and "name = str_or_empty (dr_name req)"
  shows "vis_for req (m_uid (vis_meta vis)) vis \<and> m_namespace (vis_meta vis) = ns"
  using assms by (auto simp: created_def download_vis_def vis_for_def IsObjectInstantiated_def
      IsObjectManagedByKubeNfv_def empty_meta_def image_label_defs)

lemma dv_created:
  assumes "created (ODv (download_dv ns (str_or_empty (dr_name req)) u sc b (image_size parseQuantity req))) (ODv dv)"
  shows "dv_for parseQuantity req dv"
  using assms by (auto simp: created_def download_dv_def dv_for_def IsObjectInstantiated_def
      IsObjectManagedByKubeNfv_def empty_meta_def image_label_defs)

lemma vis_patched:
  assumes "vis_for req i vis" and "patched (OVis (vis\<lparr>vis_meta := (vis_meta vis)\<lparr>m_labels :=
      (m_labels (vis_meta vis))(K8sDataVolumeIdLabel \<mapsto> u)\<rparr>\<rparr>)) (OVis vis')"
  shows "vis_for req i vis'"
  using assms by (auto simp: patched_def vis_for_def IsObjectInstantiated_def IsObjectManagedByKubeNfv_def
      image_label_defs split: option.splits)

lemma download_keys [simp]:
  "obj_key (OVis (download_vis ns name src)) = (KVis, ns, name)"
  "obj_key (ODv (download_dv ns name u sc b q)) = (KDv, ns, name)"
  by (simp_all add: obj_key_def download_vis_def download_dv_def)

text \<open>The image with an id: a source and a data volume of the same name that convert to it.\<close>

definition image_at :: "(okey \<Rightarrow> k8s_object option) \<Rightarrow> string \<Rightarrow> string \<Rightarrow> image_info \<Rightarrow> bool" where
  "image_at V ns i img \<longleftrightarrow> (\<exists>n vis dv. V (KVis, ns, n) = Some (OVis vis) \<and> V (KDv, ns, n) = Some (ODv dv) \<and>
     m_uid (vis_meta vis) = i \<and> image_parts dv vis img)"

context api_server
begin

lemma getStorageClass_view:
  assumes "inv s"
  shows "meets (getStorageClass name cl) s (\<lambda>_ t. inv t \<and> view t = view s) (\<lambda>_ t. inv t \<and> view t = view s)"
  unfolding getStorageClass_def
  by (intro meets_if meets_throw meets_wrap meets_and_then meets_get [OF assms] meets_list [OF assms] meets_case_option
      meets_ret) (use assms in auto)

lemma cleanup_vis:
  assumes "inv t" and "view t = V((KVis, ns, name) \<mapsto> ob)" and "V (KVis, ns, name) = None"
  shows "meets (and_then (ignore (k8s_delete cl vis_k ns name)) (\<lambda>_. throw e)) t Q (\<lambda>_ u. inv u \<and> view u = V)"
  by (intro meets_and_then meets_ignore meets_delete [OF assms(1)] meets_throw) (use assms in auto)

lemma download_data_volume_view:
  assumes t: "inv t" and v: "view t = V((KVis, ns, name) \<mapsto> OVis vis)" and V: "V (KVis, ns, name) = None"
    and vis: "vis_for req i vis" "m_namespace (vis_meta vis) = ns" and name: "name = str_or_empty (dr_name req)"
    and nl: "\<not> is_lazy req"
  shows "meets (download_data_volume parseQuantity (cdi_on cl sc ns) req ns name vis) t
    (\<lambda>r u. inv u \<and> r = Some i \<and> image_stored parseQuantity V (view u) ns req i) (\<lambda>_ u. inv u \<and> view u = V)"
proof -
  have keys: "obj_key (OVis vis) = (KVis, ns, name)" "m_uid (vis_meta vis) = i"
    using vis name by (auto simp: vis_for_def obj_key_def)
  define visL where "visL u = vis\<lparr>vis_meta := (vis_meta vis)\<lparr>m_labels :=
      (m_labels (vis_meta vis))(K8sDataVolumeIdLabel \<mapsto> u)\<rparr>\<rparr>" for u
  have same: "same_identity (OVis vis) (OVis (visL u))" "obj_key (OVis (visL u)) = (KVis, ns, name)" for u
    using keys by (simp_all add: visL_def same_identity_def obj_key_def)
  have stored: "image_stored parseQuantity V W ns req i"
    if "dv_for parseQuantity req d" "patched (OVis (visL x)) (OVis y)" "V (KDv, ns, name) = None"
      "W = V((KVis, ns, name) \<mapsto> OVis y, (KDv, ns, name) \<mapsto> ODv d)" for d x y W
  proof -
    have y: "vis_for req i y" using vis_patched [OF vis(1)] that(2) by (simp add: visL_def)
    show ?thesis
      unfolding image_stored_def Let_def name [symmetric]
      using nl V y that(1,3,4) by auto
  qed
  show ?thesis
    unfolding download_data_volume_def Let_def cdi_on_sel visL_def [symmetric]
    by (intro meets_and_then [OF meets_deref [OF refl]] meets_handle meets_weaken [OF getStorageClass_view [OF t]])
      (auto simp: v keys same UIDToIdentifier_def fun_upd_twist intro!: meets_handle meets_create
        meets_patch cleanup_vis V meets_ret stored intro: dv_created [where req = req, folded name])
qed

lemma DownloadImage_view:
  assumes s: "inv s"
  shows "meets (DownloadImage parseQuantity (cdi_on cl sc ns) (Some req)) s
    (\<lambda>r t. inv t \<and> (\<exists>i. r = Some i \<and> image_stored parseQuantity (view s) (view t) ns req i))
    (\<lambda>_ t. inv t \<and> view t = view s)"
proof -
  let ?name = "str_or_empty (dr_name req)"
  have lazy: "image_stored parseQuantity (view s) ((view s)((KVis, ns', ?name) \<mapsto> OVis vis)) ns' req (m_uid (vis_meta vis))"
    if "is_lazy req" "vis_for req (m_uid (vis_meta vis)) vis" "view s (KVis, ns', ?name) = None" for vis ns'
    using that by (auto simp: image_stored_def Let_def)
  show ?thesis
    unfolding DownloadImage_def option.case Let_def cdi_on_sel
    by (intro meets_and_then meets_wrap meets_sum_act meets_deref [OF refl] meets_create [OF s])
      (use s in \<open>auto simp: UIDToIdentifier_def lazy dest!: vis_created [OF _ _ refl] intro!: meets_if meets_ret
        meets_weaken [OF download_data_volume_view [OF _ _ _ _ _ refl]]\<close>)
qed

lemma GetImage_Ok_iff:
  assumes s: "inv s"
  shows "(\<exists>t. cdi_GetImage (cdi_on cl sc ns) (Some i) s = (Ok (Some img), t)) \<longleftrightarrow> image_at (view s) ns i img"
proof
  assume "\<exists>t. cdi_GetImage (cdi_on cl sc ns) (Some i) s = (Ok (Some img), t)"
  then obtain t items u vis dv w where list: "k8s_list cl vis_k (Some ns) managed_selector s = (Ok items, u)"
    and vis: "find (\<lambda>vis. i = m_uid (vis_meta vis)) items = Some vis"
    and get: "k8s_get cl dv_k ns (m_name (vis_meta vis)) u = (Ok dv, w)" and img: "image_parts dv vis img"
    by (auto simp: cdi_GetImage_def and_then_Ok_iff act_simps deref_def nfvImage_Ok_iff split: option.splits)
  note l = list_Ok [OF s wf_kinds(9) list]
  have g: "view s (KDv, ns, m_name (vis_meta vis)) = Some (ODv dv)"
    using get_Ok(3) [OF l(1) wf_kinds(10) get] l(2) by simp
  obtain n where n: "view s (KVis, ns, n) = Some (OVis vis)" "i = m_uid (vis_meta vis)"
    using find_SomeD [OF vis] l(4) [of vis] by auto
  then have "n = m_name (vis_meta vis)" using view_key [OF s n(1)] by (simp add: obj_key_def)
  with n g img show "image_at (view s) ns i img" by (auto simp: image_at_def)
next
  assume "image_at (view s) ns i img"
  then obtain n vis dv where v: "view s (KVis, ns, n) = Some (OVis vis)" "view s (KDv, ns, n) = Some (ODv dv)"
    and i: "m_uid (vis_meta vis) = i" and img: "image_parts dv vis img" by (auto simp: image_at_def)
  have n: "m_name (vis_meta vis) = n" using view_key [OF s v(1)] by (simp add: obj_key_def)
  have conv: "meets (nfvImageFromCdiDataVolumeVis (Some dv) (Some vis)) u Q E" if "Q img u" for u Q E
    using that img nfvImage_Ok_iff [of dv vis u img u] by (simp add: meets_def)
  have "meets (cdi_GetImage (cdi_on cl sc ns) (Some i)) s (\<lambda>r _. r = Some img) (\<lambda>_ _. False)"
    unfolding cdi_GetImage_def option.case cdi_on_sel
    by (intro meets_and_then meets_deref [OF refl] meets_wrap
        meets_list_find [OF s wf_kinds(9), where P = "\<lambda>vis. i = m_uid (vis_meta vis)"])
      (use v i img n in \<open>auto simp: image_parts_def intro!: meets_and_then meets_wrap meets_get conv meets_ret\<close>)
  then show "\<exists>t. cdi_GetImage (cdi_on cl sc ns) (Some i) s = (Ok (Some img), t)"
    by (auto simp: meets_def split: prod.splits result.splits)
qed

lemma ListImages_Ok:
  assumes s: "inv s" and run: "cdi_ListImages (cdi_on cl sc ns) s = (Ok res, t)"
  shows "view t = view s" "set res = {img. \<exists>i. image_at (view s) ns i img}"
proof -
  obtain viss u dvs w where vl: "k8s_list cl vis_k (Some ns) managed_selector s = (Ok viss, u)"
    and dl: "k8s_list cl dv_k (Some ns) managed_selector u = (Ok dvs, w)"
    and col: "collect_images (index_dvs dvs) viss w = (Ok res, t)"
    using run by (auto simp: cdi_ListImages_def and_then_Ok_iff act_simps deref_def)
  note v = list_Ok [OF s wf_kinds(9) vl] and d = list_Ok [OF list_Ok(1) [OF s wf_kinds(9) vl] wf_kinds(10) dl]
  have view: "view w = view s" using v(2) d(2) by simp
  have key: "n = m_name (dv_meta x)" if "view s (KDv, ns, n) = Some (ODv x)" for n x
    using view_key [OF s that] by (simp add: obj_key_def)
  have vkey: "n = m_name (vis_meta x)" if "view s (KVis, ns, n) = Some (OVis x)" for n x
    using view_key [OF s that] by (simp add: obj_key_def)
  have dvs: "x \<in> set dvs \<longleftrightarrow> view s (KDv, ns, m_name (dv_meta x)) = Some (ODv x) \<and> IsObjectManagedByKubeNfv (dv_meta x)" for x
    using d(4) [of x] key v(2) by auto
  have viss: "x \<in> set viss \<longleftrightarrow> view s (KVis, ns, m_name (vis_meta x)) = Some (OVis x) \<and> IsObjectManagedByKubeNfv (vis_meta x)" for x
    using v(4) [of x] vkey by auto
  have idx: "index_dvs dvs n = Some x \<longleftrightarrow> x \<in> set dvs \<and> m_name (dv_meta x) = n" for n x
    unfolding index_dvs_def by (rule foldl_index_iff) (auto simp: dvs)
  have "set res = {img. \<exists>vis dv. vis \<in> set viss \<and> index_dvs dvs (m_name (vis_meta vis)) = Some dv \<and> image_parts dv vis img}"
    and t: "t = w"
    using collect_images_Ok [OF col] by auto
  moreover have "(\<exists>vis dv. vis \<in> set viss \<and> index_dvs dvs (m_name (vis_meta vis)) = Some dv \<and> image_parts dv vis img) \<longleftrightarrow>
      (\<exists>i. image_at (view s) ns i img)" for img
  proof
    assume "\<exists>vis dv. vis \<in> set viss \<and> index_dvs dvs (m_name (vis_meta vis)) = Some dv \<and> image_parts dv vis img"
    then obtain vis dv where "view s (KVis, ns, m_name (vis_meta vis)) = Some (OVis vis)"
      "view s (KDv, ns, m_name (vis_meta vis)) = Some (ODv dv)" "image_parts dv vis img"
      unfolding idx viss dvs by metis
    then show "\<exists>i. image_at (view s) ns i img" unfolding image_at_def by blast
  next
    assume "\<exists>i. image_at (view s) ns i img"
    then obtain n vis dv where at: "view s (KVis, ns, n) = Some (OVis vis)" "view s (KDv, ns, n) = Some (ODv dv)"
      "image_parts dv vis img" unfolding image_at_def by blast
    have "vis \<in> set viss \<and> index_dvs dvs (m_name (vis_meta vis)) = Some dv"
      unfolding idx viss dvs using at vkey [OF at(1)] key [OF at(2)] by (auto simp: image_parts_def)
    with at(3) show "\<exists>vis dv. vis \<in> set viss \<and> index_dvs dvs (m_name (vis_meta vis)) = Some dv \<and> image_parts dv vis img"
      by blast
  qed
  ultimately show "set res = {img. \<exists>i. image_at (view s) ns i img}" by simp
  show "view t = view s" using t view by simp
qed

end

subsection \<open>Properties\<close>

text \<open>C32. \<open>DownloadImage\<close> is atomic on a server without faults: it never panics; on success the cluster gained
  exactly the VolumeImportSource with the returned id and, unless the download is lazy, the DataVolume of
  the same name and the requested size; on every error, whichever step failed, the rollback has restored
  the objects of before the call.\<close>

theorem DownloadImage_atomic:
  assumes "api_server cl view I" and "I s"
  shows "case DownloadImage parseQuantity (cdi_on cl sc ns) (Some req) s of
      (Ok r, t) \<Rightarrow> \<exists>i. r = Some i \<and> image_stored parseQuantity (view s) (view t) ns req i
    | (Err e, t) \<Rightarrow> view t = view s
    | (Panic, t) \<Rightarrow> False"
  using api_server.DownloadImage_view [OF assms, of parseQuantity sc ns req]
  by (auto simp: meets_def split: prod.splits result.splits)

definition download_example :: download_request where
  "download_example = \<lparr>dr_name = Some ''ubuntu'', dr_source = Some \<lparr>im_type = ImgHTTP,
     im_http = Some \<lparr>hm_url = ''http://x/ubuntu.img'', hm_headers = []\<rparr>\<rparr>, dr_options = None\<rparr>"

definition fast_class :: storage_class where
  "fast_class = \<lparr>stc_meta = empty_meta\<lparr>m_name := ''fast'', m_uid := ''x'', m_resourceVersion := ''1'',
     m_creationTimestamp := 1\<rparr>, stc_volumeBindingMode = None\<rparr>"

definition mem_storage :: mem where
  "mem_storage = \<lparr>mem_objs = [OStorageClass fast_class], mem_next = 1\<rparr>"

abbreviation mem_images :: "mem cdiManager" where
  "mem_images \<equiv> cdi_on mem_client ''fast'' ''kube-nfv''"

lemma mem_storage_inv: "mem_inv mem_storage"
  by (simp add: mem_inv_def mem_storage_def fast_class_def IsObjectInstantiated_def obj_key_def)

theorem DownloadImage_atomic_witness:
  "case DownloadImage (\<lambda>_. None) mem_images (Some download_example) mem_storage of
      (Ok r, t) \<Rightarrow> \<exists>i. r = Some i \<and> image_stored (\<lambda>_. None) (mem_view mem_storage) (mem_view t) ''kube-nfv'' download_example i
    | (Err e, t) \<Rightarrow> mem_view t = mem_view mem_storage
    | (Panic, t) \<Rightarrow> False"
  by (rule DownloadImage_atomic [OF mem.api_server_axioms mem_storage_inv])

text \<open>C34. A downloaded image can be used: after an eager \<open>DownloadImage\<close> returned an id, \<open>GetImage\<close> by that id
  returns an image with the requested name and size (10Gi when none or an unparsable one was requested),
  the id itself and the status \<open>ready\<close> that the compute manager asks for.\<close>

theorem DownloadImage_GetImage:
  assumes "api_server cl view I" and "I s" and "\<not> is_lazy req"
    and "DownloadImage parseQuantity (cdi_on cl sc ns) (Some req) s = (Ok (Some i), t)"
  shows "\<exists>img u. cdi_GetImage (cdi_on cl sc ns) (Some i) t = (Ok (Some img), u) \<and>
    si_id img = Some i \<and> si_name img = str_or_empty (dr_name req) \<and>
    si_size img = Some (image_size parseQuantity req) \<and> si_status img = ''ready''"
proof -
  let ?n = "str_or_empty (dr_name req)"
  have t: "I t" "image_stored parseQuantity (view s) (view t) ns req i"
    using meets_Ok [OF api_server.DownloadImage_view [OF assms(1,2)] assms(4)] by auto
  then obtain vis dv where vis: "vis_for req i vis" and dv: "dv_for parseQuantity req dv"
    and v: "view t (KVis, ns, ?n) = Some (OVis vis)" "view t (KDv, ns, ?n) = Some (ODv dv)"
    using assms(3) by (auto simp: image_stored_def Let_def)
  obtain h where "vis_source vis = Some \<lparr>src_http = Some h\<rparr>"
    using vis by (auto simp: vis_for_def importSourceTypeFromImageSource_def split: option.splits image_source_type.splits sum.splits)
  then obtain src where src: "sourceNameFromImportSourceType (vis_source vis) = Inr src"
    by (cases "hs_certConfigMap h \<noteq> [] \<or> hs_secretRef h \<noteq> []") (auto simp: sourceNameFromImportSourceType_def)
  obtain sto where sto: "dv_storage dv = Some sto" "ds_size sto = image_size parseQuantity req"
    using dv by (auto simp: dv_for_def)
  have "image_parts dv vis (image_of dv vis src sto)"
    using vis dv src sto by (auto simp: image_parts_def vis_for_def dv_for_def)
  then have "image_at (view t) ns i (image_of dv vis src sto)"
    using v vis by (auto simp: image_at_def vis_for_def)
  then obtain u where "cdi_GetImage (cdi_on cl sc ns) (Some i) t = (Ok (Some (image_of dv vis src sto)), u)"
    using api_server.GetImage_Ok_iff [OF assms(1) t(1)] by blast
  then show ?thesis using vis sto by (auto simp: image_of_def vis_for_def)
qed

lemma mem_storage_free: "k \<noteq> KStorageClass \<Longrightarrow> mem_view mem_storage (k, ns, n) = None"
  by (simp add: mem_view_def mem_storage_def obj_key_def)

lemma download_example_run:
  obtains i t where "DownloadImage (\<lambda>_. None) mem_images (Some download_example) mem_storage = (Ok (Some i), t)"
    and "mem_inv t"
proof -
  obtain source where src: "importSourceTypeFromImageSource (dr_source download_example) = Inr source"
    by (simp add: download_example_def importSourceTypeFromImageSource_def convertToHttpDataVolumeSource_def)
  have sc: "mem_view mem_storage (KStorageClass, [], ''fast'') = Some (OStorageClass fast_class)"
    by (simp add: mem_view_def mem_storage_def obj_key_def fast_class_def empty_meta_def)
  have get: "meets (getStorageClass ''fast'' mem_client) t (\<lambda>_ u. mem_inv u \<and> mem_view u = mem_view t) (\<lambda>_ _. False)"
    if "mem_inv t" "mem_view t = (mem_view mem_storage)((KVis, a, b) \<mapsto> ob)" for t a b ob
    unfolding getStorageClass_def using that sc by (auto intro!: meets_wrap mem.meets_get)
  have patch: "meets (k8s_patch mem_client vis_k vis (vis\<lparr>vis_meta := (vis_meta vis)\<lparr>m_labels := l\<rparr>\<rparr>)) t
      (\<lambda>_ u. mem_inv u) (\<lambda>_ _. False)"
    if "mem_inv t" "mem_view t (obj_key (OVis vis)) = Some (OVis vis)" for t vis l
    by (rule mem.meets_patch [OF that(1)]) (use that in \<open>auto simp: same_identity_def obj_key_def\<close>)
  have vkey: "obj_key (OVis vis) = (KVis, ''kube-nfv'', ''ubuntu'')"
    if "created (OVis (download_vis ''kube-nfv'' ''ubuntu'' source)) (OVis vis)" for vis
    using that by (auto simp: created_def download_vis_def obj_key_def)
  have opts: "dr_options download_example = None" "\<not> is_lazy download_example" "str_or_empty (dr_name download_example) = ''ubuntu''"
    by (simp_all add: download_example_def is_lazy_def str_or_empty_def)
  have rest: "meets (download_data_volume (\<lambda>_. None) mem_images download_example ''kube-nfv'' ''ubuntu'' vis) t
      (\<lambda>r u. mem_inv u \<and> (\<exists>i. r = Some i)) (\<lambda>_ _. False)"
    if t: "mem_inv t" "mem_view t = (mem_view mem_storage)((KVis, ''kube-nfv'', ''ubuntu'') \<mapsto> OVis vis)"
      and key: "obj_key (OVis vis) = (KVis, ''kube-nfv'', ''ubuntu'')" for t vis
    unfolding download_data_volume_def Let_def cdi_on_sel opts option.case
    by (rule meets_and_then, rule meets_deref [OF refl], rule meets_handle, rule meets_weaken [OF get [OF t]],
        rule meets_handle, rule mem.meets_create)
      (auto simp: t key mem_storage_free UIDToIdentifier_def intro!: meets_handle meets_weaken [OF patch] meets_ret)
  have "meets (DownloadImage (\<lambda>_. None) mem_images (Some download_example)) mem_storage
      (\<lambda>r t. mem_inv t \<and> (\<exists>i. r = Some i)) (\<lambda>_ _. False)"
    unfolding DownloadImage_def option.case Let_def cdi_on_sel src sum_act_simps wrap_ret and_then_ret opts if_not_P [OF opts(2)]
    by (rule meets_and_then, rule meets_deref [OF refl], rule meets_and_then, rule meets_wrap,
        rule mem.meets_create [OF mem_storage_inv]) (auto simp: mem_storage_free intro!: rest vkey)
  then show thesis using that by (auto simp: meets_def split: prod.splits result.splits)
qed

theorem DownloadImage_GetImage_witness:
  "\<exists>i t img u. DownloadImage (\<lambda>_. None) mem_images (Some download_example) mem_storage = (Ok (Some i), t) \<and>
     cdi_GetImage mem_images (Some i) t = (Ok (Some img), u) \<and> si_name img = ''ubuntu'' \<and> si_status img = ''ready''"
proof -
  obtain i t where run: "DownloadImage (\<lambda>_. None) mem_images (Some download_example) mem_storage = (Ok (Some i), t)"
    by (rule download_example_run)
  have nl: "\<not> is_lazy download_example" by (simp add: is_lazy_def download_example_def)
  from DownloadImage_GetImage [OF mem.api_server_axioms mem_storage_inv nl run] run
  show ?thesis by (auto simp: download_example_def str_or_empty_def)
qed

text \<open>C33. The two image queries agree: on a server without faults the set that \<open>ListImages\<close> returns is exactly
  the set of images that \<open>GetImage\<close> returns for some id, although the one joins two lists through an index
  and the other looks a single object up; both skip an image without a data volume and one whose data
  volume kube-vim does not manage.\<close>

theorem ListImages_GetImage_agree:
  assumes "api_server cl view I" and "I s" and "cdi_ListImages (cdi_on cl sc ns) s = (Ok res, t)"
  shows "set res = {img. \<exists>i u. cdi_GetImage (cdi_on cl sc ns) (Some i) s = (Ok (Some img), u)}"
  using api_server.ListImages_Ok(2) [OF assms] api_server.GetImage_Ok_iff [OF assms(1,2)] by blast

theorem ListImages_GetImage_agree_witness:
  "\<exists>res t. cdi_ListImages mem_images mem_storage = (Ok res, t) \<and>
     set res = {img. \<exists>i u. cdi_GetImage mem_images (Some i) mem_storage = (Ok (Some img), u)}"
proof -
  have run: "cdi_ListImages mem_images mem_storage = (Ok [], mem_storage)"
    by (simp add: cdi_ListImages_def deref_def k8s_list_def call_def mem_client_def mem_list_def in_scope_def
        mem_storage_def run_and_then wrap_def handle_def act_simps)
  from ListImages_GetImage_agree [OF mem.api_server_axioms mem_storage_inv run] run show ?thesis by blast
qed

end
