(* ===== verification/Compute.thy ===== *)
theory Compute
  imports Ipam Flavour Image_Cdi
begin

text \<open>
  The KubeVirt compute manager (\<open>internal/kubevim/compute/kubevirt/manager.go\<close>, \<open>utils.go\<close> and the
  interface \<open>compute/manager.go\<close>). It calls the flavour, image and network managers through their
  interfaces and creates a VirtualMachine; KubeVirt answers with a VirtualMachineInstance, which the
  manager polls for. Everything other actors do while the manager sleeps is the parameter
  \<open>tick\<close>; \<open>polls\<close> is the number of sleeps that fit before the deadline. The decoding of the
  \<open>network-info\<close> annotation into the (partly external) struct is the parameter \<open>netInfo\<close>.
\<close>

subsection \<open>\<open>compute/manager.go\<close>\<close>

definition VnicHostPciAddressMetadataKey :: string where
  "VnicHostPciAddressMetadataKey = ''compute.kubevim.kubenfv.io/host-pci-address''"
definition ComputePodNameMetadataKey :: string where
  "ComputePodNameMetadataKey = ''compute.kubevim.kubenfv.io/pod-name''"

record getComputeOpts =
  gco_Name :: string
  gco_Uid :: "string option"

type_synonym get_compute_opt = "getComputeOpts \<Rightarrow> getComputeOpts"

definition GetComputeByName :: "string \<Rightarrow> get_compute_opt" where
  "GetComputeByName name = (\<lambda>gco. gco\<lparr>gco_Name := name\<rparr>)"

definition GetComputeByUid :: "string option \<Rightarrow> get_compute_opt" where
  "GetComputeByUid uid = (\<lambda>gco. gco\<lparr>gco_Uid := uid\<rparr>)"

definition ApplyGetComputeOpts :: "get_compute_opt list \<Rightarrow> getComputeOpts" where
  "ApplyGetComputeOpts opts = foldl (\<lambda>res opt. opt res) \<lparr>gco_Name = [], gco_Uid = None\<rparr> opts"

lemmas compute_opt_defs = GetComputeByName_def GetComputeByUid_def ApplyGetComputeOpts_def

subsection \<open>Messages\<close>

datatype user_data_method =
  CONFIG_DRIVE_PLAINTEXT | CONFIG_DRIVE_MIME_MULTIPART | NO_CLOUD | METADATA_SERVICE | METHOD_OTHER int

record user_data =
  ud_content :: string
  ud_method :: "user_data_method option"

record allocate_request =
  ar_computeName :: "string option"
  ar_computeFlavourId :: "string option"
  ar_vcImageId :: "string option"
  ar_userData :: "user_data option"
  ar_interfaceData :: "interface_data list"
  ar_interfaceIPAM :: "ipam list"

datatype vnic_type = NIC_BRIDGE | NIC_SRIOV

datatype running_state = STOPPED | PAUSED | TERMINATING | RUNNING | STARTING | FAILED | STATE_UNKNOWN

record vnic =
  vi_resourceId :: "string option"
  vi_ownerId :: "string option"
  vi_networkId :: "string option"
  vi_subnetId :: "string option"
  vi_type :: vnic_type
  vi_ipAddress :: "string list"
  vi_macAddress :: "string option"
  vi_bandwidth :: int
  vi_operationalState :: operational_state
  vi_metadata :: "labels option"

record virtual_compute =
  vc_computeId :: "string option"
  vc_computeName :: "string option"
  vc_flavourId :: "string option"
  vc_vcImageId :: "string option"
  vc_interfaces :: "vnic list"
  vc_hostId :: "string option"
  vc_operationalState :: operational_state
  vc_runningState :: running_state
  vc_metadata :: "labels option"

subsection \<open>Constants\<close>

definition VirtualMachineLabel :: string where "VirtualMachineLabel = ''kubevirt.io/vm''"
definition CreatedByLabel :: string where "CreatedByLabel = ''kubevirt.io/created-by''"
definition KubevirtVmCloudInitSecretSuffix :: string where "KubevirtVmCloudInitSecretSuffix = ''-cloud-init''"
definition KubevirtVmStatusCreated :: string where "KubevirtVmStatusCreated = ''status.vm.kubevirt.io/created''"
definition KubevirtVmStatusReady :: string where "KubevirtVmStatusReady = ''status.vm.kubevirt.io/ready''"
definition KubevirtVmPrintableStatus :: string where "KubevirtVmPrintableStatus = ''status.vm.kubevirt.io/printable-status''"
definition KubevirtVmRunStategy :: string where "KubevirtVmRunStategy = ''status.vm.kubevirt.io/run-strategy''"
definition KubevirtVmiStatusPhase :: string where "KubevirtVmiStatusPhase = ''status.vmi.kubevirt.io/phase''"
definition KubevirtVmiStatusReason :: string where "KubevirtVmiStatusReason = ''status.vmi.kubevirt.io/reason''"
definition KubevirtVmNetworkManagement :: string where "KubevirtVmNetworkManagement = ''network.vm.kubevirt.io/management''"
definition KubevirtInterfaceReady :: string where "KubevirtInterfaceReady = ''interface.vm.kubevirt.io/ready''"
definition kubevirtNetworkInfoAnnotation :: string where "kubevirtNetworkInfoAnnotation = ''kubevirt.io/network-info''"

subsection \<open>\<open>utils.go\<close>: from a VM to the NFV message\<close>

definition getRunningState :: "vm \<Rightarrow> vmi \<Rightarrow> running_state" where
  "getRunningState vm vmi =
     (if vm_status_runStrategy vm = ''Halted'' then STOPPED
      else if ''Paused'' \<in> set (vmi_status_conditions vmi) then PAUSED
      else if vm_status_printableStatus vm = ''Terminating'' then TERMINATING
      else if vm_status_created vm \<and> vm_status_ready vm \<and> vmi_status_phase vmi = ''Running'' then RUNNING
      else if vmi_status_phase vmi \<in> {''Pending'', ''Scheduling'', ''Scheduled'', ''Running''} then STARTING
      else if vmi_status_phase vmi = ''Failed'' then FAILED
      else STATE_UNKNOWN)"

definition getFlavourFromInstanceSpec :: "vm \<Rightarrow> error + string option" where
  "getFlavourFromInstanceSpec vmSpec = (case m_labels (vm_meta vmSpec) K8sFlavourIdLabel of
      None \<Rightarrow> Inl (ErrInvalidArgument ''kubevirt VirtualMachine spec'' ''missing kube-nfv flavour id label'')
    | Some flavId \<Rightarrow> Inr (Some flavId))"

definition getImageIdFromInstnceSpec :: "vm \<Rightarrow> error + string option" where
  "getImageIdFromInstnceSpec vmSpec = (case m_labels (vm_meta vmSpec) K8sImageIdLabel of
      None \<Rightarrow> Inl (ErrInvalidArgument ''kubevirt VirtualMachine spec'' ''missing kube-nfv image id label'')
    | Some imgId \<Rightarrow> Inr (Some imgId))"

definition getNetworkFromVmiSpec :: "string \<Rightarrow> vmi_spec option \<Rightarrow> error + kv_network" where
  "getNetworkFromVmiSpec netName vmiSpec = (case vmiSpec of
      None \<Rightarrow> Inl (ErrInvalidArgument ''VMI spec'' ''cannot be empty'')
    | Some spec \<Rightarrow> (case find (\<lambda>net. kn_name net = netName) (spec_networks spec) of
        Some net \<Rightarrow> Inr net
      | None \<Rightarrow> Inl (ErrNotFound ''network'' netName)))"

definition getNetworkFromVm :: "string \<Rightarrow> vm option \<Rightarrow> error + kv_network" where
  "getNetworkFromVm netName vmSpec = (case vmSpec of
      None \<Rightarrow> Inl (ErrInvalidArgument ''VM'' ''cannot be empty'')
    | Some vm \<Rightarrow> (case vm_template vm of
        None \<Rightarrow> Inl (ErrInvalidArgument ''VM template'' ''cannot be empty'')
      | Some tmpl \<Rightarrow> map_sum (Wrap ''get network from VM VMI template'') id
          (getNetworkFromVmiSpec netName (Some (tmpl_spec tmpl)))))"

text \<open>\<open>domSpec\<close> is the device list of a domain.\<close>

definition getInterfaceFromDomainSpec :: "string \<Rightarrow> kv_interface list option \<Rightarrow> error + kv_interface" where
  "getInterfaceFromDomainSpec ifaceName domSpec = (case domSpec of
      None \<Rightarrow> Inl (ErrInvalidArgument ''domain spec'' ''cannot be empty'')
    | Some ifaces \<Rightarrow> (case find (\<lambda>iface. if_name iface = ifaceName) ifaces of
        Some iface \<Rightarrow> Inr iface
      | None \<Rightarrow> Inl (ErrNotFound ''interface'' ifaceName)))"

definition getInterfaceFromVm :: "string \<Rightarrow> vm option \<Rightarrow> error + kv_interface" where
  "getInterfaceFromVm ifaceName vmSpec = (case vmSpec of
      None \<Rightarrow> Inl (ErrInvalidArgument ''VM'' ''cannot be empty'')
    | Some vm \<Rightarrow> (case vm_template vm of
        None \<Rightarrow> Inl (ErrInvalidArgument ''VM template'' ''cannot be empty'')
      | Some tmpl \<Rightarrow> map_sum (Wrap ''get interface from VM VMI template domain spec'') id
          (getInterfaceFromDomainSpec ifaceName (Some (spec_interfaces (tmpl_spec tmpl))))))"

definition getInterfaceFromVmi :: "string \<Rightarrow> vmi option \<Rightarrow> error + kv_interface" where
  "getInterfaceFromVmi ifaceName vmip = (case vmip of
      None \<Rightarrow> Inl (ErrInvalidArgument ''VMI'' ''cannot be empty'')
    | Some vmi \<Rightarrow> map_sum (Wrap ''get interface from VMI spec'') id
        (getInterfaceFromDomainSpec ifaceName (Some (spec_interfaces (vmi_spec vmi)))))"

definition getInterfaceStatusFromVmi :: "string \<Rightarrow> vmi option \<Rightarrow> error + iface_status" where
  "getInterfaceStatusFromVmi ifaceName vmip = (case vmip of
      None \<Rightarrow> Inl (ErrInvalidArgument ''VMI'' ''cannot be empty'')
    | Some vmi \<Rightarrow> (case find (\<lambda>iface. is_name iface = ifaceName) (vmi_status_interfaces vmi) of
        Some iface \<Rightarrow> Inr iface
      | None \<Rightarrow> Inl (ErrNotFound ''interface'' ifaceName)))"

definition ifaceBindingMethodToNfv :: "kv_interface \<Rightarrow> error + vnic_type" where
  "ifaceBindingMethodToNfv method =
     (if if_bridge method then Inr NIC_BRIDGE
      else if if_masquerade method then Inr NIC_BRIDGE
      else if if_sriov method then Inr NIC_SRIOV
      else Inl (Wrap ''unknown interface binding method'' ErrUnsupported))"

record launcherInfo =
  li_podName :: string
  li_hostPciByVnic :: labels

text \<open>The network and the subnet of an interface attached through multus. A definition that is already
  gone, as during a deletion, leaves placeholders.\<close>

definition multus_ids :: "'s network_manager \<Rightarrow> string \<Rightarrow> ('s, error, string option \<times> string option) act" where
  "multus_ids netMgr networkName =
     (let by_subnet = handle (nm_GetSubnet netMgr [GetSubnetByNetAttachName networkName])
          (\<lambda>subnet. ret (ns_networkId subnet, ns_resourceId subnet))
          (\<lambda>err. if k8s_IsNotFound err \<or> errors_As is_ErrNotFound err then ret (Some ''deleted'', Some ''deleted'')
             else throw (Wrap ''get subnet from VM network attachment definition'' err))
      in handle (nm_GetNetwork netMgr [GetNetworkByName networkName])
           (\<lambda>sriovNet. if vn_networkType sriovNet = NET_SRIOV then ret (vn_resourceId sriovNet, None) else by_subnet)
           (\<lambda>err. by_subnet))"

definition network_ids :: "'s network_manager \<Rightarrow> kv_network \<Rightarrow> ('s, error, (string option \<times> string option) \<times> string) act" where
  "network_ids netMgr netSpec =
     (if kn_pod netSpec then ret ((None, None), ''true'')
      else (case kn_multus netSpec of
        Some multusNet \<Rightarrow> and_then (multus_ids netMgr (mn_networkName multusNet)) (\<lambda>ids.
          ret (ids, if mn_default multusNet then ''true'' else ''false''))
      | None \<Rightarrow> throw (ErrInvalidArgument (''network '' @ quoted (kn_name netSpec)) ''must be either multus or pod type'')))"

definition vnic_of ::
  "'s network_manager \<Rightarrow> vm \<Rightarrow> vmi \<Rightarrow> launcherInfo \<Rightarrow> kv_network \<Rightarrow> ('s, error, vnic) act" where
  "vnic_of netMgr vm vmi launcher netSpec = (let name = kn_name netSpec in
     and_then (wrap ''get interface from VMI'' (sum_act (getInterfaceFromVmi name (Some vmi)))) (\<lambda>ifaceSpec.
     and_then (wrap ''get virtual NIC type for VMI interface'' (sum_act (ifaceBindingMethodToNfv ifaceSpec))) (\<lambda>vNicType.
     and_then (network_ids netMgr netSpec) (\<lambda>((networkId, subnetId), management).
     (let md = [KubevirtVmNetworkManagement \<mapsto> management];
          (ips, mac, md) = (case getInterfaceStatusFromVmi name (Some vmi) of
              Inr st \<Rightarrow> (is_ips st, Some (is_mac st), md(KubevirtInterfaceReady \<mapsto> ''true''))
            | Inl err \<Rightarrow> ([], Some ''initializing'', md(KubevirtInterfaceReady \<mapsto> ''false'')));
          md = (if has_value (li_hostPciByVnic launcher name)
            then md(VnicHostPciAddressMetadataKey \<mapsto> str_or_empty (li_hostPciByVnic launcher name)) else md)
      in ret \<lparr>vi_resourceId = Some name, vi_ownerId = UIDToIdentifier (m_uid (vm_meta vm)), vi_networkId = networkId,
           vi_subnetId = subnetId, vi_type = vNicType, vi_ipAddress = ips, vi_macAddress = mac, vi_bandwidth = 0,
           vi_operationalState = ENABLED, vi_metadata = Some md\<rparr>)))))"

definition format_bool :: "bool \<Rightarrow> string" where
  "format_bool b = (if b then ''true'' else ''false'')"

definition compute_metadata :: "vm \<Rightarrow> vmi \<Rightarrow> launcherInfo \<Rightarrow> labels" where
  "compute_metadata vm vmi launcher =
     (let md = [KubevirtVmStatusCreated \<mapsto> format_bool (vm_status_created vm),
            KubevirtVmStatusReady \<mapsto> format_bool (vm_status_ready vm),
            KubevirtVmPrintableStatus \<mapsto> vm_status_printableStatus vm,
            KubevirtVmRunStategy \<mapsto> vm_status_runStrategy vm,
            KubevirtVmiStatusPhase \<mapsto> vmi_status_phase vmi];
          md = (if vmi_status_reason vmi \<noteq> [] then md(KubevirtVmiStatusReason \<mapsto> vmi_status_reason vmi) else md)
      in (if li_podName launcher \<noteq> [] then md(ComputePodNameMetadataKey \<mapsto> li_podName launcher) else md))"

definition nfvVirtualComputeFromKubevirtVm ::
  "'s network_manager \<Rightarrow> vm option \<Rightarrow> vmi option \<Rightarrow> launcherInfo \<Rightarrow> ('s, error, virtual_compute) act" where
  "nfvVirtualComputeFromKubevirtVm netMgr vmp vmip launcher = (case (vmip, vmp) of
      (Some vmi, Some vm) \<Rightarrow>
        and_then (wrap ''get flavour from kubevirt VM'' (sum_act (getFlavourFromInstanceSpec vm))) (\<lambda>flavId.
        and_then (wrap ''get image id from kubevirt VM'' (sum_act (getImageIdFromInstnceSpec vm))) (\<lambda>imgId.
        and_then (for_each (vnic_of netMgr vm vmi launcher) (spec_networks (vmi_spec vmi))) (\<lambda>netIfaces.
        ret \<lparr>vc_computeId = UIDToIdentifier (m_uid (vm_meta vm)), vc_computeName = Some (m_name (vm_meta vm)),
             vc_flavourId = flavId, vc_vcImageId = imgId, vc_interfaces = netIfaces,
             vc_hostId = Some (vmi_status_nodeName vmi),
             vc_operationalState = (if vm_status_runStrategy vm = ''Halted'' then DISABLED else ENABLED),
             vc_runningState = getRunningState vm vmi,
             vc_metadata = Some (compute_metadata vm vmi launcher)\<rparr>)))
    | _ \<Rightarrow> throw (ErrInvalidArgument ''kubevirt resources'' ''virtualMachine and virtualMachineInstance cannot be nil''))"

subsection \<open>\<open>manager.go\<close>: the disks of a VM\<close>

definition initVmInstanceTypeMatcher :: "string \<Rightarrow> error + kind_matcher" where
  "initVmInstanceTypeMatcher instanceTypeName =
     (if instanceTypeName = [] then Inl (ErrInvalidArgument ''instanceType name'' ''cannot be empty'')
      else Inr \<lparr>km_kind = ''VirtualMachineInstanceType'', km_name = instanceTypeName\<rparr>)"

definition initVmPreferenceMatcher :: "string \<Rightarrow> error + kind_matcher" where
  "initVmPreferenceMatcher preferenceName =
     (if preferenceName = [] then Inl (ErrInvalidArgument ''preference name'' ''cannot be empty'')
      else Inr \<lparr>km_kind = ''VirtualMachinePreference'', km_name = preferenceName\<rparr>)"

definition initVolumesDisksFromDataVolumes :: "dv_template list \<Rightarrow> kv_volume list \<times> kv_disk list" where
  "initVolumesDisksFromDataVolumes dvs =
     (map (\<lambda>dv. \<lparr>vol_name = dvt_name dv, vol_source = VolDataVolume (dvt_name dv)\<rparr>) dvs,
      map (\<lambda>dv. \<lparr>disk_name = dvt_name dv, disk_bus = ''virtio''\<rparr>) dvs)"

text \<open>The search for the one bootable entry.\<close>

fun find_bootable ::
  "virtual_storage_data option list \<Rightarrow> virtual_storage_data option \<Rightarrow> ('s, error, virtual_storage_data option) act" where
  "find_bootable [] bootable = ret bootable"
| "find_bootable (storageAttr # rest) bootable = and_then (deref storageAttr) (\<lambda>attr.
     if vs_isBoot attr = Some True then
       (if bootable \<noteq> None then throw (Wrap ''more than one bootable storageAttributes specified'' ErrUnsupported)
        else find_bootable rest (Some attr))
     else find_bootable rest bootable)"

definition is_zero :: "quantity option \<Rightarrow> bool" where
  "is_zero q \<longleftrightarrow> (case q of None \<Rightarrow> True | Some x \<Rightarrow> q_amount x = 0)"

definition initImageBootableDataVolume ::
  "image_info option \<Rightarrow> virtual_storage_data option \<Rightarrow> string \<Rightarrow> string \<Rightarrow> ('s, error, dv_template) act" where
  "initImageBootableDataVolume imageInfo bootableAttributes vmName namespace = (case imageInfo of
      None \<Rightarrow> throw (ErrInvalidArgument ''software image info'' ''cannot be nil'')
    | Some img \<Rightarrow>
        if si_name img = [] then throw (ErrInvalidArgument ''software image name'' ''cannot be empty'')
        else if si_status img \<noteq> ''ready'' then
          and_then (deref (si_id img)) (\<lambda>_. throw (Wrap ''image not ready'' ErrInternal))
        else (case bootableAttributes of
            None \<Rightarrow> throw (ErrInvalidArgument ''storage attributes for bootable disk'' (''can'' @ [CHR 0x27] @ ''t be nil''))
          | Some attr \<Rightarrow>
              if is_zero (si_size img) then throw (ErrInvalidArgument ''software image size'' ''cannot be zero'')
              else if is_zero (vs_sizeOfStorage attr) then throw (ErrInvalidArgument ''size of bootable disk'' ''cannot be zero'')
              else if q_amount (the (si_size img)) > q_amount (the (vs_sizeOfStorage attr))
                then throw (ErrInvalidArgument ''size of bootable disk'' (''can'' @ [CHR 0x27] @ ''t be less that image size''))
              else ret \<lparr>dvt_name = vmName @ ''-boot-dv'',
                dvt_labels = [K8sManagedByLabel \<mapsto> KubeNfvName, K8sImageIdLabel \<mapsto> str_or_empty (si_id img)],
                dvt_pvc_namespace = namespace, dvt_pvc_name = si_name img,
                dvt_storage = the (vs_sizeOfStorage attr), dvt_accessModes = [''ReadWriteOnce'']\<rparr>))"

definition initImageDataVolumes ::
  "image_info option \<Rightarrow> virtual_storage_data option list \<Rightarrow> string \<Rightarrow> string \<Rightarrow> ('s, error, dv_template list) act" where
  "initImageDataVolumes imageInfo storageAttributes vmName namespace =
     and_then (find_bootable storageAttributes None) (\<lambda>bootable.
     if bootable = None then throw (Wrap ''storage attributes not found for bootable disk'' ErrUnsupported)
     else and_then (wrap ''initialize bootable CDI DataVolume for vm''
       (initImageBootableDataVolume imageInfo bootable vmName namespace)) (\<lambda>bootDv. ret [bootDv]))"

subsection \<open>The manager\<close>

record compute_config =
  cc_nodeSelector :: "labels option"
  cc_tolerations :: "config_toleration list option"

record 's compute =
  km_client :: "'s client"
  km_apiReader :: "'s client"
  km_flavourManager :: "'s flavour_manager"
  km_imageManager :: "'s image_manager"
  km_networkManager :: "'s network_manager"
  km_namespace :: "string option"
  km_computeCfg :: "compute_config option"

definition NewComputeManager ::
  "'s client \<Rightarrow> 's client \<Rightarrow> string option \<Rightarrow> compute_config option \<Rightarrow> 's flavour_manager \<Rightarrow> 's image_manager \<Rightarrow>
   's network_manager \<Rightarrow> 's compute" where
  "NewComputeManager cl apiReader namespace computeCfg flavourManager imageManager networkManager =
     \<lparr>km_client = cl, km_apiReader = apiReader, km_flavourManager = flavourManager, km_imageManager = imageManager,
      km_networkManager = networkManager, km_namespace = namespace, km_computeCfg = computeCfg\<rparr>"

definition cloud_init_secret :: "string \<Rightarrow> string \<Rightarrow> string \<Rightarrow> secret" where
  "cloud_init_secret namespace vmName content =
     \<lparr>sec_meta = empty_meta\<lparr>m_name := vmName @ KubevirtVmCloudInitSecretSuffix, m_namespace := namespace,
        m_labels := [K8sManagedByLabel \<mapsto> KubeNfvName, VirtualMachineLabel \<mapsto> vmName]\<rparr>,
      sec_data = [''userdata'' \<mapsto> content]\<rparr>"

definition cloud_init_source :: "string \<Rightarrow> user_data_method \<Rightarrow> error + volume_source" where
  "cloud_init_source secretName method = (case method of
      CONFIG_DRIVE_PLAINTEXT \<Rightarrow> Inr (VolCloudInitConfigDrive secretName)
    | CONFIG_DRIVE_MIME_MULTIPART \<Rightarrow> Inr (VolCloudInitConfigDrive secretName)
    | NO_CLOUD \<Rightarrow> Inr (VolCloudInitNoCloud secretName)
    | METADATA_SERVICE \<Rightarrow> Inl (Wrap ''userData metadata service method not supported in KubeVirt natively'' ErrUnsupported)
    | METHOD_OTHER _ \<Rightarrow> Inl (Wrap ''unsupported userData method'' ErrUnsupported))"

definition createUserDataVolumeWithSecret ::
  "'s compute \<Rightarrow> string \<Rightarrow> string \<Rightarrow> user_data \<Rightarrow> ('s, error, kv_volume \<times> kv_disk) act" where
  "createUserDataVolumeWithSecret m namespace vmName userData =
     (if ud_content userData = [] then throw (ErrInvalidArgument ''userData content'' ''cannot be empty'')
      else (case ud_method userData of
        None \<Rightarrow> throw (ErrInvalidArgument ''userData method'' ''cannot be nil'')
      | Some method \<Rightarrow>
          (let secretName = vmName @ KubevirtVmCloudInitSecretSuffix;
               secret = cloud_init_secret namespace vmName (ud_content userData) in
           and_then (handle (k8s_create (km_client m) secret_k secret) ret (\<lambda>err.
             if \<not> k8s_IsAlreadyExists err then throw (Wrap ''create cloud-init secret'' err)
             else wrap ''update cloud-init secret'' (k8s_update (km_client m) secret_k secret))) (\<lambda>_.
           and_then (sum_act (cloud_init_source secretName method)) (\<lambda>source.
           ret (\<lparr>vol_name = ''cloudinitdisk'', vol_source = source\<rparr>, \<lparr>disk_name = ''cloudinitdisk'', disk_bus = ''virtio''\<rparr>))))))"

text \<open>The flavour of the request and the matchers read from its metadata.\<close>

definition vm_flavour ::
  "'s compute \<Rightarrow> allocate_request \<Rightarrow> ('s, error, compute_flavour \<times> kind_matcher \<times> kind_matcher option) act" where
  "vm_flavour m req =
     (if \<not> has_value (ar_computeFlavourId req) then throw (ErrInvalidArgument ''compute flavour id'' ''cannot be empty'')
      else
        and_then (wrap ''retrieve flavour'' (fm_GetFlavour (km_flavourManager m) (ar_computeFlavourId req))) (\<lambda>flav.
        (case cf_metadata flav of
           None \<Rightarrow> throw (Wrap ''flavour metadata cannot be nil'' ErrUnsupported)
         | Some flds \<Rightarrow>
             if flds K8sFlavourSourceLabel \<noteq> Some KubevirtFlavourSource
             then throw (Wrap ''kubevirt compute manager can only work with kubevirt flavour manager'' ErrUnsupported)
             else (case flds InstancetypeAnnotation of
               None \<Rightarrow> throw (ErrInvalidArgument ''flavour metadata'' (''missing '' @ quoted InstancetypeAnnotation @ '' annotation''))
             | Some vmInstanceTypeName \<Rightarrow>
                 and_then (wrap ''initialize kubevirt instance type matcher'' (sum_act (initVmInstanceTypeMatcher vmInstanceTypeName))) (\<lambda>instanceTypeMatcher.
                 (case flds PreferenceAnnotation of
                    None \<Rightarrow> throw (ErrInvalidArgument ''flavour metadata'' (''missing '' @ quoted PreferenceAnnotation @ '' annotation''))
                  | Some vmPreferenceName \<Rightarrow>
                      ret (flav, instanceTypeMatcher,
                        (case initVmPreferenceMatcher vmPreferenceName of Inl err \<Rightarrow> None | Inr mt \<Rightarrow> Some mt))))))))"

text \<open>The image of the request and the boot volume, named after the requested name.\<close>

definition vm_volumes ::
  "'s compute \<Rightarrow> string \<Rightarrow> allocate_request \<Rightarrow> compute_flavour \<Rightarrow> ('s, error, image_info option \<times> dv_template list) act" where
  "vm_volumes m namespace req flav =
     (if \<not> has_value (ar_vcImageId req) then throw (ErrInvalidArgument ''vc image id'' ''cannot be empty'')
      else
        and_then (wrap ''get image'' (im_GetImage (km_imageManager m) (ar_vcImageId req))) (\<lambda>imgInfo.
        and_then (wrap ''initialize kubevirt data volume'' (initImageDataVolumes imgInfo (cf_storageAttributes flav)
          (str_or_empty (ar_computeName req)) namespace)) (\<lambda>dvs. ret (imgInfo, dvs))))"

definition user_data_disks ::
  "'s compute \<Rightarrow> string \<Rightarrow> string \<Rightarrow> allocate_request \<Rightarrow> ('s, error, kv_volume list \<times> kv_disk list) act" where
  "user_data_disks m namespace vmName req = (case ar_userData req of
      None \<Rightarrow> ret ([], [])
    | Some userData \<Rightarrow>
        and_then (wrap ''initialize vm userdata volume'' (createUserDataVolumeWithSecret m namespace vmName userData)) (\<lambda>(volume, disk).
        ret ([volume], [disk])))"

definition vm_object ::
  "'s compute \<Rightarrow> string \<Rightarrow> string \<Rightarrow> allocate_request \<Rightarrow> kind_matcher \<Rightarrow> kind_matcher option \<Rightarrow> dv_template list \<Rightarrow>
   kv_volume list \<Rightarrow> kv_disk list \<Rightarrow> kv_network list \<Rightarrow> kv_interface list \<Rightarrow> labels \<Rightarrow> vm" where
  "vm_object m namespace vmName req instanceTypeMatcher preferenceMatcher dvs volumes disks networks interfaces vmAnnotations =
     \<lparr>vm_meta = empty_meta\<lparr>m_name := vmName, m_namespace := namespace,
        m_labels := [VirtualMachineLabel \<mapsto> vmName, K8sManagedByLabel \<mapsto> KubeNfvName,
          K8sFlavourIdLabel \<mapsto> str_or_empty (ar_computeFlavourId req), K8sImageIdLabel \<mapsto> str_or_empty (ar_vcImageId req)]\<rparr>,
      vm_dataVolumeTemplates = dvs, vm_instancetype = Some instanceTypeMatcher, vm_preference = preferenceMatcher,
      vm_runStrategy = Some ''Always'',
      vm_template = Some \<lparr>tmpl_labels = [K8sManagedByLabel \<mapsto> KubeNfvName, VirtualMachineLabel \<mapsto> vmName],
        tmpl_annotations = vmAnnotations,
        tmpl_spec = \<lparr>spec_disks = disks, spec_interfaces = interfaces, spec_secureBoot = Some False,
          spec_networks = networks, spec_volumes = volumes,
          spec_nodeSelector = (case km_computeCfg m of None \<Rightarrow> Map.empty
            | Some cfg \<Rightarrow> (case cc_nodeSelector cfg of None \<Rightarrow> Map.empty | Some sel \<Rightarrow> sel)),
          spec_tolerations = (case km_computeCfg m of None \<Rightarrow> []
            | Some cfg \<Rightarrow> (case cc_tolerations cfg of None \<Rightarrow> [] | Some ts \<Rightarrow> ToK8sTolerations ts))\<rparr>\<rparr>,
      vm_status_created = False, vm_status_ready = False, vm_status_printableStatus = [], vm_status_runStrategy = []\<rparr>"

definition vm_name :: "allocate_request \<Rightarrow> image_info option \<Rightarrow> ('s, error, string) act" where
  "vm_name req imgInfo = (if has_value (ar_computeName req) then ret (str_or_empty (ar_computeName req))
     else and_then (deref imgInfo) (\<lambda>img. ret (si_name img @ ''-vm'')))"

text \<open>\<open>AllocateComputeResource\<close> up to the creation of the VM.\<close>

definition prepare_vm ::
  "(string \<Rightarrow> bool) \<Rightarrow> ('s, error, string) act \<Rightarrow> 's compute \<Rightarrow> string \<Rightarrow> allocate_request \<Rightarrow> ('s, error, vm) act" where
  "prepare_vm isUUID newRandom m namespace req =
     and_then (vm_flavour m req) (\<lambda>(flav, instanceTypeMatcher, preferenceMatcher).
     and_then (vm_volumes m namespace req flav) (\<lambda>(imgInfo, dvs).
     and_then (vm_name req imgInfo) (\<lambda>vmName.
     and_then (user_data_disks m namespace vmName req) (\<lambda>(udVolumes, udDisks).
     and_then (wrap ''initialize kubevirt networks'' (resolveInterfaces isUUID newRandom
       (newIpamResolver (km_networkManager m) namespace) (ar_interfaceData req) (ar_interfaceIPAM req))) (\<lambda>(networks, interfaces, netAnnotations).
     (let (volumes, disks) = initVolumesDisksFromDataVolumes dvs in
      ret (vm_object m namespace vmName req instanceTypeMatcher preferenceMatcher dvs (volumes @ udVolumes)
        (disks @ udDisks) networks interfaces netAnnotations)))))))"

text \<open>The polling loop. The deadline of the context fires after \<open>polls\<close> sleeps of half a second.\<close>

fun waitForVmi :: "('s \<Rightarrow> 's) \<Rightarrow> nat \<Rightarrow> 's compute \<Rightarrow> string \<Rightarrow> string \<Rightarrow> ('s, error, vmi) act" where
  "waitForVmi tick polls m name namespace = handle (k8s_get (km_apiReader m) vmi_k namespace name) ret (\<lambda>err.
     if \<not> k8s_IsNotFound err then throw (Wrap ''get VirtualMachineInstance'' err)
     else (case polls of
         0 \<Rightarrow> throw (Wrap ''VMI not created'' (Plain ''context deadline exceeded''))
       | Suc n \<Rightarrow> (\<lambda>s. waitForVmi tick n m name namespace (tick s))))"

declare waitForVmi.simps [simp del]

subsection \<open>The launcher pod\<close>

record net_info_iface =
  ni_network :: string
  ni_pciAddress :: "string option"

definition selectLauncherPod :: "pod list \<Rightarrow> string \<Rightarrow> pod option" where
  "selectLauncherPod pods nodeName = (case pods of
      [] \<Rightarrow> None
    | p # _ \<Rightarrow> (case find (\<lambda>p. pod_nodeName p = nodeName) pods of Some q \<Rightarrow> Some q | None \<Rightarrow> Some p))"

definition launcherInfoFromPod :: "(string \<Rightarrow> net_info_iface list option) \<Rightarrow> pod option \<Rightarrow> launcherInfo" where
  "launcherInfoFromPod netInfo podp = (case podp of
      None \<Rightarrow> \<lparr>li_podName = [], li_hostPciByVnic = Map.empty\<rparr>
    | Some pod \<Rightarrow> \<lparr>li_podName = m_name (pod_meta pod),
        li_hostPciByVnic = (case m_annotations (pod_meta pod) kubevirtNetworkInfoAnnotation of
            None \<Rightarrow> Map.empty
          | Some infoJSON \<Rightarrow> (case netInfo infoJSON of
              None \<Rightarrow> Map.empty
            | Some ifaces \<Rightarrow> foldl (\<lambda>pci iface. if has_value (ni_pciAddress iface)
                then pci(ni_network iface \<mapsto> str_or_empty (ni_pciAddress iface)) else pci) Map.empty ifaces))\<rparr>)"

definition getLauncherInfo ::
  "(string \<Rightarrow> net_info_iface list option) \<Rightarrow> 's compute \<Rightarrow> vmi option \<Rightarrow> ('s, error, launcherInfo) act" where
  "getLauncherInfo netInfo m vmip =
     (let none = \<lparr>li_podName = [], li_hostPciByVnic = Map.empty\<rparr> in
      case vmip of
        None \<Rightarrow> ret none
      | Some vmi \<Rightarrow>
          if m_uid (vmi_meta vmi) = [] then ret none
          else and_then (deref (km_namespace m)) (\<lambda>namespace.
            handle (k8s_list (km_client m) pod_k (Some namespace) [(CreatedByLabel, m_uid (vmi_meta vmi))])
              (\<lambda>pods. ret (launcherInfoFromPod netInfo (selectLauncherPod pods (vmi_status_nodeName vmi))))
              (\<lambda>err. ret none)))"

subsection \<open>The operations\<close>

definition AllocateComputeResource ::
  "(string \<Rightarrow> bool) \<Rightarrow> ('s, error, string) act \<Rightarrow> (string \<Rightarrow> net_info_iface list option) \<Rightarrow> ('s \<Rightarrow> 's) \<Rightarrow> nat \<Rightarrow>
   's compute \<Rightarrow> allocate_request option \<Rightarrow> ('s, error, virtual_compute) act" where
  "AllocateComputeResource isUUID newRandom netInfo tick polls m reqp =
     and_then (deref (km_namespace m)) (\<lambda>namespace. (case reqp of
        None \<Rightarrow> throw (ErrInvalidArgument ''request'' ''cannot be empty'')
      | Some req \<Rightarrow>
          and_then (prepare_vm isUUID newRandom m namespace req) (\<lambda>vm.
          and_then (wrap ''create kubevirt VirtualMachine'' (k8s_create (km_client m) vm_k vm)) (\<lambda>vmSpec.
          and_then (wrap ''await VMI for VM'' (waitForVmi tick polls m (m_name (vm_meta vm)) namespace)) (\<lambda>vmi.
          and_then (getLauncherInfo netInfo m (Some vmi)) (\<lambda>launcher.
          wrap ''convert kubevirt VM to nfv VirtualCompute''
            (nfvVirtualComputeFromKubevirtVm (km_networkManager m) (Some vmSpec) (Some vmi) launcher)))))))"

definition index_vmis :: "vmi list \<Rightarrow> string \<rightharpoonup> vmi" where
  "index_vmis items = foldl (\<lambda>idx x. idx(m_name (vmi_meta x) \<mapsto> x)) Map.empty items"

definition index_pods :: "pod list \<Rightarrow> string \<Rightarrow> pod list" where
  "index_pods items = foldl (\<lambda>idx p. case m_labels (pod_meta p) CreatedByLabel of
      None \<Rightarrow> idx | Some uid \<Rightarrow> idx(uid := idx uid @ [p])) (\<lambda>_. []) items"

fun list_vms ::
  "(string \<Rightarrow> net_info_iface list option) \<Rightarrow> 's compute \<Rightarrow> (string \<rightharpoonup> vmi) \<Rightarrow> (string \<Rightarrow> pod list) \<Rightarrow> vm list \<Rightarrow>
   ('s, error, virtual_compute list) act" where
  "list_vms netInfo m vmiByName podsByVmiUID [] = ret []"
| "list_vms netInfo m vmiByName podsByVmiUID (vm # vms) = (case vmiByName (m_name (vm_meta vm)) of
      None \<Rightarrow> list_vms netInfo m vmiByName podsByVmiUID vms
    | Some vmi \<Rightarrow>
        and_then (wrap ''convert kubevirt VM to nfv VirtualCompute'' (nfvVirtualComputeFromKubevirtVm (km_networkManager m)
          (Some vm) (Some vmi) (launcherInfoFromPod netInfo
            (selectLauncherPod (podsByVmiUID (m_uid (vmi_meta vmi))) (vmi_status_nodeName vmi))))) (\<lambda>vComp.
        and_then (list_vms netInfo m vmiByName podsByVmiUID vms) (\<lambda>res. ret (vComp # res))))"

definition ListComputeResources ::
  "(string \<Rightarrow> net_info_iface list option) \<Rightarrow> 's compute \<Rightarrow> ('s, error, virtual_compute list) act" where
  "ListComputeResources netInfo m =
     and_then (deref (km_namespace m)) (\<lambda>namespace.
     and_then (wrap ''list kubevirt VirtualMachines'' (k8s_list (km_client m) vm_k (Some namespace) managed_selector)) (\<lambda>vmList.
     and_then (wrap ''list kubevirt VirtualMachineInstances'' (k8s_list (km_client m) vmi_k (Some namespace) managed_selector)) (\<lambda>vmiList.
     and_then (wrap ''list virt-launcher pods'' (k8s_list (km_client m) pod_k (Some namespace) [])) (\<lambda>podList.
     list_vms netInfo m (index_vmis vmiList) (index_pods podList) vmList))))"

definition computeFromVM ::
  "(string \<Rightarrow> net_info_iface list option) \<Rightarrow> 's compute \<Rightarrow> vm \<Rightarrow> ('s, error, virtual_compute) act" where
  "computeFromVM netInfo m vm =
     and_then (wrap ''get kubevirt VirtualMachineInstance''
       (k8s_get (km_client m) vmi_k (m_namespace (vm_meta vm)) (m_name (vm_meta vm)))) (\<lambda>vmi.
     and_then (getLauncherInfo netInfo m (Some vmi)) (\<lambda>launcher.
     wrap ''convert kubevirt VM to nfv VirtualCompute''
       (nfvVirtualComputeFromKubevirtVm (km_networkManager m) (Some vm) (Some vmi) launcher)))"

definition GetComputeResource ::
  "(string \<Rightarrow> net_info_iface list option) \<Rightarrow> 's compute \<Rightarrow> get_compute_opt list \<Rightarrow> ('s, error, virtual_compute) act" where
  "GetComputeResource netInfo m opts =
     and_then (deref (km_namespace m)) (\<lambda>namespace. (let cfg = ApplyGetComputeOpts opts in
     if gco_Name cfg \<noteq> [] then
       and_then (wrap ''get kubevirt VirtualMachine'' (k8s_get (km_client m) vm_k namespace (gco_Name cfg))) (computeFromVM netInfo m)
     else if has_value (gco_Uid cfg) then
       and_then (wrap ''list kubevirt VirtualMachines'' (k8s_list (km_client m) vm_k (Some namespace) managed_selector)) (\<lambda>items.
       (case find (\<lambda>vm. Some (m_uid (vm_meta vm)) = gco_Uid cfg) items of
          Some vm \<Rightarrow> computeFromVM netInfo m vm
        | None \<Rightarrow> throw (ErrNotFound ''virtual machine'' (str_or_empty (gco_Uid cfg)))))
     else throw (ErrInvalidArgument ''compute lookup'' ''either name or uid must be specified'')))"

definition DeleteComputeResource ::
  "(string \<Rightarrow> net_info_iface list option) \<Rightarrow> 's compute \<Rightarrow> get_compute_opt list \<Rightarrow> ('s, error, unit) act" where
  "DeleteComputeResource netInfo m opts =
     and_then (deref (km_namespace m)) (\<lambda>namespace.
     and_then (wrap ''get virtual machine for deletion'' (GetComputeResource netInfo m opts)) (\<lambda>vm.
     (let name = str_or_empty (vc_computeName vm) in
      and_then (handle (k8s_delete (km_client m) vm_k namespace name) ret (\<lambda>err.
        and_then (deref (vc_computeId vm)) (\<lambda>_. throw (Wrap ''delete kubevirt VirtualMachine'' err)))) (\<lambda>_.
      handle (k8s_delete (km_client m) secret_k namespace (name @ KubevirtVmCloudInitSecretSuffix)) ret (\<lambda>err.
        if \<not> k8s_IsNotFound err then throw (Wrap ''delete cloud-init secret for VM'' err) else ret ())))))"

end
