(* ===== verification/Compute_Spec.thy ===== *)
theory Compute_Spec
  imports Compute
begin

text \<open>
  What the compute manager establishes. The locale \<open>attached_backend\<close> extends the network contract with
  the lookup the conversion of a VM makes; it is interpreted on the composite over the two concrete
  managers. \<open>compute_on\<close> is the compute manager as \<open>internal/kubevim/manager.go\<close> wires it: all managers on
  one client and one namespace.
\<close>

subsection \<open>Pure conversions\<close>

lemma index_vmis_eq: "index_vmis items name = find (\<lambda>x. m_name (vmi_meta x) = name) (rev items)"
  by (induction items rule: rev_induct) (auto simp: index_vmis_def)

lemma index_pods_eq: "index_pods items uid = filter (\<lambda>p. m_labels (pod_meta p) CreatedByLabel = Some uid) items"
  by (induction items rule: rev_induct) (auto simp: index_pods_def split: option.splits)

lemma initVolumesDisks_names:
  "initVolumesDisksFromDataVolumes dvs = (vols, disks) \<Longrightarrow> map vol_name vols = map dvt_name dvs \<and> map disk_name disks = map dvt_name dvs"
  by (auto simp: initVolumesDisksFromDataVolumes_def)

definition is_bootable :: "virtual_storage_data option \<Rightarrow> bool" where
  "is_bootable p \<longleftrightarrow> (\<exists>a. p = Some a \<and> vs_isBoot a = Some True)"

lemma find_bootable_Ok:
  "find_bootable attrs b s = (Ok r, t) \<Longrightarrow> t = s \<and> (case b of
      Some x \<Rightarrow> r = Some x \<and> filter is_bootable attrs = []
    | None \<Rightarrow> (case r of None \<Rightarrow> filter is_bootable attrs = [] | Some a \<Rightarrow> filter is_bootable attrs = [Some a]))"
proof (induction attrs b rule: find_bootable.induct)
  case (1 bootable)
  then show ?case by (auto simp: act_simps split: option.splits)
next
  case (2 storageAttr rest bootable)
  then obtain a where a: "storageAttr = Some a" by (cases storageAttr) (auto simp: run_and_then act_simps)
  show ?case
    using 2 a by (cases "vs_isBoot a = Some True"; cases bootable)
      (auto simp: run_and_then act_simps is_bootable_def split: option.splits)
qed

lemma initImageBootable_Ok:
  assumes "initImageBootableDataVolume imageInfo (Some attr) vmName namespace s = (Ok dv, t)"
  obtains img im_q disk_q where "imageInfo = Some img" "si_size img = Some im_q" "vs_sizeOfStorage attr = Some disk_q"
    "q_amount im_q \<noteq> 0" "q_amount im_q \<le> q_amount disk_q" "si_status img = ''ready''" "si_name img \<noteq> []" "t = s"
    "dvt_name dv = vmName @ ''-boot-dv''" "dvt_storage dv = disk_q" "dvt_pvc_name dv = si_name img" "dvt_pvc_namespace dv = namespace"
  using assms
  by (auto simp: initImageBootableDataVolume_def is_zero_def act_simps and_then_Ok_iff split: option.splits if_splits)

lemma initImageDataVolumes_Ok:
  assumes "initImageDataVolumes imageInfo attrs vmName namespace s = (Ok dvs, t)"
  obtains img attr im_q disk_q dv where "imageInfo = Some img" "filter is_bootable attrs = [Some attr]"
    "si_size img = Some im_q" "vs_sizeOfStorage attr = Some disk_q" "dvs = [dv]" "t = s"
    "q_amount im_q \<noteq> 0" "q_amount im_q \<le> q_amount disk_q" "si_status img = ''ready''" "si_name img \<noteq> []"
    "dvt_name dv = vmName @ ''-boot-dv''" "dvt_storage dv = disk_q" "dvt_pvc_name dv = si_name img" "dvt_pvc_namespace dv = namespace"
proof -
  obtain attr u dv w where b: "find_bootable attrs None s = (Ok (Some attr), u)"
    "wrap ''initialize bootable CDI DataVolume for vm'' (initImageBootableDataVolume imageInfo (Some attr) vmName namespace) u = (Ok dv, w)"
    "dvs = [dv]" "w = t"
    using assms by (auto simp: initImageDataVolumes_def and_then_Ok_iff act_simps split: if_splits)
  then have "initImageBootableDataVolume imageInfo (Some attr) vmName namespace s = (Ok dv, t)"
    using find_bootable_Ok [OF b(1)] by (auto simp: wrap_def handle_def act_simps split: prod.splits result.splits)
  then show thesis
    using find_bootable_Ok [OF b(1)] b(3) that by (elim initImageBootable_Ok) auto
qed

subsection \<open>Conversion of a VM, for every client\<close>

text \<open>A message that describes a VM: its identity, the ids its labels carry, one vNIC per network of the
  instance in the same order, and states that agree.\<close>

definition compute_of :: "vm \<Rightarrow> vmi \<Rightarrow> virtual_compute \<Rightarrow> bool" where
  "compute_of vm vmi c \<longleftrightarrow> vc_computeId c = UIDToIdentifier (m_uid (vm_meta vm)) \<and> vc_computeName c = Some (m_name (vm_meta vm)) \<and>
     vc_flavourId c = m_labels (vm_meta vm) K8sFlavourIdLabel \<and> vc_flavourId c \<noteq> None \<and>
     vc_vcImageId c = m_labels (vm_meta vm) K8sImageIdLabel \<and> vc_vcImageId c \<noteq> None \<and>
     map vi_resourceId (vc_interfaces c) = map (Some \<circ> kn_name) (spec_networks (vmi_spec vmi)) \<and>
     list_all (\<lambda>v. vi_ownerId v = vc_computeId c) (vc_interfaces c) \<and>
     vc_runningState c = getRunningState vm vmi \<and> (vc_operationalState c = DISABLED \<longleftrightarrow> vc_runningState c = STOPPED)"

definition vnic_for :: "vm \<Rightarrow> kv_network \<Rightarrow> vnic \<Rightarrow> bool" where
  "vnic_for vm n v \<longleftrightarrow> vi_resourceId v = Some (kn_name n) \<and> vi_ownerId v = UIDToIdentifier (m_uid (vm_meta vm))"

lemma vnics_for:
  "list_all2 (vnic_for vm) nets vs \<Longrightarrow> map vi_resourceId vs = map (Some \<circ> kn_name) nets \<and>
     list_all (\<lambda>v. vi_ownerId v = UIDToIdentifier (m_uid (vm_meta vm))) vs"
  by (induction rule: list_all2_induct) (simp_all add: vnic_for_def)

lemma stopped_iff: "getRunningState vm vmi = STOPPED \<longleftrightarrow> vm_status_runStrategy vm = ''Halted''"
  unfolding getRunningState_def by (simp split del: if_split split: if_split)

lemma getFlavour_Inr_iff: "getFlavourFromInstanceSpec vm = Inr i \<longleftrightarrow> i \<noteq> None \<and> m_labels (vm_meta vm) K8sFlavourIdLabel = i"
  by (auto simp: getFlavourFromInstanceSpec_def split: option.splits)

lemma getImageId_Inr_iff: "getImageIdFromInstnceSpec vm = Inr i \<longleftrightarrow> i \<noteq> None \<and> m_labels (vm_meta vm) K8sImageIdLabel = i"
  by (auto simp: getImageIdFromInstnceSpec_def split: option.splits)

locale attached_backend = network_backend nm for nm :: "'s network_manager" +
  assumes get_subnet_by_netattach: "nm_GetSubnet nm [GetSubnetByNetAttachName n] s \<noteq> (Panic, t)"
begin

lemma multus_ids_total: "(\<And>x t. Q x t) \<Longrightarrow> (\<And>e t. E e t) \<Longrightarrow> meets (multus_ids nm name) s Q E"
  unfolding multus_ids_def Let_def
  by (intro meets_handle meets_get_network meets_if meets_ret)
    (auto intro!: meets_handle meetsI meets_ret meets_if meets_throw simp: get_subnet_by_netattach)

lemma vnic_of_total:
  "meets (vnic_of nm vm vmi launcher netSpec) s
     (\<lambda>v _. vi_resourceId v = Some (kn_name netSpec) \<and> vi_ownerId v = UIDToIdentifier (m_uid (vm_meta vm))) (\<lambda>_ _. True)"
  unfolding vnic_of_def network_ids_def Let_def
  by (intro meets_and_then meets_wrap meets_sum_act meets_if meets_case_option meets_ret meets_throw multus_ids_total)
    (auto intro!: meets_ret meets_and_then multus_ids_total split: prod.splits sum.splits)

lemma convert_total:
  "meets (nfvVirtualComputeFromKubevirtVm nm (Some vm) (Some vmi) launcher) s (\<lambda>c _. compute_of vm vmi c) (\<lambda>_ _. True)"
proof -
  have each: "meets (for_each (vnic_of nm vm vmi launcher) nets) t (\<lambda>vs _. list_all2 (vnic_for vm) nets vs) (\<lambda>_ _. True)" for nets t
    by (rule meets_weaken [OF meets_for_each_rel [where I = "\<lambda>_. True" and R = "vnic_for vm"]])
      (auto simp: vnic_for_def intro!: meets_weaken [OF vnic_of_total])
  show ?thesis
    unfolding nfvVirtualComputeFromKubevirtVm_def prod.case option.case
    by (intro meets_and_then meets_wrap meets_sum_act meets_weaken [OF each] meets_ret TrueI)
      (simp add: compute_of_def vnics_for getFlavour_Inr_iff getImageId_Inr_iff stopped_iff)
qed

lemma list_vms_total:
  assumes m: "km_networkManager m = nm"
  shows "meets (list_vms netInfo m idx pods vms) s (\<lambda>_ _. True) (\<lambda>_ _. True)"
proof (induction vms arbitrary: s)
  case Nil
  show ?case by (simp add: meets_ret)
next
  case (Cons vm vms)
  show ?case
    unfolding list_vms.simps m
    by (intro meets_case_option meets_and_then meets_wrap meets_weaken [OF convert_total]) (auto intro!: Cons.IH meets_and_then meets_weaken [OF Cons.IH] meets_ret)
qed


lemma launcher_total:
  "km_namespace m = Some ns \<Longrightarrow> (\<And>x t. Q x t) \<Longrightarrow> meets (getLauncherInfo netInfo m v) s Q E"
  unfolding getLauncherInfo_def Let_def
  by (cases v) (auto intro!: meets_ret meets_if meets_and_then meets_deref meets_handle meets_any)

lemma computeFromVM_total:
  assumes m: "km_networkManager m = nm" "km_namespace m = Some ns"
  shows "meets (computeFromVM netInfo m vm) s (\<lambda>c _. \<exists>vmi. compute_of vm vmi c) (\<lambda>_ _. True)"
  unfolding computeFromVM_def m(1)
  by (intro meets_and_then meets_wrap meets_any launcher_total [OF m(2)] meets_weaken [OF convert_total]) auto

lemma GetComputeResource_total:
  assumes m: "km_networkManager m = nm" "km_namespace m = Some ns"
  shows "meets (GetComputeResource netInfo m opts) s (\<lambda>c _. \<exists>vm vmi. compute_of vm vmi c) (\<lambda>_ _. True)"
  unfolding GetComputeResource_def m(2) Let_def
  by (intro meets_and_then meets_wrap meets_deref [OF refl] meets_if meets_any meets_case_option meets_throw
      meets_weaken [OF computeFromVM_total [OF m]]) auto

lemma ListComputeResources_total:
  assumes m: "km_networkManager m = nm" "km_namespace m = Some ns"
  shows "meets (ListComputeResources netInfo m) s (\<lambda>_ _. True) (\<lambda>_ _. True)"
  unfolding ListComputeResources_def m(2)
  by (intro meets_and_then meets_wrap meets_deref [OF refl] meets_any meets_weaken [OF list_vms_total [OF m(1)]]) auto

lemma DeleteComputeResource_total:
  assumes m: "km_networkManager m = nm" "km_namespace m = Some ns"
  shows "meets (DeleteComputeResource netInfo m opts) s (\<lambda>_ _. True) (\<lambda>_ _. True)"
proof -
  have found: "meets (GetComputeResource netInfo m opts) t (\<lambda>c _. \<exists>i. vc_computeId c = Some i) (\<lambda>_ _. True)" for t
    by (rule meets_weaken [OF GetComputeResource_total [OF m]]) (auto simp: compute_of_def UIDToIdentifier_def)
  show ?thesis
    unfolding DeleteComputeResource_def m(2) Let_def
    by (intro meets_and_then meets_wrap meets_deref [OF refl] meets_weaken [OF found])
      (auto intro!: meets_and_then meets_handle meets_any meets_ret meets_if meets_throw meets_deref)
qed

end

definition kubeovn_on :: "'s client \<Rightarrow> 's client \<Rightarrow> string \<Rightarrow> 's kubeovn" where
  "kubeovn_on cl rd ns = \<lparr>ko_client = cl, ko_apiReader = rd, ko_namespace = Some ns\<rparr>"

lemma kubeovn_on_sel [simp]:
  "ko_client (kubeovn_on cl rd ns) = cl" "ko_apiReader (kubeovn_on cl rd ns) = rd" "ko_namespace (kubeovn_on cl rd ns) = Some ns"
  by (simp_all add: kubeovn_on_def)

abbreviation networks_on :: "(string \<Rightarrow> bool) \<Rightarrow> 's client \<Rightarrow> 's client \<Rightarrow> string \<Rightarrow> string \<Rightarrow> 's network_manager" where
  "networks_on isUUID cl rd ns sock \<equiv>
     composite_manager (network_stack isUUID (kubeovn_on cl rd ns) (sriov_on cl ns sock))"

lemma GetSubnet_by_netattach_total:
  assumes "ko_namespace m = Some ns"
  shows "meets (GetSubnet m [GetSubnetByNetAttachName n]) s (\<lambda>_ _. True) (\<lambda>_ _. True)"
  unfolding GetSubnet_rec [of m "[GetSubnetByNetAttachName n]"] GetSubnet_body_def assms Let_def
  by (intro meets_steps meets_deref [OF refl] meets_any meets_sum_act meets_GetSubnet_by_name TrueI)
    (simp_all add: subnet_opt_defs has_value_def meets_throw)

interpretation attached: attached_backend "networks_on isUUID cl rd ns sock" for isUUID cl rd ns sock
proof
  fix n s t
  show "nm_GetSubnet (networks_on isUUID cl rd ns sock) [GetSubnetByNetAttachName n] s \<noteq> (Panic, t)"
    using GetSubnet_by_netattach_total [of "kubeovn_on cl rd ns" ns n s]
    by (auto simp: composite_manager_def composite_GetSubnet_def NewManager_def kubeovn_manager_def meets_def)
qed

subsection \<open>Waiting for the instance\<close>

lemma preserves_waitForVmi:
  assumes "\<And>n. preserves P (k8s_get (km_apiReader m) vmi_k ns n)" and tick: "\<And>t. P t \<Longrightarrow> P (tick t)"
  shows "preserves P (waitForVmi tick polls m name ns)"
proof (induction polls)
  case 0
  then show ?case by (subst waitForVmi.simps) (auto intro!: preserves_intros assms)
next
  case (Suc n)
  have "preserves P (\<lambda>s. waitForVmi tick n m name ns (tick s))"
    using Suc tick unfolding preserves_def by blast
  then show ?case by (subst waitForVmi.simps) (auto intro!: preserves_intros assms)
qed

context api_server
begin

lemma waitForVmi_variant:
  assumes m: "km_apiReader m = cl"
    and tick: "\<And>t. inv t \<Longrightarrow> inv (tick t) \<and> (view t (KVmi, ns, name) = None \<longrightarrow> R (view (tick t)) < R (view t))"
    and s: "inv s" "R (view s) \<le> polls"
  shows "meets (waitForVmi tick polls m name ns) s
    (\<lambda>vmi t. inv t \<and> view t (KVmi, ns, name) = Some (OVmi vmi)) (\<lambda>_ _. False)"
  using s
proof (induction polls arbitrary: s)
  case 0
  then have "view s (KVmi, ns, name) \<noteq> None" using tick [of s] by auto
  then show ?case
    using 0 by (subst waitForVmi.simps) (auto simp: m intro!: meets_handle meets_get meets_ret)
next
  case (Suc n)
  have later: "meets (\<lambda>s. waitForVmi tick n m name ns (tick s)) t
      (\<lambda>vmi t. inv t \<and> view t (KVmi, ns, name) = Some (OVmi vmi)) (\<lambda>_ _. False)"
    if "inv t" "view t = view s" "view s (KVmi, ns, name) = None" for t
    using Suc.IH [of "tick t"] tick [OF that(1)] that Suc.prems(2) by (simp add: meets_def)
  show ?case
    using Suc.prems(1) by (subst waitForVmi.simps) (auto simp: m intro!: meets_handle meets_get meets_ret meets_if meets_throw later)
qed

lemma waitForVmi_deadline:
  assumes m: "km_apiReader m = cl"
    and tick: "\<And>t. inv t \<Longrightarrow> view t (KVmi, ns, name) = None \<Longrightarrow> inv (tick t) \<and> view (tick t) (KVmi, ns, name) = None"
    and s: "inv s" "view s (KVmi, ns, name) = None"
  shows "meets (waitForVmi tick polls m name ns) s (\<lambda>_ _. False)
    (\<lambda>e t. e = Wrap ''VMI not created'' (Plain ''context deadline exceeded'') \<and> inv t)"
  using s
proof (induction polls arbitrary: s)
  case 0
  then show ?case by (subst waitForVmi.simps) (auto simp: m intro!: meets_handle meets_get meets_throw)
next
  case (Suc n)
  have later: "meets (\<lambda>s. waitForVmi tick n m name ns (tick s)) t (\<lambda>_ _. False)
      (\<lambda>e t. e = Wrap ''VMI not created'' (Plain ''context deadline exceeded'') \<and> inv t)"
    if "inv t" "view t = view s" for t
    using Suc.IH [of "tick t"] tick [OF that(1)] that Suc.prems(2) by (simp add: meets_def)
  show ?case
    using Suc.prems by (subst waitForVmi.simps) (auto simp: m intro!: meets_handle meets_get meets_ret meets_if meets_throw later)
qed

end

subsection \<open>The wired managers\<close>

definition compute_on ::
  "(string \<Rightarrow> quantity option) \<Rightarrow> storage_codec \<Rightarrow> ('s, error, string) act \<Rightarrow> (string \<Rightarrow> bool) \<Rightarrow> 's client \<Rightarrow>
   string \<Rightarrow> string \<Rightarrow> string \<Rightarrow> compute_config option \<Rightarrow> 's compute" where
  "compute_on parseQuantity codec newRandom isUUID cl sc ns sock cfg =
     NewComputeManager cl cl (Some ns) cfg (kubevirt_flavours newRandom codec (flavours_on cl cl ns))
       (cdi_manager parseQuantity (cdi_on cl sc ns)) (networks_on isUUID cl cl ns sock)"

lemma compute_on_sel [simp]:
  "km_client (compute_on pq codec nr isUUID cl sc ns sock cfg) = cl"
  "km_apiReader (compute_on pq codec nr isUUID cl sc ns sock cfg) = cl"
  "km_namespace (compute_on pq codec nr isUUID cl sc ns sock cfg) = Some ns"
  "km_networkManager (compute_on pq codec nr isUUID cl sc ns sock cfg) = networks_on isUUID cl cl ns sock"
  "km_flavourManager (compute_on pq codec nr isUUID cl sc ns sock cfg) = kubevirt_flavours nr codec (flavours_on cl cl ns)"
  "km_imageManager (compute_on pq codec nr isUUID cl sc ns sock cfg) = cdi_manager pq (cdi_on cl sc ns)"
  by (simp_all add: compute_on_def NewComputeManager_def)

text \<open>What the compute manager relies on, on a server without faults: its clients are the server, and the
  lookups of the other managers change no stored object.\<close>

locale compute_services = api_server cl view inv
  for cl :: "'s client" and view :: "'s \<Rightarrow> okey \<Rightarrow> k8s_object option" and inv :: "'s \<Rightarrow> bool" +
  fixes m :: "'s compute" and ns :: string
  assumes client: "km_client m = cl" "km_apiReader m = cl" "km_namespace m = Some ns"
    and flavour_reads: "preserves (\<lambda>t. inv t \<and> P (view t)) (fm_GetFlavour (km_flavourManager m) i)"
    and image_reads: "preserves (\<lambda>t. inv t \<and> P (view t)) (im_GetImage (km_imageManager m) i)"
    and network_reads: "preserves (\<lambda>t. inv t \<and> P (view t)) (nm_GetNetwork (km_networkManager m) nopts)"
    and subnet_reads: "preserves (\<lambda>t. inv t \<and> P (view t)) (nm_GetSubnet (km_networkManager m) sopts)"
    and attached: "attached_backend (km_networkManager m)"
begin

lemma preserves_convert:
  "preserves (\<lambda>t. inv t \<and> P (view t)) (nfvVirtualComputeFromKubevirtVm (km_networkManager m) vm vmi launcher)"
  unfolding nfvVirtualComputeFromKubevirtVm_def vnic_of_def network_ids_def multus_ids_def Let_def
  by (cases vm; cases vmi) (auto intro!: preserves_intros network_reads subnet_reads split: prod.splits sum.splits)

lemma preserves_launcher: "preserves (\<lambda>t. inv t \<and> P (view t)) (getLauncherInfo netInfo m v)"
  unfolding getLauncherInfo_def Let_def client by (cases v) (auto intro!: preserves_intros)

lemma preserves_GetComputeResource: "preserves (\<lambda>t. inv t \<and> P (view t)) (GetComputeResource netInfo m opts)"
  unfolding GetComputeResource_def computeFromVM_def client Let_def
  by (intro preserves_intros preserves_launcher preserves_convert)

end

context api_server
begin

lemma preserves_case_list:
  assumes "preserves P a" and "\<And>x. preserves P (b x)" and "\<And>x y ys. preserves P (c x y ys)"
  shows "preserves P (case xs of [] \<Rightarrow> a | [x] \<Rightarrow> b x | x # y # ys \<Rightarrow> c x y ys)"
  using assms by (auto split: list.splits)

lemma preserves_GetFlavour: "preserves (\<lambda>t. inv t \<and> P (view t)) (GetFlavour codec (flavours_on cl rd ns) i)"
  unfolding GetFlavour_def find_preference_def flavours_on_sel
  by (intro preserves_intros preserves_case_list)

lemma preserves_nfvImage:
  fixes P :: "'s \<Rightarrow> bool"
  shows "preserves P (nfvImageFromCdiDataVolumeVis d v)"
proof -
  have "snd (nfvImageFromCdiDataVolumeVis d v s) = s" for s :: 's
    using nfvImage_state [of d v s] by (cases "nfvImageFromCdiDataVolumeVis d v s") auto
  then show ?thesis by (simp add: preserves_def)
qed

lemma preserves_cdi_GetImage: "preserves (\<lambda>t. inv t \<and> P (view t)) (cdi_GetImage (cdi_on cl sc ns) i)"
  unfolding cdi_GetImage_def cdi_on_sel
  by (intro preserves_intros preserves_nfvImage)

lemma preserves_sriov_GetNetwork: "preserves (\<lambda>t. inv t \<and> P (view t)) (sriov_GetNetwork (sriov_on cl ns sock) opts)"
  unfolding sriov_GetNetwork_def sriov_on_sel Let_def
  by (auto intro!: preserves_intros split: option.splits)

lemma preserves_networks_on:
  "preserves (\<lambda>t. inv t \<and> P (view t)) (nm_GetNetwork (networks_on isUUID cl rd ns sock) nopts)"
  "preserves (\<lambda>t. inv t \<and> P (view t)) (nm_GetSubnet (networks_on isUUID cl rd ns sock) sopts)"
  by (auto simp: composite_manager_def composite_GetNetwork_def composite_GetSubnet_def NewManager_def
      kubeovn_manager_def sriov_manager_def intro!: preserves_intros preserves_GetNetwork preserves_GetSubnet preserves_sriov_GetNetwork)

end

sublocale api_server \<subseteq> vim: compute_services cl view inv
  "compute_on parseQuantity codec newRandom isUUID cl sc ns sock cfg" ns
  for parseQuantity codec newRandom isUUID sc ns sock cfg
proof (rule compute_services.intro [OF api_server_axioms], rule compute_services_axioms.intro)
  show "attached_backend (km_networkManager (compute_on parseQuantity codec newRandom isUUID cl sc ns sock cfg))"
    by (simp add: attached.attached_backend_axioms)
qed (simp_all add: kubevirt_flavours_def cdi_manager_def preserves_GetFlavour preserves_cdi_GetImage preserves_networks_on)

subsection \<open>The operations on a server without faults\<close>

definition selected :: "get_compute_opt list \<Rightarrow> vm \<Rightarrow> bool" where
  "selected opts vm \<longleftrightarrow> (let cfg = ApplyGetComputeOpts opts in
     if gco_Name cfg \<noteq> [] then m_name (vm_meta vm) = gco_Name cfg
     else gco_Uid cfg = Some (m_uid (vm_meta vm)) \<and> IsObjectManagedByKubeNfv (vm_meta vm))"

definition removed_vm :: "string \<Rightarrow> string \<Rightarrow> (okey \<Rightarrow> k8s_object option) \<Rightarrow> okey \<Rightarrow> k8s_object option" where
  "removed_vm ns name V = V((KVm, ns, name) := None, (KSecret, ns, name @ KubevirtVmCloudInitSecretSuffix) := None)"

context compute_services
begin

lemma computeFromVM_view:
  assumes "inv t" "view t = V"
  shows "meets (computeFromVM netInfo m vm) t (\<lambda>c u. (\<exists>vmi. compute_of vm vmi c) \<and> inv u \<and> view u = V) (\<lambda>_ u. inv u \<and> view u = V)"
proof -
  have "preserves (\<lambda>u. inv u \<and> view u = V) (computeFromVM netInfo m vm)"
    unfolding computeFromVM_def client
    by (intro preserves_and_then preserves_wrap preserves_reads [where P = "\<lambda>v. v = V"]
        preserves_launcher [where P = "\<lambda>v. v = V"] preserves_convert [where P = "\<lambda>v. v = V"])
  from meets_preserves [OF attached_backend.computeFromVM_total [OF attached refl client(3)] this] assms
  show ?thesis by auto
qed

lemma GetComputeResource_view:
  assumes s: "inv s"
  shows "meets (GetComputeResource netInfo m opts) s
    (\<lambda>c t. inv t \<and> view t = view s \<and> (\<exists>vm. view s (KVm, ns, m_name (vm_meta vm)) = Some (OVm vm) \<and>
       selected opts vm \<and> (\<exists>vmi. compute_of vm vmi c))) (\<lambda>_ t. inv t \<and> view t = view s)"
proof -
  let ?cfg = "ApplyGetComputeOpts opts"
  let ?Q = "\<lambda>c t. inv t \<and> view t = view s \<and> (\<exists>vm. view s (KVm, ns, m_name (vm_meta vm)) = Some (OVm vm) \<and>
       selected opts vm \<and> (\<exists>vmi. compute_of vm vmi c))" and ?E = "\<lambda>_ t. inv t \<and> view t = view s"
  have from_vm: "meets (computeFromVM netInfo m vm) t ?Q ?E"
    if "inv t" "view t = view s" "view s (KVm, ns, m_name (vm_meta vm)) = Some (OVm vm)" "selected opts vm" for vm t
    by (rule meets_weaken [OF computeFromVM_view [OF that(1,2)]]) (use that in auto)
  have key: "view s (KVm, ns', n) = Some (OVm vm) \<Longrightarrow> n = m_name (vm_meta vm) \<and> ns' = m_namespace (vm_meta vm)" for vm n ns'
    using view_key [OF s, of "(KVm, ns', n)" "OVm vm"] by (simp add: obj_key_def)
  have by_name: "meets (and_then (wrap c (k8s_get cl vm_k ns (gco_Name ?cfg))) (computeFromVM netInfo m)) s ?Q ?E"
    if "gco_Name ?cfg \<noteq> []" for c
    by (intro meets_and_then meets_wrap meets_get [OF s] from_vm) (use that key in \<open>auto simp: selected_def Let_def\<close>)
  have by_uid: "meets (case find (\<lambda>vm. Some (m_uid (vm_meta vm)) = gco_Uid ?cfg) items of
      Some vm \<Rightarrow> computeFromVM netInfo m vm | None \<Rightarrow> throw e) t ?Q ?E"
    if t: "inv t" "view t = view s" and "gco_Name ?cfg = []" and items: "\<And>vm. vm \<in> set items \<Longrightarrow>
      (\<exists>n. view s (KVm, ns, n) = Some (OVm vm)) \<and> IsObjectManagedByKubeNfv (vm_meta vm)" for items t e
    by (intro meets_case_option meets_throw from_vm) (use that key in \<open>auto simp: selected_def Let_def dest!: find_SomeD\<close>)
  show ?thesis
    unfolding GetComputeResource_def client Let_def
    by (intro meets_and_then [OF meets_deref [OF refl]] meets_if by_name)
      (auto intro!: meets_and_then meets_wrap meets_list [OF s] by_uid meets_throw simp: s matches_managed)
qed

lemma DeleteComputeResource_view:
  assumes s: "inv s"
  shows "meets (DeleteComputeResource netInfo m opts) s
    (\<lambda>_ t. inv t \<and> (\<exists>vm. view s (KVm, ns, m_name (vm_meta vm)) = Some (OVm vm) \<and> selected opts vm \<and>
       view t = removed_vm ns (m_name (vm_meta vm)) (view s)))
    (\<lambda>_ t. inv t \<and> view t = view s)"
proof -
  let ?E = "\<lambda>_ t. inv t \<and> view t = view s"
  have two: "meets (and_then (handle (k8s_delete cl vm_k ns n) ret h) (\<lambda>_. handle (k8s_delete cl secret_k ns (n @ KubevirtVmCloudInitSecretSuffix))
      ret (\<lambda>err. if \<not> k8s_IsNotFound err then throw (f err) else ret ()))) t (\<lambda>_ u. inv u \<and> view u = removed_vm ns n (view s)) ?E"
    if t: "inv t" "view t = view s" and vm: "view s (KVm, ns, n) = Some ob" for t n ob h f
  proof -
    have sec: "meets (handle (k8s_delete cl secret_k ns (n @ KubevirtVmCloudInitSecretSuffix)) ret
        (\<lambda>err. if \<not> k8s_IsNotFound err then throw (f err) else ret ())) u
        (\<lambda>_ w. inv w \<and> view w = removed_vm ns n (view s)) ?E" if "inv u" "view u = (view s)((KVm, ns, n) := None)" for u
      by (intro meets_handle meets_delete [OF that(1)])
        (auto simp: that removed_vm_def fun_eq_iff intro!: meets_ret meets_if meets_throw)
    show ?thesis
      using t vm by (intro meets_and_then meets_handle meets_delete [OF t(1)] meets_ret sec) auto
  qed
  show ?thesis
    unfolding DeleteComputeResource_def client Let_def
    by (rule meets_and_then [OF meets_deref [OF refl]],
        rule meets_and_then [OF meets_wrap [OF meets_weaken [OF GetComputeResource_view [OF s]]]],
        elim conjE exE, rule meets_weaken [OF two]) (auto simp: compute_of_def str_or_empty_def)
qed

end


text \<open>The keys an allocation may write: the VM, its cloud-init secret, and whatever the controllers that act
  on VMs write while it waits.\<close>

definition workload :: "okey \<Rightarrow> bool" where
  "workload key \<longleftrightarrow> fst key \<in> {KVm, KVmi, KPod}"

definition same_except :: "(okey \<Rightarrow> bool) \<Rightarrow> (okey \<Rightarrow> k8s_object option) \<Rightarrow> (okey \<Rightarrow> k8s_object option) \<Rightarrow> bool" where
  "same_except A V W \<longleftrightarrow> (\<forall>key. \<not> A key \<longrightarrow> W key = V key)"

lemma same_except_refl [simp]: "same_except A V V"
  by (simp add: same_except_def)

lemma same_except_upd: "A key \<Longrightarrow> same_except A V W \<Longrightarrow> same_except A V (W(key := x))"
  by (auto simp: same_except_def)

definition secret_of :: "string \<Rightarrow> allocate_request \<Rightarrow> okey \<Rightarrow> bool" where
  "secret_of ns req key \<longleftrightarrow> (\<exists>v. key = (KSecret, ns, v @ KubevirtVmCloudInitSecretSuffix) \<and>
     (has_value (ar_computeName req) \<longrightarrow> ar_computeName req = Some v))"

lemma uuid_source_preserves: "uuid_source view I newRandom \<Longrightarrow> preserves (\<lambda>t. I t \<and> P (view t)) newRandom"
  unfolding preserves_def
proof (intro allI impI)
  fix s assume "uuid_source view I newRandom" and "I s \<and> P (view s)"
  then show "I (snd (newRandom s)) \<and> P (view (snd (newRandom s)))"
    by (cases "newRandom s"; cases "fst (newRandom s)") (auto simp: uuid_source_def meets_def dest!: spec [of _ s])
qed

context compute_services
begin

lemma preserves_user_data:
  assumes "\<And>x V. P V \<Longrightarrow> P (V((KSecret, ns, vmName @ KubevirtVmCloudInitSecretSuffix) := x))"
  shows "preserves (\<lambda>t. inv t \<and> P (view t)) (user_data_disks m ns vmName req)"
proof -
  have key: "obj_key (OSecret (cloud_init_secret ns vmName c)) = (KSecret, ns, vmName @ KubevirtVmCloudInitSecretSuffix)"
    "m_resourceVersion (sec_meta (cloud_init_secret ns vmName c)) = []" for c
    by (simp_all add: cloud_init_secret_def obj_key_def empty_meta_def)
  have upd: "P (\<lambda>a. if a = (KSecret, ns, vmName @ KubevirtVmCloudInitSecretSuffix) then Some ob else V a)" if "P V" for V ob
    using assms [OF that, of "Some ob"] by (simp add: fun_upd_def)
  show ?thesis
    unfolding user_data_disks_def createUserDataVolumeWithSecret_def client Let_def
    by (auto intro!: preserves_intros preserves_create preserves_update upd simp: key fun_upd_def split: prod.splits)
qed

end

subsection \<open>The VM that an allocation prepares\<close>

lemma user_data_Ok:
  assumes "user_data_disks m ns vmName req s = (Ok (vols, disks), t)"
  shows "map vol_name vols = map disk_name disks \<and> (vols = [] \<and> ar_userData req = None \<or> map vol_name vols = [''cloudinitdisk''])"
  using assms
  by (auto simp: user_data_disks_def createUserDataVolumeWithSecret_def Let_def and_then_Ok_iff act_simps wrap_def handle_def
      split: option.splits prod.splits result.splits if_splits)

lemma vm_object_meta [simp]:
  "m_name (vm_meta (vm_object m ns name req itm pfm dvs vols disks nets ifs ann)) = name"
  "m_namespace (vm_meta (vm_object m ns name req itm pfm dvs vols disks nets ifs ann)) = ns"
  "m_labels (vm_meta (vm_object m ns name req itm pfm dvs vols disks nets ifs ann)) K8sFlavourIdLabel = Some (str_or_empty (ar_computeFlavourId req))"
  "m_labels (vm_meta (vm_object m ns name req itm pfm dvs vols disks nets ifs ann)) K8sImageIdLabel = Some (str_or_empty (ar_vcImageId req))"
  by (simp_all add: vm_object_def K8sFlavourIdLabel_def K8sImageIdLabel_def)

lemma prepare_vm_Ok:
  fixes s :: 's
  assumes "prepare_vm isUUID newRandom m ns req s = (Ok vm, t)"
  obtains flav :: compute_flavour and itm pfm and img :: image_info and attr and im_q disk_q :: quantity and dv name udV udD nets ifs ann s1 s2 where
    "has_value (ar_computeFlavourId req)" "has_value (ar_vcImageId req)"
    "filter is_bootable (cf_storageAttributes flav) = [Some attr]" "si_size img = Some im_q" "vs_sizeOfStorage attr = Some disk_q"
    "q_amount im_q \<noteq> 0" "q_amount im_q \<le> q_amount disk_q" "dvt_storage dv = disk_q" "dvt_pvc_name dv = si_name img"
    "dvt_name dv = str_or_empty (ar_computeName req) @ ''-boot-dv''"
    "name = (if has_value (ar_computeName req) then str_or_empty (ar_computeName req) else si_name img @ ''-vm'')"
    "map vol_name udV = map disk_name udD" "udV = [] \<and> ar_userData req = None \<or> map vol_name udV = [''cloudinitdisk'']"
    "resolveInterfaces isUUID newRandom (newIpamResolver (km_networkManager m) ns) (ar_interfaceData req) (ar_interfaceIPAM req) s1 = (Ok (nets, ifs, ann), s2)"
    "vm = vm_object m ns name req itm pfm [dv] (fst (initVolumesDisksFromDataVolumes [dv]) @ udV)
       (snd (initVolumesDisksFromDataVolumes [dv]) @ udD) nets ifs ann"
proof -
  have let_pair: "(let (v, d) = p in f v d) = f (fst p) (snd p)" for p and f :: "kv_volume list \<Rightarrow> kv_disk list \<Rightarrow> ('s, error, vm) act"
    by (simp add: split_beta)
  obtain flav itm pfm u1 imgInfo dvs u2 name u3 udV udD u4 nets ifs ann u5 where
    fl: "vm_flavour m req s = (Ok (flav, itm, pfm), u1)" and vol: "vm_volumes m ns req flav u1 = (Ok (imgInfo, dvs), u2)"
    and name: "vm_name req imgInfo u2 = (Ok name, u3)"
    and ud: "user_data_disks m ns name req u3 = (Ok (udV, udD), u4)"
    and net: "resolveInterfaces isUUID newRandom
       (newIpamResolver (km_networkManager m) ns) (ar_interfaceData req) (ar_interfaceIPAM req) u4 = (Ok (nets, ifs, ann), u5)"
    and vm: "vm = vm_object m ns name req itm pfm dvs (fst (initVolumesDisksFromDataVolumes dvs) @ udV)
       (snd (initVolumesDisksFromDataVolumes dvs) @ udD) nets ifs ann"
    using assms unfolding prepare_vm_def let_pair by (auto simp: and_then_Ok_iff run_ret)
  have f: "has_value (ar_computeFlavourId req)"
    using fl by (auto simp: vm_flavour_def act_simps split: if_splits)
  have i: "has_value (ar_vcImageId req)" and dvs: "\<exists>u. initImageDataVolumes imgInfo (cf_storageAttributes flav)
      (str_or_empty (ar_computeName req)) ns u = (Ok dvs, u2)"
    using vol by (auto simp: vm_volumes_def and_then_Ok_iff act_simps split: if_splits)
  from dvs obtain img attr im_q disk_q dv where "imgInfo = Some img" "filter is_bootable (cf_storageAttributes flav) = [Some attr]"
    "si_size img = Some im_q" "vs_sizeOfStorage attr = Some disk_q" "dvs = [dv]"
    "q_amount im_q \<noteq> 0" "q_amount im_q \<le> q_amount disk_q"
    "dvt_name dv = str_or_empty (ar_computeName req) @ ''-boot-dv''" "dvt_storage dv = disk_q" "dvt_pvc_name dv = si_name img"
    by (elim exE initImageDataVolumes_Ok)
  moreover from this name have "name = (if has_value (ar_computeName req) then str_or_empty (ar_computeName req) else si_name img @ ''-vm'')"
    by (auto simp: vm_name_def and_then_Ok_iff act_simps split: if_splits)
  ultimately show thesis
    using f i user_data_Ok [OF ud] net vm by (intro that [of flav attr img im_q disk_q dv name udV udD u4 nets ifs ann u5 itm pfm]) auto
qed

lemma prepare_vm_meta:
  assumes "prepare_vm isUUID newRandom m ns req s = (Ok vm, t)"
  shows "m_namespace (vm_meta vm) = ns \<and> (has_value (ar_computeName req) \<longrightarrow> ar_computeName req = Some (m_name (vm_meta vm))) \<and>
    m_labels (vm_meta vm) K8sFlavourIdLabel = ar_computeFlavourId req \<and> m_labels (vm_meta vm) K8sImageIdLabel = ar_vcImageId req"
  using assms by (elim prepare_vm_Ok) (simp add: has_value_iff str_or_empty_def, clarsimp)

lemma preserves_find_bootable: "preserves P (find_bootable attrs b)"
  by (induction attrs b rule: find_bootable.induct) (auto intro!: preserves_intros)

lemma preserves_vm_volume: "preserves P (initImageDataVolumes imageInfo attrs vmName namespace)"
  unfolding initImageDataVolumes_def initImageBootableDataVolume_def
  by (intro preserves_intros preserves_find_bootable)

lemma vm_name_Ok:
  "vm_name req imgInfo s = (Ok name, t) \<Longrightarrow> has_value (ar_computeName req) \<Longrightarrow> ar_computeName req = Some name"
  by (auto simp: vm_name_def act_simps has_value_iff str_or_empty_def)

context compute_services
begin

lemma preserves_prepare:
  assumes P: "\<And>x V key. secret_of ns req key \<Longrightarrow> P V \<Longrightarrow> P (V(key := x))" and uuid: "uuid_source view inv newRandom"
  shows "preserves (\<lambda>t. inv t \<and> P (view t)) (prepare_vm isUUID newRandom m ns req)"
proof -
  have fl: "preserves (\<lambda>t. inv t \<and> P (view t)) (vm_flavour m req)"
    unfolding vm_flavour_def by (intro preserves_intros flavour_reads)
  have vol: "preserves (\<lambda>t. inv t \<and> P (view t)) (vm_volumes m ns req flav)" for flav
    unfolding vm_volumes_def by (intro preserves_intros image_reads preserves_vm_volume)
  have nm: "preserves (\<lambda>t. inv t \<and> P (view t)) (vm_name req imgInfo)" for imgInfo
    unfolding vm_name_def by (intro preserves_intros)
  have ud: "preserves (\<lambda>t. inv t \<and> P (view t)) (user_data_disks m ns name req)"
    if "vm_name req imgInfo s = (Ok name, t)" for imgInfo name and s t :: 's
    by (intro preserves_user_data P) (use vm_name_Ok [OF that] in \<open>auto simp: secret_of_def\<close>)
  have net: "preserves (\<lambda>t. inv t \<and> P (view t)) (resolveInterfaces isUUID newRandom (newIpamResolver (km_networkManager m) ns) data ipams)" for data ipams
    by (intro preserves_resolveInterfaces uuid_source_preserves [OF uuid])
      (simp_all add: newIpamResolver_def network_reads subnet_reads)
  show ?thesis
    unfolding prepare_vm_def
    by (intro preserves_and_then [OF fl], clarsimp, intro preserves_and_then [OF vol], clarsimp,
        intro preserves_and_then_Ok [OF nm] preserves_and_then [OF ud], assumption, clarsimp,
        intro preserves_and_then preserves_wrap net) (auto intro!: preserves_intros split: prod.splits)
qed

lemma preserves_Allocate:
  assumes uuid: "uuid_source view inv newRandom"
    and tick: "\<And>t. inv t \<Longrightarrow> inv (tick t) \<and> same_except workload (view t) (view (tick t))"
  shows "preserves (\<lambda>t. inv t \<and> same_except (\<lambda>key. workload key \<or> secret_of ns req key) V (view t))
    (AllocateComputeResource isUUID newRandom netInfo tick polls m (Some req))"
proof -
  let ?P = "same_except (\<lambda>key. workload key \<or> secret_of ns req key) V"
  have prep: "preserves (\<lambda>t. inv t \<and> ?P (view t)) (prepare_vm isUUID newRandom m ns req)"
    by (rule preserves_prepare [OF _ uuid], rule same_except_upd) simp_all
  have create: "preserves (\<lambda>t. inv t \<and> ?P (view t)) (k8s_create cl vm_k vm)" for vm
    by (rule preserves_create, rule same_except_upd) (simp_all add: workload_def obj_key_def)
  have wait: "preserves (\<lambda>t. inv t \<and> ?P (view t)) (waitForVmi tick polls m name ns)" for name
    by (rule preserves_waitForVmi, unfold client, rule preserves_reads)
      (use tick in \<open>auto simp: same_except_def\<close>)
  show ?thesis
    unfolding AllocateComputeResource_def client deref_def option.case and_then_ret
    by (intro preserves_and_then preserves_simple preserves_wrap prep create wait preserves_launcher [where P = ?P]
        preserves_convert [where P = ?P])
qed

lemma Allocate_Ok:
  assumes s: "inv s" and uuid: "uuid_source view inv newRandom"
    and run: "AllocateComputeResource isUUID newRandom netInfo tick polls m (Some req) s = (Ok c, t)"
  obtains name where "vc_flavourId c = ar_computeFlavourId req" "vc_vcImageId c = ar_vcImageId req"
    "vc_computeName c = Some name" "has_value (ar_computeName req) \<Longrightarrow> ar_computeName req = Some name"
    "view s (KVm, ns, name) = None"
proof -
  obtain vm u vmSpec w vmi w1 launcher w2 where prep: "prepare_vm isUUID newRandom m ns req s = (Ok vm, u)"
    and create: "k8s_create cl vm_k vm u = (Ok vmSpec, w)"
    and conv: "nfvVirtualComputeFromKubevirtVm (km_networkManager m) (Some vmSpec) (Some vmi) launcher w2 = (Ok c, t)"
    using run by (auto simp: AllocateComputeResource_def client and_then_Ok_iff run_deref)
  have u: "inv u" "same_except (secret_of ns req) (view s) (view u)"
    using preservesD [OF preserves_prepare [where P = "same_except (secret_of ns req) (view s)", OF same_except_upd uuid] _ prep] s by auto
  have made: "created (OVm vm) (OVm vmSpec) \<and> view u (obj_key (OVm vm)) = None"
    using meets_Ok [OF meets_create [OF u(1), of vm_k vm "\<lambda>y t. created (OVm vm) (OVm y) \<and> view u (obj_key (OVm vm)) = None" "\<lambda>_ _. True"] create]
    by auto
  then have same: "m_name (vm_meta vmSpec) = m_name (vm_meta vm)" "m_labels (vm_meta vmSpec) = m_labels (vm_meta vm)"
    by (auto simp: created_def)
  have c: "compute_of vmSpec vmi c"
    using meets_Ok [OF attached_backend.convert_total [OF attached] conv] .
  note vm = prepare_vm_meta [OF prep]
  let ?name = "m_name (vm_meta vm)"
  have "view s (KVm, ns, ?name) = view u (KVm, ns, ?name)"
    using u(2) by (simp add: same_except_def secret_of_def)
  then show thesis
    using that [of ?name] made c same vm by (auto simp: compute_of_def obj_key_def)
qed

end

context api_server
begin

lemma compute_services_on: "compute_services cl view inv (compute_on pq codec nr isUUID cl sc ns sock cfg) ns"
  by (rule vim.compute_services_axioms)

end

end
