(* ===== verification/Compute_Properties.thy ===== *)
theory Compute_Properties
  imports Compute_Spec
begin

text \<open>
  The properties of the compute manager, on the managers wired together by \<open>compute_on\<close>, with witnesses on
  the in-memory server.
\<close>


definition example_vmi :: vmi where
  "example_vmi = \<lparr>vmi_meta = empty_meta\<lparr>m_name := ''vm'', m_namespace := ''kube-nfv''\<rparr>,
     vmi_spec = \<lparr>spec_disks = [], spec_interfaces = [], spec_secureBoot = None, spec_networks = [], spec_volumes = [],
       spec_nodeSelector = Map.empty, spec_tolerations = []\<rparr>,
     vmi_status_phase = [], vmi_status_reason = [], vmi_status_nodeName = [], vmi_status_conditions = [], vmi_status_interfaces = []\<rparr>"

text \<open>A controller that creates the instance whenever it runs.\<close>

definition create_vmi :: "mem \<Rightarrow> mem" where
  "create_vmi t = snd (mem_create (OVmi example_vmi) t)"

lemma create_vmi_step: "mem_inv t \<Longrightarrow> mem_inv (create_vmi t) \<and> mem_view (create_vmi t) (KVmi, ''kube-nfv'', ''vm'') \<noteq> None \<and>
    same_except workload (mem_view t) (mem_view (create_vmi t))"
  using mem.create_law [of t "OVmi example_vmi" "fst (mem_create (OVmi example_vmi) t)" "create_vmi t"]
  by (auto simp: create_vmi_def mem_client_def obj_key_def example_vmi_def same_except_def workload_def split: if_splits)

abbreviation mem_compute :: "mem compute" where
  "mem_compute \<equiv> compute_on (\<lambda>_. None) table_codec (ret ''u'') (\<lambda>_. True) mem_client ''default'' ''kube-nfv'' [] None"




text \<open>C27. The boot volume fits: when \<open>initImageDataVolumes\<close> returns, the flavour has exactly one bootable entry,
  the image is ready and not empty, and the one data volume it describes clones the image's claim into a disk
  of the flavour's size, which is at least the size of the image.\<close>

theorem boot_volume_fits:
  assumes "initImageDataVolumes imageInfo attrs vmName namespace s = (Ok dvs, t)"
  shows "\<exists>img attr im_q disk_q dv. imageInfo = Some img \<and> filter is_bootable attrs = [Some attr] \<and>
    si_size img = Some im_q \<and> vs_sizeOfStorage attr = Some disk_q \<and> si_status img = ''ready'' \<and>
    q_amount im_q \<noteq> 0 \<and> q_amount im_q \<le> q_amount disk_q \<and>
    dvs = [dv] \<and> dvt_storage dv = disk_q \<and> dvt_pvc_name dv = si_name img \<and> dvt_pvc_namespace dv = namespace"
  using assms by (elim initImageDataVolumes_Ok) blast

definition ready_image :: image_info where
  "ready_image = \<lparr>si_id = Some ''i'', si_name = ''img'', si_createdAt = None, si_updatedAt = None,
     si_size = Some \<lparr>q_amount = 5, q_format = ''BinarySI''\<rparr>, si_status = ''ready'', si_metadata = None\<rparr>"

lemma ready_boot_volume:
  obtains dvs where "initImageDataVolumes (Some ready_image) [Some boot_volume] name ns s = (Ok dvs, s)"
  by (simp add: initImageDataVolumes_def initImageBootableDataVolume_def ready_image_def boot_volume_def is_zero_def run_and_then act_simps)

theorem boot_volume_fits_witness:
  "\<exists>dvs. initImageDataVolumes (Some ready_image) [Some boot_volume] ''vm'' ''kube-nfv'' mem_empty = (Ok dvs, mem_empty) \<and>
     length dvs = 1 \<and> q_amount (the (si_size ready_image)) \<le> q_amount (dvt_storage (hd dvs))"
proof -
  obtain dvs where run: "initImageDataVolumes (Some ready_image) [Some boot_volume] ''vm'' ''kube-nfv'' mem_empty = (Ok dvs, mem_empty)"
    by (rule ready_boot_volume)
  from boot_volume_fits [OF run] run show ?thesis by auto
qed

text \<open>C31. The message that describes a VM, over the composite network manager and for every client: the
  conversion never panics; its ids are the VM's uid and labels, it has one vNIC per network of the instance, in
  the same order, owned by the VM; and it is administratively disabled exactly when its running state is
  stopped.\<close>

theorem vm_conversion_consistent:
  "case nfvVirtualComputeFromKubevirtVm (networks_on isUUID cl rd ns sock) (Some vm) (Some vmi) launcher s of
     (Ok c, t) \<Rightarrow> compute_of vm vmi c
   | (Err e, t) \<Rightarrow> True
   | (Panic, t) \<Rightarrow> False"
  using attached.convert_total [of isUUID cl rd ns sock vm vmi launcher s] by (simp add: meets_def)

text \<open>Reading and deleting compute resources never panics, for every client: every pointer these operations
  dereference is set by the managers underneath them.\<close>

theorem compute_reads_no_panic:
  "fst (GetComputeResource netInfo (compute_on pq codec nr isUUID cl sc ns sock cfg) opts s) \<noteq> Panic \<and>
   fst (ListComputeResources netInfo (compute_on pq codec nr isUUID cl sc ns sock cfg) s) \<noteq> Panic \<and>
   fst (DeleteComputeResource netInfo (compute_on pq codec nr isUUID cl sc ns sock cfg) opts s) \<noteq> Panic"
  by (intro conjI meets_no_panic [OF attached.GetComputeResource_total [OF compute_on_sel(4,3)]]
      meets_no_panic [OF attached.ListComputeResources_total [OF compute_on_sel(4,3)]]
      meets_no_panic [OF attached.DeleteComputeResource_total [OF compute_on_sel(4,3)]])

definition joined :: "vmi list \<Rightarrow> vm list \<Rightarrow> (vm \<times> vmi) list" where
  "joined vmis vms = List.map_filter (\<lambda>vm. map_option (Pair vm)
     (find (\<lambda>x. m_name (vmi_meta x) = m_name (vm_meta vm)) (rev vmis))) vms"

definition launcher_pods :: "pod list \<Rightarrow> vmi \<Rightarrow> pod list" where
  "launcher_pods pods vmi = filter (\<lambda>p. m_labels (pod_meta p) CreatedByLabel = Some (m_uid (vmi_meta vmi))) pods"

text \<open>C30. The in-memory join of \<open>ListComputeResources\<close> is the join it replaces: converting, for each VM that has an
  instance of its name (the last one listed), the VM with that instance and with the launcher pods that carry
  the instance's uid, in list order; VMs without an instance are left out.\<close>

theorem list_vms_is_join:
  "list_vms netInfo m (index_vmis vmis) (index_pods pods) vms =
     for_each (\<lambda>(vm, vmi). wrap ''convert kubevirt VM to nfv VirtualCompute''
       (nfvVirtualComputeFromKubevirtVm (km_networkManager m) (Some vm) (Some vmi) (launcherInfoFromPod netInfo
          (selectLauncherPod (launcher_pods pods vmi) (vmi_status_nodeName vmi))))) (joined vmis vms)"
  by (induction vms) (auto simp: joined_def map_filter_simps index_vmis_eq index_pods_eq launcher_pods_def split: option.splits)

text \<open>C25. Deletion is exact, on a server without faults: a successful \<open>DeleteComputeResource\<close> removes one VM that
  the options select (by name, or by uid among the managed ones) and the cloud-init secret of its name, and
  nothing else changes; a failed one changes nothing.\<close>

theorem DeleteComputeResource_exact:
  assumes "api_server cl view I" and "I s"
  shows "case DeleteComputeResource netInfo (compute_on pq codec nr isUUID cl sc ns sock cfg) opts s of
      (Ok _, t) \<Rightarrow> (\<exists>vm. view s (KVm, ns, m_name (vm_meta vm)) = Some (OVm vm) \<and> selected opts vm \<and>
         view t = removed_vm ns (m_name (vm_meta vm)) (view s))
    | (Err e, t) \<Rightarrow> view t = view s
    | (Panic, t) \<Rightarrow> False"
  using compute_services.DeleteComputeResource_view [OF api_server.compute_services_on [OF assms(1), of pq codec nr isUUID sc ns sock cfg] assms(2), of netInfo opts]
  by (auto simp: meets_def split: prod.splits result.splits)

definition example_vm :: vm where
  "example_vm = \<lparr>vm_meta = empty_meta\<lparr>m_name := ''vm'', m_namespace := ''kube-nfv'', m_uid := ''u1'', m_resourceVersion := ''1'',
       m_creationTimestamp := 1, m_labels := [K8sManagedByLabel \<mapsto> KubeNfvName, K8sFlavourIdLabel \<mapsto> ''f'', K8sImageIdLabel \<mapsto> ''i'']\<rparr>,
     vm_dataVolumeTemplates = [], vm_instancetype = None, vm_preference = None, vm_runStrategy = None, vm_template = None,
     vm_status_created = True, vm_status_ready = True, vm_status_printableStatus = ''Running'', vm_status_runStrategy = ''Always''\<rparr>"

definition mem_vm :: mem where
  "mem_vm = \<lparr>mem_objs = [OVm example_vm,
     OVmi (example_vmi\<lparr>vmi_meta := (vmi_meta example_vmi)\<lparr>m_uid := ''u2'', m_resourceVersion := ''1'', m_creationTimestamp := 1\<rparr>\<rparr>)],
     mem_next = 2\<rparr>"

lemma mem_vm_facts:
  "mem_inv mem_vm" "mem_view mem_vm (KVm, ''kube-nfv'', ''vm'') = Some (OVm example_vm)"
  by (simp_all add: mem_inv_def mem_vm_def example_vm_def example_vmi_def IsObjectInstantiated_def obj_key_def empty_meta_def mem_view_def)

theorem DeleteComputeResource_exact_witness:
  "mem_inv mem_vm \<and> mem_view mem_vm (KVm, ''kube-nfv'', ''vm'') = Some (OVm example_vm) \<and>
   (case DeleteComputeResource (\<lambda>_. None) mem_compute [GetComputeByName ''vm''] mem_vm of
      (Ok _, t) \<Rightarrow> mem_view t = removed_vm ''kube-nfv'' ''vm'' (mem_view mem_vm)
    | (Err e, t) \<Rightarrow> mem_view t = mem_view mem_vm
    | (Panic, t) \<Rightarrow> False)"
  using DeleteComputeResource_exact [OF mem.api_server_axioms mem_vm_facts(1), where opts = "[GetComputeByName ''vm'']"
      and ns = "''kube-nfv''" and netInfo = "\<lambda>_. None" and pq = "\<lambda>_. None" and codec = table_codec and nr = "ret ''u''"
      and isUUID = "\<lambda>_. True" and sc = "''default''" and sock = "[]" and cfg = None] mem_vm_facts
  by (auto simp: selected_def compute_opt_defs split: prod.splits result.splits)


definition empty_request :: allocate_request where
  "empty_request = \<lparr>ar_computeName = Some ''vm'', ar_computeFlavourId = Some ''f'', ar_vcImageId = Some ''i'', ar_userData = None,
     ar_interfaceData = [], ar_interfaceIPAM = []\<rparr>"


definition vm_wf :: "allocate_request \<Rightarrow> vm \<Rightarrow> bool" where
  "vm_wf req vm \<longleftrightarrow> (case vm_template vm of None \<Rightarrow> False | Some tmpl \<Rightarrow>
     map vol_name (spec_volumes (tmpl_spec tmpl)) = map disk_name (spec_disks (tmpl_spec tmpl)) \<and>
     distinct (map vol_name (spec_volumes (tmpl_spec tmpl))) \<and>
     (\<exists>dv. vm_dataVolumeTemplates vm = [dv] \<and> vol_source (hd (spec_volumes (tmpl_spec tmpl))) = VolDataVolume (dvt_name dv)) \<and>
     map kn_name (spec_networks (tmpl_spec tmpl)) = map if_name (spec_interfaces (tmpl_spec tmpl)) \<and>
     length (spec_networks (tmpl_spec tmpl)) = Suc (length (ar_interfaceData req)) \<and>
     hd (spec_networks (tmpl_spec tmpl)) = pod_network \<and> hd (spec_interfaces (tmpl_spec tmpl)) = pod_interface)"

lemma boot_name_distinct: "x @ ''-boot-dv'' \<noteq> ''cloudinitdisk''"
proof
  assume "x @ ''-boot-dv'' = ''cloudinitdisk''"
  then have "last (x @ ''-boot-dv'') = last ''cloudinitdisk''" by (rule arg_cong)
  then show False by simp
qed

text \<open>C26. A VM that allocation is about to create is well-formed: every disk has the volume of its name and the names
  are distinct, the first volume is the boot data volume the VM brings along, networks and interfaces agree by
  name, the management pair comes first and there is one further pair per requested interface.\<close>

theorem prepared_vm_wellformed:
  assumes "total_source newRandom" and "static_named (ar_interfaceIPAM req)"
    and "km_networkManager m = networks_on isUUID cl rd ns sock" and "prepare_vm isUUID newRandom m ns req s = (Ok vm, t)"
  shows "vm_wf req vm"
  using assms(4)
proof (elim prepare_vm_Ok)
  fix flav :: compute_flavour and itm pfm and img :: image_info and attr and im_q disk_q :: quantity
    and dv name udV udD nets ifs ann s1 s2
  assume names: "dvt_name dv = str_or_empty (ar_computeName req) @ ''-boot-dv''"
    and ud: "map vol_name udV = map disk_name udD" "udV = [] \<and> ar_userData req = None \<or> map vol_name udV = [''cloudinitdisk'']"
    and net: "resolveInterfaces isUUID newRandom (newIpamResolver (km_networkManager m) ns) (ar_interfaceData req) (ar_interfaceIPAM req) s1 =
       (Ok (nets, ifs, ann), s2)"
    and vm: "vm = vm_object m ns name req itm pfm [dv] (fst (initVolumesDisksFromDataVolumes [dv]) @ udV)
       (snd (initVolumesDisksFromDataVolumes [dv]) @ udD) nets ifs ann"
  have "length nets = Suc (length (ar_interfaceData req)) \<and> map kn_name nets = map if_name ifs \<and> hd nets = pod_network \<and> hd ifs = pod_interface"
    using stack.both.meets_resolveInterfaces [of "stack_resolver isUUID (kubeovn_on cl rd ns) cl ns sock" isUUID "kubeovn_on cl rd ns" cl ns sock newRandom
        "ar_interfaceIPAM req" isUUID "ar_interfaceData req" s1] assms(1-3) net
    by (simp add: meets_def newIpamResolver_def)
  then show "vm_wf req vm"
    using ud boot_name_distinct [of "str_or_empty (ar_computeName req)"]
    by (auto simp: vm vm_wf_def vm_object_def initVolumesDisksFromDataVolumes_def names)
qed

text \<open>A compute manager whose flavour and image managers hold one flavour and one image.\<close>

definition stock_flavour :: compute_flavour where
  "stock_flavour = \<lparr>cf_flavourId = Some ''f'', cf_isPublic = None, cf_virtualCpu = Some 1, cf_virtualMemory = None,
     cf_storageAttributes = [Some boot_volume], cf_metadata = Some [K8sFlavourSourceLabel \<mapsto> KubevirtFlavourSource,
       InstancetypeAnnotation \<mapsto> ''t'', PreferenceAnnotation \<mapsto> ''p'']\<rparr>"

definition stocked :: "mem compute" where
  "stocked = mem_compute\<lparr>km_flavourManager := (km_flavourManager mem_compute)\<lparr>fm_GetFlavour := \<lambda>_. ret stock_flavour\<rparr>,
     km_imageManager := (km_imageManager mem_compute)\<lparr>im_GetImage := \<lambda>_. ret (Some ready_image)\<rparr>\<rparr>"

definition plain_request :: "string option \<Rightarrow> allocate_request" where
  "plain_request name = \<lparr>ar_computeName = name, ar_computeFlavourId = Some ''f'', ar_vcImageId = Some ''i'', ar_userData = None,
     ar_interfaceData = [], ar_interfaceIPAM = []\<rparr>"

lemma stocked_prepares:
  obtains vm where "prepare_vm (\<lambda>_. True) (ret ''u'') stocked ''kube-nfv'' (plain_request name) mem_empty = (Ok vm, mem_empty)"
proof -
  have fl: "\<exists>x y. vm_flavour stocked (plain_request name) mem_empty = (Ok (stock_flavour, x, y), mem_empty)"
    by (simp add: vm_flavour_def stocked_def plain_request_def has_value_def stock_flavour_def initVmInstanceTypeMatcher_def run_and_then act_simps
        K8sFlavourSourceLabel_def InstancetypeAnnotation_def PreferenceAnnotation_def)
  have vol: "\<exists>dvs. vm_volumes stocked ''kube-nfv'' (plain_request name) stock_flavour mem_empty = (Ok (Some ready_image, dvs), mem_empty)"
    by (rule ready_boot_volume [of "str_or_empty name" "''kube-nfv''" mem_empty])
      (simp add: vm_volumes_def stocked_def plain_request_def has_value_def stock_flavour_def and_then_Ok_iff act_simps)
  have name: "\<exists>n. vm_name (plain_request name) (Some ready_image) mem_empty = (Ok n, mem_empty)"
    by (simp add: vm_name_def run_and_then act_simps)
  have ud: "ar_userData (plain_request name) = None" "ar_interfaceData (plain_request name) = []"
    by (simp_all add: plain_request_def)
  show thesis
    using fl vol name ud that
    by (auto simp: prepare_vm_def run_and_then act_simps user_data_disks_def resolveInterfaces_def initVolumesDisksFromDataVolumes_def wrap_def handle_def)
qed

theorem prepared_vm_wellformed_witness:
  "\<exists>vm. prepare_vm (\<lambda>_. True) (ret ''u'') stocked ''kube-nfv'' (plain_request (Some ''vm'')) mem_empty = (Ok vm, mem_empty) \<and>
     vm_wf (plain_request (Some ''vm'')) vm"
proof -
  obtain vm where run: "prepare_vm (\<lambda>_. True) (ret ''u'') stocked ''kube-nfv'' (plain_request (Some ''vm'')) mem_empty = (Ok vm, mem_empty)"
    by (rule stocked_prepares)
  have "static_named (ar_interfaceIPAM (plain_request (Some ''vm'')))" "km_networkManager stocked = networks_on (\<lambda>_. True) mem_client mem_client ''kube-nfv'' []"
    by (simp_all add: static_named_def plain_request_def stocked_def)
  from prepared_vm_wellformed [OF total_source_ret this run] run show ?thesis by blast
qed

text \<open>Without a requested name the VM is named after its image but its boot data volume is named after the empty
  string: every such VM brings a data volume called \<open>-boot-dv\<close>, which is no valid Kubernetes name and would
  collide between two VMs of different images.\<close>

theorem unnamed_boot_volume:
  assumes "prepare_vm isUUID newRandom m ns req s = (Ok vm, t)" and "\<not> has_value (ar_computeName req)"
  shows "map dvt_name (vm_dataVolumeTemplates vm) = [''-boot-dv''] \<and> (\<exists>img. m_name (vm_meta vm) = img @ ''-vm'')"
  using assms by (elim prepare_vm_Ok) (auto simp: vm_object_def str_or_empty_def has_value_def split: option.splits)

theorem unnamed_boot_volume_witness:
  "\<exists>vm. prepare_vm (\<lambda>_. True) (ret ''u'') stocked ''kube-nfv'' (plain_request None) mem_empty = (Ok vm, mem_empty) \<and>
     map dvt_name (vm_dataVolumeTemplates vm) = [''-boot-dv'']"
proof -
  obtain vm where run: "prepare_vm (\<lambda>_. True) (ret ''u'') stocked ''kube-nfv'' (plain_request None) mem_empty = (Ok vm, mem_empty)"
    by (rule stocked_prepares)
  from unnamed_boot_volume [OF run] run show ?thesis by (auto simp: plain_request_def has_value_def)
qed

text \<open>User data for a metadata service is refused only after the cloud-init secret has been created: the call
  fails as unsupported and the secret stays behind.\<close>

theorem user_data_secret_leaks:
  assumes "api_server cl view I" and "I s" and "km_client m = cl" and "ud_content userData \<noteq> []"
    and "ud_method userData = Some METADATA_SERVICE"
    and "view s (KSecret, ns, vmName @ KubevirtVmCloudInitSecretSuffix) = None"
  shows "\<exists>e t sec. createUserDataVolumeWithSecret m ns vmName userData s = (Err e, t) \<and> errors_Is e ErrUnsupported \<and>
    view t = (view s)((KSecret, ns, vmName @ KubevirtVmCloudInitSecretSuffix) \<mapsto> OSecret sec)"
proof -
  let ?sec = "cloud_init_secret ns vmName (ud_content userData)"
  have key: "obj_key (OSecret ?sec) = (KSecret, ns, vmName @ KubevirtVmCloudInitSecretSuffix)"
    by (simp add: cloud_init_secret_def obj_key_def)
  have "meets (k8s_create cl secret_k ?sec) s (\<lambda>y t. view t = (view s)((KSecret, ns, vmName @ KubevirtVmCloudInitSecretSuffix) \<mapsto> OSecret y)) (\<lambda>_ _. False)"
    by (rule api_server.meets_create [OF assms(1,2)]) (simp_all add: key assms(6))
  then obtain y t where run: "k8s_create cl secret_k ?sec s = (Ok y, t)"
    "view t = (view s)((KSecret, ns, vmName @ KubevirtVmCloudInitSecretSuffix) \<mapsto> OSecret y)"
    by (auto simp: meets_def split: prod.splits result.splits)
  then show ?thesis
    using assms(3-5) by (auto simp: createUserDataVolumeWithSecret_def Let_def run_and_then handle_def act_simps cloud_init_source_def errors_Is_def)
qed

definition metadata_user_data :: user_data where
  "metadata_user_data = \<lparr>ud_content = ''#cloud-config'', ud_method = Some METADATA_SERVICE\<rparr>"

theorem user_data_secret_leaks_witness:
  "\<exists>e t sec. createUserDataVolumeWithSecret mem_compute ''kube-nfv'' ''vm'' metadata_user_data mem_empty = (Err e, t) \<and>
     mem_view t (KSecret, ''kube-nfv'', ''vm-cloud-init'') = Some (OSecret sec)"
proof -
  have none: "mem_view mem_empty (KSecret, ''kube-nfv'', ''vm'' @ KubevirtVmCloudInitSecretSuffix) = None" by simp
  have ud: "ud_content metadata_user_data \<noteq> []" "ud_method metadata_user_data = Some METADATA_SERVICE"
    by (simp_all add: metadata_user_data_def)
  from user_data_secret_leaks [of mem_client mem_view mem_inv mem_empty mem_compute metadata_user_data "''kube-nfv''" "''vm''",
      OF mem.api_server_axioms mem_inv_empty compute_on_sel(1) ud none]
  show ?thesis by (fastforce simp: KubevirtVmCloudInitSecretSuffix_def)
qed

end
