(* ===== verification/Server.thy ===== *)
theory Server
  imports Compute_Properties
begin

text \<open>
  The northbound server: the vi-vnfm service (\<open>internal/kubevim/server/grpc/vivnfm/server.go\<close>), which maps each
  call to a manager operation, and the interceptor that turns the errors of the managers into gRPC statuses
  (\<open>internal/kubevim/server/server.go\<close>). A handler that returns a response next to an error is the error: gRPC
  drops the response. A nil request, which gRPC never passes but the code tests for in places, is \<open>None\<close>.
  \<open>FilterList\<close> of \<open>github.com/kube-nfv/query-filter\<close> is a parameter, once per type it is used at.
\<close>

subsection \<open>The managers behind the server\<close>

record 's compute_manager =
  cm_AllocateComputeResource :: "allocate_request option \<Rightarrow> ('s, error, virtual_compute) act"
  cm_GetComputeResource :: "get_compute_opt list \<Rightarrow> ('s, error, virtual_compute) act"
  cm_ListComputeResources :: "('s, error, virtual_compute list) act"
  cm_DeleteComputeResource :: "get_compute_opt list \<Rightarrow> ('s, error, unit) act"

definition kubevirt_compute ::
  "(string \<Rightarrow> bool) \<Rightarrow> ('s, error, string) act \<Rightarrow> (string \<Rightarrow> net_info_iface list option) \<Rightarrow> ('s \<Rightarrow> 's) \<Rightarrow> nat \<Rightarrow>
   's compute \<Rightarrow> 's compute_manager" where
  "kubevirt_compute isUUID newRandom netInfo tick polls m =
     \<lparr>cm_AllocateComputeResource = AllocateComputeResource isUUID newRandom netInfo tick polls m,
      cm_GetComputeResource = GetComputeResource netInfo m, cm_ListComputeResources = ListComputeResources netInfo m,
      cm_DeleteComputeResource = DeleteComputeResource netInfo m\<rparr>"

record 's viVnfmServer =
  vs_ImageMgr :: "'s image_manager"
  vs_FlavourMgr :: "'s flavour_manager"
  vs_NetworkMgr :: "'s network_manager"
  vs_ComputeMgr :: "'s compute_manager"

record filters =
  ft_images :: "image_info list \<Rightarrow> string \<Rightarrow> error + image_info list"
  ft_computes :: "virtual_compute list \<Rightarrow> string \<Rightarrow> error + virtual_compute list"
  ft_flavours :: "compute_flavour list \<Rightarrow> string \<Rightarrow> error + compute_flavour list"
  ft_networks :: "virtual_network list \<Rightarrow> string \<Rightarrow> error + virtual_network list"
  ft_subnets :: "network_subnet list \<Rightarrow> string \<Rightarrow> error + network_subnet list"

datatype network_resource_type = RES_NETWORK | RES_SUBNET | RES_OTHER int

record allocate_network_request =
  an_networkResourceName :: "string option"
  an_networkResourceType :: network_resource_type
  an_typeNetworkData :: "virtual_network_data option"
  an_typeSubnetData :: "network_subnet_data option"

datatype network_resource = NetworkData virtual_network | SubnetData network_subnet

record query_network_request =
  qn_networkResourceType :: network_resource_type
  qn_queryNetworkFilter :: "string option"

subsection \<open>Images, compute resources and flavours\<close>

text \<open>A request that only carries a filter, or only an id, is that field.\<close>

definition QueryImages :: "filters \<Rightarrow> 's viVnfmServer \<Rightarrow> string option option \<Rightarrow> ('s, error, image_info list) act" where
  "QueryImages ft s req =
     and_then (wrap ''query images'' (im_ListImages (vs_ImageMgr s))) (\<lambda>res.
     and_then (deref req) (\<lambda>flt.
     wrap ''filter queried images'' (sum_act (ft_images ft res (str_or_empty flt)))))"

definition QueryImage :: "'s viVnfmServer \<Rightarrow> string option option \<Rightarrow> ('s, error, image_info option) act" where
  "QueryImage s req = im_GetImage (vs_ImageMgr s) (case req of None \<Rightarrow> None | Some i \<Rightarrow> i)"

definition AllocateVirtualisedComputeResource ::
  "'s viVnfmServer \<Rightarrow> allocate_request option \<Rightarrow> ('s, error, virtual_compute) act" where
  "AllocateVirtualisedComputeResource s req = cm_AllocateComputeResource (vs_ComputeMgr s) req"

definition QueryVirtualisedComputeResource ::
  "filters \<Rightarrow> 's viVnfmServer \<Rightarrow> string option option \<Rightarrow> ('s, error, virtual_compute list) act" where
  "QueryVirtualisedComputeResource ft s req =
     and_then (wrap ''query compute resources'' (cm_ListComputeResources (vs_ComputeMgr s))) (\<lambda>res.
     and_then (deref req) (\<lambda>flt.
     wrap ''filter queried compute resources'' (sum_act (ft_computes ft res (str_or_empty flt)))))"

definition TerminateVirtualisedComputeResource ::
  "'s viVnfmServer \<Rightarrow> string option option \<Rightarrow> ('s, error, string option) act" where
  "TerminateVirtualisedComputeResource s req =
     handle (cm_DeleteComputeResource (vs_ComputeMgr s) [GetComputeByUid (case req of None \<Rightarrow> None | Some i \<Rightarrow> i)])
       (\<lambda>_. and_then (deref req) ret)
       (\<lambda>err. and_then (deref req) (\<lambda>_. throw (Wrap ''delete virtualised compute resource'' err)))"

definition CreateComputeFlavour ::
  "'s viVnfmServer \<Rightarrow> compute_flavour option option \<Rightarrow> ('s, error, string option) act" where
  "CreateComputeFlavour s req = and_then (deref req) (fm_CreateFlavour (vs_FlavourMgr s))"

definition QueryComputeFlavour ::
  "filters \<Rightarrow> 's viVnfmServer \<Rightarrow> string option option \<Rightarrow> ('s, error, compute_flavour list) act" where
  "QueryComputeFlavour ft s req =
     and_then (wrap ''get flavours'' (fm_GetFlavours (vs_FlavourMgr s))) (\<lambda>res.
     and_then (deref req) (\<lambda>flt.
     wrap ''filter queried flavours'' (sum_act (ft_flavours ft res (str_or_empty flt)))))"

definition DeleteComputeFlavour :: "'s viVnfmServer \<Rightarrow> string option option \<Rightarrow> ('s, error, unit) act" where
  "DeleteComputeFlavour s req = and_then (deref req) (\<lambda>computeFlavourId.
     handle (fm_DeleteFlavour (vs_FlavourMgr s) computeFlavourId) ret (\<lambda>err.
       and_then (deref computeFlavourId) (\<lambda>_. throw (Wrap ''delete flavour'' err))))"

subsection \<open>Networks\<close>

definition AllocateVirtualisedNetworkResource ::
  "'s viVnfmServer \<Rightarrow> allocate_network_request option \<Rightarrow> ('s, error, network_resource) act" where
  "AllocateVirtualisedNetworkResource s reqp = (case reqp of
      None \<Rightarrow> throw (GrpcStatus CodeInvalidArgument (''allocateNetworkRequest can'' @ [CHR 0x27] @ ''t be empty''))
    | Some req \<Rightarrow>
        if \<not> has_value (an_networkResourceName req)
        then throw (GrpcStatus CodeInvalidArgument (''networkResourceName can'' @ [CHR 0x27] @ ''t be empty''))
        else (let name = str_or_empty (an_networkResourceName req) in
          case an_networkResourceType req of
            RES_NETWORK \<Rightarrow>
              if an_typeNetworkData req = None
              then throw (GrpcStatus CodeInvalidArgument (''field typeNetworkData can'' @ [CHR 0x27] @ ''t be empty with Network resource type''))
              else and_then (nm_CreateNetwork (vs_NetworkMgr s) name (an_typeNetworkData req)) (\<lambda>net. ret (NetworkData net))
          | RES_SUBNET \<Rightarrow>
              if an_typeSubnetData req = None
              then throw (GrpcStatus CodeInvalidArgument (''field TypeSubnetData can'' @ [CHR 0x27] @ ''t be empty with Subnet resource type''))
              else and_then (nm_CreateSubnet (vs_NetworkMgr s) name (an_typeSubnetData req)) (\<lambda>sub. ret (SubnetData sub))
          | RES_OTHER _ \<Rightarrow> throw (GrpcStatus CodeUnimplemented ''unsupported NetworkResourceType'')))"

definition QueryVirtualisedNetworkResource ::
  "filters \<Rightarrow> 's viVnfmServer \<Rightarrow> query_network_request option \<Rightarrow> ('s, error, virtual_network list \<times> network_subnet list) act" where
  "QueryVirtualisedNetworkResource ft s reqp = (case reqp of
      None \<Rightarrow> throw (GrpcStatus CodeInvalidArgument (''queryNetworkRequest can'' @ [CHR 0x27] @ ''t be empty''))
    | Some req \<Rightarrow> (case qn_networkResourceType req of
        RES_NETWORK \<Rightarrow>
          and_then (wrap ''list networks'' (nm_ListNetworks (vs_NetworkMgr s))) (\<lambda>netLst.
          and_then (wrap ''filter networks'' (sum_act (ft_networks ft netLst (str_or_empty (qn_queryNetworkFilter req))))) (\<lambda>filtered.
          ret (filtered, [])))
      | RES_SUBNET \<Rightarrow>
          and_then (wrap ''list subnets'' (nm_ListSubnets (vs_NetworkMgr s))) (\<lambda>subLst.
          and_then (wrap ''filter subnets'' (sum_act (ft_subnets ft subLst (str_or_empty (qn_queryNetworkFilter req))))) (\<lambda>filtered.
          ret ([], filtered)))
      | RES_OTHER _ \<Rightarrow> throw (GrpcStatus CodeUnimplemented ''unsupported NetworkResourceType'')))"

definition TerminateVirtualisedNetworkResource ::
  "'s viVnfmServer \<Rightarrow> string option option \<Rightarrow> ('s, error, string option) act" where
  "TerminateVirtualisedNetworkResource s req =
     and_then (deref req) (\<lambda>networkResourceId.
     handle (nm_DeleteNetwork (vs_NetworkMgr s) [GetNetworkByUid networkResourceId]) (\<lambda>_. ret networkResourceId) (\<lambda>err.
       if \<not> errors_As is_ErrNotFound err \<and> \<not> k8s_IsNotFound err then throw (Wrap ''delete network'' err)
       else handle (nm_DeleteSubnet (vs_NetworkMgr s) [GetSubnetByUid networkResourceId]) (\<lambda>_. ret networkResourceId) (\<lambda>err.
         if errors_As is_ErrNotFound err \<or> k8s_IsNotFound err
         then throw (Wrap ''network resource not found in networks or subnets'' err)
         else throw (Wrap ''delete subnet'' err))))"

subsection \<open>The interceptor\<close>

definition errorConversionInterceptor :: "converter list \<Rightarrow> ('s, error, 'a) act \<Rightarrow> ('s, error, 'a) act" where
  "errorConversionInterceptor cs handler = handle handler ret (\<lambda>err. (case ToGRPCError cs (Some err) of
      Some grpcErr \<Rightarrow> throw grpcErr
    | None \<Rightarrow> throw err))"

subsection \<open>The server over the network managers\<close>

lemma networks_on_sel:
  "nm_CreateNetwork (networks_on isUUID cl rd ns sock) =
     composite_CreateNetwork (network_stack isUUID (kubeovn_on cl rd ns) (sriov_on cl ns sock))"
  "nm_GetNetwork (networks_on isUUID cl rd ns sock) =
     composite_GetNetwork (network_stack isUUID (kubeovn_on cl rd ns) (sriov_on cl ns sock))"
  "nm_DeleteNetwork (networks_on isUUID cl rd ns sock) =
     composite_DeleteNetwork (network_stack isUUID (kubeovn_on cl rd ns) (sriov_on cl ns sock))"
  "nm_CreateSubnet (networks_on isUUID cl rd ns sock) =
     composite_CreateSubnet (network_stack isUUID (kubeovn_on cl rd ns) (sriov_on cl ns sock))"
  "nm_DeleteSubnet (networks_on isUUID cl rd ns sock) = DeleteSubnet (kubeovn_on cl rd ns)"
  "nm_EnsureManagementNetwork (networks_on isUUID cl rd ns sock) = EnsureManagementNetwork (kubeovn_on cl rd ns)"
  "nm_CreateSubnet (cm_ovn (network_stack isUUID (kubeovn_on cl rd ns) (sriov_on cl ns sock))) =
     CreateSubnet isUUID (kubeovn_on cl rd ns)"
  "nm_CreateSubnet (cm_sriov (network_stack isUUID (kubeovn_on cl rd ns) (sriov_on cl ns sock))) = (\<lambda>_ _. no_subnets)"
  by (simp_all add: composite_manager_def composite_DeleteSubnet_def composite_EnsureManagementNetwork_def NewManager_def
      kubeovn_manager_def sriov_manager_def fun_eq_iff)

lemma Terminate_on:
  assumes "vs_NetworkMgr srv = networks_on isUUID cl rd ns sock"
  shows "TerminateVirtualisedNetworkResource srv (Some p) =
    handle (composite_DeleteNetwork (network_stack isUUID (kubeovn_on cl rd ns) (sriov_on cl ns sock)) [GetNetworkByUid p])
      (\<lambda>_. ret p) (\<lambda>err.
      if \<not> errors_As is_ErrNotFound err \<and> \<not> k8s_IsNotFound err then throw (Wrap ''delete network'' err)
      else handle (DeleteSubnet (kubeovn_on cl rd ns) [GetSubnetByUid p]) (\<lambda>_. ret p) (\<lambda>err.
        if errors_As is_ErrNotFound err \<or> k8s_IsNotFound err
        then throw (Wrap ''network resource not found in networks or subnets'' err)
        else throw (Wrap ''delete subnet'' err)))"
  by (simp add: TerminateVirtualisedNetworkResource_def assms networks_on_sel deref_def cong: if_cong)

lemma interceptor_not_found:
  assumes "errors_As is_ErrNotFound e" and "h s = (Err e, t)"
  shows "\<exists>e'. errorConversionInterceptor registered_converters h s = (Err e', t) \<and> status_code e' = Some CodeNotFound"
proof -
  obtain a b where "root e = ErrNotFound a b" using assms(1) by (cases "root e") simp_all
  moreover obtain e' where "ToGRPCError registered_converters (Some e) = Some e'" "status_code e' = Some (code_table (root e))"
    using registered.ToGRPCError_tab [OF refl, of e] code_table_root [of e] by metis
  ultimately show ?thesis using assms(2) by (simp add: errorConversionInterceptor_def handle_def act_simps)
qed

context api_server
begin

lemma composite_CreateSubnet_view:
  assumes s: "inv s"
  shows "meets (nm_CreateSubnet (networks_on isUUID cl rd ns sock) name (Some d)) s
    (\<lambda>n t. inv t \<and> subnet_created (view s) (view t) ns name d n) (\<lambda>_ t. inv t \<and> view t = view s)"
proof -
  have ovn: "meets (Kubeovn.CreateSubnet isUUID (kubeovn_on cl rd ns) name (Some d)) t
      (\<lambda>n u. inv u \<and> subnet_created (view s) (view u) ns name d n) (\<lambda>_ u. inv u \<and> view u = view s)"
    if "inv t" "view t = view s" for t
    by (rule meets_weaken [OF CreateSubnet_view [OF that(1), of "kubeovn_on cl rd ns" ns]]) (simp_all add: that(2))
  have net: "meets (nm_GetNetwork (networks_on isUUID cl rd ns sock) opts) s
      (\<lambda>_ t. inv t \<and> view t = view s) (\<lambda>_ t. inv t \<and> view t = view s)" for opts
    by (rule meets_weaken [OF meets_preserves [OF stack.both.meets_get_network
          preserves_networks_on(1) [where P = "\<lambda>v. v = view s"]]]) (use s in auto)
  show ?thesis
    unfolding networks_on_sel composite_CreateSubnet_def
    by (cases "sd_networkId d")
      (auto simp: deref_def s no_subnets_def intro!: ovn meets_and_then meets_wrap meets_if meets_throw
        intro: meets_weaken [OF net [unfolded networks_on_sel]])
qed

lemma terminate_created_subnet:
  assumes t: "inv t" and cr: "subnet_created V (view t) ns name d n" and srv: "vs_NetworkMgr srv = networks_on isUUID cl rd ns sock"
  shows "meets (TerminateVirtualisedNetworkResource srv (Some (ns_resourceId n))) t
    (\<lambda>r u. r = ns_resourceId n \<and> inv u \<and> view u = V) (\<lambda>_ _. False)"
proof -
  obtain sub where v: "view t (KSubnet, [], name) = Some (OSubnet sub)" "nfvNetworkSubnetFromKubeovnSubnet (Some sub) = Inr n"
    using cr by (auto simp: subnet_created_def)
  then have rid: "ns_resourceId n = Some (m_uid (sub_meta sub))" "m_uid (sub_meta sub) \<noteq> []"
    by (auto simp: subnetTo_Inr_iff IsObjectInstantiated_def)
  have net: "meets (composite_DeleteNetwork (network_stack isUUID (kubeovn_on cl rd ns) (sriov_on cl ns sock))
      [GetNetworkByUid (ns_resourceId n)]) t (\<lambda>_ _. False) (\<lambda>e u. errors_As is_ErrNotFound e \<and> inv u \<and> view u = view t)"
    unfolding rid(1) by (intro composite_delete_absent [OF t kubeovn_on_sel(1) rid(2)] kubeovn_absent [OF t _ rid(2)] no_uid_other [OF t v(1)]) simp_all
  have sub: "meets (DeleteSubnet (kubeovn_on cl rd ns) [GetSubnetByUid (ns_resourceId n)]) u
      (\<lambda>_ w. inv w \<and> view w = V) (\<lambda>_ _. False)" if "inv u" "view u = view t" for u
    using DeleteSubnet_view [OF that(1), of "kubeovn_on cl rd ns" ns V name d n] cr that(2)
    by (auto simp: meets_def)
  show ?thesis
    unfolding Terminate_on [OF srv]
    by (rule meets_handle, rule meets_weaken [OF net])
      (auto intro!: meets_handle meets_weaken [OF sub] meets_ret)
qed

lemma terminate_unknown:
  assumes s: "inv s" and u: "u \<noteq> []" and none: "no_uid (view s) {KNad, KSubnet} u"
    and srv: "vs_NetworkMgr srv = networks_on isUUID cl rd ns sock"
    and get: "meets (Kubeovn.GetNetwork (kubeovn_on cl rd ns) [GetNetworkByUid (Some u)]) s (\<lambda>_ _. False)
      (\<lambda>e t. errors_As is_ErrNotFound e \<and> inv t \<and> view t = view s)"
  shows "\<exists>e t. errorConversionInterceptor registered_converters (TerminateVirtualisedNetworkResource srv (Some (Some u))) s = (Err e, t) \<and>
    status_code e = Some CodeNotFound \<and> view t = view s"
proof -
  have none': "no_uid (view s) {KNad} u" "no_uid (view s) {KSubnet} u" using none by (auto elim: no_uid_mono)
  have sub: "meets (DeleteSubnet (kubeovn_on cl rd ns) [GetSubnetByUid (Some u)]) t (\<lambda>_ _. False)
      (\<lambda>e w. errors_As is_ErrNotFound e \<and> inv w \<and> view w = view s)" if "inv t" "view t = view s" for t
    by (rule meets_weaken [OF subnet_absent [OF that(1) kubeovn_on_sel(1) u]]) (use none' that in auto)
  have "meets (TerminateVirtualisedNetworkResource srv (Some (Some u))) s
      (\<lambda>_ _. False) (\<lambda>e t. errors_As is_ErrNotFound e \<and> view t = view s)" (is "meets ?m _ _ _")
    unfolding Terminate_on [OF srv]
    by (rule meets_handle, rule meets_weaken [OF composite_delete_absent [OF s kubeovn_on_sel(1) u none'(1) get]])
      (auto intro!: meets_handle meets_weaken [OF sub] meets_throw)
  then obtain e t where "errors_As is_ErrNotFound e" "?m s = (Err e, t)" "view t = view s"
    by (auto simp: meets_def split: prod.splits result.splits)
  with interceptor_not_found [where h = ?m, OF this(1,2)] show ?thesis by blast
qed

end

subsection \<open>Properties\<close>

text \<open>C15. A network resource that was allocated through the server can be terminated through it, and nothing is left: on a
  server without faults, when \<open>AllocateVirtualisedNetworkResource\<close> returned a subnet, or an SR-IOV network, then
  \<open>TerminateVirtualisedNetworkResource\<close> with the id of the resource succeeds, answers with the same id, and the
  stored objects are those of before the allocation. The two kinds of resource share one id space: the server tries the
  network managers first, and only their not-found lets the subnet be deleted.\<close>

theorem allocated_network_terminates:
  assumes "api_server cl view I" and "I s" and "vs_NetworkMgr srv = networks_on isUUID cl rd ns sock"
    and "AllocateVirtualisedNetworkResource srv (Some req) s = (Ok res, t)"
    and "\<And>d. an_typeNetworkData req = Some d \<Longrightarrow> an_networkResourceType req = RES_NETWORK \<Longrightarrow>
      nd_networkType d = Some NET_SRIOV \<and> ascii (str_or_empty (an_networkResourceName req)) \<and> ascii sock"
  shows "\<exists>i u. i = (case res of NetworkData n \<Rightarrow> vn_resourceId n | SubnetData n \<Rightarrow> ns_resourceId n) \<and> i \<noteq> None \<and>
    TerminateVirtualisedNetworkResource srv (Some i) t = (Ok i, u) \<and> view u = view s"
proof -
  note api = assms(1)
  let ?stack = "network_stack isUUID (kubeovn_on cl rd ns) (sriov_on cl ns sock)"
  let ?name = "str_or_empty (an_networkResourceName req)"
  consider (net) d n where "an_networkResourceType req = RES_NETWORK" "an_typeNetworkData req = Some d" "res = NetworkData n"
      "composite_CreateNetwork ?stack ?name (Some d) s = (Ok n, t)"
    | (sub) d n where "an_typeSubnetData req = Some d" "res = SubnetData n"
      "nm_CreateSubnet (vs_NetworkMgr srv) ?name (Some d) s = (Ok n, t)"
    using assms(4)
    by (auto simp: AllocateVirtualisedNetworkResource_def Let_def assms(3) networks_on_sel(1) and_then_Ok_iff act_simps
        split: if_splits network_resource_type.splits)
  then show ?thesis
  proof cases
    case net
    have d: "nd_networkType d = Some NET_SRIOV" "ascii ?name" "ascii sock" using assms(5) [OF net(2,1)] by auto
    obtain nad where t: "I t" "view t = (view s)((KNad, ns, ?name) \<mapsto> ONad nad)" "view s (KNad, ns, ?name) = None"
      and n: "sriov_created ?name d nad n"
      using meets_Ok [OF api_server.composite_create_sriov [OF api assms(2) d(2,3,1)] net(4)] by blast
    have "meets (TerminateVirtualisedNetworkResource srv (Some (vn_resourceId n))) t
        (\<lambda>r u. r = vn_resourceId n \<and> view u = view s) (\<lambda>_ _. False)"
      unfolding Terminate_on [OF assms(3)]
      by (rule meets_handle, rule meets_weaken [OF api_server.composite_delete_sriov [OF api t(1) kubeovn_on_sel(1) t(2,3) n]])
        (auto intro: meets_ret)
    moreover have "vn_resourceId n \<noteq> None" using n by (auto simp: sriov_created_def nadTo_Inr_iff)
    ultimately show ?thesis using net(3) by (auto simp: meets_def split: prod.splits result.splits)
  next
    case sub
    have t: "I t" "subnet_created (view s) (view t) ns ?name d n"
      using meets_Ok [OF api_server.composite_CreateSubnet_view [OF api assms(2)] sub(3) [unfolded assms(3)]] by auto
    then have "ns_resourceId n \<noteq> None" by (auto simp: subnet_created_def subnetTo_Inr_iff)
    then show ?thesis
      using api_server.terminate_created_subnet [OF api t assms(3)] sub(2)
      by (auto simp: meets_def split: prod.splits result.splits)
  qed
qed

text \<open>C21. Terminating an unknown network resource: when no network, subnet or attachment has the id,
  \<open>TerminateVirtualisedNetworkResource\<close> asks the kube-ovn manager, the SR-IOV manager and then the subnets, fails and
  changes nothing, and what the gRPC client sees after the interceptor is the status \<open>NotFound\<close>.\<close>

theorem terminate_unknown_not_found:
  assumes "api_server cl view I" and "I s" and "vs_NetworkMgr srv = networks_on isUUID cl rd ns sock"
    and "u \<noteq> []" and "no_uid (view s) {KVpc, KVlan, KNad, KSubnet} u"
  shows "\<exists>e t. errorConversionInterceptor registered_converters
      (TerminateVirtualisedNetworkResource srv (Some (Some u))) s = (Err e, t) \<and>
    status_code e = Some CodeNotFound \<and> view t = view s"
proof -
  have none: "no_uid (view s) {KVpc, KVlan} u" "no_uid (view s) {KNad, KSubnet} u" using assms(5) by (auto elim: no_uid_mono)
  show ?thesis
    by (rule api_server.terminate_unknown [OF assms(1,2,4) none(2) assms(3)
          api_server.kubeovn_absent [OF assms(1,2) kubeovn_on_sel(1) assms(4) none(1)]])
qed

text \<open>C22. While the status of a managed Vpc still lists a subnet that is gone (kube-ovn's controller fills it in
  later than \<open>DeleteSubnet\<close> removes the subnet), the network exists but \<open>TerminateVirtualisedNetworkResource\<close> with its
  id answers \<open>NotFound\<close> and removes nothing: the not-found of the listed subnet is taken for the network's own.\<close>

theorem lagging_vpc_not_found:
  assumes "api_server cl view I" and "I s" and "vs_NetworkMgr srv = networks_on isUUID cl rd ns sock"
    and "view s (KVpc, [], n) = Some (OVpc vpc)" and "IsObjectManagedByKubeNfv (vpc_meta vpc)"
    and "missing \<in> set (vpc_status_subnets vpc)" and "view s (KSubnet, [], missing) = None" and "[] \<notin> set (vpc_status_subnets vpc)"
    and "\<And>x ob. x \<in> set (vpc_status_subnets vpc) \<Longrightarrow> view s (KSubnet, [], x) = Some ob \<Longrightarrow>
      \<exists>sub r. ob = OSubnet sub \<and> nfvNetworkSubnetFromKubeovnSubnet (Some sub) = Inr r"
  shows "\<exists>e t. errorConversionInterceptor registered_converters
      (TerminateVirtualisedNetworkResource srv (Some (Some (m_uid (vpc_meta vpc))))) s = (Err e, t) \<and>
    status_code e = Some CodeNotFound \<and> view t = view s"
proof -
  have u: "m_uid (vpc_meta vpc) \<noteq> []"
    using api_server.view_instantiated [OF assms(1,2,4)] by (simp add: IsObjectInstantiated_def)
  have none: "no_uid (view s) {KNad, KSubnet} (m_uid (vpc_meta vpc))"
    by (rule api_server.no_uid_other [OF assms(1,2,4)]) simp_all
  show ?thesis
    by (rule api_server.terminate_unknown [OF assms(1,2) u none assms(3)
          api_server.lagging_vpc_absent [OF assms(1,2) kubeovn_on_sel(1) assms(4) refl u assms(5-9)]])
qed
subsection \<open>Witnesses\<close>

definition mem_server :: "mem viVnfmServer" where
  "mem_server = \<lparr>vs_ImageMgr = km_imageManager mem_compute, vs_FlavourMgr = km_flavourManager mem_compute,
     vs_NetworkMgr = km_networkManager mem_compute,
     vs_ComputeMgr = kubevirt_compute (\<lambda>_. True) (ret ''u'') (\<lambda>_. None) create_vmi 60 mem_compute\<rparr>"

lemma mem_server_net: "vs_NetworkMgr mem_server = networks_on (\<lambda>_. True) mem_client mem_client ''kube-nfv'' []"
  by (simp add: mem_server_def)

definition subnet_request :: allocate_network_request where
  "subnet_request = \<lparr>an_networkResourceName = Some ''a'', an_networkResourceType = RES_SUBNET, an_typeNetworkData = None,
     an_typeSubnetData = Some subnet_example\<rparr>"

theorem allocated_network_terminates_witness:
  "\<exists>n t i u. AllocateVirtualisedNetworkResource mem_server (Some subnet_request) mem_empty = (Ok (SubnetData n), t) \<and>
     TerminateVirtualisedNetworkResource mem_server (Some i) t = (Ok i, u) \<and> mem_view u = mem_view mem_empty"
proof -
  obtain n t where "CreateSubnet (\<lambda>_. True) mem_kubeovn ''a'' (Some subnet_example) mem_empty = (Ok n, t)"
    using subnet_example_run by blast
  moreover have "nm_CreateSubnet (vs_NetworkMgr mem_server) ''a'' (Some subnet_example) = CreateSubnet (\<lambda>_. True) mem_kubeovn ''a'' (Some subnet_example)"
    by (simp add: mem_server_net networks_on_sel composite_CreateSubnet_def deref_def)
      (simp add: subnet_example_def networks_on_sel mem_kubeovn_def kubeovn_on_def NewManager_def kubeovn_manager_def)
  ultimately have run: "AllocateVirtualisedNetworkResource mem_server (Some subnet_request) mem_empty = (Ok (SubnetData n), t)"
    by (simp add: AllocateVirtualisedNetworkResource_def subnet_request_def has_value_def str_or_empty_def run_and_then act_simps)
  have "an_networkResourceType subnet_request = RES_SUBNET" by (simp add: subnet_request_def)
  with allocated_network_terminates [OF mem.api_server_axioms mem_inv_empty mem_server_net run] run show ?thesis by auto
qed

theorem terminate_unknown_not_found_witness:
  "\<exists>e t. errorConversionInterceptor registered_converters (TerminateVirtualisedNetworkResource mem_server (Some (Some ''x''))) mem_empty =
       (Err e, t) \<and> status_code e = Some CodeNotFound"
proof -
  have "''x'' \<noteq> []" "no_uid (mem_view mem_empty) {KVpc, KVlan, KNad, KSubnet} ''x''" by (simp_all add: no_uid_def)
  from terminate_unknown_not_found [OF mem.api_server_axioms mem_inv_empty mem_server_net this] show ?thesis by blast
qed

definition lagging_vpc :: vpc where
  "lagging_vpc = \<lparr>vpc_meta = empty_meta\<lparr>m_name := ''net'', m_uid := ''x'', m_resourceVersion := ''1'', m_creationTimestamp := 1,
     m_labels := managed_labels\<rparr>, vpc_status_subnets = [''gone'']\<rparr>"

definition mem_lagging :: mem where
  "mem_lagging = \<lparr>mem_objs = [OVpc lagging_vpc], mem_next = 1\<rparr>"

lemma mem_lagging_facts:
  "mem_inv mem_lagging" "mem_view mem_lagging (KVpc, [], ''net'') = Some (OVpc lagging_vpc)"
  "IsObjectManagedByKubeNfv (vpc_meta lagging_vpc)" "mem_view mem_lagging (KSubnet, [], n) = None"
  by (auto simp: mem_inv_def mem_lagging_def lagging_vpc_def IsObjectInstantiated_def IsObjectManagedByKubeNfv_def managed_labels_def
      mem_view_def obj_key_def empty_meta_def split: if_splits)

theorem lagging_vpc_not_found_witness:
  "\<exists>e t. errorConversionInterceptor registered_converters (TerminateVirtualisedNetworkResource mem_server (Some (Some ''x''))) mem_lagging =
       (Err e, t) \<and> status_code e = Some CodeNotFound \<and> mem_view t (KVpc, [], ''net'') = Some (OVpc lagging_vpc)"
  using lagging_vpc_not_found [OF mem.api_server_axioms mem_lagging_facts(1) mem_server_net mem_lagging_facts(2,3), of "''gone''"]
    mem_lagging_facts(2,4) by (auto simp: lagging_vpc_def)

end
