(* ===== verification/Vim_Config.thy ===== *)
theory Vim_Config
  imports Kubeovn_Mgmt Compute
begin

text \<open>
  The configuration (\<open>internal/config/kubevim\<close>): the structs, the defaults that \<open>main\<close> registers before it
  reads the file, and \<open>Normalize\<close>, which derives what depends on other values and is the last step before the
  managers see the configuration. \<open>Normalize\<close> writes through the pointer it gets: the model returns the
  configuration as it is left, also next to an error. Viper (the merge of file and defaults) is not part of the
  program.
\<close>

record k8s_config =
  kc_config :: "string option"
  kc_namespace :: "string option"

text \<open>Of \<open>ImageConfig\<close> only the storage class is read.\<close>

record image_config =
  ic_storageClass :: "string option"

record monitoring_config =
  mo_enabled :: "bool option"
  mo_metricsPort :: "int option"

record sriov_config =
  sv_socketFile :: "string option"

record network_config =
  nc_managementNetwork :: "mgmt_config option"
  nc_sriov :: "sriov_config option"

record tls_server_config =
  tls_cert :: "string option"
  tls_key :: "string option"

record server_config =
  srv_port :: "int option"
  srv_tls :: "tls_server_config option"

record service_config =
  svc_logLevel :: "string option"
  svc_server :: "server_config option"

record config =
  cfg_compute :: "compute_config option"
  cfg_image :: "image_config option"
  cfg_k8s :: "k8s_config option"
  cfg_monitoring :: "monitoring_config option"
  cfg_network :: "network_config option"
  cfg_service :: "service_config option"

datatype viper_value = VString string | VInt int | VBool bool

definition SetViperDefaults :: "string \<Rightarrow> (string \<times> viper_value) list" where
  "SetViperDefaults podNamespace =
     [(''service.logLevel'', VString ''info''),
      (''service.server.port'', VInt 50051),
      (''image.storageClass'', VString ''default''),
      (''k8s.namespace'', VString podNamespace),
      (''network.managementNetwork.enabled'', VBool False),
      (''network.managementNetwork.name'', VString ''osm-mgmt''),
      (''network.managementNetwork.cidr'', VString ''10.240.0.0/24''),
      (''network.sriov.socketFile'', VString ''unix:/var/run/openvswitch/db.sock''),
      (''monitoring.enabled'', VBool False),
      (''monitoring.metricsPort'', VInt 9095)]"

text \<open>The part of \<open>Normalize\<close> on an enabled management network: an error or nothing, and the network as it is
  left.\<close>

definition normalize_mgmt :: "mgmt_config \<Rightarrow> string \<Rightarrow> error option \<times> mgmt_config" where
  "normalize_mgmt mgmt k8sNamespace =
     (if \<not> has_value (mc_name mgmt) then (Some (Plain ''network.managementNetwork.name is required when enabled''), mgmt)
      else if \<not> has_value (mc_cidr mgmt) then (Some (Plain ''network.managementNetwork.cidr is required when enabled''), mgmt)
      else
        (let subnetName = str_or_empty (mc_name mgmt) @ ''-subnet-0'';
             mgmt = (if \<not> has_value (mc_nadName mgmt) then mgmt\<lparr>mc_nadName := Some (subnetName @ ''-netattach'')\<rparr> else mgmt)
         in if \<not> has_value (mc_nadNamespace mgmt) then
              (if k8sNamespace = []
               then (Some (Plain ''k8s namespace is required to default network.managementNetwork.netAttachDefNamespace''), mgmt)
               else (None, mgmt\<lparr>mc_nadNamespace := Some k8sNamespace\<rparr>))
            else (None, mgmt)))"

definition Normalize :: "config option \<Rightarrow> string \<Rightarrow> error option \<times> config option" where
  "Normalize cp k8sNamespace = (case cp of
      None \<Rightarrow> (Some (Plain ''config cannot be nil''), None)
    | Some c \<Rightarrow> (case cfg_network c of
        None \<Rightarrow> (None, Some c)
      | Some net \<Rightarrow> (case nc_managementNetwork net of
          None \<Rightarrow> (None, Some c)
        | Some mgmt \<Rightarrow>
            if mc_enabled mgmt \<noteq> Some True then (None, Some c)
            else (case normalize_mgmt mgmt k8sNamespace of (err, mgmt') \<Rightarrow>
              (err, Some (c\<lparr>cfg_network := Some (net\<lparr>nc_managementNetwork := Some mgmt'\<rparr>)\<rparr>))))))"

subsection \<open>What a normalized configuration has\<close>

definition mgmt_complete :: "mgmt_config \<Rightarrow> bool" where
  "mgmt_complete mgmt \<longleftrightarrow> has_value (mc_name mgmt) \<and> has_value (mc_cidr mgmt) \<and> has_value (mc_nadName mgmt) \<and>
     has_value (mc_nadNamespace mgmt)"

lemma normalize_mgmt_None_iff:
  "normalize_mgmt mgmt ns = (None, mgmt') \<longleftrightarrow> has_value (mc_name mgmt) \<and> has_value (mc_cidr mgmt) \<and>
     (has_value (mc_nadNamespace mgmt) \<or> ns \<noteq> []) \<and>
     mgmt' = mgmt\<lparr>mc_nadName := (if has_value (mc_nadName mgmt) then mc_nadName mgmt
         else Some (str_or_empty (mc_name mgmt) @ ''-subnet-0-netattach'')),
       mc_nadNamespace := (if has_value (mc_nadNamespace mgmt) then mc_nadNamespace mgmt else Some ns)\<rparr>"
  by (auto simp: normalize_mgmt_def Let_def)

lemma normalize_mgmt_complete: "normalize_mgmt mgmt ns = (None, mgmt') \<Longrightarrow> mgmt_complete mgmt'"
  by (auto simp: normalize_mgmt_None_iff mgmt_complete_def has_value_def)

lemma normalize_mgmt_fixpoint: "mgmt_complete mgmt \<Longrightarrow> normalize_mgmt mgmt ns = (None, mgmt)"
  by (simp add: mgmt_complete_def normalize_mgmt_def Let_def)

text \<open>On a complete configuration the reconciliation can only fail with the error of a step, for every
  client.\<close>

lemma ensure_complete_fails_wrapped:
  assumes "mgmt_complete mgmt"
  shows "meets (EnsureManagementNetwork m (Some mgmt)) s (\<lambda>_ _. True) (\<lambda>e _. \<exists>c e'. e = Wrap c e')"
proof -
  have patch: "meets (patch_labels cl K gl sl c req x) t (\<lambda>_ _. True) (\<lambda>_ _. True)" for cl K gl sl c req x t
    unfolding patch_labels_def by (cases "MergeLabels (gl x) req") (auto intro!: meets_if meets_ret meets_wrap meets_any)
  obtain cidr where cidr: "mc_cidr mgmt = Some cidr" using assms by (auto simp: mgmt_complete_def has_value_iff)
  have vpc: "meets (ensureMgmtVpc m n) t (\<lambda>_ _. True) (\<lambda>_ _. True)" for n t
    unfolding ensureMgmtVpc_def
    by (intro meets_handle meets_any patch meets_if meets_throw meets_ret meets_wrap TrueI)
  have sub: "meets (ensureMgmtSubnet m mgmt a b c d) t (\<lambda>_ _. True) (\<lambda>_ _. True)" for a b c d t
    unfolding ensureMgmtSubnet_def Let_def cidr
    by (intro meets_handle meets_any meets_and_then meets_weaken [OF patch] meets_deref [OF refl] meets_if meets_throw meets_ret TrueI)
  have nad: "meets (ensureMgmtNetAttach m a b c) t (\<lambda>_ _. True) (\<lambda>_ _. True)" for a b c t
    unfolding ensureMgmtNetAttach_def Let_def
    by (intro meets_handle meets_any meets_and_then meets_weaken [OF patch] meets_if meets_throw meets_ret TrueI)
  show ?thesis
    using assms unfolding EnsureManagementNetwork_def option.case Let_def
    by (auto simp: mgmt_complete_def intro!: meets_if meets_ret meets_throw meets_and_then meets_wrap
        meets_weaken [OF vpc] meets_weaken [OF sub] meets_weaken [OF nad] split: sum.splits)
qed

subsection \<open>Properties\<close>

text \<open>C20. After \<open>Normalize\<close> has succeeded, an enabled management network has everything that
  \<open>EnsureManagementNetwork\<close> asks for: for every client, the reconciliation never panics and fails only with the
  wrapped error of one of its steps, never because a value is missing. A name the operator left out is the one
  the kube-ovn manager gives the attachment of the network's first subnet. Normalizing again, with any
  namespace, changes nothing.\<close>

theorem Normalize_establishes:
  assumes "Normalize (Some c) ns = (None, Some c')" and "cfg_network c' = Some net"
    and "nc_managementNetwork net = Some mgmt" and "mc_enabled mgmt = Some True"
  shows "mgmt_complete mgmt \<and> Normalize (Some c') ns' = (None, Some c') \<and>
    (\<exists>net0 mgmt0. cfg_network c = Some net0 \<and> nc_managementNetwork net0 = Some mgmt0 \<and>
       mc_nadName mgmt = (if has_value (mc_nadName mgmt0) then mc_nadName mgmt0
         else Some (formatNetAttachName (formatSubnetName (str_or_empty (mc_name mgmt)) ''0'')))) \<and>
    (case EnsureManagementNetwork m (nc_managementNetwork net) s of
       (Ok _, t) \<Rightarrow> True | (Err e, t) \<Rightarrow> (\<exists>x e'. e = Wrap x e') | (Panic, t) \<Rightarrow> False)"
proof -
  obtain net0 mgmt0 where c: "cfg_network c = Some net0" "nc_managementNetwork net0 = Some mgmt0" "mc_enabled mgmt0 = Some True"
    "normalize_mgmt mgmt0 ns = (None, mgmt)"
    using assms by (auto simp: Normalize_def normalize_mgmt_None_iff split: option.splits if_splits prod.splits)
  note complete = normalize_mgmt_complete [OF c(4)]
  have again: "Normalize (Some c') ns' = (None, Some c')"
    using assms(2-4) normalize_mgmt_fixpoint [OF complete, of ns'] by (simp add: Normalize_def)
  have name: "mc_nadName mgmt = (if has_value (mc_nadName mgmt0) then mc_nadName mgmt0
         else Some (formatNetAttachName (formatSubnetName (str_or_empty (mc_name mgmt)) ''0'')))"
    using c(4) by (auto simp: normalize_mgmt_None_iff formatNetAttachName_def formatSubnetName_def)
  show ?thesis
    using ensure_complete_fails_wrapped [OF complete, of m s] again complete c(1,2) name assms(3)
    by (auto simp: meets_def split: prod.splits result.splits)
qed

definition default_mgmt :: mgmt_config where
  "default_mgmt = \<lparr>mc_enabled = Some True, mc_name = Some ''osm-mgmt'', mc_cidr = Some ''10.240.0.0/24'', mc_gateway = None,
     mc_excludeIps = None, mc_nadName = None, mc_nadNamespace = None\<rparr>"

definition default_config :: config where
  "default_config = \<lparr>cfg_compute = None, cfg_image = None, cfg_k8s = None, cfg_monitoring = None,
     cfg_network = Some \<lparr>nc_managementNetwork = Some default_mgmt, nc_sriov = None\<rparr>, cfg_service = None\<rparr>"

theorem Normalize_establishes_witness:
  "\<exists>c' net mgmt. Normalize (Some default_config) ''kube-nfv'' = (None, Some c') \<and> cfg_network c' = Some net \<and>
     nc_managementNetwork net = Some mgmt \<and> mgmt_complete mgmt \<and> mc_nadName mgmt = Some ''osm-mgmt-subnet-0-netattach''"
proof -
  obtain c' net mgmt where run: "Normalize (Some default_config) ''kube-nfv'' = (None, Some c')" "cfg_network c' = Some net"
    "nc_managementNetwork net = Some mgmt" "mc_enabled mgmt = Some True" "mc_nadName mgmt = Some ''osm-mgmt-subnet-0-netattach''"
    by (simp add: Normalize_def default_config_def default_mgmt_def normalize_mgmt_def has_value_def str_or_empty_def Let_def)
  from Normalize_establishes [OF run(1-4), of "''kube-nfv''" mem_kubeovn mem_empty] run show ?thesis by (elim conjE) (intro exI conjI)
qed

end
