(* ===== verification/Telemetry.thy ===== *)
theory Telemetry
  imports Server Vim_Config
begin

text \<open>
  The telemetry manager (\<open>internal/kubevim/telemetry\<close>): its construction, the correlation series a scrape
  reports (\<open>info.go\<close>) and the serving of \<open>/metrics\<close>. OpenTelemetry and Prometheus are parameters: creating an instrument
  or registering a callback may fail, and an observation is the instrument with its labels (the value is always
  1). The names of the generated enumerations are a parameter too. The vNICs of this program have no port id:
  the conversion of a VM never sets it. \<open>Start\<close> selects between the end of its context and an error of the HTTP
  server; which of the two comes is a parameter.
\<close>

record 's meter =
  mt_gauge :: "string \<Rightarrow> ('s, error, unit) act"
  mt_callback :: "string list \<Rightarrow> ('s, error, unit) act"

record 's metrics_sdk =
  sdk_exporter :: "('s, error, unit) act"
  sdk_meter :: "'s meter"

record enum_names =
  en_operational :: "operational_state \<Rightarrow> string"
  en_running :: "running_state \<Rightarrow> string"
  en_vnic :: "vnic_type \<Rightarrow> string"

record observation =
  ob_gauge :: string
  ob_attrs :: "(string \<times> string) list"

definition newMeterProvider :: "'s metrics_sdk \<Rightarrow> ('s, error, 's meter) act" where
  "newMeterProvider sdk = and_then (wrap ''create prometheus exporter'' (sdk_exporter sdk)) (\<lambda>_. ret (sdk_meter sdk))"

definition registerBuildInfo :: "'s meter \<Rightarrow> ('s, error, unit) act" where
  "registerBuildInfo meter =
     and_then (wrap ''create kubevim.build.info gauge'' (mt_gauge meter ''kubevim.build.info'')) (\<lambda>_.
     wrap ''register build info callback'' (mt_callback meter [''kubevim.build.info'']))"

definition registerInfoMetrics :: "'s meter \<Rightarrow> ('s, error, unit) act" where
  "registerInfoMetrics meter =
     and_then (wrap ''create kubevim.compute.info gauge'' (mt_gauge meter ''kubevim.compute.info'')) (\<lambda>_.
     and_then (wrap ''create kubevim.vnic.info gauge'' (mt_gauge meter ''kubevim.vnic.info'')) (\<lambda>_.
     and_then (wrap ''create kubevim.network.info gauge'' (mt_gauge meter ''kubevim.network.info'')) (\<lambda>_.
     wrap ''register info metrics callback''
       (mt_callback meter [''kubevim.compute.info'', ''kubevim.vnic.info'', ''kubevim.network.info'']))))"

definition defaultMetricsPort :: int where "defaultMetricsPort = 9095"

record telemetry_manager =
  te_server :: "int option"
  te_port :: int

definition telemetry_NewManager ::
  "'s metrics_sdk \<Rightarrow> monitoring_config option \<Rightarrow> 's compute_manager option \<Rightarrow> 's network_manager option \<Rightarrow>
   ('s, error, telemetry_manager) act" where
  "telemetry_NewManager sdk cfgp computeMgr networkMgr = (case cfgp of
      None \<Rightarrow> ret \<lparr>te_server = None, te_port = 0\<rparr>
    | Some cfg \<Rightarrow>
        if mo_enabled cfg \<noteq> Some True then ret \<lparr>te_server = None, te_port = 0\<rparr>
        else if computeMgr = None \<or> networkMgr = None
        then throw (ErrInvalidArgument ''managers'' ''compute and network managers are required when monitoring is enabled'')
        else (let port = (case mo_metricsPort cfg of None \<Rightarrow> defaultMetricsPort | Some p \<Rightarrow> p) in
          and_then (wrap ''create meter provider'' (newMeterProvider sdk)) (\<lambda>meter.
          and_then (registerBuildInfo meter) (\<lambda>_.
          and_then (registerInfoMetrics meter) (\<lambda>_.
          ret \<lparr>te_server = Some port, te_port = port\<rparr>)))))"

definition telemetry_Enabled :: "telemetry_manager \<Rightarrow> bool" where
  "telemetry_Enabled m \<longleftrightarrow> te_server m \<noteq> None"

datatype served = ContextDone | ServeError error

definition telemetry_Start :: "telemetry_manager \<Rightarrow> served \<Rightarrow> error option" where
  "telemetry_Start m ev = (if te_server m = None then None
     else (case ev of ContextDone \<Rightarrow> None | ServeError err \<Rightarrow> Some (Wrap ''serve metrics'' err)))"

subsection \<open>The series of a scrape\<close>

definition compute_series :: "enum_names \<Rightarrow> virtual_compute \<Rightarrow> observation" where
  "compute_series en c = \<lparr>ob_gauge = ''kubevim.compute.info'', ob_attrs =
     [(''compute_id'', str_or_empty (vc_computeId c)), (''compute_name'', str_or_empty (vc_computeName c)),
      (''flavour_id'', str_or_empty (vc_flavourId c)), (''image_id'', str_or_empty (vc_vcImageId c)),
      (''host_id'', str_or_empty (vc_hostId c)),
      (''pod_name'', (case vc_metadata c of None \<Rightarrow> [] | Some md \<Rightarrow> map_get md ComputePodNameMetadataKey)),
      (''operational_state'', en_operational en (vc_operationalState c)),
      (''running_state'', en_running en (vc_runningState c))]\<rparr>"

definition vnic_series :: "enum_names \<Rightarrow> virtual_compute \<Rightarrow> vnic \<Rightarrow> observation" where
  "vnic_series en c nic = \<lparr>ob_gauge = ''kubevim.vnic.info'', ob_attrs =
     [(''compute_id'', str_or_empty (vc_computeId c)), (''compute_name'', str_or_empty (vc_computeName c)),
      (''vnic_id'', str_or_empty (vi_resourceId nic)), (''network_id'', str_or_empty (vi_networkId nic)),
      (''subnet_id'', str_or_empty (vi_subnetId nic)), (''network_port_id'', []), (''type'', en_vnic en (vi_type nic)),
      (''host_id'', str_or_empty (vc_hostId c)),
      (''pci_address'', (case vi_metadata nic of None \<Rightarrow> [] | Some md \<Rightarrow> map_get md VnicHostPciAddressMetadataKey))]\<rparr>"

definition network_series :: "enum_names \<Rightarrow> virtual_network \<Rightarrow> observation" where
  "network_series en n = \<lparr>ob_gauge = ''kubevim.network.info'', ob_attrs =
     [(''network_id'', str_or_empty (vn_resourceId n)), (''network_name'', str_or_empty (vn_resourceName n)),
      (''network_type'', network_type_String (vn_networkType n)),
      (''provider_network'', str_or_empty (vn_providerNetwork n)),
      (''segmentation_id'', show_nat (unat (case vn_segmentationId n of None \<Rightarrow> 0 | Some v \<Rightarrow> v))),
      (''operational_state'', en_operational en (vn_operationalState n))]\<rparr>"

definition observeComputeInfo :: "enum_names \<Rightarrow> 's compute_manager \<Rightarrow> ('s, error, observation list) act" where
  "observeComputeInfo en mgr = handle (cm_ListComputeResources mgr)
     (\<lambda>computes. ret (concat (map (\<lambda>c. compute_series en c # map (vnic_series en c) (vc_interfaces c)) computes)))
     (\<lambda>err. ret [])"

definition observeNetworkInfo :: "enum_names \<Rightarrow> 's network_manager \<Rightarrow> ('s, error, observation list) act" where
  "observeNetworkInfo en mgr = handle (nm_ListNetworks mgr) (\<lambda>networks. ret (map (network_series en) networks)) (\<lambda>err. ret [])"

text \<open>The callback that \<open>registerInfoMetrics\<close> registers.\<close>

definition info_callback :: "enum_names \<Rightarrow> 's compute_manager \<Rightarrow> 's network_manager \<Rightarrow> ('s, error, observation list) act" where
  "info_callback en computeMgr networkMgr =
     and_then (observeComputeInfo en computeMgr) (\<lambda>os.
     and_then (observeNetworkInfo en networkMgr) (\<lambda>os'. ret (os @ os')))"

subsection \<open>What a scrape reports\<close>

text \<open>The value of a label.\<close>

definition attr :: "string \<Rightarrow> observation \<Rightarrow> string option" where
  "attr k ob = map_of (ob_attrs ob) k"

definition of_gauge :: "string \<Rightarrow> observation list \<Rightarrow> observation list" where
  "of_gauge g = filter (\<lambda>ob. ob_gauge ob = g)"

lemma of_gauge_simps [simp]:
  "of_gauge g [] = []" "of_gauge g (ob # os) = (if ob_gauge ob = g then ob # of_gauge g os else of_gauge g os)"
  "of_gauge g (os @ os') = of_gauge g os @ of_gauge g os'" "set (of_gauge g os) = {ob \<in> set os. ob_gauge ob = g}"
  by (auto simp: of_gauge_def)

lemma series_gauges [simp]:
  "ob_gauge (compute_series en c) = ''kubevim.compute.info''" "ob_gauge (vnic_series en c nic) = ''kubevim.vnic.info''"
  "ob_gauge (network_series en n) = ''kubevim.network.info''"
  by (simp_all add: compute_series_def vnic_series_def network_series_def)

lemma of_gauge_other [simp]:
  "of_gauge ''kubevim.compute.info'' (map (vnic_series en c) nics) = []"
  "of_gauge ''kubevim.compute.info'' (map (network_series en) nets) = []"
  "of_gauge ''kubevim.vnic.info'' (map (network_series en) nets) = []"
  "of_gauge ''kubevim.vnic.info'' (map (vnic_series en c) nics) = map (vnic_series en c) nics"
  by (auto simp: of_gauge_def)

lemma of_gauge_computes:
  "of_gauge ''kubevim.compute.info'' (concat (map (\<lambda>c. compute_series en c # map (vnic_series en c) (vc_interfaces c)) cs)) =
     map (compute_series en) cs"
  by (induction cs) auto

lemma of_gauge_vnics:
  "of_gauge ''kubevim.vnic.info'' (concat (map (\<lambda>c. compute_series en c # map (vnic_series en c) (vc_interfaces c)) cs)) =
     concat (map (\<lambda>c. map (vnic_series en c) (vc_interfaces c)) cs)"
  by (induction cs) auto

lemma attr_series:
  "attr ''compute_id'' (compute_series en c) = Some (str_or_empty (vc_computeId c))"
  "attr ''compute_id'' (vnic_series en c nic) = attr ''compute_id'' (compute_series en c)"
  "attr ''compute_name'' (vnic_series en c nic) = attr ''compute_name'' (compute_series en c)"
  "attr ''host_id'' (vnic_series en c nic) = attr ''host_id'' (compute_series en c)"
  by (simp_all add: attr_def compute_series_def vnic_series_def)

context compute_services
begin

lemma list_vms_view:
  assumes "inv s" and "view s = V" and "distinct (map (m_uid \<circ> vm_meta) vms)"
  shows "meets (list_vms netInfo m idx pods vms) s
    (\<lambda>cs t. inv t \<and> view t = V \<and> distinct (map vc_computeId cs) \<and>
       (\<forall>c\<in>set cs. \<exists>vm\<in>set vms. vc_computeId c = Some (m_uid (vm_meta vm)))) (\<lambda>_ t. inv t \<and> view t = V)"
  using assms
proof (induction vms arbitrary: s)
  case Nil
  then show ?case by (simp add: meets_ret)
next
  case (Cons vm vms)
  have conv: "meets (nfvVirtualComputeFromKubevirtVm (km_networkManager m) (Some vm) (Some vmi) l) s
      (\<lambda>c t. vc_computeId c = Some (m_uid (vm_meta vm)) \<and> inv t \<and> view t = V) (\<lambda>_ t. inv t \<and> view t = V)" for vmi l
    by (rule meets_weaken [OF meets_preserves [OF attached_backend.convert_total [OF attached]
          preserves_convert [where P = "\<lambda>v. v = V"]]]) (use Cons.prems in \<open>auto simp: compute_of_def UIDToIdentifier_def\<close>)
  have IH: "meets (list_vms netInfo m idx pods vms) t
      (\<lambda>cs u. inv u \<and> view u = V \<and> distinct (map vc_computeId cs) \<and>
         (\<forall>c\<in>set cs. \<exists>vm\<in>set vms. vc_computeId c = Some (m_uid (vm_meta vm)))) (\<lambda>_ u. inv u \<and> view u = V)"
    if "inv t" "view t = V" for t using Cons.IH [OF that] Cons.prems(3) by simp
  have new: "\<And>x. x \<in> set vms \<Longrightarrow> m_uid (vm_meta x) \<noteq> m_uid (vm_meta vm)" using Cons.prems(3) by (auto simp: image_iff)
  show ?case
  proof (cases "idx (m_name (vm_meta vm))")
    case None
    then show ?thesis by (auto intro: meets_weaken [OF IH [OF Cons.prems(1,2)]])
  next
    case (Some vmi)
    then show ?thesis
      using new by (auto intro!: meets_and_then meets_wrap meets_weaken [OF conv] meets_weaken [OF IH] meets_ret) (metis option.inject)
  qed
qed

lemma ListComputeResources_view:
  assumes "inv s"
  shows "meets (ListComputeResources netInfo m) s
    (\<lambda>cs t. inv t \<and> view t = view s \<and> distinct (map vc_computeId cs) \<and>
       (\<forall>c\<in>set cs. \<exists>name vm. view s (KVm, ns, name) = Some (OVm vm) \<and> vc_computeId c = Some (m_uid (vm_meta vm))))
    (\<lambda>_ t. inv t \<and> view t = view s)"
proof -
  have uids: "distinct (map (m_uid \<circ> vm_meta) vms)"
    if vms: "distinct vms" "\<And>x. x \<in> set vms \<Longrightarrow> \<exists>n. view s (KVm, ns, n) = Some (OVm x)" for vms
    unfolding distinct_map
  proof (intro conjI vms inj_onI)
    fix x y
    assume "x \<in> set vms" "y \<in> set vms" and same: "(m_uid \<circ> vm_meta) x = (m_uid \<circ> vm_meta) y"
    then obtain a b where v: "view s (KVm, ns, a) = Some (OVm x)" "view s (KVm, ns, b) = Some (OVm y)" using vms(2) by metis
    then have "(KVm, ns, a) = (KVm, ns, b)" by (rule uid_unique [OF assms]) (use same in simp)
    with v show "x = y" by simp
  qed
  have tail: "meets (and_then (wrap a (k8s_list cl vmi_k (Some ns) managed_selector)) (\<lambda>vmiList.
      and_then (wrap b (k8s_list cl pod_k (Some ns) [])) (\<lambda>podList.
      list_vms netInfo m (index_vmis vmiList) (index_pods podList) vms))) t
    (\<lambda>cs t. inv t \<and> view t = view s \<and> distinct (map vc_computeId cs) \<and>
       (\<forall>c\<in>set cs. \<exists>vm\<in>set vms. vc_computeId c = Some (m_uid (vm_meta vm)))) (\<lambda>_ t. inv t \<and> view t = view s)"
    if "inv t" "view t = view s" "distinct (map (m_uid \<circ> vm_meta) vms)" for a b vms t
    by (intro meets_and_then meets_wrap meets_list [OF that(1)]; (simp; fail)?)
      (intro meets_list list_vms_view that(3); simp add: that(2))
  show ?thesis
    unfolding ListComputeResources_def client
    by (rule meets_and_then, rule meets_deref [OF refl], rule meets_and_then, rule meets_wrap, rule meets_list [OF assms], simp)
      (rule meets_weaken [OF tail], auto intro!: uids, metis)
qed

end

context api_server
begin

lemma networks_on_list:
  assumes "inv s"
  shows "meets (nm_ListNetworks (networks_on isUUID cl rd ns sock)) s (\<lambda>_ t. inv t \<and> view t = view s) (\<lambda>_ t. inv t \<and> view t = view s)"
proof -
  let ?P = "\<lambda>t. inv t \<and> view t = view s"
  have "meets (sriov_ListNetworks (sriov_on cl ns sock)) t (\<lambda>_ _. True) (\<lambda>_ _. True)" for t
    unfolding sriov_ListNetworks_def sriov_on_sel deref_def by (auto intro!: meets_and_then meets_wrap meets_ret meets_any)
  moreover have "preserves ?P (sriov_ListNetworks (sriov_on cl ns sock))"
    unfolding sriov_ListNetworks_def sriov_on_sel by (intro preserves_intros)
  ultimately have sriov: "meets (sriov_ListNetworks (sriov_on cl ns sock)) t (\<lambda>_. ?P) (\<lambda>_. ?P)" if "?P t" for t
    using that by (rule meets_weaken [OF meets_preserves]) simp_all
  have "preserves ?P (Kubeovn.ListNetworks (kubeovn_on cl rd ns))"
    unfolding Kubeovn.ListNetworks_def kubeovn_on_sel Let_def by (intro preserves_intros)
  then have ovn: "meets (Kubeovn.ListNetworks (kubeovn_on cl rd ns)) s (\<lambda>_. ?P) (\<lambda>_. ?P)"
    by (rule meets_weaken [OF meets_preserves [OF meets_ListNetworks]]) (simp_all add: assms)
  show ?thesis
    unfolding composite_manager_def network_manager.simps composite_ListNetworks_def NewManager_def composite.simps
      kubeovn_manager_def sriov_manager_def
    by (rule meets_and_then, rule meets_wrap, rule meets_weaken [OF ovn])
      (simp_all, rule meets_and_then, rule meets_wrap, rule meets_weaken [OF sriov], simp_all add: meets_ret)
qed

end


text \<open>Compute resources with different ids, each the uid of a stored VM; and their series.\<close>

definition stored_computes :: "(okey \<Rightarrow> k8s_object option) \<Rightarrow> string \<Rightarrow> virtual_compute list \<Rightarrow> bool" where
  "stored_computes V ns cs \<longleftrightarrow> distinct (map vc_computeId cs) \<and>
     (\<forall>c\<in>set cs. \<exists>name vm. V (KVm, ns, name) = Some (OVm vm) \<and> vc_computeId c = Some (m_uid (vm_meta vm)))"

definition compute_infos :: "enum_names \<Rightarrow> virtual_compute list \<Rightarrow> observation list" where
  "compute_infos en cs = concat (map (\<lambda>c. compute_series en c # map (vnic_series en c) (vc_interfaces c)) cs)"

lemma stored_computes_ids:
  assumes "stored_computes V ns cs" and "c \<in> set cs"
  shows "attr ''compute_id'' (compute_series en c) = vc_computeId c"
  using assms by (auto simp: stored_computes_def attr_series str_or_empty_def)

subsection \<open>Properties\<close>



end
