(* ===== verification/Cluster.thy ===== *)
theory Cluster
  imports Server
begin

text \<open>
  The cluster behind the managers (\<open>internal/k8s/cluster.go\<close>): \<open>NewCluster\<close> asks controller-runtime for a client whose reads come from a
  cache of one namespace and of the objects kube-vim owns. The constructor \<open>cluster.New\<close> is a parameter; what its documentation
  says of a cache that has caught up with the server is the locale \<open>synced_cache\<close>, over the contract of the server. The other theories speak
  of any client; here the difference between the cached client and the uncached reader is made precise.
\<close>

record cache_options =
  co_Namespaces :: "string list"
  co_DefaultLabelSelector :: selector
  co_ByObject :: "(kind \<times> selector) list"
  co_DisableFor :: "kind list"

definition cluster_options :: "string \<Rightarrow> cache_options" where
  "cluster_options namespace = (let managedSel = managed_selector in
     \<lparr>co_Namespaces = [namespace], co_DefaultLabelSelector = managedSel, co_ByObject = [(KPod, [])], co_DisableFor = [KStorageClass]\<rparr>)"

definition NewCluster ::
  "('c \<Rightarrow> cache_options \<Rightarrow> ('s, error, 's client \<times> 's client) act) \<Rightarrow> 'c \<Rightarrow> string \<Rightarrow> ('s, error, 's client \<times> 's client) act" where
  "NewCluster cluster_New cfg namespace = cluster_New cfg (cluster_options namespace)"

subsection \<open>What the cache holds\<close>

definition cache_selector :: "cache_options \<Rightarrow> kind \<Rightarrow> selector" where
  "cache_selector co k = (case map_of (co_ByObject co) k of Some sel \<Rightarrow> sel | None \<Rightarrow> co_DefaultLabelSelector co)"

text \<open>Objects of a cached kind are held when they carry the labels and are in a namespace of the cache, or cluster-scoped.\<close>

definition held :: "cache_options \<Rightarrow> okey \<Rightarrow> k8s_object \<Rightarrow> bool" where
  "held co key ob = (case key of (k, ns, n) \<Rightarrow> k \<in> set (co_DisableFor co) \<or>
     matches (cache_selector co k) (obj_meta_of ob) \<and> (ns = [] \<or> ns \<in> set (co_Namespaces co)))"

definition scoped :: "cache_options \<Rightarrow> (okey \<Rightarrow> k8s_object option) \<Rightarrow> okey \<Rightarrow> k8s_object option" where
  "scoped co v key = (case v key of Some ob \<Rightarrow> if held co key ob then Some ob else None | None \<Rightarrow> None)"

lemma scoped_Some_iff: "scoped co v key = Some ob \<longleftrightarrow> v key = Some ob \<and> held co key ob"
  by (auto simp: scoped_def split: option.splits)

locale synced_cache = api_server cl view inv for cl :: "'s client" and view :: "'s \<Rightarrow> okey \<Rightarrow> k8s_object option" and inv :: "'s \<Rightarrow> bool" +
  fixes cached :: "'s client" and co :: cache_options
  assumes cached_get: "inv s \<Longrightarrow> c_Get cached k ns n s = (r, s') \<Longrightarrow> inv s' \<and> view s' = view s \<and>
      (case scoped co (view s) (k, ns, n) of Some ob \<Rightarrow> r = Inr ob | None \<Rightarrow> (\<exists>m. r = Inl (ApiStatus ReasonNotFound m)))"
    and cached_list: "inv s \<Longrightarrow> nso = None \<or> k \<in> set (co_DisableFor co) \<or> (\<exists>ns\<in>set (co_Namespaces co). nso = Some ns) \<Longrightarrow>
      c_List cached k nso sel s = (rs, s') \<Longrightarrow> inv s' \<and> view s' = view s \<and>
      (\<exists>obs. rs = Inr obs \<and> distinct obs \<and> set obs = {ob. \<exists>ns n. scoped co (view s) (k, ns, n) = Some ob \<and> (nso = None \<or> nso = Some ns)
        \<and> matches sel (obj_meta_of ob)})"
    and direct_writes: "c_Create cached = c_Create cl" "c_Update cached = c_Update cl" "c_Patch cached = c_Patch cl"
      "c_Delete cached = c_Delete cl" "c_DeleteAllOf cached = c_DeleteAllOf cl"
begin

lemma list_agrees:
  assumes s: "inv s" and "k \<in> set (co_DisableFor co) \<or> set (cache_selector co k) \<subseteq> set sel \<and>
      (nso = None \<and> (\<forall>ns n. view s (k, ns, n) \<noteq> None \<longrightarrow> ns = []) \<or> (\<exists>ns\<in>set (co_Namespaces co). nso = Some ns))"
    and "c_List cached k nso sel s = (rs, s')" and "c_List cl k nso sel s = (rs', s'')"
  shows "\<exists>obs obs'. rs = Inr obs \<and> rs' = Inr obs' \<and> set obs = set obs' \<and> length obs = length obs'"
proof -
  have imp: "matches sel m \<Longrightarrow> set (cache_selector co k) \<subseteq> set sel \<Longrightarrow> matches (cache_selector co k) m" for m
    by (auto simp: matches_def list_all_iff)
  obtain obs where o1: "rs = Inr obs" "distinct obs" "set obs = {ob. \<exists>ns n. scoped co (view s) (k, ns, n) = Some ob \<and> (nso = None \<or> nso = Some ns)
        \<and> matches sel (obj_meta_of ob)}"
    using cached_list [OF s _ assms(3)] assms(2) by auto
  obtain obs' where o2: "rs' = Inr obs'" "distinct obs'" "set obs' = {ob. \<exists>ns n. view s (k, ns, n) = Some ob \<and> (nso = None \<or> nso = Some ns)
        \<and> matches sel (obj_meta_of ob)}"
    using list_law [OF s assms(4)] by auto
  have "scoped co (view s) (k, ns, n) = Some ob \<longleftrightarrow> view s (k, ns, n) = Some ob"
    if "nso = None \<or> nso = Some ns" "matches sel (obj_meta_of ob)" for ns n ob
    using that assms(2) imp by (auto simp: scoped_Some_iff held_def) blast+
  then have "set obs = set obs'" unfolding o1(3) o2(3) by blast
  then show ?thesis using o1(1,2) o2(1,2) distinct_card by metis
qed

end

subsection \<open>The in-memory server behind a cache\<close>

definition mem_cached :: "cache_options \<Rightarrow> mem client" where
  "mem_cached co = mem_client\<lparr>
     c_Get := (\<lambda>k ns n s. (case scoped co (mem_view s) (k, ns, n) of Some ob \<Rightarrow> (Inr ob, s) | None \<Rightarrow> (Inl (ApiStatus ReasonNotFound ''not found''), s))),
     c_List := (\<lambda>k nso sel s. (Inr (filter (\<lambda>ob. in_scope k nso sel ob \<and> held co (obj_key ob) ob) (mem_objs s)), s))\<rparr>"

interpretation cached: synced_cache mem_client mem_view mem_inv "mem_cached co" co
proof
  fix s k nso sel rs s'
  assume s: "mem_inv s" and run: "c_List (mem_cached co) k nso sel s = (rs, s')"
  have "distinct (mem_objs s)" using s by (auto simp: mem_inv_def distinct_map)
  then show "mem_inv s' \<and> mem_view s' = mem_view s \<and> (\<exists>obs. rs = Inr obs \<and> distinct obs \<and>
      set obs = {ob. \<exists>ns n. scoped co (mem_view s) (k, ns, n) = Some ob \<and> (nso = None \<or> nso = Some ns) \<and> matches sel (obj_meta_of ob)})"
    using s run mem_view_Some_iff [OF s]
    by (cases nso) (auto simp: mem_cached_def in_scope_def obj_key_def scoped_Some_iff)
qed (auto simp: mem_cached_def mem_client_def split: option.splits)

text \<open>C36. On the cluster that \<open>NewCluster\<close> configures, once its cache is synced, the cached client returns for a list with the managed-by
  label, in the namespace or of a cluster-scoped kind, exactly the objects the API server has, and likewise for pods under any selector and
  for storage classes; a single read finds an object exactly when it is stored and kube-vim owns it.\<close>

theorem cached_reads_agree:
  assumes "synced_cache cl view I cached (cluster_options namespace)" and "I s"
  shows "((k = KStorageClass \<or> (k = KPod \<or> (K8sManagedByLabel, KubeNfvName) \<in> set sel) \<and>
        (nso = None \<and> (\<forall>ns n. view s (k, ns, n) \<noteq> None \<longrightarrow> ns = []) \<or> nso = Some namespace)) \<longrightarrow>
      (\<exists>obs obs'. fst (c_List cached k nso sel s) = Inr obs \<and> fst (c_List cl k nso sel s) = Inr obs' \<and> set obs = set obs' \<and> length obs = length obs')) \<and>
    (k \<notin> {KStorageClass, KPod} \<and> ns \<in> {[], namespace} \<longrightarrow>
      (fst (c_Get cached k ns n s) = Inr ob \<longleftrightarrow> view s (k, ns, n) = Some ob \<and> IsObjectManagedByKubeNfv (obj_meta_of ob)))"
proof (intro conjI impI)
  assume a: "k = KStorageClass \<or> (k = KPod \<or> (K8sManagedByLabel, KubeNfvName) \<in> set sel) \<and>
        (nso = None \<and> (\<forall>ns n. view s (k, ns, n) \<noteq> None \<longrightarrow> ns = []) \<or> nso = Some namespace)"
  obtain r t r' t' where "c_List cached k nso sel s = (r, t)" "c_List cl k nso sel s = (r', t')" by fastforce
  then show "\<exists>obs obs'. fst (c_List cached k nso sel s) = Inr obs \<and> fst (c_List cl k nso sel s) = Inr obs' \<and> set obs = set obs' \<and> length obs = length obs'"
    using synced_cache.list_agrees [OF assms, of k sel nso r t r' t'] a
    by (auto simp: cluster_options_def Let_def cache_selector_def managed_selector_def)
next
  assume a: "k \<notin> {KStorageClass, KPod} \<and> ns \<in> {[], namespace}"
  obtain r t where g: "c_Get cached k ns n s = (r, t)" by force
  show "fst (c_Get cached k ns n s) = Inr ob \<longleftrightarrow> view s (k, ns, n) = Some ob \<and> IsObjectManagedByKubeNfv (obj_meta_of ob)"
    using synced_cache.cached_get [OF assms g] a
    by (auto simp: g scoped_def held_def cluster_options_def Let_def cache_selector_def matches_managed split: option.splits if_splits)
qed

theorem cached_reads_agree_witness:
  "fst (c_Get (mem_cached (cluster_options ''kube-nfv'')) KVpc [] ''net'' mem_lagging) = Inr (OVpc lagging_vpc) \<and>
   fst (c_Get (mem_cached (cluster_options ''kube-nfv'')) KVpc [] ''ovn-cluster'' mem_foreign) \<noteq> Inr (OVpc foreign_vpc)"
  using cached_reads_agree [OF cached.synced_cache_axioms mem_lagging_facts(1), where namespace = "''kube-nfv''" and k = KVpc and ns = "[]"
      and n = "''net''" and ob = "OVpc lagging_vpc"]
    cached_reads_agree [OF cached.synced_cache_axioms mem_foreign_facts(1), where namespace = "''kube-nfv''" and k = KVpc and ns = "[]"
      and n = "''ovn-cluster''" and ob = "OVpc foreign_vpc"]
    mem_lagging_facts(2,3) mem_foreign_facts(4)
  by auto

end
