(* ===== verification/Vim_Manager.thy ===== *)
theory Vim_Manager
  imports Telemetry Cluster
begin

text \<open>
  The construction of the program (\<open>internal/kubevim/manager.go\<close>, \<open>internal/kubevim/server/server.go\<close>,
  \<open>internal/k8s/scheme.go\<close>): the managers on one shared client, the telemetry manager and the northbound server. What the
  constructors call outside the repository is the record \<open>platform\<close>: the two ways to a client configuration, the
  registration functions of the API groups, the cluster (cache-backed client and uncached reader) and the TLS
  files. The external functions the managers themselves use are the record \<open>libs\<close>.
\<close>

record ('s, 'c) platform =
  pf_BuildConfigFromFlags :: "string \<Rightarrow> ('s, error, 'c) act"
  pf_InClusterConfig :: "('s, error, 'c) act"
  pf_AddToScheme :: "string \<Rightarrow> ('s, error, unit) act"
  pf_cluster_New :: "'c \<Rightarrow> cache_options \<Rightarrow> ('s, error, 's client \<times> 's client) act"
  pf_NewServerTLSFromFile :: "string \<Rightarrow> string \<Rightarrow> ('s, error, unit) act"
  pf_metrics :: "'s metrics_sdk"

record 's libs =
  lb_isUUID :: "string \<Rightarrow> bool"
  lb_newRandom :: "('s, error, string) act"
  lb_codec :: storage_codec
  lb_parseQuantity :: "string \<Rightarrow> quantity option"
  lb_netInfo :: "string \<Rightarrow> net_info_iface list option"
  lb_tick :: "'s \<Rightarrow> 's"
  lb_polls :: nat

definition BuildScheme :: "(string \<Rightarrow> ('s, error, unit) act) \<Rightarrow> ('s, error, unit) act" where
  "BuildScheme addToScheme =
     and_then (for_each (\<lambda>name. wrap (''register '' @ name @ '' scheme'') (addToScheme name))
       [''client-go builtins'', ''kubevirt core/v1'', ''kubevirt instancetype/v1beta1'', ''cdi core/v1beta1'', ''kube-ovn v1'',
        ''net-attach v1'']) (\<lambda>_. ret ())"

subsection \<open>The northbound server\<close>

record 's northboundServer =
  nb_vivnfm :: "'s viVnfmServer"
  nb_admin :: "'s image_manager"
  nb_secure :: bool
  nb_cfg :: server_config

definition NewNorthboundServer ::
  "(string \<Rightarrow> string \<Rightarrow> ('s, error, unit) act) \<Rightarrow> server_config \<Rightarrow> 's image_manager \<Rightarrow> 's network_manager \<Rightarrow> 's flavour_manager \<Rightarrow>
   's compute_manager \<Rightarrow> ('s, error, 's northboundServer) act" where
  "NewNorthboundServer loadTLS cfg imageMgr networkManager flavourManager computeManager =
     and_then
       (case srv_tls cfg of
          Some tls \<Rightarrow>
            and_then (deref (tls_cert tls)) (\<lambda>cert.
            and_then (deref (tls_key tls)) (\<lambda>key.
            and_then (wrap ''initialize server TLS credentials from file'' (loadTLS cert key)) (\<lambda>_. ret True)))
        | None \<Rightarrow> ret False) (\<lambda>secure.
     ret \<lparr>nb_vivnfm = \<lparr>vs_ImageMgr = imageMgr, vs_FlavourMgr = flavourManager, vs_NetworkMgr = networkManager,
            vs_ComputeMgr = computeManager\<rparr>,
          nb_admin = imageMgr, nb_secure = secure, nb_cfg = cfg\<rparr>)"

subsection \<open>The manager\<close>

record 's kubevimManager =
  kv_cfg :: config
  kv_imageMgr :: "'s image_manager"
  kv_networkMgr :: "'s network_manager"
  kv_flavourMgr :: "'s flavour_manager"
  kv_computeMgr :: "'s compute_manager"
  kv_telemetryMgr :: telemetry_manager
  kv_nbServer :: "'s northboundServer"

definition initImageManager ::
  "'s libs \<Rightarrow> 's client \<Rightarrow> 's client \<Rightarrow> image_config option \<Rightarrow> k8s_config \<Rightarrow> ('s, error, 's image_manager) act" where
  "initImageManager lb cl rd cfgp k8sCfg = (case cfgp of
      None \<Rightarrow> throw (ErrInvalidArgument ''imageConfig'' ''cannot be nil'')
    | Some cfg \<Rightarrow> and_then (wrap ''initialize kubevirt cdi image manager''
        (sum_act (NewCDIImageManager cl rd (ic_storageClass cfg) (kc_namespace k8sCfg)))) (\<lambda>m.
        ret (cdi_manager (lb_parseQuantity lb) m)))"

definition initNetworkManager ::
  "'s libs \<Rightarrow> 's client \<Rightarrow> 's client \<Rightarrow> config \<Rightarrow> k8s_config \<Rightarrow> ('s, error, 's network_manager) act" where
  "initNetworkManager lb cl rd cfg k8sCfg =
     and_then (wrap ''create kubeovn network manager'' (sum_act (NewKubeovnNetworkManager cl rd (kc_namespace k8sCfg)))) (\<lambda>ovnMgr.
     (let sriovCfg = (case cfg_network cfg of None \<Rightarrow> None | Some net \<Rightarrow> nc_sriov net) in
     and_then (wrap ''create sriov network manager'' (sum_act (NewSriovNetworkManager cl (kc_namespace k8sCfg)
       (case sriovCfg of None \<Rightarrow> None | Some c \<Rightarrow> sv_socketFile c)))) (\<lambda>sriovMgr.
     ret (composite_manager (NewManager (kubeovn_manager (lb_isUUID lb) ovnMgr) (sriov_manager sriovMgr))))))"

definition initFlavourManager ::
  "'s libs \<Rightarrow> 's client \<Rightarrow> 's client \<Rightarrow> k8s_config \<Rightarrow> ('s, error, 's flavour_manager) act" where
  "initFlavourManager lb cl rd k8sCfg =
     and_then (wrap ''create kubevirt flavour manager'' (sum_act (NewFlavourManager cl rd (Some (kc_namespace k8sCfg))))) (\<lambda>m.
     ret (kubevirt_flavours (lb_newRandom lb) (lb_codec lb) m))"

definition initComputeManager ::
  "'s libs \<Rightarrow> 's client \<Rightarrow> 's client \<Rightarrow> k8s_config \<Rightarrow> compute_config option \<Rightarrow> 's flavour_manager \<Rightarrow> 's image_manager \<Rightarrow>
   's network_manager \<Rightarrow> ('s, error, 's compute_manager) act" where
  "initComputeManager lb cl rd k8sCfg computeCfg flavourMgr imageMgr networkMgr =
     ret (kubevirt_compute (lb_isUUID lb) (lb_newRandom lb) (lb_netInfo lb) (lb_tick lb) (lb_polls lb)
       (NewComputeManager cl rd (kc_namespace k8sCfg) computeCfg flavourMgr imageMgr networkMgr))"

definition initTelemetryManager ::
  "'s metrics_sdk \<Rightarrow> monitoring_config option \<Rightarrow> 's compute_manager \<Rightarrow> 's network_manager \<Rightarrow> ('s, error, telemetry_manager) act" where
  "initTelemetryManager sdk cfg computeMgr networkMgr =
     wrap ''create telemetry manager'' (telemetry_NewManager sdk cfg (Some computeMgr) (Some networkMgr))"

definition initNorthboundServer ::
  "(string \<Rightarrow> string \<Rightarrow> ('s, error, unit) act) \<Rightarrow> server_config option \<Rightarrow> 's image_manager \<Rightarrow> 's network_manager \<Rightarrow>
   's flavour_manager \<Rightarrow> 's compute_manager \<Rightarrow> ('s, error, 's northboundServer) act" where
  "initNorthboundServer loadTLS cfgp imageMgr networkMgr flavourMgr computeMgr = (case cfgp of
      None \<Rightarrow> throw (ErrInvalidArgument ''ServiceConfig'' ''cannot be nil'')
    | Some cfg \<Rightarrow> wrap ''initialize NorthboundServer''
        (NewNorthboundServer loadTLS cfg imageMgr networkMgr flavourMgr computeMgr))"

text \<open>The client configuration, the first use of \<open>cfg.K8s\<close>.\<close>

definition k8s_rest_config :: "('s, 'c) platform \<Rightarrow> k8s_config option \<Rightarrow> ('s, error, 'c) act" where
  "k8s_rest_config pf k8sp = and_then (deref k8sp) (\<lambda>k8s.
     if has_value (kc_config k8s)
     then wrap (''get k8s config from '' @ quoted (str_or_empty (kc_config k8s))) (pf_BuildConfigFromFlags pf (str_or_empty (kc_config k8s)))
     else wrap ''get k8s inClusterConfig'' (pf_InClusterConfig pf))"

text \<open>The part of the constructor on the cluster's client and reader.\<close>

definition init_managers ::
  "('s, 'c) platform \<Rightarrow> 's libs \<Rightarrow> config \<Rightarrow> k8s_config \<Rightarrow> 's client \<Rightarrow> 's client \<Rightarrow> ('s, error, 's kubevimManager) act" where
  "init_managers pf lb cfg k8s cl rd =
     and_then (wrap ''configure image manager'' (initImageManager lb cl rd (cfg_image cfg) k8s)) (\<lambda>im.
     and_then (wrap ''initialize network manager'' (initNetworkManager lb cl rd cfg k8s)) (\<lambda>nm.
     and_then (wrap ''initialize flavour manager'' (initFlavourManager lb cl rd k8s)) (\<lambda>fm.
     and_then (wrap ''initialize compute manager'' (initComputeManager lb cl rd k8s (cfg_compute cfg) fm im nm)) (\<lambda>cm.
     and_then (wrap ''initialize telemetry manager'' (initTelemetryManager (pf_metrics pf) (cfg_monitoring cfg) cm nm)) (\<lambda>te.
     and_then (deref (cfg_service cfg)) (\<lambda>service.
     and_then (wrap ''configure northbound server''
       (initNorthboundServer (pf_NewServerTLSFromFile pf) (svc_server service) im nm fm cm)) (\<lambda>nb.
     ret \<lparr>kv_cfg = cfg, kv_imageMgr = im, kv_networkMgr = nm, kv_flavourMgr = fm, kv_computeMgr = cm,
          kv_telemetryMgr = te, kv_nbServer = nb\<rparr>)))))))"

definition NewKubeVimManager :: "('s, 'c) platform \<Rightarrow> 's libs \<Rightarrow> config option \<Rightarrow> ('s, error, 's kubevimManager) act" where
  "NewKubeVimManager pf lb cfgp = (case cfgp of
      None \<Rightarrow> throw (ErrInvalidArgument ''config'' ''cannot be nil'')
    | Some cfg \<Rightarrow>
        and_then (k8s_rest_config pf (cfg_k8s cfg)) (\<lambda>k8sConfig.
        and_then (wrap ''build k8s scheme'' (BuildScheme (pf_AddToScheme pf))) (\<lambda>_.
        (case cfg_k8s cfg of
           None \<Rightarrow> throw (ErrInvalidArgument ''k8s.namespace'' ''cannot be nil'')
         | Some k8s \<Rightarrow> (case kc_namespace k8s of
             None \<Rightarrow> throw (ErrInvalidArgument ''k8s.namespace'' ''cannot be nil'')
           | Some namespace \<Rightarrow>
               and_then (wrap ''build shared k8s cluster'' (NewCluster (pf_cluster_New pf) k8sConfig namespace)) (\<lambda>(cl, rd).
               init_managers pf lb cfg k8s cl rd))))))"

subsection \<open>The wiring\<close>

definition sriov_socket :: "config \<Rightarrow> string" where
  "sriov_socket cfg = str_or_empty (case cfg_network cfg of None \<Rightarrow> None
     | Some net \<Rightarrow> (case nc_sriov net of None \<Rightarrow> None | Some c \<Rightarrow> sv_socketFile c))"

text \<open>The managers on one client: what the constructor is meant to build.\<close>

definition wired :: "'s libs \<Rightarrow> config \<Rightarrow> string \<Rightarrow> string \<Rightarrow> 's client \<Rightarrow> 's client \<Rightarrow> 's kubevimManager \<Rightarrow> bool" where
  "wired lb cfg ns sc cl rd m \<longleftrightarrow>
     kv_cfg m = cfg \<and>
     kv_imageMgr m = cdi_manager (lb_parseQuantity lb) \<lparr>cdi_client = cl, cdi_apiReader = rd, cdi_storageClass = Some sc, cdi_namespace = Some ns\<rparr> \<and>
     kv_networkMgr m = networks_on (lb_isUUID lb) cl rd ns (sriov_socket cfg) \<and>
     kv_flavourMgr m = kubevirt_flavours (lb_newRandom lb) (lb_codec lb) (flavours_on cl rd ns) \<and>
     kv_computeMgr m = kubevirt_compute (lb_isUUID lb) (lb_newRandom lb) (lb_netInfo lb) (lb_tick lb) (lb_polls lb)
       (NewComputeManager cl rd (Some ns) (cfg_compute cfg) (kv_flavourMgr m) (kv_imageMgr m) (kv_networkMgr m)) \<and>
     nb_vivnfm (kv_nbServer m) = \<lparr>vs_ImageMgr = kv_imageMgr m, vs_FlavourMgr = kv_flavourMgr m, vs_NetworkMgr = kv_networkMgr m,
       vs_ComputeMgr = kv_computeMgr m\<rparr> \<and> nb_admin (kv_nbServer m) = kv_imageMgr m"


definition no_panic :: "('s, error, 'a) act \<Rightarrow> bool" where
  "no_panic m \<longleftrightarrow> (\<forall>s. fst (m s) \<noteq> Panic)"

text \<open>What the constructor relies on of code outside the repository: it returns.\<close>

definition platform_ok :: "('s, 'c) platform \<Rightarrow> bool" where
  "platform_ok pf \<longleftrightarrow> (\<forall>f. no_panic (pf_BuildConfigFromFlags pf f)) \<and> no_panic (pf_InClusterConfig pf) \<and>
     (\<forall>n. no_panic (pf_AddToScheme pf n)) \<and> (\<forall>c co. no_panic (pf_cluster_New pf c co)) \<and>
     (\<forall>c k. no_panic (pf_NewServerTLSFromFile pf c k)) \<and> no_panic (sdk_exporter (pf_metrics pf)) \<and>
     (\<forall>g. no_panic (mt_gauge (sdk_meter (pf_metrics pf)) g)) \<and> (\<forall>gs. no_panic (mt_callback (sdk_meter (pf_metrics pf)) gs))"

text \<open>The pointers of the configuration that the constructor dereferences without a check.\<close>

definition config_complete :: "config \<Rightarrow> bool" where
  "config_complete cfg \<longleftrightarrow> cfg_k8s cfg \<noteq> None \<and> (\<exists>service. cfg_service cfg = Some service \<and>
     (\<forall>server tls. svc_server service = Some server \<longrightarrow> srv_tls server = Some tls \<longrightarrow> tls_cert tls \<noteq> None \<and> tls_key tls \<noteq> None))"

lemma meets_quiet: "no_panic m \<Longrightarrow> (\<And>x t. m s = (Ok x, t) \<Longrightarrow> Q x t) \<Longrightarrow> (\<And>e t. E e t) \<Longrightarrow> meets m s Q E"
  by (auto simp: no_panic_def meets_def split: prod.splits result.splits) (metis fst_conv)

lemma BuildScheme_returns:
  assumes "\<And>n. no_panic (add n)"
  shows "meets (BuildScheme add) s (\<lambda>_ _. True) (\<lambda>_ _. True)"
  unfolding BuildScheme_def
  by (intro meets_and_then meets_for_each_total meets_wrap meets_quiet [OF assms] meets_ret TrueI)

lemma telemetry_returns:
  assumes "platform_ok pf"
  shows "meets (initTelemetryManager (pf_metrics pf) cfg cm nm) s (\<lambda>_ _. True) (\<lambda>_ _. True)"
  using assms unfolding platform_ok_def initTelemetryManager_def telemetry_NewManager_def newMeterProvider_def registerBuildInfo_def
    registerInfoMetrics_def Let_def
  by (auto intro!: meets_wrap meets_case_option meets_if meets_ret meets_throw meets_and_then meets_quiet)

lemma northbound_returns:
  assumes "platform_ok pf" and "\<And>server tls. cfgp = Some server \<Longrightarrow> srv_tls server = Some tls \<Longrightarrow> tls_cert tls \<noteq> None \<and> tls_key tls \<noteq> None"
  shows "meets (initNorthboundServer (pf_NewServerTLSFromFile pf) cfgp im nm fm cm) s
    (\<lambda>nb _. nb_vivnfm nb = \<lparr>vs_ImageMgr = im, vs_FlavourMgr = fm, vs_NetworkMgr = nm, vs_ComputeMgr = cm\<rparr> \<and> nb_admin nb = im)
    (\<lambda>_ _. True)"
proof (cases "\<exists>server tls. cfgp = Some server \<and> srv_tls server = Some tls")
  case True
  then obtain server tls cert key where "cfgp = Some server" "srv_tls server = Some tls" "tls_cert tls = Some cert" "tls_key tls = Some key"
    using assms(2) by blast
  then show ?thesis
    using assms(1) unfolding platform_ok_def initNorthboundServer_def NewNorthboundServer_def
    by (auto simp: deref_def intro!: meets_wrap meets_and_then meets_quiet meets_ret)
next
  case False
  then show ?thesis
    unfolding initNorthboundServer_def NewNorthboundServer_def
    by (cases cfgp) (auto intro!: meets_throw meets_wrap meets_and_then meets_ret split: option.splits)
qed

lemma init_managers_wired:
  assumes "platform_ok pf" and "config_complete cfg" and "kc_namespace k8s = Some ns"
  shows "meets (init_managers pf lb cfg k8s cl rd) s (\<lambda>m _. \<exists>sc. wired lb cfg ns sc cl rd m) (\<lambda>_ _. True)"
proof -
  obtain service where service: "cfg_service cfg = Some service"
    "\<And>server tls. svc_server service = Some server \<Longrightarrow> srv_tls server = Some tls \<Longrightarrow> tls_cert tls \<noteq> None \<and> tls_key tls \<noteq> None"
    using assms(2) unfolding config_complete_def by blast
  have image: "meets (initImageManager lb cl rd (cfg_image cfg) k8s) s (\<lambda>im _. \<exists>sc. im = cdi_manager (lb_parseQuantity lb)
      \<lparr>cdi_client = cl, cdi_apiReader = rd, cdi_storageClass = Some sc, cdi_namespace = Some ns\<rparr>) (\<lambda>_ _. True)" for s
    unfolding initImageManager_def
    by (auto simp: NewCDIImageManager_def assms(3) intro!: meets_case_option meets_throw meets_and_then meets_wrap meets_sum_act meets_ret
        split: if_splits) (rule exI, rule refl)
  have network: "meets (initNetworkManager lb cl rd cfg k8s) s
      (\<lambda>nm _. nm = networks_on (lb_isUUID lb) cl rd ns (sriov_socket cfg)) (\<lambda>_ _. True)" for s
    unfolding initNetworkManager_def
    by (auto simp: NewKubeovnNetworkManager_def NewSriovNetworkManager_def assms(3) Let_def sriov_socket_def kubeovn_on_def sriov_on_def
        intro!: meets_and_then meets_wrap meets_sum_act meets_ret split: option.splits)
  have flavour: "meets (initFlavourManager lb cl rd k8s) s
      (\<lambda>fm _. fm = kubevirt_flavours (lb_newRandom lb) (lb_codec lb) (flavours_on cl rd ns)) (\<lambda>_ _. True)" for s
    unfolding initFlavourManager_def
    by (auto simp: NewFlavourManager_def assms(3) flavours_on_def intro!: meets_and_then meets_wrap meets_sum_act meets_ret)
  show ?thesis
    unfolding init_managers_def
    by (rule meets_and_then, rule meets_wrap, rule meets_weaken [OF image], rule meets_and_then, rule meets_wrap,
        rule meets_weaken [OF network], rule meets_and_then, rule meets_wrap, rule meets_weaken [OF flavour])
      (auto simp: service(1) deref_def initComputeManager_def wired_def assms(3) intro!: meets_and_then meets_wrap meets_ret
        meets_weaken [OF telemetry_returns [OF assms(1)]] meets_weaken [OF northbound_returns [OF assms(1) service(2)]])
qed


lemma wired_compute:
  "wired lb cfg ns sc cl cl m \<Longrightarrow> kv_computeMgr m =
     kubevirt_compute (lb_isUUID lb) (lb_newRandom lb) (lb_netInfo lb) (lb_tick lb) (lb_polls lb)
       (compute_on (lb_parseQuantity lb) (lb_codec lb) (lb_newRandom lb) (lb_isUUID lb) cl sc ns (sriov_socket cfg) (cfg_compute cfg))"
  by (simp add: wired_def compute_on_def cdi_on_def)

subsection \<open>Properties\<close>

text \<open>C19. The constructor builds one consistent program: for every client configuration, scheme and cluster the
  platform returns, and a configuration without nil sections, \<open>NewKubeVimManager\<close> does not panic, and a manager it returns
  has the image, network, flavour and compute managers on the client and the reader of that cluster and on the
  configured namespace, the compute manager over the other three, and a northbound server that serves exactly
  these four. With the reader equal to the client it is the wiring that the theorems about compute resources are
  stated for.\<close>

theorem NewKubeVimManager_wired:
  assumes "platform_ok pf" and "config_complete cfg"
  shows "case NewKubeVimManager pf lb (Some cfg) s of
      (Ok m, t) \<Rightarrow> \<exists>k8s ns sc c cl rd u v. cfg_k8s cfg = Some k8s \<and> kc_namespace k8s = Some ns \<and>
        NewCluster (pf_cluster_New pf) c ns u = (Ok (cl, rd), v) \<and> wired lb cfg ns sc cl rd m \<and>
        (rd = cl \<longrightarrow> kv_computeMgr m = kubevirt_compute (lb_isUUID lb) (lb_newRandom lb) (lb_netInfo lb) (lb_tick lb) (lb_polls lb)
          (compute_on (lb_parseQuantity lb) (lb_codec lb) (lb_newRandom lb) (lb_isUUID lb) cl sc ns (sriov_socket cfg) (cfg_compute cfg)))
    | (Err e, t) \<Rightarrow> True
    | (Panic, t) \<Rightarrow> False"
proof -
  obtain k8s where k8s: "cfg_k8s cfg = Some k8s" using assms(2) by (auto simp: config_complete_def)
  let ?Q = "\<lambda>m. \<exists>ns sc c cl rd u v. kc_namespace k8s = Some ns \<and> NewCluster (pf_cluster_New pf) c ns u = (Ok (cl, rd), v) \<and> wired lb cfg ns sc cl rd m"
  have rest: "meets (k8s_rest_config pf (Some k8s)) t (\<lambda>_ _. True) (\<lambda>_ _. True)" for t
    using assms(1) by (auto simp: k8s_rest_config_def deref_def platform_ok_def intro!: meets_if meets_wrap meets_quiet)
  have scheme: "meets (BuildScheme (pf_AddToScheme pf)) t (\<lambda>_ _. True) (\<lambda>_ _. True)" for t
    by (rule BuildScheme_returns) (use assms(1) in \<open>simp add: platform_ok_def\<close>)
  have cluster: "meets (NewCluster (pf_cluster_New pf) c n) t (\<lambda>x v. NewCluster (pf_cluster_New pf) c n t = (Ok x, v)) (\<lambda>_ _. True)" for c n t
    by (rule meets_quiet) (use assms(1) in \<open>simp_all add: platform_ok_def NewCluster_def\<close>)
  have managers: "meets (init_managers pf lb cfg k8s cl rd) t (\<lambda>m _. ?Q m) (\<lambda>_ _. True)"
    if "kc_namespace k8s = Some ns" "NewCluster (pf_cluster_New pf) c ns u = (Ok (cl, rd), v)" for ns c u v cl rd t
    by (rule meets_weaken [OF init_managers_wired [OF assms that(1)]]) (use that in blast)+
  have "meets (NewKubeVimManager pf lb (Some cfg)) s (\<lambda>m _. ?Q m) (\<lambda>_ _. True)"
    unfolding NewKubeVimManager_def option.case k8s
    by (rule meets_and_then, rule meets_weaken [OF rest], rule meets_and_then, rule meets_wrap, rule meets_weaken [OF scheme])
      (auto intro!: meets_case_option meets_throw meets_and_then meets_wrap meets_weaken [OF cluster] meets_weaken [OF managers], blast)
  then show ?thesis
    using k8s by (auto simp: meets_def split: prod.splits result.splits) (metis wired_compute)
qed

text \<open>The check that \<open>cfg.K8s\<close> is not nil comes too late: without a k8s section the constructor dereferences nil
  before it reaches the check, whatever the rest of the configuration and the platform.\<close>

theorem NewKubeVimManager_nil_k8s_panics:
  "cfg_k8s cfg = None \<Longrightarrow> NewKubeVimManager pf lb (Some cfg) s = (Panic, s)"
  by (simp add: NewKubeVimManager_def k8s_rest_config_def deref_def run_and_then act_simps)


definition mem_libs :: "mem libs" where
  "mem_libs = \<lparr>lb_isUUID = \<lambda>_. True, lb_newRandom = ret ''u'', lb_codec = table_codec, lb_parseQuantity = \<lambda>_. None,
     lb_netInfo = \<lambda>_. None, lb_tick = create_vmi, lb_polls = 60\<rparr>"

definition mem_platform :: "(mem, unit) platform" where
  "mem_platform = \<lparr>pf_BuildConfigFromFlags = \<lambda>_. ret (), pf_InClusterConfig = ret (), pf_AddToScheme = \<lambda>_. ret (),
     pf_cluster_New = \<lambda>_ co. ret (mem_cached co, mem_client), pf_NewServerTLSFromFile = \<lambda>_ _. ret (),
     pf_metrics = \<lparr>sdk_exporter = ret (), sdk_meter = \<lparr>mt_gauge = \<lambda>_. ret (), mt_callback = \<lambda>_. ret ()\<rparr>\<rparr>\<rparr>"

definition example_config :: config where
  "example_config = default_config\<lparr>cfg_image := Some \<lparr>ic_storageClass = Some ''default''\<rparr>,
     cfg_k8s := Some \<lparr>kc_config = None, kc_namespace = Some ''kube-nfv''\<rparr>,
     cfg_service := Some \<lparr>svc_logLevel = Some ''info'', svc_server = Some \<lparr>srv_port = Some 50051, srv_tls = None\<rparr>\<rparr>\<rparr>"

lemma example_platform: "platform_ok mem_platform" "config_complete example_config"
  by (simp_all add: platform_ok_def no_panic_def mem_platform_def act_simps config_complete_def example_config_def)

lemma example_constructed:
  obtains m where "NewKubeVimManager mem_platform mem_libs (Some example_config) mem_empty = (Ok m, mem_empty)"
    "wired mem_libs example_config ''kube-nfv'' ''default'' (mem_cached (cluster_options ''kube-nfv'')) mem_client m"
  by (simp add: NewKubeVimManager_def NewCluster_def k8s_rest_config_def BuildScheme_def init_managers_def initImageManager_def initNetworkManager_def
      initFlavourManager_def initComputeManager_def initTelemetryManager_def initNorthboundServer_def NewNorthboundServer_def
      telemetry_NewManager_def NewCDIImageManager_def NewKubeovnNetworkManager_def NewSriovNetworkManager_def NewFlavourManager_def
      mem_platform_def example_config_def default_config_def deref_def has_value_def run_and_then wrap_def handle_def act_simps
      wired_def sriov_socket_def kubeovn_on_def sriov_on_def flavours_on_def)

theorem NewKubeVimManager_wired_witness:
  "\<exists>m t sc cl rd. NewKubeVimManager mem_platform mem_libs (Some example_config) mem_empty = (Ok m, t) \<and>
     wired mem_libs example_config ''kube-nfv'' sc cl rd m"
proof -
  obtain m where run: "NewKubeVimManager mem_platform mem_libs (Some example_config) mem_empty = (Ok m, mem_empty)"
    by (rule example_constructed)
  have ns: "cfg_k8s example_config = Some k8s \<Longrightarrow> kc_namespace k8s = Some ns \<Longrightarrow> ns = ''kube-nfv''" for k8s ns
    by (auto simp: example_config_def)
  show ?thesis
    using NewKubeVimManager_wired [OF example_platform, of mem_libs mem_empty] run ns by (fastforce simp only: prod.case result.case)
qed

theorem NewKubeVimManager_nil_k8s_panics_witness:
  "NewKubeVimManager mem_platform mem_libs (Some default_config) mem_empty = (Panic, mem_empty)"
  by (rule NewKubeVimManager_nil_k8s_panics) (simp add: default_config_def)

end
