(* ===== verification/Lifecycle.thy ===== *)
theory Lifecycle
  imports Vim_Manager
begin

text \<open>
  The life of the process: \<open>main\<close> (\<open>cmd/kube-vim/main.go\<close>), the shutdown handler (\<open>internal/misc/shutdown.go\<close>) and
  \<open>kubevimManager.Start\<close> (\<open>internal/kubevim/manager.go\<close>) as one transition system. The goroutines share two contexts
  (\<open>main\<close>'s, and the one \<open>Start\<close> derives from it), the error channel of capacity 1 and the signal channel.
  \<open>control\<close> are the steps of \<open>main\<close> (\<open>main_exit\<close>), of the handler (\<open>shutdownHandler\<close>) and of \<open>Start\<close> itself; \<open>worker\<close> those of the goroutines that
  \<open>Start\<close> launches (the cache, the two servers, and the one that reads the error channel); \<open>env\<close> is the arrival of a
  signal and a change of the cluster by \<open>others\<close>. The blocking calls of the platform appear by what they
  return: \<open>WaitForCacheSync\<close> returns true only while the cache runs, and false only after the context is done;
  a server may end at any time, with or without an error.
\<close>

datatype task_id = Cache | Northbound | Metrics

datatype task = NotStarted | Running | Sending error | Finished

datatype start_pc = WaitSync | Ensure | Spawn | Select | Returned | Crashed

record 's process =
  ps_world :: 's
  ps_signal :: bool
  ps_mainCtx :: bool
  ps_handler :: bool
  ps_exited :: bool
  ps_mgrCtx :: bool
  ps_pc :: start_pc
  ps_tasks :: "task_id \<Rightarrow> task"
  ps_watcher :: bool
  ps_errCh :: "error list"

definition task_ctx :: "task_id \<Rightarrow> string" where
  "task_ctx i = (case i of Cache \<Rightarrow> ''start k8s cluster cache'' | Northbound \<Rightarrow> ''start Northbound server'' | Metrics \<Rightarrow> ''start telemetry server'')"

text \<open>The process when \<open>Start\<close> has launched the cache.\<close>

definition started :: "'s \<Rightarrow> 's process" where
  "started w = \<lparr>ps_world = w, ps_signal = False, ps_mainCtx = False, ps_handler = False, ps_exited = False, ps_mgrCtx = False,
     ps_pc = WaitSync, ps_tasks = (\<lambda>i. if i = Cache then Running else NotStarted), ps_watcher = False, ps_errCh = []\<rparr>"

text \<open>The derived context.\<close>

definition ctx_done :: "'s process \<Rightarrow> bool" where
  "ctx_done p \<longleftrightarrow> ps_mainCtx p \<or> ps_mgrCtx p"

text \<open>The reconciliation before serving: \<open>None\<close> when there is nothing to do.\<close>

definition mgmt_action :: "'s kubevimManager \<Rightarrow> ('s, error, unit) act option" where
  "mgmt_action m = (case cfg_network (kv_cfg m) of
      None \<Rightarrow> None
    | Some net \<Rightarrow> Some (nm_EnsureManagementNetwork (kv_networkMgr m) (nc_managementNetwork net)))"

text \<open>\<open>return\<close> from \<open>Start\<close>: the deferred \<open>cancel\<close>.\<close>

definition returned :: "'s process \<Rightarrow> 's process" where
  "returned p = p\<lparr>ps_pc := Returned, ps_mgrCtx := True\<rparr>"

inductive shutdownHandler :: "'s process \<Rightarrow> 's process \<Rightarrow> bool" where
  handler_ctx: "\<not> ps_handler p \<Longrightarrow> ps_mainCtx p \<Longrightarrow> shutdownHandler p (p\<lparr>ps_handler := True\<rparr>)"
| handler_signal: "\<not> ps_handler p \<Longrightarrow> ps_signal p \<Longrightarrow> shutdownHandler p (p\<lparr>ps_mainCtx := True, ps_handler := True\<rparr>)"

text \<open>The end of \<open>main\<close>: the wait group counts the handler and \<open>Start\<close>.\<close>

inductive main_exit :: "'s process \<Rightarrow> 's process \<Rightarrow> bool" where
  exits: "ps_handler p \<Longrightarrow> ps_pc p = Returned \<Longrightarrow> \<not> ps_exited p \<Longrightarrow> main_exit p (p\<lparr>ps_exited := True\<rparr>)"

inductive control :: "'s kubevimManager \<Rightarrow> 's process \<Rightarrow> 's process \<Rightarrow> bool" for m where
  by_handler: "shutdownHandler p q \<Longrightarrow> control m p q"
| by_main: "main_exit p q \<Longrightarrow> control m p q"
| synced: "ps_pc p = WaitSync \<Longrightarrow> ps_tasks p Cache = Running \<Longrightarrow> control m p (p\<lparr>ps_pc := Ensure\<rparr>)"
| not_synced: "ps_pc p = WaitSync \<Longrightarrow> ctx_done p \<Longrightarrow> control m p (returned p)"
| ensure_nothing: "ps_pc p = Ensure \<Longrightarrow> mgmt_action m = None \<Longrightarrow> control m p (p\<lparr>ps_pc := Spawn\<rparr>)"
| ensure_ok: "ps_pc p = Ensure \<Longrightarrow> mgmt_action m = Some a \<Longrightarrow> a (ps_world p) = (Ok u, w) \<Longrightarrow>
    control m p (p\<lparr>ps_pc := Spawn, ps_world := w\<rparr>)"
| ensure_err: "ps_pc p = Ensure \<Longrightarrow> mgmt_action m = Some a \<Longrightarrow> a (ps_world p) = (Err e, w) \<Longrightarrow>
    control m p (returned (p\<lparr>ps_world := w\<rparr>))"
| ensure_panic: "ps_pc p = Ensure \<Longrightarrow> mgmt_action m = Some a \<Longrightarrow> a (ps_world p) = (Panic, w) \<Longrightarrow>
    control m p (p\<lparr>ps_pc := Crashed, ps_world := w\<rparr>)"
| spawn: "ps_pc p = Spawn \<Longrightarrow>
    control m p (p\<lparr>ps_pc := Select, ps_tasks := (ps_tasks p)(Northbound := Running, Metrics := Running), ps_watcher := True\<rparr>)"
| select_done: "ps_pc p = Select \<Longrightarrow> ctx_done p \<Longrightarrow> control m p (returned p)"
| select_err: "ps_pc p = Select \<Longrightarrow> ps_errCh p = [e] \<Longrightarrow> control m p (returned (p\<lparr>ps_errCh := []\<rparr>))"

inductive worker :: "'s process \<Rightarrow> 's process \<Rightarrow> bool" where
  ends: "ps_tasks p i = Running \<Longrightarrow> worker p (p\<lparr>ps_tasks := (ps_tasks p)(i := Finished)\<rparr>)"
| fails: "ps_tasks p i = Running \<Longrightarrow> worker p (p\<lparr>ps_tasks := (ps_tasks p)(i := Sending (Wrap (task_ctx i) e))\<rparr>)"
| sends: "ps_tasks p i = Sending e \<Longrightarrow> ps_errCh p = [] \<Longrightarrow>
    worker p (p\<lparr>ps_tasks := (ps_tasks p)(i := Finished), ps_errCh := [e]\<rparr>)"
| watches: "ps_watcher p \<Longrightarrow> ps_errCh p = [e] \<Longrightarrow> worker p (p\<lparr>ps_watcher := False, ps_errCh := [], ps_mgrCtx := True\<rparr>)"

inductive env :: "('s \<Rightarrow> 's \<Rightarrow> bool) \<Rightarrow> 's process \<Rightarrow> 's process \<Rightarrow> bool" for others where
  signal: "env others p (p\<lparr>ps_signal := True\<rparr>)"
| world: "others (ps_world p) w \<Longrightarrow> env others p (p\<lparr>ps_world := w\<rparr>)"

text \<open>A run of any interleaving, with the number of its control steps.\<close>

inductive run :: "('s \<Rightarrow> 's \<Rightarrow> bool) \<Rightarrow> 's kubevimManager \<Rightarrow> nat \<Rightarrow> 's process \<Rightarrow> 's process \<Rightarrow> bool" for others m where
  here: "run others m 0 p p"
| ctl: "run others m n p q \<Longrightarrow> control m q r \<Longrightarrow> run others m (Suc n) p r"
| oth: "run others m n p q \<Longrightarrow> worker q r \<or> env others q r \<Longrightarrow> run others m n p r"

inductive_cases workerE: "worker p q"
inductive_cases envE: "env others p q"
inductive_cases controlE: "control m p q"
inductive_cases handlerE: "shutdownHandler p q"
inductive_cases exitE: "main_exit p q"

subsection \<open>Invariants of a run\<close>

lemma returned_sel [simp]:
  "ps_pc (returned p) = Returned" "ps_mgrCtx (returned p) = True" "ps_signal (returned p) = ps_signal p"
  "ps_mainCtx (returned p) = ps_mainCtx p" "ps_handler (returned p) = ps_handler p" "ps_exited (returned p) = ps_exited p"
  "ps_tasks (returned p) = ps_tasks p" "ps_errCh (returned p) = ps_errCh p" "ps_world (returned p) = ps_world p" "ps_watcher (returned p) = ps_watcher p"
  by (simp_all add: returned_def)

lemma started_sel [simp]:
  "ps_signal (started w) = False" "ps_mainCtx (started w) = False" "ps_handler (started w) = False" "ps_exited (started w) = False"
  "ps_mgrCtx (started w) = False" "ps_pc (started w) = WaitSync" "ps_tasks (started w) Cache = Running"
  "ps_tasks (started w) Northbound = NotStarted" "ps_errCh (started w) = []" "ps_world (started w) = w" "ps_watcher (started w) = False"
  by (simp_all add: started_def)

text \<open>Steps of the workers and of the environment leave the control state alone.\<close>

lemma other_control_state:
  assumes "worker p q \<or> env others p q"
  shows "ps_pc q = ps_pc p" "ps_handler q = ps_handler p" "ps_exited q = ps_exited p" "ps_mainCtx q = ps_mainCtx p"
    "ps_signal p \<Longrightarrow> ps_signal q" "ps_mgrCtx p \<Longrightarrow> ps_mgrCtx q" "ps_tasks p i \<noteq> NotStarted \<Longrightarrow> ps_tasks q i \<noteq> NotStarted"
    "ps_tasks p i = NotStarted \<Longrightarrow> ps_tasks q i = NotStarted" "ps_tasks p i \<noteq> Running \<Longrightarrow> ps_tasks q i \<noteq> Running"
  using assms by (auto elim!: workerE envE split: if_splits)

text \<open>Nothing but a signal cancels \<open>main\<close>'s context, and the process does not exit before the handler returned.\<close>

definition coherent :: "'s process \<Rightarrow> bool" where
  "coherent p \<longleftrightarrow> (ps_mainCtx p \<longrightarrow> ps_signal p) \<and> (ps_handler p \<longleftrightarrow> ps_mainCtx p) \<and> (ps_exited p \<longrightarrow> ps_handler p \<and> ps_pc p = Returned) \<and>
     (ps_pc p \<in> {WaitSync, Ensure, Spawn} \<longrightarrow> ps_tasks p Northbound = NotStarted \<and> \<not> ps_mgrCtx p \<and> \<not> ps_watcher p)"

lemma coherent_started: "coherent (started w)"
  by (simp add: coherent_def)

lemma coherent_control: "control m p q \<Longrightarrow> coherent p \<Longrightarrow> coherent q"
  by (elim controlE handlerE exitE) (simp_all add: coherent_def)

lemma coherent_other: "worker p q \<or> env others p q \<Longrightarrow> coherent p \<Longrightarrow> coherent q"
  by (elim disjE workerE envE) (simp_all add: coherent_def, auto)

lemma coherent_run: "run others m n p q \<Longrightarrow> coherent p \<Longrightarrow> coherent q"
  by (induction rule: run.induct) (auto intro: coherent_control coherent_other)


text \<open>What is left to do for the control steps: the handler, the exit and the rest of \<open>Start\<close>.\<close>

definition rank :: "'s process \<Rightarrow> nat" where
  "rank p = (if ps_handler p then 0 else 1) + (if ps_exited p then 0 else 1) +
     (case ps_pc p of WaitSync \<Rightarrow> 4 | Ensure \<Rightarrow> 3 | Spawn \<Rightarrow> 2 | Select \<Rightarrow> 1 | Returned \<Rightarrow> 0 | Crashed \<Rightarrow> 0)"

lemma rank_control: "control m p q \<Longrightarrow> rank q < rank p"
  by (elim controlE handlerE exitE) (simp_all add: rank_def returned_def)

lemma rank_run: "run others m n p q \<Longrightarrow> n + rank q \<le> rank p"
  by (induction rule: run.induct) (auto simp: rank_def other_control_state dest: rank_control)

lemma run_trans: "run others m k q r \<Longrightarrow> run others m n p q \<Longrightarrow> run others m (n + k) p r"
  by (induction rule: run.induct) (auto intro: run.intros)

lemma signal_stays: "run others m n p q \<Longrightarrow> ps_signal p \<Longrightarrow> ps_signal q"
  by (induction rule: run.induct) (auto elim!: controlE handlerE exitE workerE envE)

text \<open>A signal always has a step to make until the process has exited.\<close>

lemma control_progress:
  assumes "coherent p" and "ps_signal p" and "\<not> ps_exited p" and "ps_pc p \<noteq> Crashed"
  shows "\<exists>q. control m p q"
proof (cases "ps_handler p")
  case False
  then show ?thesis using by_handler [OF handler_signal] assms(2) by blast
next
  case True
  then have ctx: "ctx_done p" using assms(1) by (simp add: coherent_def ctx_done_def)
  show ?thesis
  proof (cases "ps_pc p")
    case Ensure
    show ?thesis
    proof (cases "mgmt_action m")
      case None
      then show ?thesis using ensure_nothing [OF Ensure] by blast
    next
      case (Some a)
      obtain x w where "a (ps_world p) = (x, w)" by force
      then show ?thesis using ensure_ok [OF Ensure Some] ensure_err [OF Ensure Some] ensure_panic [OF Ensure Some]
        by (cases x) blast+
    qed
  qed (use True ctx assms(3,4) in \<open>blast intro: control.intros main_exit.intros\<close>)+
qed

text \<open>Before a signal neither the handler nor \<open>main\<close> moves.\<close>

lemma quiet_run:
  assumes "run others m n p q" and "coherent p" and "ps_pc p = Returned" and "\<not> ps_signal q"
  shows "ps_pc q = Returned \<and> \<not> ps_exited q \<and> (\<forall>i. ps_tasks p i = NotStarted \<longrightarrow> ps_tasks q i = NotStarted)"
  using assms
proof (induction rule: run.induct)
  case here
  then show ?case by (auto simp: coherent_def)
next
  case (ctl n p q r)
  have c: "coherent q" by (rule coherent_run [OF ctl.hyps(1) ctl.prems(1)])
  have "\<not> ps_signal q" using ctl.hyps(2) ctl.prems(3) by (auto elim!: controlE handlerE exitE)
  then have IH: "ps_pc q = Returned" "\<not> ps_exited q" "\<forall>i. ps_tasks p i = NotStarted \<longrightarrow> ps_tasks q i = NotStarted"
    using ctl.IH ctl.prems by auto
  have "\<not> ps_handler q" using c \<open>\<not> ps_signal q\<close> by (auto simp: coherent_def)
  then have False using ctl.hyps(2) IH(1) \<open>\<not> ps_signal q\<close> c by (auto simp: coherent_def elim!: controlE handlerE exitE)
  then show ?case ..
next
  case (oth n p q r)
  have "\<not> ps_signal q" using other_control_state(5) [OF oth.hyps(2)] oth.prems(3) by blast
  then show ?case using oth.IH oth.prems other_control_state [OF oth.hyps(2)] by auto
qed


text \<open>Up to the reconciliation the cluster changes by the hands of others only.\<close>

lemma world_before:
  assumes "run others m n p q" and "\<And>w w'. I w \<Longrightarrow> others w w' \<Longrightarrow> I w'" and "I (ps_world p)" and "ps_pc q \<in> {WaitSync, Ensure}"
  shows "I (ps_world q)"
  using assms
proof (induction rule: run.induct)
  case (ctl n p q r)
  then have "ps_pc q \<in> {WaitSync, Ensure} \<and> ps_world r = ps_world q" by (auto elim!: controlE handlerE exitE)
  with ctl show ?case by auto
next
  case (oth n p q r)
  then have "I (ps_world q)" using other_control_state(1) [OF oth.hyps(2)] by auto
  with oth.hyps(2) oth.prems(1) show ?case by (auto elim!: workerE envE)
qed auto

text \<open>Whoever serves has passed the reconciliation.\<close>

lemma ready_before:
  assumes "run others m n (started w) p" and "ps_pc p \<in> {Spawn, Select} \<or> ps_tasks p Northbound \<noteq> NotStarted"
  shows "\<exists>k l q r. run others m k (started w) q \<and> ps_pc q = Ensure \<and> control m q r \<and> ps_pc r = Spawn \<and> run others m l r p"
  using assms
proof (induction n "started w" p rule: run.induct)
  case here
  then show ?case by simp
next
  case (ctl n q r)
  show ?case
  proof (cases "ps_pc q = Ensure \<and> ps_pc r = Spawn")
    case True
    with ctl.hyps show ?thesis by (blast intro: run.here)
  next
    case False
    have "ps_pc q \<in> {Spawn, Select} \<or> ps_tasks q Northbound \<noteq> NotStarted"
      using ctl.hyps(3) ctl.prems False by (auto elim!: controlE handlerE exitE split: if_splits)
    then show ?thesis using ctl.hyps(2,3) by (blast intro: run.ctl)
  qed
next
  case (oth n q r)
  then have "ps_pc q \<in> {Spawn, Select} \<or> ps_tasks q Northbound \<noteq> NotStarted"
    using other_control_state [OF oth.hyps(3)] by auto
  with oth show ?case by (blast intro: run.oth)
qed


text \<open>A cache that ended before it synced.\<close>

lemma unsynced_run:
  assumes "run others m n p q" and "coherent p" and "ps_pc p = WaitSync" and "ps_tasks p Cache \<noteq> Running" and "\<not> ps_signal q"
  shows "ps_pc q = WaitSync \<and> ps_tasks q Cache \<noteq> Running"
  using assms
proof (induction rule: run.induct)
  case (ctl n p q r)
  have c: "coherent q" by (rule coherent_run [OF ctl.hyps(1) ctl.prems(1)])
  have s: "\<not> ps_signal q" using ctl.hyps(2) ctl.prems(4) by (auto elim!: controlE handlerE exitE)
  have IH: "ps_pc q = WaitSync" "ps_tasks q Cache \<noteq> Running" using ctl.IH ctl.prems s by auto
  have "\<not> ctx_done q" using c s IH(1) by (auto simp: coherent_def ctx_done_def)
  then have False using ctl.hyps(2) IH s c by (auto simp: coherent_def elim!: controlE handlerE exitE)
  then show ?case ..
next
  case (oth n p q r)
  have "\<not> ps_signal q" using other_control_state(5) [OF oth.hyps(2)] oth.prems(4) by blast
  then show ?case using oth.IH oth.prems other_control_state [OF oth.hyps(2)] by auto
qed auto

subsection \<open>Properties\<close>

text \<open>C16. Nothing is served before the management network is in place: in every interleaving, when the northbound
  server has been started, an earlier step of the same run was the reconciliation of the configured management network, it
  succeeded, and after it the stored objects were those of before with the network's Vpc, Subnet and
  NetworkAttachmentDefinition present with their labels (on a server without faults, others changing the cluster as they
  like).\<close>

theorem serves_after_mgmt_network:
  assumes "api_server cl view I" and "kv_networkMgr m = networks_on isUUID cl cl ns sock"
    and "cfg_network (kv_cfg m) = Some net" and "nc_managementNetwork net = Some mgmt" and "mc_enabled mgmt = Some True"
    and "I w" and "\<And>w w'. I w \<Longrightarrow> others w w' \<Longrightarrow> I w'"
    and "run others m n (started w) p" and "ps_tasks p Northbound \<noteq> NotStarted"
  shows "\<exists>k l q r. run others m k (started w) q \<and> control m q r \<and> run others m l r p \<and>
    I (ps_world r) \<and> mgmt_post mgmt (view (ps_world q)) (view (ps_world r))"
proof -
  obtain k l q r where q: "run others m k (started w) q" "ps_pc q = Ensure" "control m q r" "ps_pc r = Spawn" "run others m l r p"
    using ready_before [OF assms(8)] assms(9) by blast
  have inv: "I (ps_world q)" by (rule world_before [OF q(1) assms(7)]) (use assms(6) q(2) in auto)
  have "mgmt_action m = Some (EnsureManagementNetwork (kubeovn_on cl cl ns) (Some mgmt))"
    by (simp add: mgmt_action_def assms(2-4) networks_on_sel)
  then have "EnsureManagementNetwork (kubeovn_on cl cl ns) (Some mgmt) (ps_world q) = (Ok (), ps_world r)"
    using q(2-4) by (auto elim!: controlE handlerE exitE)
  then have "I (ps_world r)" "mgmt_post mgmt (view (ps_world q)) (view (ps_world r))"
    using api_server.EnsureManagementNetwork_Ok [OF assms(1) inv _ assms(5), of "Some ns"] by (simp_all add: kubeovn_on_def)
  with q show ?thesis by blast
qed

text \<open>A signal ends the process, in every interleaving with the servers, the cache and the cluster: no run makes more
  than six steps of \<open>main\<close>, the handler and \<open>Start\<close>, and as long as the process has not exited after a signal, one of
  them has a step to make, whatever the error channel and the workers are doing (unless a panic has ended the
  process).\<close>

lemma signal_exits:
  assumes "run others m n (started w) p"
  shows "n \<le> 6 \<and> (ps_signal p \<longrightarrow> ps_exited p \<or> ps_pc p = Crashed \<or> (\<exists>q. control m p q))"
proof -
  have "n \<le> rank (started w)" using rank_run [OF assms] by simp
  then show ?thesis
    using control_progress [OF coherent_run [OF assms coherent_started]] by (auto simp: rank_def)
qed

text \<open>C18. A \<open>Start\<close> that gives up leaves the process behind: when the management network cannot be reconciled, \<open>Start\<close>
  returns, which cancels only its own context; \<open>main\<close> waits for the shutdown handler as well, and the handler waits for
  \<open>main\<close>'s context or a signal. However the run goes on without a signal, the process does not exit and no server is
  ever started.\<close>

theorem failed_start_hangs:
  assumes "mgmt_action m = Some a" and "a w = (Err e, w')"
  shows "\<exists>p. run others m 2 (started w) p \<and> ps_pc p = Returned \<and>
    (\<forall>k q. run others m k p q \<longrightarrow> \<not> ps_signal q \<longrightarrow> \<not> ps_exited q \<and> ps_tasks q Northbound = NotStarted)"
proof -
  let ?q = "(started w)\<lparr>ps_pc := Ensure\<rparr>"
  let ?p = "returned (?q\<lparr>ps_world := w'\<rparr>)"
  have "control m (started w) ?q" by (rule synced) simp_all
  moreover have "control m ?q ?p" by (rule ensure_err [OF _ assms(1)]) (simp_all add: assms(2))
  ultimately have run: "run others m (Suc (Suc 0)) (started w) ?p" by (blast intro: run.intros)
  have "coherent ?p" by (rule coherent_run [OF run coherent_started])
  then show ?thesis using run quiet_run [of others m _ ?p] by (intro exI [of _ ?p]) (auto simp: numeral_2_eq_2)
qed

text \<open>An error of the cache before it has synced is never read: the goroutine that would read the error channel is
  started only after the sync, and \<open>WaitForCacheSync\<close> ends only with the context. Until a signal comes, \<open>Start\<close> neither
  serves nor returns, although the error is in the channel.\<close>

theorem cache_error_unread:
  "\<exists>p. run others m 0 (started w) p \<and> ps_errCh p = [Wrap ''start k8s cluster cache'' e] \<and>
    (\<forall>k q. run others m k p q \<longrightarrow> \<not> ps_signal q \<longrightarrow> ps_pc q = WaitSync)"
proof -
  let ?q = "(started w)\<lparr>ps_tasks := (ps_tasks (started w))(Cache := Sending (Wrap (task_ctx Cache) e))\<rparr>"
  let ?p = "?q\<lparr>ps_tasks := (ps_tasks ?q)(Cache := Finished), ps_errCh := [Wrap (task_ctx Cache) e]\<rparr>"
  have "worker (started w) ?q" by (rule fails) simp
  moreover have "worker ?q ?p" by (rule sends) simp_all
  ultimately have run: "run others m 0 (started w) ?p" by (blast intro: run.intros)
  have c: "coherent ?p" by (rule coherent_run [OF run coherent_started])
  have "ps_pc q = WaitSync" if "run others m k ?p q" "\<not> ps_signal q" for k q
    using unsynced_run [OF that(1) c _ _ that(2)] by simp
  with run show ?thesis by (intro exI [of _ ?p]) (simp add: task_ctx_def)
qed


subsection \<open>Witnesses\<close>

definition mem_manager :: "mgmt_config \<Rightarrow> mem kubevimManager" where
  "mem_manager mgmt = \<lparr>kv_cfg = default_config\<lparr>cfg_network := Some \<lparr>nc_managementNetwork = Some mgmt, nc_sriov = None\<rparr>\<rparr>,
     kv_imageMgr = vs_ImageMgr mem_server, kv_networkMgr = vs_NetworkMgr mem_server, kv_flavourMgr = vs_FlavourMgr mem_server,
     kv_computeMgr = vs_ComputeMgr mem_server, kv_telemetryMgr = \<lparr>te_server = None, te_port = 0\<rparr>,
     kv_nbServer = \<lparr>nb_vivnfm = mem_server, nb_admin = vs_ImageMgr mem_server, nb_secure = False,
       nb_cfg = \<lparr>srv_port = Some 50051, srv_tls = None\<rparr>\<rparr>\<rparr>"

lemma mem_manager_facts:
  "kv_networkMgr (mem_manager mgmt) = networks_on (\<lambda>_. True) mem_client mem_client ''kube-nfv'' []"
  "cfg_network (kv_cfg (mem_manager mgmt)) = Some \<lparr>nc_managementNetwork = Some mgmt, nc_sriov = None\<rparr>"
  "mgmt_action (mem_manager mgmt) = Some (EnsureManagementNetwork (kubeovn_on mem_client mem_client ''kube-nfv'') (Some mgmt))"
  by (simp_all add: mem_manager_def mem_server_net mgmt_action_def networks_on_sel)

theorem serves_after_mgmt_network_witness:
  "\<exists>p k q r. run (=) (mem_manager mgmt_example) 3 (started mem_empty) p \<and> ps_tasks p Northbound = Running \<and>
     run (=) (mem_manager mgmt_example) k (started mem_empty) q \<and> control (mem_manager mgmt_example) q r \<and>
     mgmt_post mgmt_example (mem_view (ps_world q)) (mem_view (ps_world r))"
proof -
  let ?m = "mem_manager mgmt_example"
  obtain t where "EnsureManagementNetwork mem_kubeovn (Some mgmt_example) mem_empty = (Ok (), t)" by (rule mgmt_example_run)
  then have ens: "EnsureManagementNetwork (kubeovn_on mem_client mem_client ''kube-nfv'') (Some mgmt_example) mem_empty = (Ok (), t)"
    by (simp add: mem_kubeovn_def kubeovn_on_def)
  let ?q = "(started mem_empty)\<lparr>ps_pc := Ensure\<rparr>" and ?r = "(started mem_empty)\<lparr>ps_pc := Ensure\<rparr>\<lparr>ps_pc := Spawn, ps_world := t\<rparr>"
  let ?p = "?r\<lparr>ps_pc := Select, ps_tasks := (ps_tasks ?r)(Northbound := Running, Metrics := Running), ps_watcher := True\<rparr>"
  have "control ?m (started mem_empty) ?q" by (rule synced) simp_all
  moreover have "control ?m ?q ?r" by (rule ensure_ok [OF _ mem_manager_facts(3)]) (simp_all add: ens)
  moreover have "control ?m ?r ?p" by (rule spawn) simp
  ultimately have run: "run (=) ?m (Suc (Suc (Suc 0))) (started mem_empty) ?p" by (blast intro: run.intros)
  have en: "mc_enabled mgmt_example = Some True" by (simp add: mgmt_example_def)
  from serves_after_mgmt_network [OF mem.api_server_axioms mem_manager_facts(1,2) _ en mem_inv_empty _ run] run
  show ?thesis by (intro exI [of _ ?p]) (auto simp: numeral_3_eq_3)
qed

theorem failed_start_hangs_witness:
  "\<exists>p. run (=) (mem_manager (default_mgmt\<lparr>mc_name := None\<rparr>)) 2 (started mem_empty) p \<and> ps_pc p = Returned \<and>
     (\<forall>k q. run (=) (mem_manager (default_mgmt\<lparr>mc_name := None\<rparr>)) k p q \<and> \<not> ps_signal q \<longrightarrow> \<not> ps_exited q)"
proof -
  obtain e where "EnsureManagementNetwork (kubeovn_on mem_client mem_client ''kube-nfv'') (Some (default_mgmt\<lparr>mc_name := None\<rparr>)) mem_empty = (Err e, mem_empty)"
    by (auto simp: EnsureManagementNetwork_def default_mgmt_def has_value_def act_simps)
  from failed_start_hangs [OF mem_manager_facts(3) this, of "(=)"] show ?thesis by blast
qed

end
