(* ===== verification/Main_Program.thy ===== *)
theory Main_Program
  imports Lifecycle
begin

text \<open>
  \<open>main\<close> up to the point where the goroutines start (\<open>cmd/kube-vim/main.go\<close>), with \<open>InitLogger\<close> (\<open>internal/config/log.go\<close>): it reads the
  configuration, normalizes it and builds the manager whose run theory \<open>Lifecycle\<close> describes. Viper and zap are parameters;
  \<open>log.Fatalf\<close> ends the process, here an error. The theorem of this theory composes the configuration, the constructor and the
  life of the process.
\<close>

record 's viper =
  vp_SetDefault :: "string \<Rightarrow> viper_value \<Rightarrow> ('s, error, unit) act"
  vp_ReadInConfig :: "string \<Rightarrow> ('s, error, unit) act"
  vp_IsSet :: "string \<Rightarrow> ('s, error, bool) act"
  vp_Unmarshal :: "('s, error, config) act"
  vp_GetString :: "string \<Rightarrow> ('s, error, string) act"

definition InitLogger :: "(string \<Rightarrow> ('s, error, 'l) act) \<Rightarrow> ('l \<Rightarrow> ('s, error, unit) act) \<Rightarrow> string \<Rightarrow> ('s, error, unit) act" where
  "InitLogger parseLevel build logLevel =
     and_then (wrap (''parse log level '' @ quoted logLevel) (parseLevel logLevel)) (\<lambda>level. build level)"

text \<open>\<open>init\<close>, with the value of the environment variable \<open>POD_NAMESPACE\<close>.\<close>

definition main_init :: "'s viper \<Rightarrow> string \<Rightarrow> ('s, error, unit) act" where
  "main_init vp podEnv = (let podNamespace = (if podEnv = [] then ''kube-nfv'' else podEnv) in
     and_then (for_each (\<lambda>(k, v). vp_SetDefault vp k v) (SetViperDefaults podNamespace)) (\<lambda>_. ret ()))"

definition SetConfigDefaultAfterInit :: "'s viper \<Rightarrow> ('s, error, unit) act" where
  "SetConfigDefaultAfterInit vp = and_then (vp_IsSet vp ''image.http'') (\<lambda>b.
     if b then vp_SetDefault vp ''image.http.initEmpty'' (VBool True) else ret ())"

definition main_prepare ::
  "('s, 'c) platform \<Rightarrow> 's libs \<Rightarrow> 's viper \<Rightarrow> (string \<Rightarrow> ('s, error, unit) act) \<Rightarrow> string \<Rightarrow> ('s, error, 's kubevimManager) act" where
  "main_prepare pf lb vp initLogger configPath =
     and_then (wrap (''Can'' @ [CHR 0x27] @ ''t read kube-vim configuration from path '' @ quoted configPath) (vp_ReadInConfig vp configPath)) (\<lambda>_.
     and_then (SetConfigDefaultAfterInit vp) (\<lambda>_.
     and_then (wrap (''Parse kube-vim configuration from path '' @ quoted configPath) (vp_Unmarshal vp)) (\<lambda>cfg.
     and_then (vp_GetString vp ''k8s.namespace'') (\<lambda>ns.
     (case Normalize (Some cfg) ns of
        (Some err, _) \<Rightarrow> throw (Wrap ''Normalize kube-vim configuration'' err)
      | (None, cfgp) \<Rightarrow>
          and_then (deref cfgp) (\<lambda>cfg.
          and_then (deref (cfg_service cfg)) (\<lambda>service.
          and_then (deref (svc_logLevel service)) (\<lambda>level.
          and_then (wrap ''Initialize zap logger'' (initLogger level)) (\<lambda>_.
          wrap ''Create kubevim manager'' (NewKubeVimManager pf lb (Some cfg)))))))))))"

subsection \<open>What the manager of a prepared process is like\<close>

lemma deref_Ok_iff: "deref p s = (Ok x, t) \<longleftrightarrow> p = Some x \<and> t = s"
  by (cases p) (auto simp: deref_def act_simps)

lemma ret_Ok_iff: "ret x s = (Ok y, t) \<longleftrightarrow> y = x \<and> t = s"
  by (auto simp: act_simps)

lemma throw_not_Ok [simp]: "throw e s \<noteq> (Ok x, t)"
  by (simp add: act_simps)

lemma init_managers_Ok:
  assumes "init_managers pf lb cfg k8s cl rd s = (Ok m, t)"
  shows "kv_cfg m = cfg" and "\<exists>ovn. nm_EnsureManagementNetwork (kv_networkMgr m) = EnsureManagementNetwork ovn"
  using assms
  by (auto simp: init_managers_def initNetworkManager_def and_then_Ok_iff wrap_Ok_iff ret_Ok_iff Let_def composite_manager_def
      composite_EnsureManagementNetwork_def NewManager_def kubeovn_manager_def fun_eq_iff)

lemma NewKubeVimManager_Ok:
  assumes "NewKubeVimManager pf lb (Some cfg) s = (Ok m, t)"
  shows "kv_cfg m = cfg" and "\<exists>ovn. nm_EnsureManagementNetwork (kv_networkMgr m) = EnsureManagementNetwork ovn"
  using assms
  by (auto simp: NewKubeVimManager_def and_then_Ok_iff wrap_Ok_iff dest: init_managers_Ok split: option.splits)

text \<open>The reconciliation of a normalized configuration does not panic, enabled or not.\<close>

lemma normalized_no_panic:
  assumes "Normalize (Some c) ns = (None, Some c')" and "cfg_network c' = Some net"
  shows "no_panic (EnsureManagementNetwork ovn (nc_managementNetwork net))"
proof (cases "\<exists>mgmt. nc_managementNetwork net = Some mgmt \<and> mc_enabled mgmt = Some True")
  case True
  then obtain mgmt where m: "nc_managementNetwork net = Some mgmt" "mc_enabled mgmt = Some True" by blast
  have "mgmt_complete mgmt"
    using assms m normalize_mgmt_complete
    by (auto simp: Normalize_def split: option.splits if_splits prod.splits)
  then have "meets (EnsureManagementNetwork ovn (Some mgmt)) s (\<lambda>_ _. True) (\<lambda>e _. \<exists>c e'. e = Wrap c e')" for s
    by (rule ensure_complete_fails_wrapped)
  then show ?thesis unfolding no_panic_def m(1) by (metis fst_conv meets_no_panic surj_pair)
next
  case False
  then show ?thesis by (auto simp: no_panic_def EnsureManagementNetwork_def act_simps split: option.splits)
qed

lemma prepared_no_panic:
  assumes "main_prepare pf lb vp initLogger path s = (Ok m, t)" and "mgmt_action m = Some a"
  shows "no_panic a"
proof -
  obtain c ns c' u where f: "fst (Normalize (Some c) ns) = None" "snd (Normalize (Some c) ns) = Some c'"
    and k: "NewKubeVimManager pf lb (Some c') u = (Ok m, t)"
    using assms(1) by (auto simp: main_prepare_def and_then_Ok_iff wrap_Ok_iff deref_Ok_iff prod.case_eq_if split: option.split_asm)
  from f have n: "Normalize (Some c) ns = (None, Some c')" by (metis prod.collapse)
  note m = NewKubeVimManager_Ok [OF k]
  then show ?thesis using assms(2) normalized_no_panic [OF n] by (auto simp: mgmt_action_def split: option.splits)
qed

lemma crash_free:
  assumes "run others m n (started w) p" and "\<And>a. mgmt_action m = Some a \<Longrightarrow> no_panic a"
  shows "ps_pc p \<noteq> Crashed"
  using assms(1)
proof (induction n "started w" p rule: run.induct)
  case (ctl n q r)
  have "a v \<noteq> (Panic, v')" if "mgmt_action m = Some a" for a v v'
    using assms(2) [OF that] by (metis fst_conv no_panic_def)
  then show ?case using ctl by (auto elim!: controlE handlerE exitE)
next
  case (oth n q r)
  then show ?case using other_control_state(1) by metis
qed simp

text \<open>C17. From the configuration file to the exit: a process whose \<open>main\<close> got past its construction never panics while it reconciles the
  management network, makes at most six control steps in every interleaving with the servers, the cache and the cluster, and after a
  signal it is never stuck before it has exited.\<close>

theorem main_exits_after_signal:
  assumes "main_prepare pf lb vp initLogger path s = (Ok m, t)" and "run others m n (started w) p"
  shows "ps_pc p \<noteq> Crashed \<and> n \<le> 6 \<and> (ps_signal p \<longrightarrow> ps_exited p \<or> (\<exists>q. control m p q))"
proof -
  have "ps_pc p \<noteq> Crashed" using crash_free [OF assms(2)] prepared_no_panic [OF assms(1)] by blast
  then show ?thesis using signal_exits [OF assms(2)] by blast
qed

definition mem_viper :: "mem viper" where
  "mem_viper = \<lparr>vp_SetDefault = \<lambda>_ _. ret (), vp_ReadInConfig = \<lambda>_. ret (), vp_IsSet = \<lambda>_. ret False, vp_Unmarshal = ret (example_config\<lparr>cfg_network := None\<rparr>),
     vp_GetString = \<lambda>_. ret ''kube-nfv''\<rparr>"

theorem main_exits_after_signal_witness:
  "\<exists>m. main_prepare mem_platform mem_libs mem_viper (InitLogger (\<lambda>_. ret ()) ret) ''config.yaml'' mem_empty = (Ok m, mem_empty) \<and>
     (\<exists>q. control m ((started mem_empty)\<lparr>ps_signal := True\<rparr>) q)"
proof -
  obtain m where m: "main_prepare mem_platform mem_libs mem_viper (InitLogger (\<lambda>_. ret ()) ret) ''config.yaml'' mem_empty = (Ok m, mem_empty)"
    by (simp add: main_prepare_def SetConfigDefaultAfterInit_def InitLogger_def mem_viper_def Normalize_def NewKubeVimManager_def NewCluster_def
        k8s_rest_config_def BuildScheme_def init_managers_def initImageManager_def initNetworkManager_def
        initFlavourManager_def initComputeManager_def initTelemetryManager_def initNorthboundServer_def NewNorthboundServer_def
        telemetry_NewManager_def NewCDIImageManager_def NewKubeovnNetworkManager_def NewSriovNetworkManager_def NewFlavourManager_def
        mem_platform_def example_config_def default_config_def deref_def has_value_def run_and_then wrap_def handle_def act_simps)
  have r: "run (=) m 0 (started mem_empty) ((started mem_empty)\<lparr>ps_signal := True\<rparr>)" by (blast intro: run.intros env.signal)
  from main_exits_after_signal [OF m r] m show ?thesis by auto
qed

end
