(* ===== verification/Image_Http.thy ===== *)
theory Image_Http
  imports Image_Cdi Json
begin

text \<open>
  The HTTP image manager (\<open>internal/kubevim/image/http/manager.go\<close>) over the CDI controller
  (\<open>internal/kubevim/image/cdi.go\<close>), which the program keeps beside the CDI image manager. The controller's clientset is the
  Kubernetes client of the other managers. The part of \<open>net/url\<close> that decides the path of a URL, \<open>path.Base\<close>, \<open>path.Ext\<close> and the
  string functions are written out on bytes; the check of a URL's authority is the parameter
  \<open>authority\<close>. \<open>strings.ToLower\<close> works on UTF-8: two characters outside ASCII have an ASCII lower case (U+212A
  and U+0130), all others stay outside ASCII, where the regular expression replaces them, so their bytes are left
  as they are.
\<close>

subsection \<open>\<open>net/url\<close>: the path of a URL\<close>

definition is_alpha :: "char \<Rightarrow> bool" where
  "is_alpha c \<longleftrightarrow> in_range 97 122 c \<or> in_range 65 90 c"

definition is_ctl :: "char \<Rightarrow> bool" where
  "is_ctl c \<longleftrightarrow> byte_of c < 32 \<or> byte_of c = 127"

definition cut :: "char \<Rightarrow> string \<Rightarrow> string \<times> string" where
  "cut sep s = (let before = takeWhile (\<lambda>c. c \<noteq> sep) s in (before, drop (Suc (length before)) s))"

fun scheme_loop :: "string \<Rightarrow> string \<Rightarrow> string \<Rightarrow> error + string \<times> string" where
  "scheme_loop raw acc [] = Inr ([], raw)"
| "scheme_loop raw acc (c # cs) =
     (if is_alpha c then scheme_loop raw (acc @ [c]) cs
      else if is_digit c \<or> c \<in> {CHR ''+'', CHR ''-'', CHR ''.''} then
        (if acc = [] then Inr ([], raw) else scheme_loop raw (acc @ [c]) cs)
      else if c = CHR '':'' then (if acc = [] then Inl (Plain ''missing protocol scheme'') else Inr (acc, cs))
      else Inr ([], raw))"

definition getScheme :: "string \<Rightarrow> error + string \<times> string" where
  "getScheme rawURL = scheme_loop rawURL [] rawURL"

fun unescape :: "string \<Rightarrow> error + string" where
  "unescape [] = Inr []"
| "unescape (c # cs) =
     (if c = CHR ''%'' then
        (case cs of
           a # b # rest \<Rightarrow> (case (hex_value a, hex_value b) of
               (Some x, Some y) \<Rightarrow> map_sum id (\<lambda>t. char_of (16 * x + y) # t) (unescape rest)
             | _ \<Rightarrow> Inl (Plain ''invalid URL escape''))
         | _ \<Rightarrow> Inl (Plain ''invalid URL escape''))
      else map_sum id (\<lambda>t. c # t) (unescape cs))"

text \<open>\<open>parse\<close>, as far as the path and the errors go: of a rootless URL with a scheme the path is empty.\<close>

definition url_parse :: "(string \<Rightarrow> bool) \<Rightarrow> string \<Rightarrow> error + string" where
  "url_parse authority rawURL =
     (if list_ex is_ctl rawURL then Inl (Plain ''net/url: invalid control character in URL'')
      else if rawURL = ''*'' then Inr ''*''
      else (case getScheme rawURL of
          Inl err \<Rightarrow> Inl err
        | Inr (scheme, rest) \<Rightarrow> (let rest = fst (cut (CHR ''?'') rest) in
            if \<not> has_prefix rest ''/'' then
              (if scheme \<noteq> [] then Inr []
               else if CHR '':'' \<in> set (fst (cut (CHR ''/'') rest))
               then Inl (Plain ''first path segment in URL cannot contain colon'')
               else unescape rest)
            else if (scheme \<noteq> [] \<or> \<not> has_prefix rest ''///'') \<and> has_prefix rest ''//'' then
              (let auth = fst (cut (CHR ''/'') (drop 2 rest)) in
               if authority auth then unescape (drop (length auth) (drop 2 rest)) else Inl (Plain ''invalid authority''))
            else unescape rest)))"

definition url_Parse :: "(string \<Rightarrow> bool) \<Rightarrow> string \<Rightarrow> error + string" where
  "url_Parse authority rawURL = (case cut (CHR ''#'') rawURL of (u, frag) \<Rightarrow>
     (case url_parse authority u of
        Inl err \<Rightarrow> Inl (Wrap ''parse'' err)
      | Inr p \<Rightarrow> if frag = [] then Inr p else (case unescape frag of Inl err \<Rightarrow> Inl (Wrap ''parse'' err) | Inr _ \<Rightarrow> Inr p)))"

subsection \<open>\<open>path\<close>, \<open>strings\<close> and the regular expression\<close>

definition path_Base :: "string \<Rightarrow> string" where
  "path_Base p = (if p = [] then ''.''
     else (let q = rev (dropWhile (\<lambda>c. c = CHR ''/'') (rev p)); b = rev (takeWhile (\<lambda>c. c \<noteq> CHR ''/'') (rev q)) in
       if b = [] then ''/'' else b))"

definition path_Ext :: "string \<Rightarrow> string" where
  "path_Ext p = (let r = takeWhile (\<lambda>c. c \<noteq> CHR ''.'' \<and> c \<noteq> CHR ''/'') (rev p) in
     (case drop (length r) (rev p) of
        c # _ \<Rightarrow> if c = CHR ''.'' then CHR ''.'' # rev r else []
      | [] \<Rightarrow> []))"

definition trim_suffix :: "string \<Rightarrow> string \<Rightarrow> string" where
  "trim_suffix s suf = (if has_prefix (rev s) (rev suf) then take (length s - length suf) s else s)"

fun to_lower :: "string \<Rightarrow> string" where
  "to_lower [] = []"
| "to_lower (c # cs) =
     (if in_range 65 90 c then char_of (byte_of c + 32) # to_lower cs
      else if byte_of c = 0xE2 \<and> map byte_of (take 2 cs) = [0x84, 0xAA] then CHR ''k'' # to_lower (drop 2 cs)
      else if byte_of c = 0xC4 \<and> map byte_of (take 1 cs) = [0xB0] then CHR ''i'' # to_lower (drop 1 cs)
      else c # to_lower cs)"

definition name_char :: "char \<Rightarrow> bool" where
  "name_char c \<longleftrightarrow> in_range 97 122 c \<or> is_digit c \<or> c = CHR ''-''"

function replace_runs :: "string \<Rightarrow> string" where
  "replace_runs [] = []"
| "replace_runs (c # cs) = (if name_char c then c # replace_runs cs else CHR ''-'' # replace_runs (dropWhile (\<lambda>x. \<not> name_char x) cs))"
  by pat_completeness auto
termination by (relation "measure length") (auto simp: le_imp_less_Suc length_dropWhile_le)

definition trim :: "char \<Rightarrow> string \<Rightarrow> string" where
  "trim x s = rev (dropWhile (\<lambda>c. c = x) (rev (dropWhile (\<lambda>c. c = x) s)))"

definition formatDvNameFromHttpSource :: "(string \<Rightarrow> bool) \<Rightarrow> http_source \<Rightarrow> error + string" where
  "formatDvNameFromHttpSource authority httpSource = (case url_Parse authority (hs_url httpSource) of
      Inl err \<Rightarrow> Inl (Wrap (''parse URL '' @ quoted (hs_url httpSource)) err)
    | Inr urlPath \<Rightarrow>
        (let fileName = path_Base urlPath;
             leafName = trim_suffix fileName (path_Ext fileName);
             leafName = to_lower leafName;
             leafName = replace_runs leafName;
             leafName = trim (CHR ''-'') leafName
         in Inr (if length leafName > 253 then take 253 leafName else leafName)))"


subsection \<open>\<open>cdi.go\<close>: names and kinds of sources\<close>

definition formatSourceNameFromDvSource :: "import_source \<Rightarrow> error + string" where
  "formatSourceNameFromDvSource source = (case src_http source of
      Some http \<Rightarrow> if hs_certConfigMap http \<noteq> [] \<or> hs_secretRef http \<noteq> [] then Inr HTTPS else Inr HTTP
    | None \<Rightarrow> Inl (Wrap ''unsupported source'' ErrUnsupported))"

definition formatSourceNameFromSourceType :: "import_source \<Rightarrow> error + string" where
  "formatSourceNameFromSourceType source = (case src_http source of
      Some http \<Rightarrow> if hs_certConfigMap http \<noteq> [] \<or> hs_secretRef http \<noteq> [] then Inr HTTPS else Inr HTTP
    | None \<Rightarrow> Inl (Wrap ''unsupported source'' ErrUnsupported))"

definition formatDVNameFromSource :: "(string \<Rightarrow> bool) \<Rightarrow> import_source \<Rightarrow> error + string" where
  "formatDVNameFromSource authority source = (case src_http source of
      Some http \<Rightarrow> formatDvNameFromHttpSource authority http
    | None \<Rightarrow> Inl (Wrap ''cannot format name from specified source'' ErrUnsupported))"

definition formatVisNameFromSourceType :: "(string \<Rightarrow> bool) \<Rightarrow> import_source \<Rightarrow> error + string" where
  "formatVisNameFromSourceType authority source = (case src_http source of
      Some http \<Rightarrow> formatDvNameFromHttpSource authority http
    | None \<Rightarrow> Inl (Wrap ''cannot format name from specified source'' ErrUnsupported))"

definition formatSourceUrlFromSourceType :: "import_source \<Rightarrow> error + string" where
  "formatSourceUrlFromSourceType source = (case src_http source of
      Some http \<Rightarrow> Inr (hs_url http)
    | None \<Rightarrow> Inl (Wrap ''cannot format source URL from specified source'' ErrUnsupported))"

subsection \<open>\<open>cdi.go\<close>: the controller\<close>

record 's cdiController =
  cc_client :: "'s client"
  cc_namespace :: string

definition NewCdiController :: "('s, error, 's client) act \<Rightarrow> ('s, error, 's cdiController) act" where
  "NewCdiController newForConfig = and_then (wrap ''create kubevirt CDI k8s client'' newForConfig) (\<lambda>c.
     ret \<lparr>cc_client = c, cc_namespace = ''kube-nfv''\<rparr>)"

definition NewNamespacedCdiController :: "('s, error, 's client) act \<Rightarrow> string \<Rightarrow> ('s, error, 's cdiController) act" where
  "NewNamespacedCdiController newForConfig namespace = and_then (wrap ''create kubevirt CDI k8s client'' newForConfig) (\<lambda>c.
     ret \<lparr>cc_client = c, cc_namespace = namespace\<rparr>)"

record getDvOrVisOpts =
  gd_Name :: string
  gd_UID :: string
  gd_SourceUrl :: string

type_synonym get_dv_opt = "getDvOrVisOpts \<Rightarrow> getDvOrVisOpts"

definition FindByName :: "string \<Rightarrow> get_dv_opt" where "FindByName name = (\<lambda>gdo. gdo\<lparr>gd_Name := name\<rparr>)"
definition FindByUID :: "string \<Rightarrow> get_dv_opt" where "FindByUID uid = (\<lambda>gdo. gdo\<lparr>gd_UID := uid\<rparr>)"
definition FindBySourceUrl :: "string \<Rightarrow> get_dv_opt" where "FindBySourceUrl sourceUrl = (\<lambda>gdo. gdo\<lparr>gd_SourceUrl := sourceUrl\<rparr>)"

definition apply_opts :: "('o \<Rightarrow> 'o) list \<Rightarrow> 'o \<Rightarrow> 'o" where
  "apply_opts opts cfg = foldl (\<lambda>c opt. opt c) cfg opts"

text \<open>The loop over the objects with a source label: the first whose HTTP source has the URL. An object that carries the
  label of an HTTP source but no source at all stops it, by a nil dereference.\<close>

fun find_by_url :: "('o \<Rightarrow> obj_meta) \<Rightarrow> ('o \<Rightarrow> import_source option) \<Rightarrow> string \<Rightarrow> 'o list \<Rightarrow> ('s, error, 'o option) act" where
  "find_by_url meta source sourceUrl [] = ret None"
| "find_by_url meta source sourceUrl (x # xs) = (case m_labels (meta x) K8sSourceLabel of
      None \<Rightarrow> find_by_url meta source sourceUrl xs
    | Some sourceTypeStr \<Rightarrow> (case SourceTypeFromString sourceTypeStr of
        Inl err \<Rightarrow> find_by_url meta source sourceUrl xs
      | Inr sourceType \<Rightarrow> and_then (deref (source x)) (\<lambda>src. (case src_http src of
            Some http \<Rightarrow> if hs_url http = sourceUrl then ret (Some x) else find_by_url meta source sourceUrl xs
          | None \<Rightarrow> find_by_url meta source sourceUrl xs))))"

definition get_by_opts ::
  "'s cdiController \<Rightarrow> 'o kind_info \<Rightarrow> ('o \<Rightarrow> obj_meta) \<Rightarrow> ('o \<Rightarrow> import_source option) \<Rightarrow> string \<Rightarrow> get_dv_opt list \<Rightarrow>
   ('s, error, 'o) act" where
  "get_by_opts c K meta source field opts =
     (let cfg = apply_opts opts \<lparr>gd_Name = [], gd_UID = [], gd_SourceUrl = []\<rparr>;
          none = throw (ErrInvalidArgument field ''either name, UID or source must be specified'') in
      if gd_Name cfg \<noteq> [] then k8s_get (cc_client c) K (cc_namespace c) (gd_Name cfg)
      else if gd_UID cfg \<noteq> [] then
        and_then (k8s_list (cc_client c) K (Some (cc_namespace c)) []) (\<lambda>items.
        (case find (\<lambda>x. m_uid (meta x) = gd_UID cfg) items of Some x \<Rightarrow> ret x | None \<Rightarrow> none))
      else if gd_SourceUrl cfg \<noteq> [] then
        and_then (k8s_list (cc_client c) K (Some (cc_namespace c)) []) (\<lambda>items.
        and_then (find_by_url meta source (gd_SourceUrl cfg) items) (\<lambda>found.
        (case found of Some x \<Rightarrow> ret x | None \<Rightarrow> none)))
      else none)"

definition GetDv :: "'s cdiController \<Rightarrow> get_dv_opt list \<Rightarrow> ('s, error, dv) act" where
  "GetDv c opts = get_by_opts c dv_k dv_meta dv_source ''data volume identifier'' opts"

definition GetVolumeImportSource :: "'s cdiController \<Rightarrow> get_dv_opt list \<Rightarrow> ('s, error, vis) act" where
  "GetVolumeImportSource c opts = get_by_opts c vis_k vis_meta vis_source ''volume import source identifier'' opts"

definition ListVolumeImportSources :: "'s cdiController \<Rightarrow> ('s, error, vis list) act" where
  "ListVolumeImportSources c = wrap ''list k8s VolumeImportSource resources''
     (k8s_list (cc_client c) vis_k (Some (cc_namespace c)) managed_selector)"

record createDvOpts =
  cd_Name :: string
  cd_Size :: "quantity option"
  cd_StorageClassName :: string
  cd_PreferredAccessMode :: string

definition defaultCreateDvOpts :: createDvOpts where
  "defaultCreateDvOpts = \<lparr>cd_Name = [], cd_Size = Some \<lparr>q_amount = 50 * 1024 * 1024, q_format = ''BinarySI''\<rparr>,
     cd_StorageClassName = ''default'', cd_PreferredAccessMode = ''ReadOnlyMany''\<rparr>"

definition CreateWithName :: "string \<Rightarrow> createDvOpts \<Rightarrow> createDvOpts" where
  "CreateWithName name = (\<lambda>cdo. cdo\<lparr>cd_Name := name\<rparr>)"
definition CreateWithSize :: "quantity option \<Rightarrow> createDvOpts \<Rightarrow> createDvOpts" where
  "CreateWithSize sz = (\<lambda>cdo. cdo\<lparr>cd_Size := sz\<rparr>)"
definition CreateWithStorageClass :: "string \<Rightarrow> createDvOpts \<Rightarrow> createDvOpts" where
  "CreateWithStorageClass name = (\<lambda>cdo. cdo\<lparr>cd_StorageClassName := name\<rparr>)"
definition CreateWithPreferredPVAccessMode :: "string \<Rightarrow> createDvOpts \<Rightarrow> createDvOpts" where
  "CreateWithPreferredPVAccessMode accessMode = (\<lambda>cdo. cdo\<lparr>cd_PreferredAccessMode := accessMode\<rparr>)"

definition CreateDv ::
  "(string \<Rightarrow> bool) \<Rightarrow> 's cdiController \<Rightarrow> import_source option \<Rightarrow> (createDvOpts \<Rightarrow> createDvOpts) list \<Rightarrow> ('s, error, dv) act" where
  "CreateDv authority c sourcep opts = (let cfg = apply_opts opts defaultCreateDvOpts in
     and_then
       (if cd_Name cfg = [] then and_then (deref sourcep) (\<lambda>source.
          wrap ''format Data Volume name from source'' (sum_act (formatDVNameFromSource authority source)))
        else ret (cd_Name cfg)) (\<lambda>name.
     (let storageClassName = (if cd_StorageClassName cfg \<noteq> [] \<and> cd_StorageClassName cfg \<noteq> ''default''
        then Some (cd_StorageClassName cfg) else None) in
     and_then (deref sourcep) (\<lambda>source.
     and_then (wrap ''identify source type from Data Volume source'' (sum_act (formatSourceNameFromDvSource source))) (\<lambda>sourceType.
     and_then (deref (cd_Size cfg)) (\<lambda>sz.
     k8s_create (cc_client c) dv_k
       \<lparr>dv_meta = empty_meta\<lparr>m_name := name, m_namespace := cc_namespace c,
          m_labels := [K8sManagedByLabel \<mapsto> KubeNfvName, K8sSourceLabel \<mapsto> sourceType],
          m_annotations := [''cdi.kubevirt.io/storage.bind.immediate.requested'' \<mapsto> ''true'']\<rparr>,
        dv_source = Some source, dv_contentType = ''kubevirt'',
        dv_storage = Some \<lparr>ds_size = sz, ds_accessModes = [cd_PreferredAccessMode cfg],
          ds_storageClassName = storageClassName, ds_dataSourceRef = None\<rparr>,
        dv_status_phase = [], dv_status_conditions = []\<rparr>))))))"

definition CreateVolumeImportSource ::
  "(string \<Rightarrow> bool) \<Rightarrow> 's cdiController \<Rightarrow> import_source \<Rightarrow> ('s, error, vis) act" where
  "CreateVolumeImportSource authority c source =
     and_then (wrap ''format VolumeImportSource name from source'' (sum_act (formatVisNameFromSourceType authority source))) (\<lambda>name.
     and_then (wrap ''identify source type from VolumeImportSource'' (sum_act (formatSourceNameFromSourceType source))) (\<lambda>sourceType.
     and_then (wrap ''identify source URL from VolumeImportSource'' (sum_act (formatSourceUrlFromSourceType source))) (\<lambda>sourceUrl.
     k8s_create (cc_client c) vis_k
       \<lparr>vis_meta = empty_meta\<lparr>m_name := name, m_namespace := cc_namespace c,
          m_labels := [K8sManagedByLabel \<mapsto> KubeNfvName, K8sSourceLabel \<mapsto> sourceType, K8sIsUploadLabel \<mapsto> ''false''],
          m_annotations := [K8sSourceUrlAnnotation \<mapsto> sourceUrl]\<rparr>,
        vis_source = Some source\<rparr>)))"

subsection \<open>\<open>http/manager.go\<close>\<close>

definition softwareImageInfoFromVolumeImportSource :: "vis \<Rightarrow> error + image_info" where
  "softwareImageInfoFromVolumeImportSource vis =
     (if \<not> IsObjectInstantiated (vis_meta vis) then Inl (ErrK8sObjectNotInstantiated ''VolumeImportSource'' [])
      else if \<not> IsObjectManagedByKubeNfv (vis_meta vis) then
        Inl (ErrK8sObjectNotManagedByKubeNfv ''VolumeImportSource'' (m_name (vis_meta vis)) (m_uid (vis_meta vis)))
      else if m_labels (vis_meta vis) K8sSourceLabel \<notin> {Some HTTP, Some HTTPS} then
        Inl (Wrap ''http image manager cannot convert image with source'' ErrUnsupported)
      else Inr \<lparr>si_id = Some (m_uid (vis_meta vis)), si_name = m_name (vis_meta vis),
        si_createdAt = Some (m_creationTimestamp (vis_meta vis)), si_updatedAt = Some (m_creationTimestamp (vis_meta vis)),
        si_size = Some \<lparr>q_amount = 5 * 1024 * 1024 * 1024, q_format = ''BinarySI''\<rparr>, si_status = [],
        si_metadata = Some (m_labels (vis_meta vis) ++ m_annotations (vis_meta vis))\<rparr>)"

definition http_opts :: "(string \<Rightarrow> bool) \<Rightarrow> string \<Rightarrow> bool \<times> get_dv_opt list" where
  "http_opts isUUID i =
     (if has_prefix i ''http'' \<or> has_prefix i ''https'' then (True, [FindBySourceUrl i])
      else if isUUID i then (False, [FindByUID i])
      else (False, [FindByName i]))"

definition http_GetImage ::
  "(string \<Rightarrow> bool) \<Rightarrow> (string \<Rightarrow> bool) \<Rightarrow> 's cdiController \<Rightarrow> string option \<Rightarrow> ('s, error, image_info) act" where
  "http_GetImage authority isUUID c imageId =
     (if \<not> has_value imageId then throw (ErrInvalidArgument ''image id'' ''cannot be empty'')
      else (case http_opts isUUID (str_or_empty imageId) of (isSource, getDvOpts) \<Rightarrow>
        handle (GetVolumeImportSource c getDvOpts)
          (\<lambda>vis. sum_act (softwareImageInfoFromVolumeImportSource vis))
          (\<lambda>err. if \<not> k8s_IsNotFound err \<and> \<not> errors_As is_ErrNotFound err
             then throw (Wrap ''get k8s data volume for image'' err)
             else if \<not> isSource then throw (Wrap ''initial image placement requires source URL as imageId'' ErrUnsupported)
             else and_then (wrap ''create k8s VolumeImportSource resource'' (CreateVolumeImportSource authority c
               \<lparr>src_http = Some \<lparr>hs_url = str_or_empty imageId, hs_certConfigMap = [], hs_secretRef = [], hs_extraHeaders = []\<rparr>\<rparr>)) (\<lambda>vis.
             sum_act (softwareImageInfoFromVolumeImportSource vis)))))"

definition http_ListImages :: "'s cdiController \<Rightarrow> ('s, error, image_info list) act" where
  "http_ListImages c =
     and_then (wrap ''list volume import sources'' (ListVolumeImportSources c)) (\<lambda>images.
     for_each (\<lambda>img. wrap ''convert volume import source to image info'' (sum_act (softwareImageInfoFromVolumeImportSource img))) images)"


text \<open>\<open>UploadImage\<close> is not implemented; \<open>softwareImageInfoFromDv\<close> reads the storage section, which may be nil;
  \<open>tryCalculeteContentLength\<close> (which no caller uses yet) works on the response of a HEAD request, the parameter \<open>head\<close>.\<close>

definition http_UploadImage :: "string option \<Rightarrow> string \<Rightarrow> ('s, error, unit) act" where
  "http_UploadImage imageId location = throw ErrNotImplemented"

definition softwareImageInfoFromDv :: "dv \<Rightarrow> ('s, error, image_info) act" where
  "softwareImageInfoFromDv d = and_then (deref (dv_storage d)) (\<lambda>storage.
     ret \<lparr>si_id = Some (m_uid (dv_meta d)), si_name = m_name (dv_meta d), si_createdAt = None, si_updatedAt = None,
       si_size = Some (ds_size storage), si_status = [], si_metadata = None\<rparr>)"

record http_response =
  hr_statusCode :: int
  hr_status :: string
  hr_header :: labels

definition ParseInt :: "string \<Rightarrow> int option" where
  "ParseInt s = (case s of c # d # cs \<Rightarrow> if c = CHR ''+'' \<and> d \<noteq> CHR ''-'' then parse_int64 (d # cs) else parse_int64 s | _ \<Rightarrow> parse_int64 s)"

definition tryCalculeteContentLength :: "(string \<Rightarrow> ('s, error, http_response) act) \<Rightarrow> string \<Rightarrow> ('s, error, int) act" where
  "tryCalculeteContentLength head url =
     and_then (wrap (''make HEAD request to '' @ quoted url) (head url)) (\<lambda>resp.
     if hr_statusCode resp \<noteq> 200 then throw (Plain (''http request to '' @ quoted url @ '' failed with status: '' @ hr_status resp))
     else (let contentLength = (case hr_header resp ''Content-Length'' of Some v \<Rightarrow> v | None \<Rightarrow> []) in
       if contentLength = [] then throw (Plain ''Content-Length header is missing'')
       else (case ParseInt contentLength of
           None \<Rightarrow> throw (Wrap (''parse Content-Length header for '' @ quoted url) (Plain ''invalid syntax''))
         | Some n \<Rightarrow> ret n)))"


subsection \<open>Lemmas\<close>

lemma name_char_dash [simp]: "name_char (CHR ''-'')"
  by (simp add: name_char_def)

lemma replace_runs_chars: "c \<in> set (replace_runs s) \<Longrightarrow> name_char c"
  by (induction s rule: replace_runs.induct) (auto split: if_splits)

lemma replace_runs_id: "(\<And>c. c \<in> set s \<Longrightarrow> name_char c) \<Longrightarrow> replace_runs s = s"
  by (induction s rule: replace_runs.induct) auto

lemma hd_dropWhile_not: "dropWhile P s \<noteq> [] \<Longrightarrow> \<not> P (hd (dropWhile P s))"
  by (induction s) auto

lemma trim_facts:
  "set (trim x s) \<subseteq> set s" "trim x s \<noteq> [] \<Longrightarrow> hd (trim x s) \<noteq> x" "trim x s \<noteq> [] \<Longrightarrow> last (trim x s) \<noteq> x"
proof -
  let ?d = "dropWhile (\<lambda>c. c = x) s"
  show "set (trim x s) \<subseteq> set s" by (auto simp: trim_def dest!: set_dropWhileD)
  show "trim x s \<noteq> [] \<Longrightarrow> last (trim x s) \<noteq> x"
    using hd_dropWhile_not [of "\<lambda>c. c = x" "rev ?d"] unfolding trim_def by (simp add: last_rev del: dropWhile_eq_Nil_conv)
  assume ne: "trim x s \<noteq> []"
  then have d: "?d \<noteq> []" unfolding trim_def by (metis dropWhile.simps(1) rev.simps(1))
  have "\<exists>r. trim x s @ r = ?d" unfolding trim_def by (metis rev_append rev_rev_ident takeWhile_dropWhile_id)
  then have "hd (trim x s) = hd ?d" using ne by (metis hd_append2)
  then show "hd (trim x s) \<noteq> x" using hd_dropWhile_not [OF d] by simp
qed

lemma trim_none: "s \<noteq> [] \<Longrightarrow> hd s \<noteq> x \<Longrightarrow> last s \<noteq> x \<Longrightarrow> trim x s = s"
proof -
  assume s: "s \<noteq> []" "hd s \<noteq> x" "last s \<noteq> x"
  then have "dropWhile (\<lambda>c. c = x) s = s" by (cases s) auto
  moreover have "dropWhile (\<lambda>c. c = x) (rev s) = rev s" using s(1,3) by (cases s rule: rev_cases) auto
  ultimately show ?thesis by (simp add: trim_def)
qed

lemma name_char_low: "name_char c \<Longrightarrow> byte_of c < 128 \<and> \<not> in_range 65 90 c"
  by (auto simp: name_char_def in_range_def is_digit_def byte_of_def)

lemma to_lower_id: "(\<And>c. c \<in> set s \<Longrightarrow> name_char c) \<Longrightarrow> to_lower s = s"
proof (induction s)
  case (Cons c s)
  then show ?case using name_char_low [of c] by simp
qed simp

context api_server
begin

lemma meets_find_by_url:
  assumes "\<And>x. x \<in> set xs \<Longrightarrow> source x \<noteq> None"
  shows "meets (find_by_url meta source u xs) s
    (\<lambda>r t. t = s \<and> (case r of None \<Rightarrow> True | Some x \<Rightarrow> x \<in> set xs \<and> (\<exists>src h. source x = Some src \<and> src_http src = Some h \<and> hs_url h = u)))
    (\<lambda>_ _. False)"
  using assms
proof (induction xs)
  case Nil
  then show ?case by (simp add: meets_ret)
next
  case (Cons x xs)
  have IH: "meets (find_by_url meta source u xs) s
    (\<lambda>r t. t = s \<and> (case r of None \<Rightarrow> True | Some y \<Rightarrow> y \<in> set (x # xs) \<and> (\<exists>src h. source y = Some src \<and> src_http src = Some h \<and> hs_url h = u)))
    (\<lambda>_ _. False)"
    by (rule meets_weaken [OF Cons.IH]) (use Cons.prems in \<open>auto split: option.splits\<close>)
  obtain src where src: "source x = Some src" using Cons.prems [of x] by auto
  show ?case
    using IH src by (auto simp: deref_def intro: meets_ret split: option.splits sum.splits)
qed

end


subsection \<open>Names\<close>

definition dv_name_ok :: "string \<Rightarrow> bool" where
  "dv_name_ok n \<longleftrightarrow> list_all name_char n \<and> length n \<le> 253 \<and> (n \<noteq> [] \<longrightarrow> hd n \<noteq> CHR ''-'') \<and>
     (n \<noteq> [] \<and> length n < 253 \<longrightarrow> last n \<noteq> CHR ''-'')"

lemma formatDvName_ok:
  assumes "formatDvNameFromHttpSource authority h = Inr n"
  shows "dv_name_ok n"
proof -
  obtain l where n: "n = (if length (trim (CHR ''-'') (replace_runs l)) > 253 then take 253 (trim (CHR ''-'') (replace_runs l))
      else trim (CHR ''-'') (replace_runs l))"
    using assms by (auto simp: formatDvNameFromHttpSource_def Let_def split: sum.splits)
  have "set n \<subseteq> set (replace_runs l)" using n trim_facts(1) [of "CHR ''-''" "replace_runs l"] by (auto dest: in_set_takeD)
  moreover have "hd n \<noteq> CHR ''-''" if "n \<noteq> []" using that n trim_facts(2) [of "CHR ''-''" "replace_runs l"] by (auto simp: hd_take split: if_splits)
  moreover have "last n \<noteq> CHR ''-''" if "n \<noteq> []" "length n < 253"
    using that n trim_facts(3) [of "CHR ''-''" "replace_runs l"] by (auto split: if_splits)
  ultimately show ?thesis using n by (auto simp: dv_name_ok_def list_all_iff dest: replace_runs_chars)
qed

lemma name_char_not:
  "name_char c \<Longrightarrow> c \<notin> {CHR ''/'', CHR ''.'', CHR ''#'', CHR ''?'', CHR ''%''} \<and> \<not> is_ctl c"
  by (auto simp: name_char_def is_ctl_def in_range_def is_digit_def byte_of_def)

lemma unescape_id: "CHR ''%'' \<notin> set s \<Longrightarrow> unescape s = Inr s"
  by (induction s rule: unescape.induct) auto

lemma cut_absent: "x \<notin> set s \<Longrightarrow> cut x s = (s, [])"
proof -
  assume "x \<notin> set s"
  then have "takeWhile (\<lambda>c. c \<noteq> x) s = s" by (auto simp: takeWhile_eq_all_conv)
  then show ?thesis unfolding cut_def Let_def by (simp only: le_SucI length_drop drop_all order_refl)
qed

lemma cut_present: "x \<notin> set s \<Longrightarrow> cut x (s @ x # t) = (s, t)"
proof -
  assume "x \<notin> set s"
  then have "takeWhile (\<lambda>c. c \<noteq> x) (s @ x # t) = s" by (subst takeWhile_append2) auto
  then show ?thesis by (simp add: cut_def)
qed

lemma file_path:
  assumes "CHR ''/'' \<notin> set f" and "f \<noteq> []"
  shows "path_Base (CHR ''/'' # f) = f"
proof -
  have "hd (rev f) \<noteq> CHR ''/''" using assms by (metis hd_in_set rev_is_Nil_conv set_rev)
  then have "dropWhile (\<lambda>c. c = CHR ''/'') (rev f @ [CHR ''/'']) = rev f @ [CHR ''/'']"
    using assms(2) by (cases "rev f") auto
  moreover have "takeWhile (\<lambda>c. c \<noteq> CHR ''/'') (rev f @ [CHR ''/'']) = rev f" using assms(1) by (subst takeWhile_append2) auto
  ultimately show ?thesis using assms(2) by (simp add: path_Base_def)
qed

lemma file_ext:
  assumes "CHR ''.'' \<notin> set e" and "CHR ''/'' \<notin> set e"
  shows "path_Ext (n @ CHR ''.'' # e) = CHR ''.'' # e" "trim_suffix (n @ CHR ''.'' # e) (CHR ''.'' # e) = n"
proof -
  have "takeWhile (\<lambda>c. c \<noteq> CHR ''.'' \<and> c \<noteq> CHR ''/'') (rev e @ CHR ''.'' # rev n) = rev e" using assms by (subst takeWhile_append2) auto
  then show "path_Ext (n @ CHR ''.'' # e) = CHR ''.'' # e" by (simp add: path_Ext_def)
  show "trim_suffix (n @ CHR ''.'' # e) (CHR ''.'' # e) = n" by (simp add: trim_suffix_def has_prefix_iff)
qed

lemma scheme_https: "getScheme (''https:'' @ r) = Inr (''https'', r)"
  by (simp add: getScheme_def is_alpha_def in_range_def is_digit_def byte_of_def)

lemma url_path:
  assumes "authority host" and "set (host @ f) \<inter> {CHR ''/'', CHR ''?'', CHR ''#'', CHR ''%''} = {}"
    and ctl: "\<And>c. c \<in> set (host @ f) \<Longrightarrow> \<not> is_ctl c"
  shows "url_Parse authority (''https://'' @ host @ CHR ''/'' # f) = Inr (CHR ''/'' # f)"
proof -
  let ?u = "''https://'' @ host @ CHR ''/'' # f" and ?r = "''//'' @ host @ CHR ''/'' # f"
  have "CHR ''#'' \<notin> set ?u" "CHR ''?'' \<notin> set ?r" using assms(2) by auto
  then have c: "cut (CHR ''#'') ?u = (?u, [])" "cut (CHR ''?'') ?r = (?r, [])" by (simp_all add: cut_absent del: append_Cons)
  have a: "cut (CHR ''/'') (host @ CHR ''/'' # f) = (host, f)" using assms(2) by (simp add: cut_present)
  have "\<not> list_ex is_ctl ?u" using ctl by (auto simp: list_ex_iff is_ctl_def byte_of_def)
  moreover have "getScheme ?u = Inr (''https'', ?r)" using scheme_https [of ?r] by simp
  moreover have "unescape (CHR ''/'' # f) = Inr (CHR ''/'' # f)" using assms(2) by (intro unescape_id) auto
  ultimately have "url_parse authority ?u = Inr (CHR ''/'' # f)"
    using assms(1) a c(2) by (simp add: url_parse_def Let_def has_prefix_iff del: unescape.simps)
  then show ?thesis by (simp add: url_Parse_def c(1) del: append_Cons append.simps)
qed

lemma formatDvName_file:
  assumes "authority host" and "set host \<inter> {CHR ''/'', CHR ''?'', CHR ''#'', CHR ''%''} = {}" and "list_all (\<lambda>c. \<not> is_ctl c) host"
    and n: "list_all name_char n" "n \<noteq> []" "hd n \<noteq> CHR ''-''" "last n \<noteq> CHR ''-''" "length n \<le> 253" and e: "list_all name_char e"
    and u: "hs_url h = ''https://'' @ host @ CHR ''/'' # n @ CHR ''.'' # e"
  shows "formatDvNameFromHttpSource authority h = Inr n"
proof -
  have nc: "name_char c" if "c \<in> set n \<union> set e" for c using that n(1) e by (auto simp: list_all_iff)
  note good = nc [THEN name_char_not]
  have "\<not> is_ctl (CHR ''.'')" by (simp add: is_ctl_def byte_of_def)
  then have "url_Parse authority (hs_url h) = Inr (CHR ''/'' # n @ CHR ''.'' # e)"
    unfolding u using assms(1,2) by (intro url_path) (use good assms(3) in \<open>auto simp: list_all_iff\<close>)
  moreover have "path_Base (CHR ''/'' # n @ CHR ''.'' # e) = n @ CHR ''.'' # e" by (rule file_path) (use good in auto)
  moreover have "path_Ext (n @ CHR ''.'' # e) = CHR ''.'' # e" "trim_suffix (n @ CHR ''.'' # e) (CHR ''.'' # e) = n"
    using file_ext [of e n] good by auto
  moreover have "to_lower n = n" "replace_runs n = n" using nc by (auto intro: to_lower_id replace_runs_id)
  ultimately show ?thesis
    using n by (simp add: formatDvNameFromHttpSource_def Let_def trim_none)
qed



subsection \<open>Lookup\<close>

definition vis_url :: "vis \<Rightarrow> string option" where
  "vis_url v = Option.bind (vis_source v) (\<lambda>src. map_option hs_url (src_http src))"

lemma http_opts_src: "fst (http_opts isUUID i) \<longleftrightarrow> has_prefix i ''http''"
  and http_opts_other: "\<not> has_prefix i ''http'' \<Longrightarrow> snd (http_opts isUUID i) = (if isUUID i then [FindByUID i] else [FindByName i])"
  by (auto simp: http_opts_def has_prefix_iff)

context api_server
begin

lemma meets_GetVis:
  assumes s: "inv s" and c: "cc_client c = cl"
    and src: "\<forall>n v. view s (KVis, cc_namespace c, n) = Some (OVis v) \<longrightarrow> vis_source v \<noteq> None"
  shows "meets (GetVolumeImportSource c (snd (http_opts isUUID i))) s
    (\<lambda>v t. inv t \<and> view t = view s \<and> (\<exists>n. view s (KVis, cc_namespace c, n) = Some (OVis v)) \<and> (has_prefix i ''http'' \<longrightarrow> vis_url v = Some i))
    (\<lambda>e t. inv t \<and> view t = view s \<and> (has_prefix i ''http'' \<longrightarrow> is_ErrInvalidArgument e))"
proof (cases "has_prefix i ''http''")
  case True
  then have i: "i \<noteq> []" by (auto simp: has_prefix_iff)
  have url: "meets (find_by_url vis_meta vis_source i xs) t
      (\<lambda>r u. u = t \<and> (case r of None \<Rightarrow> True | Some x \<Rightarrow> x \<in> set xs \<and> vis_url x = Some i)) (\<lambda>_ _. False)"
    if "\<And>x. x \<in> set xs \<longleftrightarrow> (\<exists>n. view s (KVis, cc_namespace c, n) = Some (OVis x))" for xs t
    by (rule meets_weaken [OF meets_find_by_url]) (use that src in \<open>auto simp: vis_url_def split: option.splits\<close>)
  show ?thesis
    using True i unfolding GetVolumeImportSource_def get_by_opts_def Let_def c
    by (auto simp: http_opts_def apply_opts_def FindBySourceUrl_def matches_def
        intro!: meets_and_then meets_list [OF s] meets_weaken [OF url] meets_ret meets_throw split: option.splits)
next
  case False
  then show ?thesis
    unfolding GetVolumeImportSource_def get_by_opts_def Let_def c http_opts_other [OF False]
    by (auto simp: apply_opts_def FindByUID_def FindByName_def matches_def s
        intro!: meets_and_then meets_get [OF s] meets_list [OF s] meets_ret meets_throw dest!: find_SomeD split: option.splits)
qed

lemma meets_http_GetImage:
  assumes s: "inv s" and c: "cc_client c = cl"
    and src: "\<forall>n v. view s (KVis, cc_namespace c, n) = Some (OVis v) \<longrightarrow> vis_source v \<noteq> None"
  shows "meets (http_GetImage authority isUUID c (Some i)) s
    (\<lambda>info t. view t = view s \<and> (\<exists>n v. view s (KVis, cc_namespace c, n) = Some (OVis v) \<and> IsObjectManagedByKubeNfv (vis_meta v) \<and>
       si_id info = Some (m_uid (vis_meta v)) \<and> (has_prefix i ''http'' \<longrightarrow> vis_url v = Some i)))
    (\<lambda>e t. view t = view s \<and> (has_prefix i ''http'' \<longrightarrow> errors_As is_ErrInvalidArgument e \<or>
       (\<exists>n v. view s (KVis, cc_namespace c, n) = Some (OVis v) \<and> vis_url v = Some i)))"
proof -
  obtain isSource getDvOpts where o: "http_opts isUUID i = (isSource, getDvOpts)" by force
  then have src_iff: "isSource \<longleftrightarrow> has_prefix i ''http''" using http_opts_src [of isUUID i] by simp
  note get = meets_GetVis [OF s c src, where isUUID = isUUID and i = i, unfolded o snd_conv]
  have conv: "meets (sum_act (softwareImageInfoFromVolumeImportSource v)) t Q E"
    if "\<And>info. IsObjectManagedByKubeNfv (vis_meta v) \<Longrightarrow> si_id info = Some (m_uid (vis_meta v)) \<Longrightarrow> Q info t" "\<And>e. E e t" for v t Q E
    using that by (auto simp: softwareImageInfoFromVolumeImportSource_def intro!: meets_throw meets_ret)
  show ?thesis
    unfolding http_GetImage_def
    by (auto simp: o has_value_def str_or_empty_def intro!: meets_throw meets_handle meets_weaken [OF get] conv
        elim!: is_ErrInvalidArgument.elims(2) simp: src_iff)
qed

end

text \<open>C40. On a fault-free API server \<open>GetImage\<close> of the HTTP image manager changes no stored object. It returns managed
  VolumeImportSources only, for a URL one whose source is that URL; a URL of no stored source, for which the comment promises that
  the image is created, is refused with InvalidArgument, because the CDI controller reports a missing source by that error.\<close>

theorem http_GetImage_never_creates:
  assumes "api_server cl view I" and "I s" and "cc_client c = cl"
    and "\<forall>n v. view s (KVis, cc_namespace c, n) = Some (OVis v) \<longrightarrow> vis_source v \<noteq> None"
  shows "case http_GetImage authority isUUID c (Some i) s of
      (Ok info, t) \<Rightarrow> view t = view s \<and> (\<exists>n v. view s (KVis, cc_namespace c, n) = Some (OVis v) \<and>
        IsObjectManagedByKubeNfv (vis_meta v) \<and> si_id info = Some (m_uid (vis_meta v)) \<and> (has_prefix i ''http'' \<longrightarrow> vis_url v = Some i))
    | (Err e, t) \<Rightarrow> view t = view s \<and> (has_prefix i ''http'' \<longrightarrow> errors_As is_ErrInvalidArgument e \<or>
        (\<exists>n v. view s (KVis, cc_namespace c, n) = Some (OVis v) \<and> vis_url v = Some i))
    | (Panic, t) \<Rightarrow> False"
  using api_server.meets_http_GetImage [OF assms, where authority = authority and isUUID = isUUID and i = i]
  by (simp add: meets_def split: prod.splits result.splits)

theorem http_GetImage_never_creates_witness:
  "\<exists>e t. http_GetImage (\<lambda>_. True) (\<lambda>_. False) \<lparr>cc_client = mem_client, cc_namespace = ''kube-nfv''\<rparr> (Some ''https://h.org/a.img'') mem_empty =
     (Err e, t) \<and> mem_view t = mem_view mem_empty \<and> errors_As is_ErrInvalidArgument e"
  using http_GetImage_never_creates [OF mem.api_server_axioms mem_inv_empty,
      where c = "\<lparr>cc_client = mem_client, cc_namespace = ''kube-nfv''\<rparr>" and authority = "\<lambda>_. True" and isUUID = "\<lambda>_. False"
        and i = "''https://h.org/a.img''"]
  by (auto simp: mem_empty_def mem_view_def has_prefix_iff split: prod.splits result.splits)

end
