(* ===== verification/Image_Local.thy ===== *)
theory Image_Local
  imports Image_Http
begin

unbundle bit_operations_syntax

text \<open>
  The local image manager (\<open>internal/kubevim/image/local/manager.go\<close>): images are the files of a directory. The calls of package
  \<open>os\<close> it makes are a record of functions on an arbitrary state, as the Kubernetes client is; the locale
  \<open>file_system\<close> states what a file system without faults does, and is interpreted on a disk in memory. \<open>filepath.Clean\<close>, \<open>Join\<close> and
  \<open>Dir\<close> are written out. An open file is known by its path, and \<open>io.Copy\<close> reads the source when it runs, after the
  destination was truncated. The mutex serialises the operations, so each is one action.
\<close>

subsection \<open>\<open>path/filepath\<close>\<close>

fun split_slash :: "string \<Rightarrow> string list" where
  "split_slash [] = [[]]"
| "split_slash (c # cs) = (if c = CHR ''/'' then [] # split_slash cs
     else (case split_slash cs of p # ps \<Rightarrow> (c # p) # ps | [] \<Rightarrow> [[c]]))"

definition clean_step :: "bool \<Rightarrow> string list \<Rightarrow> string \<Rightarrow> string list" where
  "clean_step rooted acc p =
     (if p = [] \<or> p = ''.'' then acc
      else if p = ''..'' then
        (if acc \<noteq> [] \<and> last acc \<noteq> ''..'' then butlast acc else if rooted then acc else acc @ [p])
      else acc @ [p])"

fun join_slash :: "string list \<Rightarrow> string" where
  "join_slash [] = []"
| "join_slash [p] = p"
| "join_slash (p # q # ps) = p @ CHR ''/'' # join_slash (q # ps)"

definition filepath_Clean :: "string \<Rightarrow> string" where
  "filepath_Clean path = (let rooted = has_prefix path ''/''; out = join_slash (foldl (clean_step rooted) [] (split_slash path)) in
     if rooted then CHR ''/'' # out else if out = [] then ''.'' else out)"

definition filepath_Join :: "string \<Rightarrow> string \<Rightarrow> string" where
  "filepath_Join a b = (if a = [] \<and> b = [] then [] else filepath_Clean (join_slash (filter (\<lambda>e. e \<noteq> []) [a, b])))"

definition filepath_Dir :: "string \<Rightarrow> string" where
  "filepath_Dir path = filepath_Clean (rev (dropWhile (\<lambda>c. c \<noteq> CHR ''/'') (rev path)))"

subsection \<open>Package \<open>os\<close>\<close>

record file_info =
  fi_IsDir :: bool
  fi_Mode :: "32 word"

record 's os =
  os_Stat :: "string \<Rightarrow> ('s, error, file_info) act"
  os_ReadDir :: "string \<Rightarrow> ('s, error, string list) act"
  os_Open :: "string \<Rightarrow> ('s, error, string) act"
  os_Create :: "string \<Rightarrow> ('s, error, string) act"
  io_Copy :: "string \<Rightarrow> string \<Rightarrow> ('s, error, unit) act"

definition fs_ErrNotExist :: error where
  "fs_ErrNotExist = Plain ''file does not exist''"

text \<open>\<open>os.IsNotExist\<close> looks below one \<open>PathError\<close>.\<close>

definition os_IsNotExist :: "error \<Rightarrow> bool" where
  "os_IsNotExist err \<longleftrightarrow> (case err of Wrap _ e \<Rightarrow> e = fs_ErrNotExist | _ \<Rightarrow> err = fs_ErrNotExist)"

subsection \<open>The manager\<close>

record local_config =
  lc_location :: "string option"

record 's local_manager =
  lm_os :: "'s os"
  lm_location :: string

definition NewLocalImageManager :: "'s os \<Rightarrow> local_config option \<Rightarrow> ('s, error, 's local_manager) act" where
  "NewLocalImageManager os cfgp =
     and_then (deref cfgp) (\<lambda>cfg.
     and_then (deref (lc_location cfg)) (\<lambda>location.
     and_then (wrap (''get file stats for location '' @ quoted location) (os_Stat os location)) (\<lambda>stat.
     if \<not> fi_IsDir stat then throw (ErrInvalidArgument ''location'' (quoted location @ '' is not a directory''))
     else if fi_Mode stat AND 256 = 0 then throw (ErrPermissionDenied (''location '' @ quoted location) ''no read permissions'')
     else if fi_Mode stat AND 128 = 0 then throw (ErrPermissionDenied (''location '' @ quoted location) ''no write permissions'')
     else ret \<lparr>lm_os = os, lm_location = location\<rparr>)))"

definition nameMatchRule :: "string option \<Rightarrow> string \<Rightarrow> bool" where
  "nameMatchRule idp fileName = (case idp of None \<Rightarrow> False
     | Some i \<Rightarrow> trim_suffix fileName (path_Ext fileName) = i \<or> fileName = i)"

definition local_convertImage :: "string \<Rightarrow> error + image_info" where
  "local_convertImage file = Inr \<lparr>si_id = None, si_name = [], si_createdAt = None, si_updatedAt = None, si_size = None, si_status = [],
     si_metadata = None\<rparr>"

definition local_GetImage :: "'s local_manager \<Rightarrow> string option \<Rightarrow> ('s, error, image_info) act" where
  "local_GetImage m idp =
     (if \<not> has_value idp then throw (ErrInvalidArgument ''image id'' ''cannot be empty'')
      else and_then (wrap (''read image directory '' @ quoted (lm_location m)) (os_ReadDir (lm_os m) (lm_location m))) (\<lambda>files.
        (case find (nameMatchRule idp) files of
           Some file \<Rightarrow> sum_act (local_convertImage file)
         | None \<Rightarrow> throw (ErrNotFound ''image'' (str_or_empty idp)))))"

fun convert_all :: "string list \<Rightarrow> image_info list" where
  "convert_all [] = []"
| "convert_all (f # fs) = (case local_convertImage f of Inl err \<Rightarrow> convert_all fs | Inr info \<Rightarrow> info # convert_all fs)"

definition local_ListImages :: "'s local_manager \<Rightarrow> ('s, error, image_info list) act" where
  "local_ListImages m =
     and_then (wrap (''read image directory '' @ quoted (lm_location m)) (os_ReadDir (lm_os m) (lm_location m))) (\<lambda>files.
     ret (convert_all files))"

text \<open>The check of the directory above the destination. When it is no directory the error wraps nil.\<close>

definition check_dest_dir :: "'s os \<Rightarrow> string \<Rightarrow> ('s, error, unit) act" where
  "check_dest_dir os destDir = handle (os_Stat os destDir)
     (\<lambda>info. if fi_IsDir info then ret () else throw (Plain (''access destination directory '' @ quoted destDir)))
     (\<lambda>err. if os_IsNotExist err then throw (ErrNotFound ''destination directory'' destDir)
        else throw (Wrap (''access destination directory '' @ quoted destDir) err))"

definition local_UploadImage :: "'s local_manager \<Rightarrow> string option \<Rightarrow> string \<Rightarrow> ('s, error, unit) act" where
  "local_UploadImage m idp location =
     (if \<not> has_value idp then throw (ErrInvalidArgument ''image id'' ''cannot be empty'')
      else and_then (wrap (''read source directory '' @ quoted (lm_location m)) (os_ReadDir (lm_os m) (lm_location m))) (\<lambda>files.
        (let sourceFilePath = (case find (nameMatchRule idp) files of Some file \<Rightarrow> filepath_Join (lm_location m) file | None \<Rightarrow> []) in
        if sourceFilePath = [] then throw (ErrNotFound ''image file'' (str_or_empty idp))
        else
        and_then (check_dest_dir (lm_os m) (filepath_Dir location)) (\<lambda>_.
        and_then (wrap (''open source file '' @ quoted sourceFilePath) (os_Open (lm_os m) sourceFilePath)) (\<lambda>sourceFile.
        (let destinationFilePath = filepath_Join location (str_or_empty idp) in
        and_then (wrap (''create destination file '' @ quoted destinationFilePath) (os_Create (lm_os m) destinationFilePath)) (\<lambda>destFile.
        wrap (''copy image '' @ quoted (str_or_empty idp)) (io_Copy (lm_os m) destFile sourceFile))))))))"

subsection \<open>Paths\<close>

definition plain_name :: "string \<Rightarrow> bool" where
  "plain_name n \<longleftrightarrow> n \<noteq> [] \<and> CHR ''/'' \<notin> set n \<and> n \<noteq> ''.'' \<and> n \<noteq> ''..''"

lemma split_slash_ne [simp]: "split_slash s \<noteq> []"
  by (induction s) (auto split: list.splits)

lemma split_slash_name: "CHR ''/'' \<notin> set n \<Longrightarrow> split_slash n = [n]"
  by (induction n) auto

lemma split_slash_snoc: "CHR ''/'' \<notin> set n \<Longrightarrow> split_slash (d @ CHR ''/'' # n) = split_slash d @ [n]"
  by (induction d) (auto simp: split_slash_name split: list.splits)

lemma join_slash_snoc: "join_slash (ps @ [n]) = (if ps = [] then n else join_slash ps @ CHR ''/'' # n)"
  by (induction ps rule: join_slash.induct) auto

lemma Clean_snoc:
  assumes "plain_name n"
  shows "\<exists>pre. filepath_Clean (d @ CHR ''/'' # n) = pre @ n \<and> (pre = [] \<or> last pre = CHR ''/'')"
    and "filepath_Clean n = n"
proof -
  have n: "clean_step r acc n = acc @ [n]" for r acc using assms by (auto simp: clean_step_def plain_name_def)
  have "split_slash (d @ CHR ''/'' # n) = split_slash d @ [n]" using assms by (simp add: split_slash_snoc plain_name_def)
  then show "\<exists>pre. filepath_Clean (d @ CHR ''/'' # n) = pre @ n \<and> (pre = [] \<or> last pre = CHR ''/'')"
    using assms by (auto simp: filepath_Clean_def Let_def n join_slash_snoc plain_name_def)
  have "\<not> has_prefix n ''/''" using assms by (auto simp: has_prefix_iff plain_name_def)
  then show "filepath_Clean n = n"
    using assms n [of False "[]"] by (simp add: filepath_Clean_def split_slash_name plain_name_def)
qed

lemma Join_name:
  assumes "plain_name n"
  obtains pre where "filepath_Join d n = pre @ n" and "pre = [] \<or> last pre = CHR ''/''"
proof -
  have n: "n \<noteq> []" using assms by (simp add: plain_name_def)
  show ?thesis
  proof (cases "d = []")
    case True
    then show ?thesis using that [of "[]"] n Clean_snoc(2) [OF assms] by (simp add: filepath_Join_def)
  next
    case False
    then show ?thesis using that n Clean_snoc(1) [OF assms, of d] by (auto simp: filepath_Join_def)
  qed
qed

lemma Base_Join [simp]:
  assumes "plain_name n"
  shows "path_Base (filepath_Join d n) = n"
proof -
  obtain pre where j: "filepath_Join d n = pre @ n" and pre: "pre = [] \<or> last pre = CHR ''/''" using Join_name [OF assms] .
  have n: "n \<noteq> []" "CHR ''/'' \<notin> set n" using assms by (auto simp: plain_name_def)
  then have "hd (rev n) \<noteq> CHR ''/''" by (metis hd_in_set rev_is_Nil_conv set_rev)
  then have "dropWhile (\<lambda>c. c = CHR ''/'') (rev n @ rev pre) = rev n @ rev pre" using n(1) by (cases "rev n") auto
  moreover have "takeWhile (\<lambda>c. c \<noteq> CHR ''/'') (rev n @ rev pre) = rev n"
    using n(2) pre by (cases pre rule: rev_cases) (auto, subst takeWhile_append2, auto)
  ultimately show ?thesis using n(1) by (simp add: path_Base_def j)
qed

lemma Join_ne [simp]: "plain_name n \<Longrightarrow> filepath_Join d n \<noteq> []"
  by (metis Join_name append_is_Nil_conv plain_name_def)

subsection \<open>File systems\<close>

text \<open>Names as a directory has them, and a file system without faults: the nodes by their paths, and the names in a directory.\<close>

datatype node = Dir | File string

locale file_system =
  fixes os :: "'s os" and node :: "'s \<Rightarrow> string \<Rightarrow> node option" and names :: "'s \<Rightarrow> string \<Rightarrow> string list" and inv :: "'s \<Rightarrow> bool"
  assumes readdir_law: "inv s \<Longrightarrow> node s d = Some Dir \<Longrightarrow> os_ReadDir os d s = (Ok (names s d), s)"
    and names_law: "inv s \<Longrightarrow> n \<in> set (names s d) \<Longrightarrow> plain_name n \<and> node s (filepath_Join d n) \<noteq> None"
    and stat_law: "inv s \<Longrightarrow> case node s p of
        None \<Rightarrow> \<exists>e. os_Stat os p s = (Err e, s) \<and> os_IsNotExist e
      | Some x \<Rightarrow> \<exists>info. os_Stat os p s = (Ok info, s) \<and> fi_IsDir info = (x = Dir)"
    and open_law: "inv s \<Longrightarrow> node s p \<noteq> None \<Longrightarrow> os_Open os p s = (Ok p, s)"
    and create_law: "inv s \<Longrightarrow> node s d = Some Dir \<Longrightarrow> plain_name n \<Longrightarrow> node s (filepath_Join d n) \<noteq> Some Dir \<Longrightarrow>
        \<exists>t. os_Create os (filepath_Join d n) s = (Ok (filepath_Join d n), t) \<and> inv t \<and> node t = (node s)(filepath_Join d n \<mapsto> File [])"
    and copy_law: "inv s \<Longrightarrow> node s src = Some (File c) \<Longrightarrow> node s dst = Some (File []) \<Longrightarrow>
        \<exists>t. io_Copy os dst src s = (Ok (), t) \<and> inv t \<and> node t = (node s)(dst \<mapsto> File c)"
begin

lemma GetImage_finds:
  assumes "inv s" and "lm_os m = os" and "node s (lm_location m) = Some Dir" and "i \<noteq> []"
  shows "local_GetImage m (Some i) s =
    (case find (nameMatchRule (Some i)) (names s (lm_location m)) of
       Some f \<Rightarrow> sum_act (local_convertImage f) s | None \<Rightarrow> (Err (ErrNotFound ''image'' i), s))"
  using readdir_law [OF assms(1,3)] assms(2,4)
  by (simp add: local_GetImage_def has_value_def str_or_empty_def run_and_then wrap_def handle_def act_simps split: option.splits)

lemma UploadImage_missing:
  assumes "inv s" and "lm_os m = os" and "node s (lm_location m) = Some Dir" and "i \<noteq> []"
    and "find (nameMatchRule (Some i)) (names s (lm_location m)) = None"
  shows "local_UploadImage m (Some i) location s = (Err (ErrNotFound ''image file'' i), s)"
  using readdir_law [OF assms(1,3)] assms(2,4,5)
  by (simp add: local_UploadImage_def has_value_def str_or_empty_def run_and_then wrap_def handle_def act_simps)

lemma UploadImage_found:
  assumes s: "inv s" and m: "lm_os m = os" and loc: "node s (lm_location m) = Some Dir" and i: "plain_name i"
    and f: "find (nameMatchRule (Some i)) (names s (lm_location m)) = Some n" and c: "node s (filepath_Join (lm_location m) n) = Some (File c)"
    and dir: "node s (filepath_Dir location) = Some Dir" "node s location = Some Dir" "node s (filepath_Join location i) \<noteq> Some Dir"
  shows "\<exists>t. local_UploadImage m (Some i) location s = (Ok (), t) \<and> inv t \<and>
    node t = (node s)(filepath_Join location i \<mapsto> File (if filepath_Join location i = filepath_Join (lm_location m) n then [] else c))"
proof -
  let ?src = "filepath_Join (lm_location m) n" and ?dst = "filepath_Join location i"
  have n: "plain_name n" using names_law [OF s] f find_SomeD by metis
  have ne: "i \<noteq> []" using i by (simp add: plain_name_def)
  obtain info where st: "os_Stat os (filepath_Dir location) s = (Ok info, s)" "fi_IsDir info" using stat_law [OF s, of "filepath_Dir location"] dir(1) by auto
  have op: "os_Open os ?src s = (Ok ?src, s)" using open_law [OF s] c by simp
  obtain t where cr: "os_Create os ?dst s = (Ok ?dst, t)" "inv t" "node t = (node s)(?dst \<mapsto> File [])" using create_law [OF s dir(2) i dir(3)] by blast
  have "node t ?src = Some (File (if ?dst = ?src then [] else c))" using cr(3) c by auto
  moreover have "node t ?dst = Some (File [])" using cr(3) by simp
  ultimately obtain u where cp: "io_Copy os ?dst ?src t = (Ok (), u)" "inv u" "node u = (node t)(?dst \<mapsto> File (if ?dst = ?src then [] else c))"
    using copy_law [OF cr(2)] by blast
  have "local_UploadImage m (Some i) location s = (Ok (), u)"
    using readdir_law [OF s loc] m ne f n st op cr(1) cp(1)
    by (simp add: local_UploadImage_def check_dest_dir_def has_value_def str_or_empty_def Let_def run_and_then wrap_def handle_def act_simps)
  then show ?thesis using cp(2,3) cr(3) by auto
qed

end

subsection \<open>A disk in memory\<close>

type_synonym disk = "(string \<times> node) list"

definition disk_names :: "disk \<Rightarrow> string \<Rightarrow> string list" where
  "disk_names s d = map (\<lambda>e. path_Base (fst e)) (filter (\<lambda>e. plain_name (path_Base (fst e)) \<and> filepath_Join d (path_Base (fst e)) = fst e) s)"

definition disk_write :: "string \<Rightarrow> string \<Rightarrow> disk \<Rightarrow> disk" where
  "disk_write p c s = (p, File c) # filter (\<lambda>e. fst e \<noteq> p) s"

definition disk_os :: "disk os" where
  "disk_os = \<lparr>
     os_Stat = (\<lambda>p s. (case map_of s p of None \<Rightarrow> (Err (Wrap (''stat '' @ p) fs_ErrNotExist), s) | Some x \<Rightarrow> (Ok \<lparr>fi_IsDir = (x = Dir), fi_Mode = 0x1ED\<rparr>, s))),
     os_ReadDir = (\<lambda>d s. if map_of s d = Some Dir then (Ok (disk_names s d), s) else (Err (Wrap (''open '' @ d) fs_ErrNotExist), s)),
     os_Open = (\<lambda>p s. if map_of s p = None then (Err (Wrap (''open '' @ p) fs_ErrNotExist), s) else (Ok p, s)),
     os_Create = (\<lambda>p s. if map_of s p \<noteq> Some Dir \<and> list_ex (\<lambda>e. snd e = Dir \<and> filepath_Join (fst e) (path_Base p) = p) s
        then (Ok p, disk_write p [] s) else (Err (Wrap (''open '' @ p) fs_ErrNotExist), s)),
     io_Copy = (\<lambda>dst src s. (case map_of s src of Some (File c) \<Rightarrow> (Ok (), disk_write dst c s) | _ \<Rightarrow> (Err (Plain ''is a directory''), s)))\<rparr>"

lemma map_of_disk_write [simp]: "map_of (disk_write p c s) = (map_of s)(p \<mapsto> File c)"
proof -
  have "map_of (filter (\<lambda>e. fst e \<noteq> p) s) q = map_of s q" if "q \<noteq> p" for q using that by (induction s) auto
  then show ?thesis by (auto simp: disk_write_def fun_eq_iff)
qed

interpretation disk: file_system disk_os map_of disk_names "\<lambda>_. True"
proof
  fix s d n
  show "n \<in> set (disk_names s d) \<Longrightarrow> plain_name n \<and> map_of s (filepath_Join d n) \<noteq> None"
    by (force simp: disk_names_def map_of_eq_None_iff)
next
  fix s :: disk and d n
  assume d: "map_of s d = Some Dir" and n: "plain_name n" and "map_of s (filepath_Join d n) \<noteq> Some Dir"
  moreover have "list_ex (\<lambda>e. snd e = Dir \<and> filepath_Join (fst e) n = filepath_Join d n) s"
    using map_of_SomeD [OF d] by (auto simp: list_ex_iff intro!: bexI [of _ "(d, Dir)"])
  ultimately show "\<exists>t. os_Create disk_os (filepath_Join d n) s = (Ok (filepath_Join d n), t) \<and> True \<and>
      map_of t = (map_of s)(filepath_Join d n \<mapsto> File [])"
    by (simp add: disk_os_def)
qed (auto simp: disk_os_def os_IsNotExist_def split: option.splits)


definition image_disk :: disk where
  "image_disk = [(''/'', Dir), (''/img'', Dir), (''/img/a.iso'', File ''bits''), (''/out'', Dir)]"


end
