(* ===== verification/Image_Glance.thy ===== *)
theory Image_Glance
  imports Image_Http
begin

text \<open>
  The glance image manager (\<open>internal/kubevim/image/glance/manager.go\<close>). What gophercloud and the file system do are parameters. The conversion of glance images
  is not written yet in the source: it yields nil without an error, and so does the model. The mutex serialises the
  operations, so each is one action.
\<close>

subsection \<open>The glance image manager\<close>

text \<open>\<open>EachPage\<close> hands every page to the callback, which collects images or stops with an error.\<close>

record ('s, 'c, 'img, 'page, 'rd) glance_api =
  ga_AuthenticatedClient :: "('s, error, 'c) act"
  ga_NewImageServiceV2 :: "'c \<Rightarrow> ('s, error, 'c) act"
  ga_Get :: "'c \<Rightarrow> string \<Rightarrow> ('s, error, 'img) act"
  ga_List :: "'c \<Rightarrow> ('s, error, 'c) act"
  ga_EachPage :: "'c \<Rightarrow> ('page \<Rightarrow> image_info option list \<Rightarrow> error + image_info option list) \<Rightarrow> image_info option list \<Rightarrow>
    ('s, error, image_info option list) act"
  ga_ExtractImages :: "'page \<Rightarrow> error + 'img list"
  ga_Download :: "'c \<Rightarrow> string \<Rightarrow> ('s, error, 'rd) act"
  ga_OpenFile :: "string \<Rightarrow> ('s, error, string) act"
  ga_Copy :: "string \<Rightarrow> 'rd \<Rightarrow> ('s, error, unit) act"

record ('s, 'c, 'img, 'page, 'rd) glance_manager =
  gl_api :: "('s, 'c, 'img, 'page, 'rd) glance_api"
  gl_serviceClient :: 'c

definition NewGlanceImageManager ::
  "('s, 'c, 'img, 'page, 'rd) glance_api \<Rightarrow> ('s, error, ('s, 'c, 'img, 'page, 'rd) glance_manager) act" where
  "NewGlanceImageManager api =
     and_then (wrap ''create openstack identity client'' (ga_AuthenticatedClient api)) (\<lambda>c.
     and_then (wrap ''create glance image service client'' (ga_NewImageServiceV2 api c)) (\<lambda>glanceClient.
     ret \<lparr>gl_api = api, gl_serviceClient = glanceClient\<rparr>))"

definition glance_convertImage :: "'img \<Rightarrow> error + image_info option" where
  "glance_convertImage img = Inr None"

definition glance_GetImage :: "('s, 'c, 'img, 'page, 'rd) glance_manager \<Rightarrow> string option \<Rightarrow> ('s, error, image_info option) act" where
  "glance_GetImage m idp =
     (if \<not> has_value idp then throw (ErrInvalidArgument ''image id'' ''cannot be empty'')
      else and_then (wrap (''get image '' @ quoted (str_or_empty idp) @ '' from glance service'') (ga_Get (gl_api m) (gl_serviceClient m) (str_or_empty idp))) (\<lambda>img.
        wrap (''convert glance image '' @ quoted (str_or_empty idp) @ '' to internal struct'') (sum_act (glance_convertImage img))))"

fun convert_page :: "'img list \<Rightarrow> image_info option list \<Rightarrow> error + image_info option list" where
  "convert_page [] imagesRes = Inr imagesRes"
| "convert_page (img # imgs) imagesRes = (case glance_convertImage img of
      Inl err \<Rightarrow> Inl (Wrap ''convert glance image to internal structure'' err)
    | Inr nfvImg \<Rightarrow> convert_page imgs (imagesRes @ [nfvImg]))"

definition glance_ListImages :: "('s, 'c, 'img, 'page, 'rd) glance_manager \<Rightarrow> ('s, error, image_info option list) act" where
  "glance_ListImages m =
     and_then (wrap ''list images from glance server'' (ga_List (gl_api m) (gl_serviceClient m))) (\<lambda>pager.
     wrap ''iterate over glance images'' (ga_EachPage (gl_api m) pager
       (\<lambda>p imagesRes. (case ga_ExtractImages (gl_api m) p of
           Inl err \<Rightarrow> Inl (Wrap ''extract images from glance list response'' err)
         | Inr imgs \<Rightarrow> convert_page imgs imagesRes)) []))"

definition glance_UploadImage :: "('s, 'c, 'img, 'page, 'rd) glance_manager \<Rightarrow> string option \<Rightarrow> string \<Rightarrow> ('s, error, unit) act" where
  "glance_UploadImage m idp location =
     (if \<not> has_value idp then throw (ErrInvalidArgument ''image id'' ''cannot be empty'')
      else and_then (wrap (''download image '' @ quoted (str_or_empty idp) @ '' from glance service'') (ga_Download (gl_api m) (gl_serviceClient m) (str_or_empty idp))) (\<lambda>img.
        and_then (wrap (''open/create file '' @ quoted location) (ga_OpenFile (gl_api m) location)) (\<lambda>file.
        wrap (''copy image data for image '' @ quoted (str_or_empty idp)) (ga_Copy (gl_api m) file img))))"

text \<open>Until the conversion is written the manager has no images to show: every success is nil.\<close>

theorem glance_GetImage_nil:
  "glance_GetImage m i s = (Ok info, t) \<Longrightarrow> info = None"
  by (auto simp: glance_GetImage_def glance_convertImage_def and_then_Ok_iff wrap_Ok_iff act_simps split: if_splits)

lemma convert_page_nil: "convert_page imgs res = Inr (res @ replicate (length imgs) None)"
  by (induction imgs arbitrary: res) (auto simp: glance_convertImage_def)

end
