(* ===== verification/Proto_Any.thy ===== *)
theory Proto_Any
  imports Errors
begin

text \<open>
  The protobuf \<open>Any\<close> helpers (\<open>internal/misc/proto.go\<close>). The constructor and the accessor of \<open>anypb\<close> are parameters. No code calls
  the helpers yet.
\<close>

subsection \<open>\<open>Any\<close> values\<close>

text \<open>The Go values the helpers accept: floats keep their own type, \<open>AOther\<close> is a value of another type.\<close>

datatype ('f, 'd, 'p) go_value =
    AString string | AInt32 "32 word" | AInt64 "64 word" | AFloat32 'f | AFloat64 'd | ABool bool | AProto 'p | AOther

text \<open>\<open>MarshalAny\<close> with the value \<open>*dst\<close> of before the call; the result is an error or the value \<open>*dst\<close> of after it. The assignment to \<open>dst\<close> is to the
  parameter, so that value is the same.\<close>

definition MarshalAny ::
  "(('f, 'd, 'p) go_value \<Rightarrow> error + 'any) \<Rightarrow> 'any option \<Rightarrow> ('f, 'd, 'p) go_value \<Rightarrow> error + 'any" where
  "MarshalAny anypb_New dst src = (case dst of
      None \<Rightarrow> Inl (ErrInvalidArgument ''destination'' ''cannot be nil'')
    | Some old \<Rightarrow> if src = AOther then Inl (ErrInvalidArgument ''source type'' ''unsupported type for marshaling'')
        else (case anypb_New src of Inl err \<Rightarrow> Inl (Wrap ''create protobuf Any from type'' err) | Inr new \<Rightarrow> Inr old))"

text \<open>\<open>UnmarshalAny\<close> into a pointer of the type of \<open>dst\<close>; \<open>unmarshalTo\<close> reads a wrapper of that type.\<close>

definition any_name :: "('f, 'd, 'p) go_value \<Rightarrow> string" where
  "any_name v = (case v of AString _ \<Rightarrow> ''string'' | AInt32 _ \<Rightarrow> ''int32'' | AInt64 _ \<Rightarrow> ''int64'' | AFloat32 _ \<Rightarrow> ''float32'' | AFloat64 _ \<Rightarrow> ''float64''
     | ABool _ \<Rightarrow> ''bool'' | AProto _ \<Rightarrow> ''proto.Message'' | AOther \<Rightarrow> [])"

definition UnmarshalAny ::
  "('any \<Rightarrow> ('f, 'd, 'p) go_value \<Rightarrow> error + ('f, 'd, 'p) go_value) \<Rightarrow> 'any option \<Rightarrow> ('f, 'd, 'p) go_value option \<Rightarrow>
   error + ('f, 'd, 'p) go_value" where
  "UnmarshalAny unmarshalTo src dst = (case src of
      None \<Rightarrow> Inl (ErrInvalidArgument ''source'' ''cannot be nil'')
    | Some a \<Rightarrow> (case dst of
        None \<Rightarrow> Inl (ErrInvalidArgument ''destination'' ''cannot be nil'')
      | Some d \<Rightarrow> if d = AOther then Inl (ErrInvalidArgument ''destination type'' ''unsupported type for unmarshaling'')
          else (case unmarshalTo a d of Inl err \<Rightarrow> Inl (Wrap (''unmarshal Any to '' @ any_name d) err) | Inr v \<Rightarrow> Inr v)))"

text \<open>What was marshaled is lost: after a successful \<open>MarshalAny\<close>, \<open>UnmarshalAny\<close> reads the value that was there before.\<close>

theorem MarshalAny_loses:
  assumes "MarshalAny anypb_New (Some old) v = Inr a"
  shows "UnmarshalAny unmarshalTo (Some a) d = UnmarshalAny unmarshalTo (Some old) d"
  using assms by (simp add: MarshalAny_def split: if_splits sum.splits)

end
