(* ===== verification/Gateway.thy ===== *)
theory Gateway
  imports K8s_Client Json "HOL-Library.List_Lexorder" "HOL-Library.Char_ord"
begin

text \<open>
  The REST gateway's translation of \<open>resource.Quantity\<close> (\<open>internal/gateway/quantity_marshaler.go\<close>) and of the query parameter
  \<open>filter\<close> (\<open>query.go\<close>). A protobuf message is the tree that \<open>protoreflect\<close> shows the code: its fields with their descriptors
  in order. The Go names of the fields of a message differ in more than the case of the first letter, as those \<open>protoc-gen-go\<close>
  makes do. The codec of grpc-gateway (\<open>JSONPb\<close>) and the JSON methods of \<open>Quantity\<close> are parameters; \<open>encoding/json\<close> is the one of
  theory \<open>Json\<close>, where a decoded Go map is the list of its entries in the order in which \<open>json.Marshal\<close> prints
  them. Number tokens are kept as they are (protojson prints 64-bit integers as strings).
\<close>

subsection \<open>Messages\<close>

record field =
  fd_Name :: string
  fd_JSONName :: string
  fd_goName :: string

text \<open>Fields whose kind is a message: of type \<open>Quantity\<close>, of type \<open>Filter\<close>, of another message type, and the repeated ones.
  \<open>FOther\<close> stands for scalars and maps. An unset pointer is \<open>None\<close>; a repeated field that is empty is nil.\<close>

datatype fval =
    FOther
  | FQuantity "quantity option"
  | FQuantities "quantity list"
  | FFilter "string option"
  | FFilters "string list"
  | FMessage "message option"
  | FMessages "message list"
and message = Message "(field \<times> fval) list"

fun msg_fields :: "message \<Rightarrow> (field \<times> fval) list" where
  "msg_fields (Message fs) = fs"

text \<open>\<open>FieldByNameFunc\<close>: the Go field is found when its name is the proto name, the JSON name, or the proto name with 32 taken from
  its first byte.\<close>

definition go_field :: "field \<Rightarrow> bool" where
  "go_field fd \<longleftrightarrow> fd_goName fd = fd_Name fd \<or> fd_goName fd = fd_JSONName fd \<or>
     (case fd_Name fd of c # cs \<Rightarrow> fd_goName fd = utf8_encode ((byte_of c + 224) mod 256) @ cs | [] \<Rightarrow> False)"

subsection \<open>Go maps\<close>

type_synonym jmap = "(string \<times> json) list"

fun insert_entry :: "string \<Rightarrow> json \<Rightarrow> jmap \<Rightarrow> jmap" where
  "insert_entry k v [] = [(k, v)]"
| "insert_entry k v (m # ms) = (if k < fst m then (k, v) # m # ms else m # insert_entry k v ms)"

definition put :: "string \<Rightarrow> json \<Rightarrow> jmap \<Rightarrow> jmap" where
  "put k v m = (if k \<in> set (map fst m) then map (\<lambda>e. if fst e = k then (k, v) else e) m else insert_entry k v m)"

text \<open>\<open>json.Unmarshal\<close> into an \<open>interface{}\<close>: of several members of an object with the same name the last one stays.\<close>

fun decode_any :: "json \<Rightarrow> json" where
  "decode_any (JArr xs) = JArr (map decode_any xs)"
| "decode_any (JObj ms) = JObj (fold (\<lambda>(k, v). put k v) (map (\<lambda>(k, v). (k, decode_any v)) ms) [])"
| "decode_any j = j"

text \<open>\<open>json.Unmarshal\<close> into a \<open>map[string]interface{}\<close>; \<open>None\<close> is the nil map.\<close>

definition decode_map :: "string \<Rightarrow> error + jmap option" where
  "decode_map data = (case parse_json data of
      None \<Rightarrow> Inl (Plain ''invalid JSON'')
    | Some JNull \<Rightarrow> Inr None
    | Some j \<Rightarrow> (case decode_any j of JObj m \<Rightarrow> Inr (Some m) | _ \<Rightarrow> Inl (Plain ''cannot unmarshal into map'')))"

subsection \<open>Requests\<close>

definition extractQuantityString :: "jmap \<Rightarrow> string \<Rightarrow> error + string" where
  "extractQuantityString jsonMap fieldName = (case map_of jsonMap fieldName of
      None \<Rightarrow> Inl (Plain ''field not found'')
    | Some (JObj quantityObj) \<Rightarrow> (case map_of quantityObj ''string'' of
          Some (JStr str) \<Rightarrow> Inr str
        | _ \<Rightarrow> Inl (Plain ''string field missing''))
    | Some _ \<Rightarrow> Inl (Plain ''not an object''))"

definition zero_quantity :: quantity where
  "zero_quantity = \<lparr>q_amount = 0, q_format = []\<rparr>"

text \<open>\<open>setQuantityField\<close>: \<open>Mutable\<close> allocates the Quantity, so the field is set even when the string is refused. The result is the new
  value of the field; the error is only logged by the caller. A repeated field panics in the type assertion once it is not nil.\<close>

definition setQuantityField :: "(string \<Rightarrow> error + quantity) \<Rightarrow> field \<Rightarrow> fval \<Rightarrow> string \<Rightarrow> ('s, error, fval) act" where
  "setQuantityField unmarshalQ fd v quantityStr = (case v of
      FQuantity q \<Rightarrow> (let allocated = (case q of None \<Rightarrow> zero_quantity | Some x \<Rightarrow> x) in
        ret (FQuantity (Some (if go_field fd
          then (case unmarshalQ (dq # quantityStr @ [dq]) of Inl err \<Rightarrow> allocated | Inr n \<Rightarrow> n)
          else allocated))))
    | FQuantities qs \<Rightarrow> if go_field fd \<and> qs \<noteq> [] then panic else ret v
    | _ \<Rightarrow> ret v)"

text \<open>An unset message is walked through its read-only empty value; \<open>protojson\<close> sets the message for every JSON object, so the walk
  does not meet an object there, and the model leaves the field alone.\<close>

fun walkMessage :: "(string \<Rightarrow> error + quantity) \<Rightarrow> message \<Rightarrow> jmap \<Rightarrow> ('s, error, message) act"
  and walk_fields :: "(string \<Rightarrow> error + quantity) \<Rightarrow> (field \<times> fval) list \<Rightarrow> jmap \<Rightarrow> ('s, error, (field \<times> fval) list) act"
  and walk_field :: "(string \<Rightarrow> error + quantity) \<Rightarrow> field \<Rightarrow> fval \<Rightarrow> jmap \<Rightarrow> ('s, error, fval) act"
  and walk_list :: "(string \<Rightarrow> error + quantity) \<Rightarrow> message list \<Rightarrow> json list \<Rightarrow> ('s, error, message list) act"
where
  "walkMessage unmarshalQ (Message fs) jsonMap = and_then (walk_fields unmarshalQ fs jsonMap) (\<lambda>fs. ret (Message fs))"
| "walk_fields unmarshalQ [] jsonMap = ret []"
| "walk_fields unmarshalQ ((fd, v) # fs) jsonMap =
     and_then (walk_field unmarshalQ fd v jsonMap) (\<lambda>v. and_then (walk_fields unmarshalQ fs jsonMap) (\<lambda>fs. ret ((fd, v) # fs)))"
| "walk_field unmarshalQ fd (FQuantity q) jsonMap = (case extractQuantityString jsonMap (fd_JSONName fd) of
      Inl err \<Rightarrow> ret (FQuantity q) | Inr quantityStr \<Rightarrow> setQuantityField unmarshalQ fd (FQuantity q) quantityStr)"
| "walk_field unmarshalQ fd (FQuantities qs) jsonMap = (case extractQuantityString jsonMap (fd_JSONName fd) of
      Inl err \<Rightarrow> ret (FQuantities qs) | Inr quantityStr \<Rightarrow> setQuantityField unmarshalQ fd (FQuantities qs) quantityStr)"
| "walk_field unmarshalQ fd (FMessages ms) jsonMap = (case map_of jsonMap (fd_JSONName fd) of
      Some (JArr jsonArray) \<Rightarrow> and_then (walk_list unmarshalQ ms jsonArray) (\<lambda>ms. ret (FMessages ms))
    | _ \<Rightarrow> ret (FMessages ms))"
| "walk_field unmarshalQ fd (FMessage (Some m)) jsonMap = (case map_of jsonMap (fd_JSONName fd) of
      Some (JObj nestedJSON) \<Rightarrow> and_then (walkMessage unmarshalQ m nestedJSON) (\<lambda>m. ret (FMessage (Some m)))
    | _ \<Rightarrow> ret (FMessage (Some m)))"
| "walk_field unmarshalQ fd v jsonMap = ret v"
| "walk_list unmarshalQ (m # ms) (j # js) =
     and_then (case j of JObj jsonItem \<Rightarrow> walkMessage unmarshalQ m jsonItem | _ \<Rightarrow> ret m) (\<lambda>m.
     and_then (walk_list unmarshalQ ms js) (\<lambda>ms. ret (m # ms)))"
| "walk_list unmarshalQ ms js = ret ms"

definition fixQuantityFields :: "(string \<Rightarrow> error + quantity) \<Rightarrow> message \<Rightarrow> jmap option \<Rightarrow> ('s, error, message) act" where
  "fixQuantityFields unmarshalQ msg jsonMap = walkMessage unmarshalQ msg (case jsonMap of Some m \<Rightarrow> m | None \<Rightarrow> [])"

text \<open>A value grpc-gateway hands over is a message or something else (\<open>v.(proto.Message)\<close> fails).\<close>

type_synonym 'x pvalue = "message + 'x"

definition Unmarshal ::
  "(string \<Rightarrow> error + quantity) \<Rightarrow> (string \<Rightarrow> 'x pvalue \<Rightarrow> error + 'x pvalue) \<Rightarrow> string \<Rightarrow> 'x pvalue \<Rightarrow> ('s, error, 'x pvalue) act" where
  "Unmarshal unmarshalQ JSONPb_Unmarshal data v =
     (let jsonMap = (case decode_map data of Inl err \<Rightarrow> None | Inr m \<Rightarrow> m) in
     (case JSONPb_Unmarshal data v of
        Inl err \<Rightarrow> throw err
      | Inr (Inl protoMsg) \<Rightarrow> and_then (fixQuantityFields unmarshalQ protoMsg jsonMap) (\<lambda>m. ret (Inl m))
      | Inr (Inr x) \<Rightarrow> ret (Inr x)))"

subsection \<open>Responses\<close>

text \<open>The text of the Quantity between its quotes: \<open>quantityJSON[1 : len(quantityJSON)-1]\<close>, which panics when there are none.\<close>

definition unquote :: "string \<Rightarrow> ('s, error, string) act" where
  "unquote s = (if length s < 2 then panic else ret (butlast (tl s)))"

fun walkMessageForMarshal :: "(quantity \<Rightarrow> error + string) \<Rightarrow> message \<Rightarrow> jmap \<Rightarrow> ('s, error, jmap) act"
  and marshal_fields :: "(quantity \<Rightarrow> error + string) \<Rightarrow> (field \<times> fval) list \<Rightarrow> jmap \<Rightarrow> ('s, error, jmap) act"
  and marshal_field :: "(quantity \<Rightarrow> error + string) \<Rightarrow> field \<Rightarrow> fval \<Rightarrow> jmap \<Rightarrow> ('s, error, jmap) act"
  and marshal_list :: "(quantity \<Rightarrow> error + string) \<Rightarrow> message list \<Rightarrow> json list \<Rightarrow> ('s, error, json list) act"
where
  "walkMessageForMarshal marshalQ (Message fs) jsonMap = marshal_fields marshalQ fs jsonMap"
| "marshal_fields marshalQ [] jsonMap = ret jsonMap"
| "marshal_fields marshalQ ((fd, v) # fs) jsonMap = and_then (marshal_field marshalQ fd v jsonMap) (marshal_fields marshalQ fs)"
| "marshal_field marshalQ fd (FQuantity (Some q)) jsonMap =
     (if \<not> go_field fd then ret jsonMap
      else (case marshalQ q of
          Inl err \<Rightarrow> ret jsonMap
        | Inr quantityJSON \<Rightarrow> and_then (unquote quantityJSON) (\<lambda>str. ret (put (fd_JSONName fd) (JObj [(''string'', JStr str)]) jsonMap))))"
| "marshal_field marshalQ fd (FQuantities qs) jsonMap = (if go_field fd \<and> qs \<noteq> [] then panic else ret jsonMap)"
| "marshal_field marshalQ fd (FMessages ms) jsonMap = (case map_of jsonMap (fd_JSONName fd) of
      Some (JArr jsonArray) \<Rightarrow> and_then (marshal_list marshalQ ms jsonArray) (\<lambda>js. ret (put (fd_JSONName fd) (JArr js) jsonMap))
    | _ \<Rightarrow> ret jsonMap)"
| "marshal_field marshalQ fd (FMessage (Some m)) jsonMap = (case map_of jsonMap (fd_JSONName fd) of
      Some (JObj nestedJSON) \<Rightarrow> and_then (walkMessageForMarshal marshalQ m nestedJSON) (\<lambda>o'. ret (put (fd_JSONName fd) (JObj o') jsonMap))
    | _ \<Rightarrow> ret jsonMap)"
| "marshal_field marshalQ fd v jsonMap = ret jsonMap"
| "marshal_list marshalQ (m # ms) (j # js) =
     and_then (case j of JObj jsonItem \<Rightarrow> and_then (walkMessageForMarshal marshalQ m jsonItem) (\<lambda>o'. ret (JObj o')) | _ \<Rightarrow> ret j) (\<lambda>j.
     and_then (marshal_list marshalQ ms js) (\<lambda>js. ret (j # js)))"
| "marshal_list marshalQ ms js = ret js"

text \<open>With a nil map (the JSON \<open>null\<close>) the first assignment panics.\<close>

definition assigns :: "(quantity \<Rightarrow> error + string) \<Rightarrow> field \<times> fval \<Rightarrow> bool" where
  "assigns marshalQ e = (case e of (fd, FQuantity (Some q)) \<Rightarrow> go_field fd \<and> (case marshalQ q of Inl _ \<Rightarrow> False | Inr _ \<Rightarrow> True)
     | (fd, FQuantities qs) \<Rightarrow> go_field fd \<and> qs \<noteq> [] | _ \<Rightarrow> False)"

definition fixQuantityFieldsInJSON :: "(quantity \<Rightarrow> error + string) \<Rightarrow> message \<Rightarrow> string \<Rightarrow> ('s, error, string) act" where
  "fixQuantityFieldsInJSON marshalQ msg jsonData = (case decode_map jsonData of
      Inl err \<Rightarrow> throw (Wrap ''parse JSON for Quantity fix'' err)
    | Inr None \<Rightarrow> if list_ex (assigns marshalQ) (msg_fields msg) then panic else ret ''null''
    | Inr (Some jsonMap) \<Rightarrow> and_then (walkMessageForMarshal marshalQ msg jsonMap) (\<lambda>m. ret (print_json (JObj m))))"

text \<open>When the correction fails, \<open>data\<close> has been overwritten by the nil slice it returned.\<close>

definition Marshal :: "(quantity \<Rightarrow> error + string) \<Rightarrow> ('x pvalue \<Rightarrow> error + string) \<Rightarrow> 'x pvalue \<Rightarrow> ('s, error, string) act" where
  "Marshal marshalQ JSONPb_Marshal v = (case JSONPb_Marshal v of
      Inl err \<Rightarrow> throw err
    | Inr data \<Rightarrow> (case v of
        Inl protoMsg \<Rightarrow> handle (fixQuantityFieldsInJSON marshalQ protoMsg data) ret (\<lambda>err. ret [])
      | Inr _ \<Rightarrow> ret data))"

text \<open>The stream variants read everything first and write everything at once; \<open>readAll\<close> and \<open>write\<close> are the stream's.\<close>

definition Decode ::
  "(string \<Rightarrow> error + quantity) \<Rightarrow> (string \<Rightarrow> 'x pvalue \<Rightarrow> error + 'x pvalue) \<Rightarrow> ('s, error, string) act \<Rightarrow> 'x pvalue \<Rightarrow> ('s, error, 'x pvalue) act" where
  "Decode unmarshalQ JSONPb_Unmarshal readAll v = and_then readAll (\<lambda>data. Unmarshal unmarshalQ JSONPb_Unmarshal data v)"

definition Encode ::
  "(quantity \<Rightarrow> error + string) \<Rightarrow> ('x pvalue \<Rightarrow> error + string) \<Rightarrow> (string \<Rightarrow> ('s, error, unit) act) \<Rightarrow> 'x pvalue \<Rightarrow> ('s, error, unit) act" where
  "Encode marshalQ JSONPb_Marshal write v = and_then (Marshal marshalQ JSONPb_Marshal v) write"

subsection \<open>\<open>query.go\<close>\<close>

fun set_filter :: "string \<Rightarrow> (field \<times> fval) list \<Rightarrow> ('s, error, (field \<times> fval) list) act" where
  "set_filter filt [] = ret []"
| "set_filter filt ((fd, v) # fs) = and_then
     (case v of FFilter _ \<Rightarrow> ret (FFilter (Some (''filter='' @ filt))) | FFilters _ \<Rightarrow> panic | _ \<Rightarrow> ret v) (\<lambda>v.
     and_then (set_filter filt fs) (\<lambda>fs. ret ((fd, v) # fs)))"

definition populateQueryFilter :: "message \<Rightarrow> string \<Rightarrow> ('s, error, message) act" where
  "populateQueryFilter target filt = and_then (set_filter filt (msg_fields target)) (\<lambda>fs. ret (Message fs))"

definition values_Get :: "(string \<rightharpoonup> string list) \<Rightarrow> string \<Rightarrow> string" where
  "values_Get vs k = (case vs k of Some (v # _) \<Rightarrow> v | _ \<Rightarrow> [])"

definition query_Parse ::
  "(message \<Rightarrow> (string \<rightharpoonup> string list) \<Rightarrow> 'f \<Rightarrow> ('s, error, message) act) \<Rightarrow> message \<Rightarrow> (string \<rightharpoonup> string list) \<Rightarrow> 'f \<Rightarrow> ('s, error, message) act" where
  "query_Parse defaultParse target vs filt = (let queryFilter = values_Get vs ''filter'' in
     and_then (if queryFilter \<noteq> [] then populateQueryFilter target queryFilter else ret target) (\<lambda>target. defaultParse target vs filt))"


subsection \<open>Go maps: lemmas\<close>

fun canon :: "json \<Rightarrow> bool" where
  "canon (JArr xs) = (\<forall>x\<in>set xs. canon x)"
| "canon (JObj ms) = (sorted_wrt (<) (map fst ms) \<and> (\<forall>e\<in>set ms. canon (snd e)))"
| "canon _ = True"

lemma sorted_keys_distinct: "sorted_wrt (<) ks \<Longrightarrow> distinct (ks :: 'a::linorder list)"
  by (induction ks) auto

lemma insert_entry_keys: "set (map fst (insert_entry k v ms)) = insert k (set (map fst ms))"
  by (induction ms) auto

lemma insert_entry_set: "set (insert_entry k v ms) = insert (k, v) (set ms)"
  by (induction ms) auto

lemma insert_entry_sorted:
  "sorted_wrt (<) (map fst ms) \<Longrightarrow> k \<notin> set (map fst ms) \<Longrightarrow> sorted_wrt (<) (map fst (insert_entry k v ms))"
proof (induction ms)
  case (Cons m ms)
  then show ?case using insert_entry_keys [of k v ms] by (auto simp del: set_map dest: order.strict_trans)
qed simp

lemma insert_entry_last: "(\<forall>e\<in>set ms. fst e < k) \<Longrightarrow> insert_entry k v ms = ms @ [(k, v)]"
  by (induction ms) auto

lemma put_keys_in: "k \<in> set (map fst m) \<Longrightarrow> map fst (put k v m) = map fst m"
  by (auto simp: put_def)

lemma put_canon:
  assumes "canon (JObj m)" and "canon v"
  shows "canon (JObj (put k v m))"
proof (cases "k \<in> set (map fst m)")
  case True
  have "\<forall>e\<in>set (put k v m). canon (snd e)" using assms True by (auto simp: put_def split: if_splits)
  then show ?thesis using assms put_keys_in [OF True] by simp
next
  case False
  then show ?thesis using assms insert_entry_sorted [of m k v] by (simp add: put_def insert_entry_set)
qed

lemma map_of_put [simp]: "map_of (put k v m) = (map_of m)(k \<mapsto> v)"
proof (cases "k \<in> set (map fst m)")
  case True
  then have "k \<in> set (map fst m) \<Longrightarrow> map_of (map (\<lambda>e. if fst e = k then (k, v) else e) m) = (map_of m)(k \<mapsto> v)"
  proof (induction m)
    case (Cons e m)
    have "map_of (map (\<lambda>e. if fst e = k then (k, v) else e) m) = map_of m" if "k \<notin> set (map fst m)"
      using that by (induction m) auto
    then show ?case using Cons by (cases "k \<in> set (map fst m)") (auto simp: fun_eq_iff)
  qed simp
  then show ?thesis using True by (simp add: put_def)
next
  case False
  then have "map_of (insert_entry k v m) = (map_of m)(k \<mapsto> v)" by (induction m) (auto simp: fun_eq_iff)
  then show ?thesis using False by (simp add: put_def)
qed

lemma fold_put_sorted:
  "sorted_wrt (<) (map fst (acc @ ms)) \<Longrightarrow> fold (\<lambda>(k, v). put k v) ms acc = acc @ ms"
proof (induction ms arbitrary: acc)
  case (Cons e ms)
  obtain k v where e: "e = (k, v)" by force
  have less: "\<forall>x\<in>set acc. fst x < k" using Cons.prems e by (auto simp: sorted_wrt_append)
  then have "k \<notin> set (map fst acc)" by auto
  then have "put k v acc = acc @ [(k, v)]" using insert_entry_last [OF less] by (simp add: put_def)
  then show ?case using Cons.IH [of "acc @ [(k, v)]"] Cons.prems e by simp
qed simp

lemma decode_any_canon: "canon j \<Longrightarrow> decode_any j = j"
proof (induction j)
  case (JObj ms)
  then have "map (\<lambda>(k, v). (k, decode_any v)) ms = ms" by (intro map_idI) (force simp: case_prod_beta' snds.simps)
  then show ?case using JObj.prems fold_put_sorted [of "[]" ms] by simp
qed (auto intro!: map_idI)

lemma fold_put_canon: "canon (JObj acc) \<Longrightarrow> (\<forall>e\<in>set ms. canon (snd e)) \<Longrightarrow> canon (JObj (fold (\<lambda>(k, v). put k v) ms acc))"
proof (induction ms arbitrary: acc)
  case (Cons e ms)
  have "canon (JObj (put (fst e) (snd e) acc))" by (rule put_canon) (use Cons.prems in auto)
  then show ?case using Cons.IH [of "put (fst e) (snd e) acc"] Cons.prems by (cases e) simp
qed simp

lemma canon_decode_any: "canon (decode_any j)"
proof (induction j)
  case (JObj ms)
  have "\<forall>e\<in>set (map (\<lambda>(k, v). (k, decode_any v)) ms). canon (snd e)" using JObj by (auto simp: snds.simps)
  then show ?case unfolding decode_any.simps by (intro fold_put_canon) simp_all
qed auto

subsection \<open>What the correction of a response leaves alone\<close>

definition similar :: "json \<Rightarrow> json \<Rightarrow> bool" where
  "similar j j' \<longleftrightarrow> (canon j \<longrightarrow> canon j' \<and> json_depth j' = json_depth j \<and> (json_ok j \<longrightarrow> json_ok j'))"

lemma similar_refl [simp]: "similar j j"
  by (simp add: similar_def)

lemma similar_trans: "similar a b \<Longrightarrow> similar b c \<Longrightarrow> similar a c"
  by (auto simp: similar_def)

lemma similar_put:
  assumes "map_of m k = Some j" and "similar j j'"
  shows "similar (JObj m) (JObj (put k j' m))"
proof -
  have k: "k \<in> set (map fst m)" and kj: "(k, j) \<in> set m" using map_of_SomeD [OF assms(1)] by force+
  have put: "put k j' m = map (\<lambda>e. if fst e = k then (k, j') else e) m" using k by (simp add: put_def)
  show ?thesis unfolding similar_def
  proof (intro impI)
    assume c: "canon (JObj m)"
    then have "distinct (map fst m)" using sorted_keys_distinct by auto
    then have only: "snd e = j" if "e \<in> set m" "fst e = k" for e
      using that kj by (metis eq_key_imp_eq_value prod.collapse)
    have j: "canon j'" "json_depth j' = json_depth j" "json_ok j \<Longrightarrow> json_ok j'"
      using c kj assms(2) by (auto simp: similar_def)
    have "map (\<lambda>(k, v). json_depth v) (put k j' m) = map (\<lambda>(k, v). json_depth v) m"
      unfolding put map_map by (rule map_cong) (use only j(2) in \<open>auto simp: case_prod_beta'\<close>)
    moreover have "json_ok (JObj m) \<Longrightarrow> json_ok (JObj (put k j' m))" using j(3) kj by (fastforce simp: put)
    ultimately show "canon (JObj (put k j' m)) \<and> json_depth (JObj (put k j' m)) = json_depth (JObj m) \<and>
        (json_ok (JObj m) \<longrightarrow> json_ok (JObj (put k j' m)))"
      using put_canon [OF c j(1)] by (simp del: canon.simps json_ok.simps)
  qed
qed

lemma similar_arr: "list_all2 similar js js' \<Longrightarrow> similar (JArr js) (JArr js')"
proof -
  assume a: "list_all2 similar js js'"
  have "canon (JArr js) \<Longrightarrow> canon (JArr js') \<and> map json_depth js' = map json_depth js \<and> (json_ok (JArr js) \<longrightarrow> json_ok (JArr js'))"
    using a by (induction rule: list_all2_induct) (auto simp: similar_def)
  then show ?thesis unfolding similar_def by (simp del: canon.simps json_ok.simps)
qed

subsection \<open>Round trip\<close>

text \<open>The message without the values of its quantities, which is all that protojson carries over.\<close>

fun forget :: "message \<Rightarrow> message" and forget_fields :: "(field \<times> fval) list \<Rightarrow> (field \<times> fval) list"
  and forget_val :: "fval \<Rightarrow> fval" and forget_list :: "message list \<Rightarrow> message list"
where
  "forget (Message fs) = Message (forget_fields fs)"
| "forget_fields [] = []"
| "forget_fields ((fd, v) # fs) = (fd, forget_val v) # forget_fields fs"
| "forget_val (FQuantity q) = FQuantity (map_option (\<lambda>_. zero_quantity) q)"
| "forget_val (FQuantities qs) = FQuantities (map (\<lambda>_. zero_quantity) qs)"
| "forget_val (FMessage (Some m)) = FMessage (Some (forget m))"
| "forget_val (FMessages ms) = FMessages (forget_list ms)"
| "forget_val v = v"
| "forget_list [] = []"
| "forget_list (m # ms) = forget m # forget_list ms"

text \<open>The quantities that are set in a message.\<close>

fun quantities :: "message \<Rightarrow> quantity list" and quantities_fields :: "(field \<times> fval) list \<Rightarrow> quantity list"
  and quantities_val :: "fval \<Rightarrow> quantity list" and quantities_list :: "message list \<Rightarrow> quantity list"
where
  "quantities (Message fs) = quantities_fields fs"
| "quantities_fields [] = []"
| "quantities_fields ((fd, v) # fs) = quantities_val v @ quantities_fields fs"
| "quantities_val (FQuantity (Some q)) = [q]"
| "quantities_val (FQuantities qs) = qs"
| "quantities_val (FMessage (Some m)) = quantities m"
| "quantities_val (FMessages ms) = quantities_list ms"
| "quantities_val v = []"
| "quantities_list [] = []"
| "quantities_list (m # ms) = quantities m @ quantities_list ms"

text \<open>What protojson prints for a message, with \<open>EmitUnpopulated\<close>: null for an unset message, an empty object for a Quantity, an
  object for a message, or a value of another kind for a well-known type, which has no quantities.\<close>

fun mirrors :: "message \<Rightarrow> jmap \<Rightarrow> bool" and mirror_fields :: "(field \<times> fval) list \<Rightarrow> jmap \<Rightarrow> bool"
  and mirror_field :: "field \<Rightarrow> fval \<Rightarrow> jmap \<Rightarrow> bool" and mirror_list :: "message list \<Rightarrow> json list \<Rightarrow> bool"
where
  "mirrors (Message fs) jm \<longleftrightarrow> mirror_fields fs jm"
| "mirror_fields [] jm \<longleftrightarrow> True"
| "mirror_fields ((fd, v) # fs) jm \<longleftrightarrow> mirror_field fd v jm \<and> mirror_fields fs jm"
| "mirror_field fd (FQuantity q) jm \<longleftrightarrow> map_of jm (fd_JSONName fd) = Some (case q of None \<Rightarrow> JNull | Some _ \<Rightarrow> JObj [])"
| "mirror_field fd (FQuantities qs) jm \<longleftrightarrow> map_of jm (fd_JSONName fd) = Some (JArr (map (\<lambda>_. JObj []) qs))"
| "mirror_field fd (FMessage None) jm \<longleftrightarrow> map_of jm (fd_JSONName fd) = Some JNull"
| "mirror_field fd (FMessage (Some m)) jm \<longleftrightarrow> (case map_of jm (fd_JSONName fd) of
      Some (JObj o') \<Rightarrow> mirrors m o' | Some _ \<Rightarrow> quantities m = [] | None \<Rightarrow> False)"
| "mirror_field fd (FMessages ms) jm \<longleftrightarrow> (case map_of jm (fd_JSONName fd) of Some (JArr js) \<Rightarrow> mirror_list ms js | _ \<Rightarrow> False)"
| "mirror_field fd _ jm \<longleftrightarrow> True"
| "mirror_list [] [] \<longleftrightarrow> True"
| "mirror_list (m # ms) (j # js) \<longleftrightarrow> (case j of JObj o' \<Rightarrow> mirrors m o' | _ \<Rightarrow> quantities m = []) \<and> mirror_list ms js"
| "mirror_list _ _ \<longleftrightarrow> False"

text \<open>Messages the code is written for: distinct JSON names, Go names it finds, and no repeated Quantity.\<close>

fun wf_message :: "message \<Rightarrow> bool" and wf_fields :: "(field \<times> fval) list \<Rightarrow> bool"
  and wf_val :: "field \<Rightarrow> fval \<Rightarrow> bool" and wf_list :: "message list \<Rightarrow> bool"
where
  "wf_message (Message fs) \<longleftrightarrow> wf_fields fs"
| "wf_fields [] \<longleftrightarrow> True"
| "wf_fields ((fd, v) # fs) \<longleftrightarrow> fd_JSONName fd \<notin> (\<lambda>e. fd_JSONName (fst e)) ` set fs \<and> wf_val fd v \<and> wf_fields fs"
| "wf_val fd (FQuantity q) \<longleftrightarrow> go_field fd"
| "wf_val fd (FQuantities qs) \<longleftrightarrow> qs = []"
| "wf_val fd (FMessage (Some m)) \<longleftrightarrow> wf_message m"
| "wf_val fd (FMessages ms) \<longleftrightarrow> wf_list ms"
| "wf_val fd v \<longleftrightarrow> True"
| "wf_list [] \<longleftrightarrow> True"
| "wf_list (m # ms) \<longleftrightarrow> wf_message m \<and> wf_list ms"

definition codec_ok :: "(quantity \<Rightarrow> error + string) \<Rightarrow> (string \<Rightarrow> error + quantity) \<Rightarrow> quantity \<Rightarrow> bool" where
  "codec_ok marshalQ unmarshalQ q \<longleftrightarrow> (case marshalQ q of Inl _ \<Rightarrow> False
     | Inr s \<Rightarrow> 2 \<le> length s \<and> hd s = dq \<and> last s = dq \<and> ascii s \<and> unmarshalQ s = Inr q)"

lemma forget_inv:
  "forget m' = Message ws \<longleftrightarrow> (\<exists>fs'. m' = Message fs' \<and> forget_fields fs' = ws)"
  "forget_fields fs' = [] \<longleftrightarrow> fs' = []"
  "forget_fields fs' = (fd, w) # ws \<longleftrightarrow> (\<exists>v' gs'. fs' = (fd, v') # gs' \<and> forget_val v' = w \<and> forget_fields gs' = ws)"
  "forget_list ms' = [] \<longleftrightarrow> ms' = []"
  "forget_list ms' = n # ns \<longleftrightarrow> (\<exists>m' ks'. ms' = m' # ks' \<and> forget m' = n \<and> forget_list ks' = ns)"
      apply (cases m'; auto)
     apply (cases fs' rule: forget_fields.cases; auto)
    apply (cases fs' rule: forget_fields.cases; auto)
   apply (cases ms'; auto)
  apply (cases ms'; auto)
  done

lemma forget_val_inv:
  "forget_val v' = FOther \<longleftrightarrow> v' = FOther"
  "forget_val v' = FQuantity p \<longleftrightarrow> (\<exists>q'. v' = FQuantity q' \<and> map_option (\<lambda>_. zero_quantity) q' = p)"
  "forget_val v' = FQuantities ps \<longleftrightarrow> (\<exists>qs'. v' = FQuantities qs' \<and> map (\<lambda>_. zero_quantity) qs' = ps)"
  "forget_val v' = FFilter f \<longleftrightarrow> v' = FFilter f"
  "forget_val v' = FFilters gs \<longleftrightarrow> v' = FFilters gs"
  "forget_val v' = FMessage None \<longleftrightarrow> v' = FMessage None"
  "forget_val v' = FMessage (Some n) \<longleftrightarrow> (\<exists>m'. v' = FMessage (Some m') \<and> forget m' = n)"
  "forget_val v' = FMessages ns \<longleftrightarrow> (\<exists>ms'. v' = FMessages ms' \<and> forget_list ms' = ns)"
  by (cases v' rule: forget_val.cases; auto)+

lemmas forget_invs = forget_inv forget_val_inv

lemma unset_quantity [simp]: "quantities_val (FQuantity q) = [] \<longleftrightarrow> q = None"
  by (cases q) auto

lemma no_quantities_forget:
  "quantities m = [] \<Longrightarrow> forget m' = forget m \<Longrightarrow> m' = m"
  "quantities_fields fs = [] \<Longrightarrow> forget_fields fs' = forget_fields fs \<Longrightarrow> fs' = fs"
  "quantities_val v = [] \<Longrightarrow> forget_val v' = forget_val v \<Longrightarrow> v' = v"
  "quantities_list ms = [] \<Longrightarrow> forget_list ms' = forget_list ms \<Longrightarrow> ms' = ms"
  by (induction m and fs and v and ms arbitrary: m' and fs' and v' and ms'
      rule: forget_forget_fields_forget_val_forget_list.induct) (auto simp: forget_invs)

lemma mirror_field_cong: "map_of jm' (fd_JSONName fd) = map_of jm (fd_JSONName fd) \<Longrightarrow> mirror_field fd v jm' = mirror_field fd v jm"
  by (cases "(fd, v, jm)" rule: mirror_field.cases) auto

lemma mirror_fields_cong:
  "(\<And>e. e \<in> set fs \<Longrightarrow> map_of jm' (fd_JSONName (fst e)) = map_of jm (fd_JSONName (fst e))) \<Longrightarrow> mirror_fields fs jm' = mirror_fields fs jm"
proof (induction fs)
  case (Cons e fs)
  then show ?case using mirror_field_cong [of jm' "fst e" jm "snd e"] Cons.prems [of e] by (cases e) simp
qed simp

text \<open>The correction of a response writes what the correction of a request reads.\<close>

definition field_ok :: "(quantity \<Rightarrow> error + string) \<Rightarrow> (string \<Rightarrow> error + quantity) \<Rightarrow> field \<Rightarrow> fval \<Rightarrow> jmap \<Rightarrow> jmap \<Rightarrow> bool" where
  "field_ok marshalQ unmarshalQ fd v jm jm' \<longleftrightarrow>
     marshal_field marshalQ fd v jm = (ret jm' :: (unit, error, jmap) act) \<and> similar (JObj jm) (JObj jm') \<and>
     (\<forall>k. k \<noteq> fd_JSONName fd \<longrightarrow> map_of jm' k = map_of jm k) \<and>
     (\<forall>v' jm''. forget_val v' = forget_val v \<and> map_of jm'' (fd_JSONName fd) = map_of jm' (fd_JSONName fd) \<longrightarrow>
        walk_field unmarshalQ fd v' jm'' = (ret v :: (unit, error, fval) act))"

definition fields_ok ::
  "(quantity \<Rightarrow> error + string) \<Rightarrow> (string \<Rightarrow> error + quantity) \<Rightarrow> (field \<times> fval) list \<Rightarrow> jmap \<Rightarrow> jmap \<Rightarrow> bool" where
  "fields_ok marshalQ unmarshalQ fs jm jm' \<longleftrightarrow>
     marshal_fields marshalQ fs jm = (ret jm' :: (unit, error, jmap) act) \<and> similar (JObj jm) (JObj jm') \<and>
     (\<forall>k. k \<notin> (\<lambda>e. fd_JSONName (fst e)) ` set fs \<longrightarrow> map_of jm' k = map_of jm k) \<and>
     (\<forall>fs' jm''. forget_fields fs' = forget_fields fs \<and> (\<forall>e\<in>set fs. map_of jm'' (fd_JSONName (fst e)) = map_of jm' (fd_JSONName (fst e))) \<longrightarrow>
        walk_fields unmarshalQ fs' jm'' = (ret fs :: (unit, error, (field \<times> fval) list) act))"

definition message_ok :: "(quantity \<Rightarrow> error + string) \<Rightarrow> (string \<Rightarrow> error + quantity) \<Rightarrow> message \<Rightarrow> jmap \<Rightarrow> jmap \<Rightarrow> bool" where
  "message_ok marshalQ unmarshalQ m jm jm' \<longleftrightarrow>
     walkMessageForMarshal marshalQ m jm = (ret jm' :: (unit, error, jmap) act) \<and> similar (JObj jm) (JObj jm') \<and>
     (\<forall>m'. forget m' = forget m \<longrightarrow> walkMessage unmarshalQ m' jm' = (ret m :: (unit, error, message) act))"

definition list_ok :: "(quantity \<Rightarrow> error + string) \<Rightarrow> (string \<Rightarrow> error + quantity) \<Rightarrow> message list \<Rightarrow> json list \<Rightarrow> json list \<Rightarrow> bool" where
  "list_ok marshalQ unmarshalQ ms js js' \<longleftrightarrow>
     marshal_list marshalQ ms js = (ret js' :: (unit, error, json list) act) \<and> list_all2 similar js js' \<and>
     (\<forall>ms'. forget_list ms' = forget_list ms \<longrightarrow> walk_list unmarshalQ ms' js' = (ret ms :: (unit, error, message list) act))"

lemma quantity_field_ok:
  assumes "go_field fd" and "codec_ok marshalQ unmarshalQ q" and "map_of jm (fd_JSONName fd) = Some (JObj [])"
  shows "\<exists>jm'. field_ok marshalQ unmarshalQ fd (FQuantity (Some q)) jm jm'"
proof -
  obtain s where s: "marshalQ q = Inr s" "2 \<le> length s" "hd s = dq" "last s = dq" "ascii s" "unmarshalQ s = Inr q"
    using assms(2) by (auto simp: codec_ok_def split: sum.splits)
  define t where "t = butlast (tl s)"
  have st: "s = dq # t @ [dq]" using s(2-4) unfolding t_def by (cases s) (auto split: if_splits, metis append_butlast_last_id)
  let ?jm = "put (fd_JSONName fd) (JObj [(''string'', JStr t)]) jm"
  have "ascii t" using s(5) st by (auto simp: ascii_def)
  then have "similar (JObj []) (JObj [(''string'', JStr t)])" by (simp add: similar_def byte_of_def)
  then have "similar (JObj jm) (JObj ?jm)" by (rule similar_put [OF assms(3)])
  moreover have "marshal_field marshalQ fd (FQuantity (Some q)) jm = (ret ?jm :: (unit, error, jmap) act)"
    using assms(1) s(1,2) by (simp add: unquote_def t_def)
  ultimately have "field_ok marshalQ unmarshalQ fd (FQuantity (Some q)) jm ?jm"
    using assms(1) s(6) st
    by (auto simp: field_ok_def forget_invs extractQuantityString_def setQuantityField_def Let_def)
  then show ?thesis by blast
qed

lemma unchanged_field_ok:
  assumes "marshal_field marshalQ fd v jm = (ret jm :: (unit, error, jmap) act)"
    and "\<And>v' jm''. forget_val v' = forget_val v \<Longrightarrow> map_of jm'' (fd_JSONName fd) = map_of jm (fd_JSONName fd) \<Longrightarrow>
      walk_field unmarshalQ fd v' jm'' = (ret v :: (unit, error, fval) act)"
  shows "\<exists>jm'. field_ok marshalQ unmarshalQ fd v jm jm'"
  using assms by (intro exI [of _ jm]) (auto simp: field_ok_def)

lemma mirror_list_Nil [simp]: "mirror_list [] js \<longleftrightarrow> js = []" "mirror_list ms [] \<longleftrightarrow> ms = []"
  by (cases js; simp) (cases ms; simp)

lemma list_ok_Nil: "\<exists>js'. list_ok marshalQ unmarshalQ [] [] js'"
  by (auto simp: list_ok_def forget_invs)

lemma fields_ok_Cons:
  assumes "field_ok marshalQ unmarshalQ fd v jm jm1" and "fields_ok marshalQ unmarshalQ fs jm1 jm2"
    and "fd_JSONName fd \<notin> (\<lambda>e. fd_JSONName (fst e)) ` set fs"
  shows "fields_ok marshalQ unmarshalQ ((fd, v) # fs) jm jm2"
proof -
  note f = assms(1) [unfolded field_ok_def] and g = assms(2) [unfolded fields_ok_def]
  have "walk_fields unmarshalQ fs' jm'' = (ret ((fd, v) # fs) :: (unit, error, (field \<times> fval) list) act)"
    if fs': "forget_fields fs' = forget_fields ((fd, v) # fs)"
      and same: "\<forall>e\<in>set ((fd, v) # fs). map_of jm'' (fd_JSONName (fst e)) = map_of jm2 (fd_JSONName (fst e))" for fs' jm''
  proof -
    from fs' obtain v' gs' where e: "fs' = (fd, v') # gs'" "forget_val v' = forget_val v" "forget_fields gs' = forget_fields fs"
      by (auto simp: forget_invs)
    have "map_of jm'' (fd_JSONName fd) = map_of jm1 (fd_JSONName fd)" using same g assms(3) by simp
    then have "walk_field unmarshalQ fd v' jm'' = (ret v :: (unit, error, fval) act)" using f e(2) by blast
    moreover have "walk_fields unmarshalQ gs' jm'' = (ret fs :: (unit, error, (field \<times> fval) list) act)" using g e(3) same by auto
    ultimately show ?thesis by (simp add: e(1))
  qed
  then show ?thesis unfolding fields_ok_def using f g by (auto intro: similar_trans)
qed

lemma marshal_then_walk:
  "wf_message m \<Longrightarrow> mirrors m jm \<Longrightarrow> \<forall>q\<in>set (quantities m). codec_ok marshalQ unmarshalQ q \<Longrightarrow> \<exists>jm'. message_ok marshalQ unmarshalQ m jm jm'"
  "wf_fields fs \<Longrightarrow> mirror_fields fs jm \<Longrightarrow> \<forall>q\<in>set (quantities_fields fs). codec_ok marshalQ unmarshalQ q \<Longrightarrow> \<exists>jm'. fields_ok marshalQ unmarshalQ fs jm jm'"
  "wf_val fd v \<Longrightarrow> mirror_field fd v jm \<Longrightarrow> \<forall>q\<in>set (quantities_val v). codec_ok marshalQ unmarshalQ q \<Longrightarrow> \<exists>jm'. field_ok marshalQ unmarshalQ fd v jm jm'"
  "wf_list ms \<Longrightarrow> mirror_list ms js \<Longrightarrow> \<forall>q\<in>set (quantities_list ms). codec_ok marshalQ unmarshalQ q \<Longrightarrow> \<exists>js'. list_ok marshalQ unmarshalQ ms js js'"
proof (induction marshalQ m jm and marshalQ fs jm and marshalQ fd v jm and marshalQ ms js
    rule: walkMessageForMarshal_marshal_fields_marshal_field_marshal_list.induct)
  case (1 marshalQ fs jm)
  then obtain jm' where "fields_ok marshalQ unmarshalQ fs jm jm'" by auto
  then have "message_ok marshalQ unmarshalQ (Message fs) jm jm'"
    by (auto simp: message_ok_def fields_ok_def forget_invs)
  then show ?case by blast
next
  case (2 marshalQ jm)
  then show ?case by (auto simp: fields_ok_def forget_invs intro!: exI [of _ jm])
next
  case (3 marshalQ fd v fs jm)
  then have p: "wf_val fd v" "wf_fields fs" "fd_JSONName fd \<notin> (\<lambda>e. fd_JSONName (fst e)) ` set fs"
      "mirror_field fd v jm" "mirror_fields fs jm" "\<forall>q\<in>set (quantities_val v) \<union> set (quantities_fields fs). codec_ok marshalQ unmarshalQ q"
    by simp_all
  obtain jm1 where f: "field_ok marshalQ unmarshalQ fd v jm jm1" using 3(1) p by fastforce
  have same: "map_of jm1 (fd_JSONName (fst e)) = map_of jm (fd_JSONName (fst e))" if "e \<in> set fs" for e
    using f p(3) that unfolding field_ok_def by (metis imageI)
  have "mirror_fields fs jm1" using p(5) mirror_fields_cong [OF same] by blast
  then obtain jm2 where "fields_ok marshalQ unmarshalQ fs jm1 jm2" using 3(2) [of jm1] p by fastforce
  then show ?case using fields_ok_Cons [OF f] p(3) by blast
next
  case (4 marshalQ fd q jm)
  then show ?case using quantity_field_ok by simp
next
  case (5 marshalQ fd qs jm)
  then show ?case
    by (auto simp: field_ok_def forget_invs extractQuantityString_def intro!: exI [of _ jm])
next
  case (6 marshalQ fd ms jm)
  then obtain js js' where j: "map_of jm (fd_JSONName fd) = Some (JArr js)" "list_ok marshalQ unmarshalQ ms js js'"
    by (auto split: option.splits json.splits)
  then have "field_ok marshalQ unmarshalQ fd (FMessages ms) jm (put (fd_JSONName fd) (JArr js') jm)"
    by (auto simp: field_ok_def list_ok_def forget_invs intro!: similar_put similar_arr)
  then show ?case by blast
next
  case (7 marshalQ fd m jm)
  show ?case
  proof (cases "\<exists>o'. map_of jm (fd_JSONName fd) = Some (JObj o')")
    case True
    then obtain o1 o2 where j: "map_of jm (fd_JSONName fd) = Some (JObj o1)" "message_ok marshalQ unmarshalQ m o1 o2" using 7 by auto
    then have "field_ok marshalQ unmarshalQ fd (FMessage (Some m)) jm (put (fd_JSONName fd) (JObj o2) jm)"
      by (auto simp: field_ok_def message_ok_def forget_invs intro!: similar_put)
    then show ?thesis by blast
  next
    case False
    then have "quantities m = []" using 7 by (auto split: option.splits json.splits)
    then have "field_ok marshalQ unmarshalQ fd (FMessage (Some m)) jm jm"
      using False by (auto simp: field_ok_def forget_invs dest: no_quantities_forget split: option.splits json.splits)
    then show ?thesis by blast
  qed
next
  case (9 marshalQ m ms j js)
  obtain js' where l: "list_ok marshalQ unmarshalQ ms js js'" using 9 by auto
  show ?case
  proof (cases j)
    case (JObj o1)
    then obtain o2 where "message_ok marshalQ unmarshalQ m o1 o2" using 9 by auto
    then have "list_ok marshalQ unmarshalQ (m # ms) (j # js) (JObj o2 # js')"
      using l JObj by (auto simp: list_ok_def message_ok_def forget_invs)
    then show ?thesis by blast
  qed (use l 9 in \<open>auto simp: list_ok_def forget_invs dest: no_quantities_forget intro!: exI [of _ "j # js'"]\<close>)
qed (auto simp: forget_invs extractQuantityString_def list_ok_Nil intro!: unchanged_field_ok)

lemma decode_map_canon:
  assumes "decode_map data = Inr (Some jm)"
  shows "canon (JObj jm)"
proof -
  obtain j where "decode_any j = JObj jm" using assms by (auto simp: decode_map_def simp del: decode_any.simps split: option.splits json.splits)
  then show ?thesis using canon_decode_any [of j] by simp
qed

lemma decode_map_print:
  assumes "canon (JObj jm)" and "json_ok (JObj jm)" and "json_depth (JObj jm) \<le> max_depth"
  shows "decode_map (print_json (JObj jm)) = Inr (Some jm)"
  unfolding decode_map_def parse_print_json [OF assms(2,3)] by (simp add: decode_any_canon [OF assms(1)] del: decode_any.simps)

text \<open>C38. A response that the gateway marshals can be sent back as a request: for a message whose Quantity fields have Go names
  the code finds, \<open>Marshal\<close> succeeds, and for every protobuf codec that reads its output back except for the values of the quantities,
  as protojson does, \<open>Unmarshal\<close> of that output returns the message with all its quantities.\<close>

theorem quantity_roundtrip:
  fixes JSONPb_Marshal :: "'a pvalue \<Rightarrow> error + string"
  assumes "JSONPb_Marshal (Inl m) = Inr data" and d: "decode_map data = Inr (Some jm)" and "mirrors m jm"
    and ok: "json_ok (JObj jm)" "json_depth (JObj jm) \<le> max_depth"
    and "wf_message m" and "\<forall>q\<in>set (quantities m). codec_ok marshalQ unmarshalQ q"
  shows "\<exists>out. Marshal marshalQ JSONPb_Marshal (Inl m) () = (Ok out, ()) \<and>
    (\<forall>JSONPb_Unmarshal (v :: 'a pvalue) m'. JSONPb_Unmarshal out v = Inr (Inl m') \<and> forget m' = forget m \<longrightarrow>
       Unmarshal unmarshalQ JSONPb_Unmarshal out v () = (Ok (Inl m), ()))"
proof -
  obtain jm' where r: "message_ok marshalQ unmarshalQ m jm jm'" using marshal_then_walk(1) assms(3,6,7) by blast
  then have "canon (JObj jm')" "json_ok (JObj jm')" "json_depth (JObj jm') \<le> max_depth"
    using decode_map_canon [OF d] ok unfolding message_ok_def similar_def by auto
  from decode_map_print [OF this] have "decode_map (print_json (JObj jm')) = Inr (Some jm')" .
  then have "Unmarshal unmarshalQ JSONPb_Unmarshal (print_json (JObj jm')) v = (ret (Inl m) :: (unit, error, 'a pvalue) act)"
    if "JSONPb_Unmarshal (print_json (JObj jm')) v = Inr (Inl m')" "forget m' = forget m" for JSONPb_Unmarshal v m'
    using r that by (simp add: Unmarshal_def fixQuantityFields_def message_ok_def del: print_json.simps)
  moreover have "Marshal marshalQ JSONPb_Marshal (Inl m) = (ret (print_json (JObj jm')) :: (unit, error, string) act)"
    using assms(1) d r by (simp add: Marshal_def fixQuantityFieldsInJSON_def message_ok_def del: print_json.simps)
  ultimately show ?thesis by (metis run_ret)
qed

lemma char_of_83: "char_of (83::nat) = CHR ''S''"
  by code_simp

definition size_field :: field where
  "size_field = \<lparr>fd_Name = ''size'', fd_JSONName = ''size'', fd_goName = ''Size''\<rparr>"

definition sized :: message where
  "sized = Message [(size_field, FQuantity (Some \<lparr>q_amount = 2, q_format = ''DecimalSI''\<rparr>))]"

theorem quantity_roundtrip_witness:
  "\<exists>out. Marshal (\<lambda>_. Inr [dq, CHR ''2'', dq]) (\<lambda>_. Inr (print_json (JObj [(''size'', JObj [])]))) (Inl sized :: unit pvalue) () = (Ok out, ()) \<and>
     Unmarshal (\<lambda>_. Inr \<lparr>q_amount = 2, q_format = ''DecimalSI''\<rparr>) (\<lambda>_ _. Inr (Inl (forget sized))) out (Inl (Message []) :: unit pvalue) () = (Ok (Inl sized), ())"
proof -
  have "go_field size_field" by (simp add: go_field_def size_field_def utf8_encode_def byte_of_def char_of_83)
  then have "wf_message sized" "mirrors sized [(''size'', JObj [])]"
      "\<forall>q\<in>set (quantities sized). codec_ok (\<lambda>_. Inr [dq, CHR ''2'', dq]) (\<lambda>_. Inr \<lparr>q_amount = 2, q_format = ''DecimalSI''\<rparr>) q"
    by (simp_all add: sized_def size_field_def codec_ok_def byte_of_def)
  moreover have "decode_map (print_json (JObj [(''size'', JObj [])])) = Inr (Some [(''size'', JObj [])])"
    by (rule decode_map_print) (simp_all add: byte_of_def max_depth_def)
  moreover have "forget (forget sized) = forget sized" by (simp add: sized_def)
  moreover have "json_ok (JObj [(''size'', JObj [])])" "json_depth (JObj [(''size'', JObj [])]) \<le> max_depth"
    by (simp_all add: byte_of_def max_depth_def)
  ultimately show ?thesis
    using quantity_roundtrip [of "\<lambda>_. Inr (print_json (JObj [(''size'', JObj [])]))" sized "print_json (JObj [(''size'', JObj [])])"
        "[(''size'', JObj [])]" "\<lambda>_. Inr [dq, CHR ''2'', dq]" "\<lambda>_. Inr \<lparr>q_amount = 2, q_format = ''DecimalSI''\<rparr>"]
    by fast
qed

text \<open>When the printed message is not a JSON object (a well-known type prints as a string), the response is empty although the
  marshaler reports success.\<close>

theorem marshal_failure_empty:
  assumes "JSONPb_Marshal (Inl m) = Inr data" and "decode_map data = Inl e"
  shows "Marshal marshalQ JSONPb_Marshal (Inl m) = ret []"
  using assms by (simp add: Marshal_def fixQuantityFieldsInJSON_def)

text \<open>The Go field of a proto name with an underscore is not found: the request then carries the zero Quantity.\<close>

theorem snake_case_lost:
  assumes "fd = \<lparr>fd_Name = ''size_limit'', fd_JSONName = ''sizeLimit'', fd_goName = ''SizeLimit''\<rparr>"
    and "extractQuantityString jm ''sizeLimit'' = Inr q"
  shows "walkMessage unmarshalQ (Message [(fd, FQuantity None)]) jm = ret (Message [(fd, FQuantity (Some zero_quantity))])"
  using assms by (simp add: setQuantityField_def go_field_def utf8_encode_def byte_of_def Let_def)

end
