(* ===== verification/Servers.thy ===== *)
theory Servers
  imports Gateway Vim_Config
begin

text \<open>
  The goroutines of the two servers: the REST gateway (\<open>internal/gateway/gateway.go\<close> and \<open>cmd/kube-vim-gateway/main.go\<close>) and
  \<open>NorthboundServer.Start\<close> (\<open>internal/kubevim/server/server.go\<close>), as transition systems. The blocking calls of \<open>net/http\<close> and gRPC
  appear by what they return: a server that is shut down ends without an error worth sending, any other end is an
  error.
\<close>

subsection \<open>Configuration and construction of the gateway\<close>

record tls_client_config =
  tc_insecureSkipVerify :: "bool option"

record kubevim_conn_config =
  kvc_tls :: "tls_client_config option"
  kvc_url :: "string option"

record gw_service_config =
  gsc_server :: "server_config option"

record gw_config =
  gc_kubevim :: "kubevim_conn_config option"
  gc_service :: "gw_service_config option"

definition IsServerTlsConfigured :: "tls_server_config option \<Rightarrow> bool" where
  "IsServerTlsConfigured cfg = (case cfg of None \<Rightarrow> False
     | Some c \<Rightarrow> (case (tls_cert c, tls_key c) of (Some cert, Some key) \<Rightarrow> cert \<noteq> [] \<and> key \<noteq> [] | _ \<Rightarrow> False))"

definition NewKubeVimGateway :: "gw_config option \<Rightarrow> unit option \<Rightarrow> error + gw_config" where
  "NewKubeVimGateway cfg logger = (case cfg of
      None \<Rightarrow> Inl (ErrInvalidArgument ''config'' ''cannot be nil'')
    | Some c \<Rightarrow> (case logger of None \<Rightarrow> Inl (ErrInvalidArgument ''logger'' ''cannot be nil'') | Some _ \<Rightarrow> Inr c))"

text \<open>\<open>Start\<close> up to the launch of the server: the connection, the handlers, the address, and whether TLS is used.\<close>

definition gateway_prepare ::
  "(string \<Rightarrow> ('s, error, unit) act) \<Rightarrow> ('s, error, unit) act \<Rightarrow> gw_config \<Rightarrow> ('s, error, int \<times> bool) act" where
  "gateway_prepare newClient registerHandler cfg =
     and_then (deref (gc_kubevim cfg)) (\<lambda>kubevim.
     and_then (deref (kvc_url kubevim)) (\<lambda>connAddr.
     and_then (deref (kvc_tls kubevim)) (\<lambda>tls.
     and_then (deref (tc_insecureSkipVerify tls)) (\<lambda>insecure.
     if \<not> insecure then throw (Wrap ''kubevim secure connection not supported yet'' ErrUnsupported)
     else
     and_then (wrap (''establish connection with kubevim server '' @ quoted connAddr) (newClient connAddr)) (\<lambda>_.
     and_then (wrap ''register viVnfm gateway handler'' registerHandler) (\<lambda>_.
     and_then (deref (gc_service cfg)) (\<lambda>service.
     and_then (deref (gsc_server service)) (\<lambda>server.
     and_then (deref (srv_port server)) (\<lambda>port.
     ret (port, IsServerTlsConfigured (srv_tls server)))))))))))"

subsection \<open>The gateway process\<close>

datatype gw_pc = GSelect | GShutdown | GReturned

datatype exit = Alive | ExitCode nat

record gw_process =
  gp_signal :: bool
  gp_ctx :: bool
  gp_handler :: bool
  gp_serving :: bool
  gp_errCh :: "error list"
  gp_pc :: gw_pc
  gp_exit :: exit

definition gw_started :: gw_process where
  "gw_started = \<lparr>gp_signal = False, gp_ctx = False, gp_handler = False, gp_serving = True, gp_errCh = [], gp_pc = GSelect, gp_exit = Alive\<rparr>"

text \<open>The steps of \<open>main\<close>, of the shutdown handler and of \<open>Start\<close>. An error of \<open>Shutdown\<close> is the only one \<open>Start\<close> returns here, and ends
  the process (\<open>log.Fatalf\<close>); the error of the listener is logged.\<close>

inductive gw_control :: "gw_process \<Rightarrow> gw_process \<Rightarrow> bool" where
  gw_handler_ctx: "gp_exit p = Alive \<Longrightarrow> \<not> gp_handler p \<Longrightarrow> gp_ctx p \<Longrightarrow> gw_control p (p\<lparr>gp_handler := True\<rparr>)"
| gw_handler_signal: "gp_exit p = Alive \<Longrightarrow> \<not> gp_handler p \<Longrightarrow> gp_signal p \<Longrightarrow> gw_control p (p\<lparr>gp_ctx := True, gp_handler := True\<rparr>)"
| gw_select_done: "gp_exit p = Alive \<Longrightarrow> gp_pc p = GSelect \<Longrightarrow> gp_ctx p \<Longrightarrow> gw_control p (p\<lparr>gp_pc := GShutdown\<rparr>)"
| gw_select_err: "gp_exit p = Alive \<Longrightarrow> gp_pc p = GSelect \<Longrightarrow> gp_errCh p = [e] \<Longrightarrow> gw_control p (p\<lparr>gp_pc := GShutdown, gp_errCh := []\<rparr>)"
| gw_shutdown_ok: "gp_exit p = Alive \<Longrightarrow> gp_pc p = GShutdown \<Longrightarrow> gw_control p (p\<lparr>gp_pc := GReturned, gp_serving := False\<rparr>)"
| gw_shutdown_err: "gp_exit p = Alive \<Longrightarrow> gp_pc p = GShutdown \<Longrightarrow> gw_control p (p\<lparr>gp_exit := ExitCode 1\<rparr>)"
| gw_exit: "gp_exit p = Alive \<Longrightarrow> gp_handler p \<Longrightarrow> gp_pc p = GReturned \<Longrightarrow> gw_control p (p\<lparr>gp_exit := ExitCode 0\<rparr>)"

text \<open>A signal, and the goroutine that serves: it ends with an error it sends to the channel.\<close>

inductive gw_other :: "gw_process \<Rightarrow> gw_process \<Rightarrow> bool" where
  gw_signal: "gw_other p (p\<lparr>gp_signal := True\<rparr>)"
| gw_serve_err: "gp_serving p \<Longrightarrow> gp_errCh p = [] \<Longrightarrow> gw_other p (p\<lparr>gp_serving := False, gp_errCh := [e]\<rparr>)"

inductive gw_run :: "nat \<Rightarrow> gw_process \<Rightarrow> gw_process \<Rightarrow> bool" where
  gw_here: "gw_run 0 p p"
| gw_ctl: "gw_run n p q \<Longrightarrow> gw_control q r \<Longrightarrow> gw_run (Suc n) p r"
| gw_oth: "gw_run n p q \<Longrightarrow> gw_other q r \<Longrightarrow> gw_run n p r"

inductive_cases gw_controlE: "gw_control p q"
inductive_cases gw_otherE: "gw_other p q"

subsection \<open>\<open>NorthboundServer.Start\<close>\<close>

datatype nb_watcher = NbSelect | NbStopping | NbDone

record nb_state =
  ns_ctx :: bool
  ns_serving :: bool
  ns_errCh :: "error list"
  ns_watcher :: nb_watcher
  ns_err :: "error option"
  ns_result :: "error option option"

definition nb_started :: nb_state where
  "nb_started = \<lparr>ns_ctx = False, ns_serving = True, ns_errCh = [], ns_watcher = NbSelect, ns_err = None, ns_result = None\<rparr>"

text \<open>\<open>GracefulStop\<close> makes \<open>Serve\<close> return nil; it ends when \<open>Serve\<close> has returned. The last step is \<open>wg.Wait()\<close> and the return.\<close>

inductive nb_step :: "nb_state \<Rightarrow> nb_state \<Rightarrow> bool" where
  nb_serve_stopped: "ns_serving p \<Longrightarrow> ns_watcher p = NbStopping \<Longrightarrow> nb_step p (p\<lparr>ns_serving := False\<rparr>)"
| nb_stop: "ns_watcher p = NbSelect \<Longrightarrow> ns_ctx p \<Longrightarrow> nb_step p (p\<lparr>ns_watcher := NbStopping\<rparr>)"
| nb_stopped: "ns_watcher p = NbStopping \<Longrightarrow> \<not> ns_serving p \<Longrightarrow> nb_step p (p\<lparr>ns_watcher := NbDone\<rparr>)"
| nb_received: "ns_watcher p = NbSelect \<Longrightarrow> ns_errCh p = [e] \<Longrightarrow> nb_step p (p\<lparr>ns_watcher := NbDone, ns_errCh := [], ns_err := Some e\<rparr>)"
| nb_return: "\<not> ns_serving p \<Longrightarrow> ns_watcher p = NbDone \<Longrightarrow> ns_result p = None \<Longrightarrow>
    nb_step p (p\<lparr>ns_result := Some (if ns_ctx p then Some (Plain ''context canceled'') else ns_err p)\<rparr>)"

inductive nb_env :: "nb_state \<Rightarrow> nb_state \<Rightarrow> bool" where
  nb_cancel: "nb_env p (p\<lparr>ns_ctx := True\<rparr>)"
| nb_serve_err: "ns_serving p \<Longrightarrow> ns_errCh p = [] \<Longrightarrow> nb_env p (p\<lparr>ns_serving := False, ns_errCh := [e]\<rparr>)"

inductive nb_run :: "nat \<Rightarrow> nb_state \<Rightarrow> nb_state \<Rightarrow> bool" where
  nb_here: "nb_run 0 p p"
| nb_own: "nb_run n p q \<Longrightarrow> nb_step q r \<Longrightarrow> nb_run (Suc n) p r"
| nb_ext: "nb_run n p q \<Longrightarrow> nb_env q r \<Longrightarrow> nb_run n p r"

inductive_cases nb_stepE: "nb_step p q"
inductive_cases nb_envE: "nb_env p q"

subsection \<open>The gateway after a signal and after a listener error\<close>

definition gw_ok :: "gw_process \<Rightarrow> bool" where
  "gw_ok p \<longleftrightarrow> (gp_ctx p \<longrightarrow> gp_signal p) \<and> (gp_handler p \<longleftrightarrow> gp_ctx p) \<and> (gp_exit p = ExitCode 0 \<longrightarrow> gp_handler p) \<and> length (gp_errCh p) \<le> 1 \<and>
     (gp_errCh p \<noteq> [] \<longrightarrow> \<not> gp_serving p)"

lemma gw_ok_started: "gw_ok gw_started"
  by (simp add: gw_ok_def gw_started_def)

lemma gw_ok_control: "gw_control p q \<Longrightarrow> gw_ok p \<Longrightarrow> gw_ok q"
  by (elim gw_controlE) (auto simp: gw_ok_def)

lemma gw_ok_other: "gw_other p q \<Longrightarrow> gw_ok p \<Longrightarrow> gw_ok q"
  by (elim gw_otherE) (auto simp: gw_ok_def)

lemma gw_ok_run: "gw_run n p q \<Longrightarrow> gw_ok p \<Longrightarrow> gw_ok q"
  by (induction rule: gw_run.induct) (auto intro: gw_ok_control gw_ok_other)

definition gw_rank :: "gw_process \<Rightarrow> nat" where
  "gw_rank p = (if gp_handler p then 0 else 1) + (case gp_pc p of GSelect \<Rightarrow> 2 | GShutdown \<Rightarrow> 1 | GReturned \<Rightarrow> 0) +
     (if gp_exit p = Alive then 1 else 0)"

lemma gw_rank_run: "gw_run n p q \<Longrightarrow> n + gw_rank q \<le> gw_rank p"
proof (induction rule: gw_run.induct)
  case (gw_ctl n p q r)
  have "gw_rank r < gw_rank q" using gw_ctl.hyps(2) by (elim gw_controlE) (simp_all add: gw_rank_def)
  then show ?case using gw_ctl.IH by simp
next
  case (gw_oth n p q r)
  have "gw_rank r = gw_rank q" using gw_oth.hyps(2) by (elim gw_otherE) (simp_all add: gw_rank_def)
  then show ?case using gw_oth.IH by simp
qed simp

lemma gw_progress:
  assumes "gw_ok p" and "gp_signal p" and "gp_exit p = Alive"
  shows "\<exists>q. gw_control p q"
proof (cases "gp_handler p")
  case False
  then show ?thesis using assms(2,3) gw_handler_signal by blast
next
  case True
  then show ?thesis using assms by (cases "gp_pc p") (auto simp: gw_ok_def intro: gw_control.intros)
qed

text \<open>The gateway process: from the launch of the server on it makes at most four control steps in every interleaving; after a signal it is never
  stuck before it has exited; without a signal it never exits with success, so that after an error of the listener, such as a port in
  use, \<open>Start\<close> returns nil and the process stays, serving nothing.\<close>

theorem gateway_lifecycle:
  "(gw_run n gw_started p \<longrightarrow> n \<le> 4 \<and> (gp_signal p \<and> gp_exit p = Alive \<longrightarrow> (\<exists>q. gw_control p q)) \<and>
     (\<not> gp_signal p \<longrightarrow> gp_exit p \<noteq> ExitCode 0)) \<and>
   (\<exists>p. gw_run 2 gw_started p \<and> gp_pc p = GReturned \<and> \<not> gp_serving p \<and> \<not> gp_signal p \<and> gp_exit p = Alive \<and> (\<nexists>q. gw_control p q))"
proof (intro conjI impI)
  assume r: "gw_run n gw_started p"
  show "n \<le> 4" using gw_rank_run [OF r] by (simp add: gw_rank_def gw_started_def)
  note ok = gw_ok_run [OF r gw_ok_started]
  show "\<exists>q. gw_control p q" if "gp_signal p \<and> gp_exit p = Alive" using that gw_progress [OF ok] by blast
  show "gp_exit p \<noteq> ExitCode 0" if "\<not> gp_signal p" using that ok by (auto simp: gw_ok_def)
next
  let ?a = "gw_started\<lparr>gp_serving := False, gp_errCh := [Plain ''address already in use'']\<rparr>"
  have "gw_run 0 gw_started ?a" by (rule gw_oth [OF gw_here gw_serve_err]) (simp_all add: gw_started_def)
  then have "gw_run 1 gw_started (?a\<lparr>gp_pc := GShutdown, gp_errCh := []\<rparr>)"
    using gw_ctl [OF _ gw_select_err, of 0 gw_started ?a] by (simp add: gw_started_def)
  then have "gw_run 2 gw_started (?a\<lparr>gp_pc := GReturned, gp_errCh := [], gp_serving := False\<rparr>)"
    using gw_ctl [OF _ gw_shutdown_ok, of 1 gw_started "?a\<lparr>gp_pc := GShutdown, gp_errCh := []\<rparr>"] by (simp add: gw_started_def numeral_2_eq_2)
  then show "\<exists>p. gw_run 2 gw_started p \<and> gp_pc p = GReturned \<and> \<not> gp_serving p \<and> \<not> gp_signal p \<and> gp_exit p = Alive \<and> (\<nexists>q. gw_control p q)"
    by (intro exI [of _ "?a\<lparr>gp_pc := GReturned, gp_errCh := [], gp_serving := False\<rparr>"] conjI) (auto simp: gw_started_def elim!: gw_controlE)
qed

subsection \<open>The northbound server ends\<close>

definition nb_ok :: "nb_state \<Rightarrow> bool" where
  "nb_ok p \<longleftrightarrow> length (ns_errCh p) \<le> 1 \<and> (ns_errCh p \<noteq> [] \<longrightarrow> \<not> ns_serving p) \<and>
     (ns_watcher p = NbSelect \<and> \<not> ns_serving p \<longrightarrow> ns_errCh p \<noteq> []) \<and> (ns_watcher p = NbStopping \<longrightarrow> ns_ctx p) \<and>
     (ns_watcher p = NbDone \<longrightarrow> \<not> ns_serving p \<and> (ns_ctx p \<or> ns_err p \<noteq> None)) \<and>
     (\<forall>r. ns_result p = Some r \<longrightarrow> r \<noteq> None)"

lemma nb_ok_run: "nb_run n nb_started p \<Longrightarrow> nb_ok p"
proof (induction n nb_started p rule: nb_run.induct)
  case nb_here
  then show ?case by (simp add: nb_ok_def nb_started_def)
next
  case (nb_own n q r)
  then show ?case by (elim nb_stepE) (auto simp: nb_ok_def)
next
  case (nb_ext n q r)
  then show ?case by (elim nb_envE) (auto simp: nb_ok_def)
qed

definition nb_rank :: "nb_state \<Rightarrow> nat" where
  "nb_rank p = (if ns_serving p then 1 else 0) + (case ns_watcher p of NbSelect \<Rightarrow> 2 | NbStopping \<Rightarrow> 1 | NbDone \<Rightarrow> 0) + (if ns_result p = None then 1 else 0)"

lemma nb_rank_run: "nb_run n p q \<Longrightarrow> n + nb_rank q \<le> nb_rank p"
proof (induction rule: nb_run.induct)
  case (nb_own n p q r)
  have "nb_rank r < nb_rank q" using nb_own.hyps(2) by (elim nb_stepE) (simp_all add: nb_rank_def)
  then show ?case using nb_own.IH by simp
next
  case (nb_ext n p q r)
  have "nb_rank r \<le> nb_rank q" using nb_ext.hyps(2) by (elim nb_envE) (simp_all add: nb_rank_def)
  then show ?case using nb_ext.IH by simp
qed simp

text \<open>\<open>NorthboundServer.Start\<close> makes at most four steps of its own, is never stuck once the context is cancelled or \<open>Serve\<close> has failed, and
  always returns an error: the one of \<open>Serve\<close>, or that the context was cancelled.\<close>

theorem northbound_Start_returns:
  assumes "nb_run n nb_started p"
  shows "n \<le> 4 \<and> (ns_result p = None \<and> (ns_ctx p \<or> \<not> ns_serving p) \<longrightarrow> (\<exists>q. nb_step p q)) \<and> (\<forall>r. ns_result p = Some r \<longrightarrow> r \<noteq> None)"
proof (intro conjI impI)
  note ok = nb_ok_run [OF assms]
  show "n \<le> 4" using nb_rank_run [OF assms] by (simp add: nb_rank_def nb_started_def)
  show "\<forall>r. ns_result p = Some r \<longrightarrow> r \<noteq> None" using ok by (simp add: nb_ok_def)
  assume a: "ns_result p = None \<and> (ns_ctx p \<or> \<not> ns_serving p)"
  show "\<exists>q. nb_step p q"
  proof (cases "ns_watcher p")
    case NbSelect
    then show ?thesis using a ok nb_stop [OF NbSelect] nb_received [OF NbSelect] by (cases "ns_errCh p") (auto simp: nb_ok_def)
  qed (use a ok nb_serve_stopped nb_stopped nb_return in \<open>auto simp: nb_ok_def\<close>)
qed

theorem northbound_Start_returns_witness:
  "nb_run 0 nb_started (nb_started\<lparr>ns_ctx := True\<rparr>) \<and> (\<exists>q. nb_step (nb_started\<lparr>ns_ctx := True\<rparr>) q)"
proof -
  have "nb_run 0 nb_started (nb_started\<lparr>ns_ctx := True\<rparr>)" by (rule nb_ext [OF nb_here nb_cancel])
  with northbound_Start_returns [OF this] show ?thesis by (simp add: nb_started_def)
qed

end
