(* ===== verification/Spec2Isabelle.thy ===== *)
theory Spec2Isabelle
  imports Main_Program Cluster Image_Local Image_Glance Proto_Any Servers
begin

text \<open>
  kube-vim (\<open>src/\<close>) is a Virtualised Infrastructure Manager in the sense of ETSI NFV: it offers networks,
  subnets, flavours, images and compute resources over gRPC and keeps all of its state in the Kubernetes API
  server, as objects of kube-ovn, multus, KubeVirt and CDI. It is a translation layer: an operation reads and
  writes objects through a Kubernetes client, and what makes it correct is which objects it touches, what it
  leaves behind when a step fails, and that what it reports is what is stored.

  \<^bold>\<open>Conventions.\<close> An operation is an action \<open>('s, error, 'a) act\<close>, a function from the state of the world
  to a result (\<open>Ok\<close>, \<open>Err\<close> or \<open>Panic\<close>) and the next state (theory \<open>Prelude\<close>). Every \<open>return err\<close>, every wrapping
  \<open>fmt.Errorf("...: %w")\<close> and every nil dereference of the source is a branch. The client is a record of
  functions on an arbitrary state (theory \<open>K8s_Client\<close>), so theorems for every client cover concurrent writers,
  stale caches and failing servers; the locale \<open>api_server\<close> states the documented behaviour of an API server
  without faults and without interference, and the theorems that need it name it as a hypothesis. It is
  interpreted on an in-memory server, on which the witnesses run. \<open>meets m s Q E\<close> says that \<open>m\<close> run in \<open>s\<close> does
  not panic and establishes \<open>Q\<close> or \<open>E\<close>; \<open>preserves P m\<close> that \<open>m\<close> keeps \<open>P\<close>.

  \<^bold>\<open>Theories.\<close>
  \<^item> \<open>Errors\<close>: \<open>internal/errors\<close> and the converters of the image and compute packages; the conversion to gRPC
    codes refines a table, in any registration order.
  \<^item> \<open>K8s_Objects\<close>: the objects, label keys and helpers of \<open>internal/misc/k8s.go\<close>; merging labels.
  \<^item> \<open>Cidr\<close>: \<open>IpBelongsToCidr\<close> of \<open>network/utils.go\<close> with the parts of \<open>net\<close> it uses; membership is agreement of the
    leading bits.
  \<^item> \<open>Network\<close>, \<open>Kubeovn_Utils\<close>, \<open>Kubeovn\<close>, \<open>Kubeovn_Mgmt\<close>, \<open>Kubeovn_Spec\<close>: the network interface, its contract
    (locale \<open>network_backend\<close>) and the kube-ovn manager; creation and deletion of subnets are atomic and inverse,
    deletion touches managed networks only, the management network is reconciled idempotently.
  \<^item> \<open>Json\<close>, \<open>Sriov\<close>: \<open>encoding/json\<close> on the documents the program writes, and the SR-IOV manager.
  \<^item> \<open>Composite\<close>, \<open>Network_Stack\<close>: the composite manager as a client of two backends (locale \<open>two_backends\<close>,
    \<open>sublocale\<close> of the contract it provides) and the two concrete managers behind it.
  \<^item> \<open>Flavour\<close>: the flavour manager (locale \<open>flavour_store\<close>).
  \<^item> \<open>Ipam\<close>: the resolver that turns requested interfaces into networks, interfaces and kube-ovn annotations.
  \<^item> \<open>Image_Cdi\<close>: the CDI image manager (locale \<open>image_store\<close>); a download is all or nothing.
  \<^item> \<open>Compute\<close>, \<open>Compute_Spec\<close>, \<open>Compute_Properties\<close>: the compute manager over the managers above (locales
    \<open>attached_backend\<close>, \<open>compute_services\<close>): allocation, listing, lookup, deletion.
  \<^item> \<open>Image_Http\<close>: the HTTP image manager and the CDI controller under it (\<open>image/cdi.go\<close>), with the part of \<open>net/url\<close> and
    \<open>path\<close> that decides the name of a data volume; its lookup never creates what its comment promises.
  \<^item> \<open>Image_Local\<close>, \<open>Image_Glance\<close>: the image managers over a directory (with a contract of the file system, locale
    \<open>file_system\<close>) and over OpenStack; an upload copies exactly one file, or empties it when it is its own destination.
  \<^item> \<open>Vim_Config\<close>: the configuration structs, their defaults and \<open>Normalize\<close>.
  \<^item> \<open>Server\<close>: the handlers of \<open>server/grpc/vivnfm\<close> and the error interceptor; a request through the handlers ends in
    the gRPC status its error maps to, and allocation and termination are inverse.
  \<^item> \<open>Telemetry\<close>: the registration and the callbacks of the info metrics over the managers.
  \<^item> \<open>Vim_Manager\<close>: \<open>NewKubeVimManager\<close> (\<open>internal/kubevim/manager.go\<close>), which wires all of the above to one cluster.
  \<^item> \<open>Cluster\<close>: the options of \<open>NewCluster\<close> and, over the contract of a synced cache (locale \<open>synced_cache\<close>, an extension of
    \<open>api_server\<close>), where the cached client and the API server agree; the constructor of \<open>Vim_Manager\<close> builds its clients with it.
  \<^item> \<open>Lifecycle\<close>: \<open>main\<close>, the shutdown handler and \<open>Start\<close> as a transition system with arbitrary interleaving (\<open>run\<close>):
    serving only after reconciliation, exit after a signal, and what a failed start does.
  \<^item> \<open>Main_Program\<close>: \<open>main\<close> from its flags to the start of the goroutines; composed with the configuration, the constructor and
    \<open>Lifecycle\<close>, a process that got past its construction does not panic in the reconciliation and exits after a signal.
  \<^item> \<open>Gateway\<close>: the marshaler of the REST gateway, which carries the quantities that protojson loses, and the query filter.
  \<^item> \<open>Servers\<close>: the goroutines of the gateway and of \<open>NorthboundServer.Start\<close> as transition systems.
  \<^item> \<open>Proto_Any\<close>: the protobuf \<open>Any\<close> helpers of \<open>internal/misc/proto.go\<close>.

  \<^bold>\<open>Loops, fuel and bounds.\<close> Loops over lists are structural recursion or \<open>for_each\<close>. The JSON parser runs on
  fuel twice the length of its input plus two; every nested call consumes a character, and the round trip theorem
  of \<open>Json\<close> shows that it suffices for printed documents. \<open>waitForVmi\<close> takes the number \<open>polls\<close> of sleeps
  before its deadline (60 in the source: 30 seconds, half a second each) and the effect \<open>tick\<close> of the rest of the
  cluster during one sleep; it is total, with a bound on its cost for every client, and returns the instance
  whenever the cluster creates it in time. Machine integers keep their width (\<open>64 word\<close> segmentation ids, \<open>32 word\<close>
  CPU counts).

  \<^bold>\<open>Parameters.\<close> Code outside the repository is a parameter of the definitions that use it: the Kubernetes
  client, \<open>uuid.Parse\<close> and \<open>uuid.NewRandom\<close>, \<open>resource.ParseQuantity\<close>, the JSON codec of the generated storage
  message and of the network-info annotation, viper and zap, the query filter library, OpenTelemetry and Prometheus, client-go's
  configuration and the cluster constructor (record \<open>platform\<close>), the names of protobuf enums, the check of a URL's authority,
  protojson with the JSON methods of \<open>Quantity\<close>, gophercloud, \<open>anypb\<close>, and the cache of controller-runtime. Log calls, context cancellation (other than the deadline of
  \<open>waitForVmi\<close> and the lifecycles) and the texts of wrapped errors beyond their constant part are left out.

  \<^bold>\<open>Not modelled.\<close> The stubs (admin server, node store, infrastructure manager, container compute), logging and the logging
  middleware of the gateway (\<open>gateway/http.go\<close>), which only formats addresses for the log, the
  HTTP server of the metrics, and generated mocks. The mutexes of the error converters and of the image managers are left out: registration
  happens in \<open>init\<close> functions, and an operation of an image manager is one action. The timeouts of calls are failures of the client.
\<close>


end
